(* ===== verification/Prelude.thy ===== *)
theory Prelude
  imports Main
begin

text \<open>
  The prelude of the development: the Python exceptions the program raises and catches, the
  state-and-exception computations in which every stateful function is written, the triples
  (\<open>hoare\<close>, \<open>keeps\<close>) in which their contracts are stated, and the list lemmas the components
  share. Nothing here models a part of the program by itself.
\<close>

section \<open>Exceptions\<close>

text \<open>
  One constructor per exception class that some \<open>except\<close> clause or route of the program tells
  apart; each carries the text \<open>str(e)\<close> gives. \<open>ApiException\<close> also carries the HTTP status the
  Kubernetes API server answered, \<open>HTTPException\<close> the status the route answers. The subclasses
  of SQLAlchemyError are \<open>IntegrityError\<close> and \<open>OtherSQLError\<close>.
\<close>

datatype exn =
    ValueError string
  | BuildJobNotReadyError string
  | IntegrityError string
  | OtherSQLError string
  | ApiException int string
  | HTTPException int string
  | OtherException string

fun str_exn :: "exn \<Rightarrow> string" where
  "str_exn (ValueError m) = m"
| "str_exn (BuildJobNotReadyError m) = m"
| "str_exn (IntegrityError m) = m"
| "str_exn (OtherSQLError m) = m"
| "str_exn (ApiException _ m) = m"
| "str_exn (HTTPException _ m) = m"
| "str_exn (OtherException m) = m"

fun is_sqlalchemy_error :: "exn \<Rightarrow> bool" where
  "is_sqlalchemy_error (IntegrityError _) = True"
| "is_sqlalchemy_error (OtherSQLError _) = True"
| "is_sqlalchemy_error _ = False"

section \<open>Computations with state and exceptions\<close>

text \<open>
  A Python function that reads and writes shared state and may raise is a function from the
  state to an outcome (\<open>Inl\<close> the exception, \<open>Inr\<close> the value) and the state it leaves. An
  exception does not undo the effects before it.
\<close>

type_synonym ('s, 'a) py = "'s \<Rightarrow> (exn + 'a) \<times> 's"

definition ret :: "'a \<Rightarrow> ('s, 'a) py" where
  "ret x = (\<lambda>s. (Inr x, s))"

definition raise :: "exn \<Rightarrow> ('s, 'a) py" where
  "raise e = (\<lambda>s. (Inl e, s))"

definition bind :: "('s, 'a) py \<Rightarrow> ('a \<Rightarrow> ('s, 'b) py) \<Rightarrow> ('s, 'b) py" where
  "bind m f = (\<lambda>s. case m s of (Inl e, s') \<Rightarrow> (Inl e, s') | (Inr x, s') \<Rightarrow> f x s')"

definition try_except :: "('s, 'a) py \<Rightarrow> (exn \<Rightarrow> ('s, 'a) py) \<Rightarrow> ('s, 'a) py" where
  "try_except m h = (\<lambda>s. case m s of (Inl e, s') \<Rightarrow> h e s' | (Inr x, s') \<Rightarrow> (Inr x, s'))"

text \<open>
  \<open>attempt m\<close> hands the outcome on as a value, for a \<open>try\<close> whose \<open>except\<close> clause goes on with
  more than the handler's own value.
\<close>

definition attempt :: "('s, 'a) py \<Rightarrow> ('s, exn + 'a) py" where
  "attempt m = (\<lambda>s. case m s of (r, s') \<Rightarrow> (Inr r, s'))"

abbreviation andthen :: "('s, 'a) py \<Rightarrow> ('s, 'b) py \<Rightarrow> ('s, 'b) py" where
  "andthen m n \<equiv> bind m (\<lambda>_. n)"

definition gets :: "('s \<Rightarrow> 'a) \<Rightarrow> ('s, 'a) py" where
  "gets f = (\<lambda>s. (Inr (f s), s))"

definition modify :: "('s \<Rightarrow> 's) \<Rightarrow> ('s, unit) py" where
  "modify f = (\<lambda>s. (Inr (), f s))"

fun for_each :: "'a list \<Rightarrow> ('a \<Rightarrow> ('s, 'b) py) \<Rightarrow> ('s, 'b list) py" where
  "for_each [] f = ret []"
| "for_each (x # xs) f = bind (f x) (\<lambda>y. bind (for_each xs f) (\<lambda>ys. ret (y # ys)))"

definition is_ok :: "exn + 'a \<Rightarrow> bool" where
  "is_ok r = (case r of Inl _ \<Rightarrow> False | Inr _ \<Rightarrow> True)"

named_theorems py_simps \<open>evaluation of computations\<close>

lemma ret_apply [py_simps]: "ret x s = (Inr x, s)"
  by (simp add: ret_def)

lemma raise_apply [py_simps]: "raise e s = (Inl e, s)"
  by (simp add: raise_def)

lemma gets_apply [py_simps]: "gets f s = (Inr (f s), s)"
  by (simp add: gets_def)

lemma modify_apply [py_simps]: "modify f s = (Inr (), f s)"
  by (simp add: modify_def)

lemma bind_apply [py_simps]:
  "bind m f s = (case m s of (Inl e, s') \<Rightarrow> (Inl e, s') | (Inr x, s') \<Rightarrow> f x s')"
  by (simp add: bind_def)

lemma try_except_apply [py_simps]:
  "try_except m h s = (case m s of (Inl e, s') \<Rightarrow> h e s' | (Inr x, s') \<Rightarrow> (Inr x, s'))"
  by (simp add: try_except_def)

lemma attempt_apply [py_simps]: "attempt m s = (case m s of (r, s') \<Rightarrow> (Inr r, s'))"
  by (simp add: attempt_def)

lemma bind_ret [simp]: "bind (ret x) f = f x"
  by (simp add: bind_def ret_def)

lemma bind_raise [simp]: "bind (raise e) f = raise e"
  by (simp add: bind_def raise_def)

lemma bind_ret_right [simp]: "bind m ret = m"
  by (rule ext) (simp add: bind_def ret_def split: prod.splits sum.splits)

lemma bind_assoc: "bind (bind m f) g = bind m (\<lambda>x. bind (f x) g)"
  by (rule ext) (simp add: bind_def split: prod.splits sum.splits)

lemma bind_InrE:
  assumes "bind m f s = (Inr y, s'')"
  obtains x s' where "m s = (Inr x, s')" and "f x s' = (Inr y, s'')"
  using assms by (auto simp: bind_def split: prod.splits sum.splits)

lemma is_ok_simps [simp]: "is_ok (Inr x)" "\<not> is_ok (Inl e)"
  by (simp_all add: is_ok_def)

lemma is_okE:
  assumes "is_ok r"
  obtains x where "r = Inr x"
  using assms by (cases r) auto

section \<open>Triples\<close>

text \<open>
  \<open>hoare P m Q E\<close>: from a state satisfying \<open>P\<close>, a normal return satisfies \<open>Q\<close> and an exception
  leaves a state satisfying \<open>E\<close>. \<open>keeps I m\<close> is the invariant form: whatever happens, \<open>I\<close> still
  holds. The rules of \<open>keeps\<close> follow the syntax of a computation, so that
  \<open>(intro keeps_rules)\<close> reduces a composed function to its atomic steps.
\<close>

definition hoare ::
  "('s \<Rightarrow> bool) \<Rightarrow> ('s, 'a) py \<Rightarrow> ('a \<Rightarrow> 's \<Rightarrow> bool) \<Rightarrow> (exn \<Rightarrow> 's \<Rightarrow> bool) \<Rightarrow> bool" where
  "hoare P m Q E \<longleftrightarrow>
     (\<forall>s. P s \<longrightarrow> (case m s of (Inl e, s') \<Rightarrow> E e s' | (Inr x, s') \<Rightarrow> Q x s'))"

definition keeps :: "('s \<Rightarrow> bool) \<Rightarrow> ('s, 'a) py \<Rightarrow> bool" where
  "keeps I m \<longleftrightarrow> (\<forall>s. I s \<longrightarrow> I (snd (m s)))"

named_theorems keeps_rules \<open>syntax-directed rules for invariants of computations\<close>

lemma keepsI: "(\<And>s. I s \<Longrightarrow> I (snd (m s))) \<Longrightarrow> keeps I m"
  by (simp add: keeps_def)

lemma keepsD: "keeps I m \<Longrightarrow> I s \<Longrightarrow> I (snd (m s))"
  by (simp add: keeps_def)

lemma keepsD_eq: "keeps I m \<Longrightarrow> m s = (r, s') \<Longrightarrow> I s \<Longrightarrow> I s'"
  by (metis keepsD snd_conv)

lemma keeps_ret [keeps_rules]: "keeps I (ret x)"
  by (simp add: keeps_def ret_def)

lemma keeps_raise [keeps_rules]: "keeps I (raise e)"
  by (simp add: keeps_def raise_def)

lemma keeps_gets [keeps_rules]: "keeps I (gets f)"
  by (simp add: keeps_def gets_def)

lemma keeps_bind [keeps_rules]:
  assumes "keeps I m" and "\<And>x. keeps I (f x)"
  shows "keeps I (bind m f)"
  using assms by (fastforce simp: keeps_def bind_def split: prod.splits sum.splits)

lemma keeps_try_except [keeps_rules]:
  assumes "keeps I m" and "\<And>e. keeps I (h e)"
  shows "keeps I (try_except m h)"
  using assms by (fastforce simp: keeps_def try_except_def split: prod.splits sum.splits)

lemma keeps_attempt [keeps_rules]: "keeps I m \<Longrightarrow> keeps I (attempt m)"
  by (fastforce simp: keeps_def attempt_def split: prod.splits)

lemma keeps_sum [keeps_rules]:
  assumes "\<And>a. x = Inl a \<Longrightarrow> keeps I (f a)" and "\<And>b. x = Inr b \<Longrightarrow> keeps I (g b)"
  shows "keeps I (case x of Inl a \<Rightarrow> f a | Inr b \<Rightarrow> g b)"
  using assms by (cases x) simp_all

lemma keeps_if [keeps_rules]:
  assumes "b \<Longrightarrow> keeps I m" and "\<not> b \<Longrightarrow> keeps I n"
  shows "keeps I (if b then m else n)"
  using assms by simp

lemma keeps_option [keeps_rules]:
  assumes "x = None \<Longrightarrow> keeps I m" and "\<And>y. x = Some y \<Longrightarrow> keeps I (f y)"
  shows "keeps I (case x of None \<Rightarrow> m | Some y \<Rightarrow> f y)"
  using assms by (cases x) simp_all

lemma keeps_prod [keeps_rules]:
  assumes "\<And>a b. p = (a, b) \<Longrightarrow> keeps I (f a b)"
  shows "keeps I (case p of (a, b) \<Rightarrow> f a b)"
  using assms by (cases p) simp

lemma keeps_for_each [keeps_rules]:
  assumes "\<And>x. x \<in> set xs \<Longrightarrow> keeps I (f x)"
  shows "keeps I (for_each xs f)"
  using assms by (induction xs) (auto intro!: keeps_bind keeps_ret)

lemma hoareI:
  assumes "\<And>s x s'. P s \<Longrightarrow> m s = (Inr x, s') \<Longrightarrow> Q x s'"
    and "\<And>s e s'. P s \<Longrightarrow> m s = (Inl e, s') \<Longrightarrow> E e s'"
  shows "hoare P m Q E"
  using assms by (auto simp: hoare_def split: prod.splits sum.splits)

lemma hoareD_ok: "hoare P m Q E \<Longrightarrow> P s \<Longrightarrow> m s = (Inr x, s') \<Longrightarrow> Q x s'"
  by (fastforce simp: hoare_def)

lemma hoareD_exn: "hoare P m Q E \<Longrightarrow> P s \<Longrightarrow> m s = (Inl e, s') \<Longrightarrow> E e s'"
  by (fastforce simp: hoare_def)

lemma hoare_bind:
  assumes "hoare P m R E" and "\<And>x. hoare (R x) (f x) Q E"
  shows "hoare P (bind m f) Q E"
  using assms by (fastforce simp: hoare_def bind_def split: prod.splits sum.splits)

lemma for_each_list_all2:
  assumes "\<And>x s y s'. x \<in> set xs \<Longrightarrow> f x s = (Inr y, s') \<Longrightarrow> R x y"
    and "for_each xs f s = (Inr ys, s')"
  shows "list_all2 R xs ys"
  using assms
proof (induction xs arbitrary: s ys)
  case Nil
  then show ?case by (simp add: ret_def)
next
  case (Cons x xs)
  from Cons.prems(2) obtain y s1 ys1 s2 where
    "f x s = (Inr y, s1)" "for_each xs f s1 = (Inr ys1, s2)" "ys = y # ys1" "s' = s2"
    by (auto simp: ret_def elim!: bind_InrE)
  with Cons show ?case by auto
qed

lemma for_each_no_exn:
  assumes "\<And>x s e s'. f x s \<noteq> (Inl e, s')"
  shows "for_each xs f s \<noteq> (Inl e, s')"
  using assms
  by (induction xs arbitrary: s) (auto simp: ret_def bind_def split: prod.splits sum.splits)

section \<open>Lists\<close>

lemma distinct_map_the_one:
  assumes "distinct (map f xs)" and "x \<in> set xs" and "y \<in> set xs" and "f x = f y"
  shows "x = y"
  using assms by (auto simp: distinct_map inj_on_def)

lemma find_Some_iff_distinct:
  assumes "distinct (map f xs)"
  shows "find (\<lambda>x. f x = k) xs = Some y \<longleftrightarrow> y \<in> set xs \<and> f y = k"
  using assms by (induction xs) (auto simp: image_iff)

lemma find_SomeD: "find P xs = Some y \<Longrightarrow> y \<in> set xs \<and> P y"
  by (auto simp: find_Some_iff)

lemma distinct_filter_le_1:
  assumes "distinct (map f xs)"
  shows "length (filter (\<lambda>x. f x = k) xs) \<le> 1"
  using assms by (induction xs) (auto simp: filter_empty_conv image_iff)

end
