(* ===== verification/PyText.thy ===== *)
theory PyText
  imports Prelude "HOL-Library.Word"
begin

text \<open>
  The text and byte operations of the Python standard library the program uses: decimal
  printing and reading of integers (f-strings, \<open>str\<close>, \<open>int\<close>), \<open>str.isdigit\<close>, \<open>str.encode\<close>,
  hexadecimal digests, base64 and \<open>secrets.token_urlsafe\<close>.

  A Python \<open>str\<close> is a HOL string whose characters stand for the code points 0 to 255 (the range
  of an HTTP header, which is decoded as Latin-1); \<open>bytes\<close> are lists of 8-bit words.
\<close>

type_synonym byte = "8 word"
type_synonym bytes = "byte list"

section \<open>Decimal integers\<close>

definition digit_char :: "nat \<Rightarrow> char" where
  "digit_char d = char_of (48 + d)"

fun show_nat :: "nat \<Rightarrow> string" where
  "show_nat n = (if n < 10 then [digit_char n] else show_nat (n div 10) @ [digit_char (n mod 10)])"

declare show_nat.simps [simp del]

text \<open>\<open>str(n)\<close>, and \<open>n\<close> inside an f-string.\<close>

definition show_int :: "int \<Rightarrow> string" where
  "show_int n = (if n < 0 then CHR ''-'' # show_nat (nat (- n)) else show_nat (nat n))"

text \<open>A value that may be \<open>None\<close> inside an f-string.\<close>

definition show_opt :: "string option \<Rightarrow> string" where
  "show_opt x = (case x of None \<Rightarrow> ''None'' | Some v \<Rightarrow> v)"

definition is_ascii_digit :: "char \<Rightarrow> bool" where
  "is_ascii_digit c \<longleftrightarrow> 48 \<le> (of_char c :: nat) \<and> (of_char c :: nat) \<le> 57"

definition digit_value :: "char \<Rightarrow> nat" where
  "digit_value c = of_char c - 48"

definition read_nat :: "string \<Rightarrow> nat" where
  "read_nat = foldl (\<lambda>acc c. 10 * acc + digit_value c) 0"

text \<open>
  \<open>str.isdigit\<close> below code point 256: the ASCII digits and the superscripts two, three and one
  (178, 179, 185), for a string that is not empty.
\<close>

definition py_isdigit :: "string \<Rightarrow> bool" where
  "py_isdigit s \<longleftrightarrow>
     s \<noteq> [] \<and> (\<forall>c \<in> set s. is_ascii_digit c \<or> (of_char c :: nat) \<in> {178, 179, 185})"

text \<open>
  \<open>int(s)\<close> for a string of characters \<open>isdigit\<close> accepts: the decimal value, or ValueError when a
  superscript is among them (\<open>int\<close> takes decimal characters only).
\<close>

definition py_int :: "string \<Rightarrow> int option" where
  "py_int s = (if s \<noteq> [] \<and> (\<forall>c \<in> set s. is_ascii_digit c) then Some (int (read_nat s)) else None)"

section \<open>Bytes\<close>

text \<open>\<open>str.encode()\<close>: UTF-8 of the code points below 256.\<close>

definition utf8_char :: "char \<Rightarrow> bytes" where
  "utf8_char c =
     (let n = (of_char c :: nat)
      in if n < 128 then [of_nat n] else [of_nat (192 + n div 64), of_nat (128 + n mod 64)])"

definition encode :: "string \<Rightarrow> bytes" where
  "encode s = concat (map utf8_char s)"

definition is_ascii :: "string \<Rightarrow> bool" where
  "is_ascii s \<longleftrightarrow> (\<forall>c \<in> set s. (of_char c :: nat) < 128)"

definition hex_char :: "nat \<Rightarrow> char" where
  "hex_char d = (if d < 10 then char_of (48 + d) else char_of (87 + d))"

definition hex :: "bytes \<Rightarrow> string" where
  "hex bs = concat (map (\<lambda>b. [hex_char (unat b div 16), hex_char (unat b mod 16)]) bs)"

section \<open>Base64\<close>

definition b64_alphabet :: string where
  "b64_alphabet = ''ABCDEFGHIJKLMNOPQRSTUVWXYZabcdefghijklmnopqrstuvwxyz0123456789+/''"

definition urlsafe_alphabet :: string where
  "urlsafe_alphabet = ''ABCDEFGHIJKLMNOPQRSTUVWXYZabcdefghijklmnopqrstuvwxyz0123456789-_''"

text \<open>The groups of a base64 encoding, without padding: three bytes are four six-bit indices.\<close>

fun b64_indices :: "nat list \<Rightarrow> nat list" where
  "b64_indices [] = []"
| "b64_indices [a] = [a div 4, (a mod 4) * 16]"
| "b64_indices [a, b] = [a div 4, (a mod 4) * 16 + b div 16, (b mod 16) * 4]"
| "b64_indices (a # b # c # xs) =
     (a div 4) # ((a mod 4) * 16 + b div 16) # ((b mod 16) * 4 + c div 64) # (c mod 64) # b64_indices xs"

definition b64_padding :: "nat \<Rightarrow> string" where
  "b64_padding n = (if n mod 3 = 1 then ''=='' else if n mod 3 = 2 then ''='' else [])"

text \<open>\<open>base64.b64encode(bs).decode()\<close>.\<close>

definition b64encode :: "bytes \<Rightarrow> string" where
  "b64encode bs = map ((!) b64_alphabet) (b64_indices (map unat bs)) @ b64_padding (length bs)"

text \<open>
  \<open>secrets.token_urlsafe(n)\<close> of the random bytes drawn: the URL-safe alphabet, padding stripped.
\<close>

definition urlsafe_token :: "bytes \<Rightarrow> string" where
  "urlsafe_token bs = map ((!) urlsafe_alphabet) (b64_indices (map unat bs))"

section \<open>Printing and reading integers\<close>

lemma of_char_digit_char [simp]: "d < 10 \<Longrightarrow> (of_char (digit_char d) :: nat) = 48 + d"
  by (simp add: digit_char_def)

lemma is_ascii_digit_digit_char [simp]: "d < 10 \<Longrightarrow> is_ascii_digit (digit_char d)"
  by (simp add: is_ascii_digit_def)

lemma digit_value_digit_char [simp]: "d < 10 \<Longrightarrow> digit_value (digit_char d) = d"
  by (simp add: digit_value_def)

lemma show_nat_digits: "c \<in> set (show_nat n) \<Longrightarrow> is_ascii_digit c"
proof (induction n rule: show_nat.induct)
  case (1 n)
  then show ?case by (cases "n < 10") (auto simp: show_nat.simps [of n])
qed

lemma show_nat_nonempty [simp]: "show_nat n \<noteq> []"
  by (simp add: show_nat.simps [of n])

lemma read_show_nat [simp]: "read_nat (show_nat n) = n"
proof (induction n rule: show_nat.induct)
  case (1 n)
  show ?case
  proof (cases "n < 10")
    case True
    then show ?thesis by (simp add: show_nat.simps [of n] read_nat_def)
  next
    case False
    with "1.IH" have "read_nat (show_nat (n div 10)) = n div 10" by simp
    with False show ?thesis by (simp add: show_nat.simps [of n] read_nat_def)
  qed
qed

lemma show_nat_inj [simp]: "show_nat m = show_nat n \<longleftrightarrow> m = n"
  by (metis read_show_nat)

lemma minus_not_in_show_nat: "CHR ''-'' \<notin> set (show_nat n)"
  using show_nat_digits [of "CHR ''-''" n] by (auto simp: is_ascii_digit_def)

lemma show_int_inj [simp]: "show_int m = show_int n \<longleftrightarrow> m = n"
proof
  assume eq: "show_int m = show_int n"
  have neq: "show_nat k \<noteq> CHR ''-'' # xs" for k xs
    using minus_not_in_show_nat [of k] by auto
  from eq show "m = n"
    by (auto simp: show_int_def neq neq [symmetric] split: if_splits)
qed simp

lemma py_isdigit_show_nat: "py_isdigit (show_nat n)"
  by (auto simp: py_isdigit_def dest: show_nat_digits)

lemma py_int_show_nat: "py_int (show_nat n) = Some (int n)"
  by (auto simp: py_int_def dest: show_nat_digits)

section \<open>Lengths of encodings\<close>

lemma length_hex [simp]: "length (hex bs) = 2 * length bs"
  by (induction bs) (simp_all add: hex_def)

lemma length_b64_indices: "length (b64_indices xs) = (4 * length xs + 2) div 3"
  by (induction xs rule: b64_indices.induct) auto

lemma length_urlsafe_token: "length (urlsafe_token bs) = (4 * length bs + 2) div 3"
  by (simp add: urlsafe_token_def length_b64_indices)

lemma encode_append [simp]: "encode (s @ t) = encode s @ encode t"
  by (simp add: encode_def)

end
