(* ===== verification/Json.thy ===== *)
theory Json
  imports PyText "HOL-Library.List_Lexorder" "HOL-Library.Char_ord"
begin

text \<open>
  JSON values as Python dicts, lists and scalars, and \<open>json.dumps\<close> as the program calls it
  (default separators, \<open>ensure_ascii\<close>, with and without \<open>sort_keys\<close>). A dict is an association
  list in insertion order with distinct keys.
\<close>

datatype json =
    JNull
  | JBool bool
  | JInt int
  | JStr string
  | JArr "json list"
  | JObj "(string \<times> json) list"

text \<open>\<open>d.get(k)\<close> on a dict; \<open>None\<close> when the key is missing.\<close>

definition dict_get :: "(string \<times> json) list \<Rightarrow> string \<Rightarrow> json option" where
  "dict_get d k = map_of d k"

section \<open>Printing\<close>

definition hex4 :: "nat \<Rightarrow> string" where
  "hex4 n = [hex_char (n div 4096 mod 16), hex_char (n div 256 mod 16),
             hex_char (n div 16 mod 16), hex_char (n mod 16)]"

text \<open>The escapes of \<open>ensure_ascii\<close>: everything outside space to tilde, the quote, the backslash.\<close>

definition escape_char :: "char \<Rightarrow> string" where
  "escape_char c =
     (let n = (of_char c :: nat)
      in if n = 34 then [CHR 0x5C, CHR 0x22]
         else if n = 92 then [CHR 0x5C, CHR 0x5C]
         else if n = 10 then [CHR 0x5C, CHR ''n'']
         else if n = 13 then [CHR 0x5C, CHR ''r'']
         else if n = 9 then [CHR 0x5C, CHR ''t'']
         else if n = 12 then [CHR 0x5C, CHR ''f'']
         else if n = 8 then [CHR 0x5C, CHR ''b'']
         else if 32 \<le> n \<and> n \<le> 126 then [c]
         else [CHR 0x5C, CHR ''u''] @ hex4 n)"

definition quote :: "string \<Rightarrow> string" where
  "quote s = [CHR 0x22] @ concat (map escape_char s) @ [CHR 0x22]"

fun join :: "string \<Rightarrow> string list \<Rightarrow> string" where
  "join sep [] = []"
| "join sep [x] = x"
| "join sep (x # xs) = x @ sep @ join sep xs"

fun dumps :: "json \<Rightarrow> string" where
  "dumps JNull = ''null''"
| "dumps (JBool b) = (if b then ''true'' else ''false'')"
| "dumps (JInt n) = show_int n"
| "dumps (JStr s) = quote s"
| "dumps (JArr xs) = ''['' @ join '', '' (map dumps xs) @ '']''"
| "dumps (JObj kvs) =
     ''{'' @ join '', '' (map (\<lambda>(k, v). quote k @ '': '' @ dumps v) kvs) @ ''}''"

text \<open>\<open>sort_keys=True\<close> sorts every dict by key before printing.\<close>

fun sort_keys :: "json \<Rightarrow> json" where
  "sort_keys (JArr xs) = JArr (map sort_keys xs)"
| "sort_keys (JObj kvs) = JObj (sort_key fst (map (\<lambda>(k, v). (k, sort_keys v)) kvs))"
| "sort_keys j = j"

definition dumps_sorted :: "json \<Rightarrow> string" where
  "dumps_sorted j = dumps (sort_keys j)"

section \<open>The printed text is ASCII\<close>

lemma is_ascii_append [simp]: "is_ascii (s @ t) \<longleftrightarrow> is_ascii s \<and> is_ascii t"
  by (auto simp: is_ascii_def)

lemma is_ascii_Nil [simp]: "is_ascii []"
  by (simp add: is_ascii_def)

lemma is_ascii_Cons [simp]: "is_ascii (c # s) \<longleftrightarrow> (of_char c :: nat) < 128 \<and> is_ascii s"
  by (simp add: is_ascii_def)

lemma of_char_hex_char: "d < 16 \<Longrightarrow> (of_char (hex_char d) :: nat) < 128"
  by (simp add: hex_char_def)

lemma is_ascii_escape_char: "is_ascii (escape_char c)"
  by (auto simp: escape_char_def Let_def hex4_def of_char_hex_char)

lemma is_ascii_quote: "is_ascii (quote s)"
proof -
  have "is_ascii (concat (map escape_char s))"
    by (induction s) (simp_all add: is_ascii_escape_char)
  then show ?thesis by (simp add: quote_def)
qed

lemma is_ascii_show_int: "is_ascii (show_int n)"
proof -
  have "is_ascii (show_nat k)" for k
    by (auto simp: is_ascii_def is_ascii_digit_def dest!: show_nat_digits)
  then show ?thesis by (simp add: show_int_def)
qed

lemma is_ascii_join: "is_ascii sep \<Longrightarrow> \<forall>x \<in> set xs. is_ascii x \<Longrightarrow> is_ascii (join sep xs)"
  by (induction sep xs rule: join.induct) auto

lemma is_ascii_dumps: "is_ascii (dumps j)"
proof (induction j rule: dumps.induct)
  case (5 xs)
  then show ?case by (simp add: is_ascii_join)
next
  case (6 kvs)
  then have "\<forall>x \<in> set (map (\<lambda>(k, v). quote k @ '': '' @ dumps v) kvs). is_ascii x"
    by (auto simp: is_ascii_quote)
  then show ?case by (simp add: is_ascii_join)
qed (simp_all add: is_ascii_quote is_ascii_show_int)

lemma encode_ascii: "is_ascii s \<Longrightarrow> encode s = map (\<lambda>c. of_nat (of_char c)) s"
  by (induction s) (simp_all add: encode_def utf8_char_def Let_def)

end
