(* ===== verification/Models.thy ===== *)
theory Models
  imports Json
begin

text \<open>
  The tables of \<open>control_plane/app/models/\<close>: one record per ORM class, the database as its six
  tables, the constraints the classes declare (primary keys, unique constraints, foreign keys,
  column sizes) and the two delete rules (\<open>CASCADE\<close>, \<open>RESTRICT\<close>). Timestamps are integers.
\<close>

section \<open>Rows\<close>

type_synonym datetime = int

record tenant =
  t_id :: int
  t_name :: string
  t_k8s_namespace :: string
  t_created_at :: datetime
  t_is_active :: bool

record api_key =
  ak_id :: int
  ak_tenant_id :: int
  ak_name :: string
  ak_key_prefix :: string
  ak_key_hash :: string
  ak_created_at :: datetime
  ak_revoked_at :: "datetime option"

text \<open>The literals of \<open>schemas/build_jobs.py\<close> and \<open>schemas/deployments.py\<close>.\<close>

datatype build_status = Queued | Building | Succeeded | BuildFailed

datatype deployment_status = Pending | Deploying | Running | DeployFailed | Stopped

fun show_build_status :: "build_status \<Rightarrow> string" where
  "show_build_status Queued = ''queued''"
| "show_build_status Building = ''building''"
| "show_build_status Succeeded = ''succeeded''"
| "show_build_status BuildFailed = ''failed''"

fun show_deployment_status :: "deployment_status \<Rightarrow> string" where
  "show_deployment_status Pending = ''pending''"
| "show_deployment_status Deploying = ''deploying''"
| "show_deployment_status Running = ''running''"
| "show_deployment_status DeployFailed = ''failed''"
| "show_deployment_status Stopped = ''stopped''"

record build_job =
  bj_id :: int
  bj_tenant_id :: int
  bj_git_url :: string
  bj_git_revision :: string
  bj_git_sub_path :: "string option"
  bj_status :: build_status
  bj_image_tag :: "string option"
  bj_error_message :: "string option"
  bj_created_at :: datetime
  bj_started_at :: "datetime option"
  bj_ended_at :: "datetime option"

record deployment =
  dp_id :: int
  dp_tenant_id :: int
  dp_build_job_id :: int
  dp_k8s_deployment_name :: string
  dp_status :: deployment_status
  dp_replica_count :: int
  dp_created_at :: datetime
  dp_updated_at :: datetime

record webhook_registration =
  wr_id :: int
  wr_tenant_id :: int
  wr_callback_url :: string
  wr_signing_secret :: string
  wr_created_at :: datetime
  wr_is_active :: bool

datatype delivery_status = DeliverySuccess | DeliveryFailed

record webhook_delivery =
  wd_id :: int
  wd_webhook_registration_id :: int
  wd_tenant_id :: int
  wd_event :: string
  wd_payload :: json
  wd_signature :: string
  wd_timestamp :: int
  wd_status :: delivery_status
  wd_http_status_code :: "int option"
  wd_error_message :: "string option"
  wd_created_at :: datetime

record db =
  tenants :: "tenant list"
  api_keys :: "api_key list"
  build_jobs :: "build_job list"
  deployments :: "deployment list"
  webhook_registrations :: "webhook_registration list"
  webhook_deliveries :: "webhook_delivery list"

definition empty_db :: db where
  "empty_db = \<lparr>tenants = [], api_keys = [], build_jobs = [], deployments = [],
               webhook_registrations = [], webhook_deliveries = []\<rparr>"

datatype table = Tenants | ApiKeys | BuildJobs | Deployments | WebhookRegistrations | WebhookDeliveries

section \<open>Column sizes\<close>

definition fits :: "nat \<Rightarrow> string option \<Rightarrow> bool" where
  "fits n x = (case x of None \<Rightarrow> True | Some s \<Rightarrow> length s \<le> n)"

text \<open>The range of a Postgres \<open>INTEGER\<close> column.\<close>

definition int32 :: "int \<Rightarrow> bool" where
  "int32 n \<longleftrightarrow> - 2147483648 \<le> n \<and> n \<le> 2147483647"

text \<open>The range of a \<open>BIGINT\<close>, the type SQLAlchemy gives larger literals.\<close>

definition int64 :: "int \<Rightarrow> bool" where
  "int64 n \<longleftrightarrow> - 9223372036854775808 \<le> n \<and> n \<le> 9223372036854775807"

definition tenant_columns_ok :: "tenant \<Rightarrow> bool" where
  "tenant_columns_ok t \<longleftrightarrow>
     int32 (t_id t) \<and> length (t_name t) \<le> 255 \<and> length (t_k8s_namespace t) \<le> 63"

definition api_key_columns_ok :: "api_key \<Rightarrow> bool" where
  "api_key_columns_ok k \<longleftrightarrow>
     int32 (ak_id k) \<and> int32 (ak_tenant_id k) \<and> length (ak_name k) \<le> 50 \<and>
     length (ak_key_prefix k) \<le> 16 \<and> length (ak_key_hash k) \<le> 64"

definition build_job_columns_ok :: "build_job \<Rightarrow> bool" where
  "build_job_columns_ok b \<longleftrightarrow>
     int32 (bj_id b) \<and> int32 (bj_tenant_id b) \<and> length (bj_git_url b) \<le> 2048 \<and>
     length (bj_git_revision b) \<le> 255 \<and> fits 1024 (bj_git_sub_path b) \<and>
     length (show_build_status (bj_status b)) \<le> 20 \<and> fits 512 (bj_image_tag b)"

definition deployment_columns_ok :: "deployment \<Rightarrow> bool" where
  "deployment_columns_ok d \<longleftrightarrow>
     int32 (dp_id d) \<and> int32 (dp_tenant_id d) \<and> int32 (dp_build_job_id d) \<and>
     length (dp_k8s_deployment_name d) \<le> 253 \<and>
     length (show_deployment_status (dp_status d)) \<le> 20 \<and> int32 (dp_replica_count d)"

definition webhook_registration_columns_ok :: "webhook_registration \<Rightarrow> bool" where
  "webhook_registration_columns_ok r \<longleftrightarrow>
     int32 (wr_id r) \<and> int32 (wr_tenant_id r) \<and> length (wr_callback_url r) \<le> 2048 \<and>
     length (wr_signing_secret r) \<le> 255"

definition webhook_delivery_columns_ok :: "webhook_delivery \<Rightarrow> bool" where
  "webhook_delivery_columns_ok d \<longleftrightarrow>
     int32 (wd_id d) \<and> int32 (wd_webhook_registration_id d) \<and> int32 (wd_tenant_id d) \<and>
     length (wd_event d) \<le> 50 \<and> length (wd_signature d) \<le> 64 \<and> int32 (wd_timestamp d) \<and>
     (case wd_http_status_code d of None \<Rightarrow> True | Some c \<Rightarrow> int32 c)"

definition columns_ok :: "db \<Rightarrow> bool" where
  "columns_ok d \<longleftrightarrow>
     list_all tenant_columns_ok (tenants d) \<and> list_all api_key_columns_ok (api_keys d) \<and>
     list_all build_job_columns_ok (build_jobs d) \<and>
     list_all deployment_columns_ok (deployments d) \<and>
     list_all webhook_registration_columns_ok (webhook_registrations d) \<and>
     list_all webhook_delivery_columns_ok (webhook_deliveries d)"

section \<open>Keys and references\<close>

definition tenants_ok :: "db \<Rightarrow> bool" where
  "tenants_ok d \<longleftrightarrow> distinct (map t_id (tenants d)) \<and> distinct (map t_k8s_namespace (tenants d))"

definition api_keys_ok :: "db \<Rightarrow> bool" where
  "api_keys_ok d \<longleftrightarrow>
     distinct (map ak_id (api_keys d)) \<and>
     distinct (map (\<lambda>k. (ak_tenant_id k, ak_name k)) (api_keys d)) \<and>
     distinct (map ak_key_hash (api_keys d)) \<and>
     ak_tenant_id ` set (api_keys d) \<subseteq> t_id ` set (tenants d)"

definition build_jobs_ok :: "db \<Rightarrow> bool" where
  "build_jobs_ok d \<longleftrightarrow>
     distinct (map bj_id (build_jobs d)) \<and>
     bj_tenant_id ` set (build_jobs d) \<subseteq> t_id ` set (tenants d)"

definition deployments_ok :: "db \<Rightarrow> bool" where
  "deployments_ok d \<longleftrightarrow>
     distinct (map dp_id (deployments d)) \<and>
     dp_tenant_id ` set (deployments d) \<subseteq> t_id ` set (tenants d) \<and>
     dp_build_job_id ` set (deployments d) \<subseteq> bj_id ` set (build_jobs d)"

definition webhook_registrations_ok :: "db \<Rightarrow> bool" where
  "webhook_registrations_ok d \<longleftrightarrow>
     distinct (map wr_id (webhook_registrations d)) \<and>
     wr_tenant_id ` set (webhook_registrations d) \<subseteq> t_id ` set (tenants d)"

definition webhook_deliveries_ok :: "db \<Rightarrow> bool" where
  "webhook_deliveries_ok d \<longleftrightarrow>
     distinct (map wd_id (webhook_deliveries d)) \<and>
     wd_tenant_id ` set (webhook_deliveries d) \<subseteq> t_id ` set (tenants d) \<and>
     wd_webhook_registration_id ` set (webhook_deliveries d)
       \<subseteq> wr_id ` set (webhook_registrations d)"

definition constraints_ok :: "db \<Rightarrow> bool" where
  "constraints_ok d \<longleftrightarrow>
     tenants_ok d \<and> api_keys_ok d \<and> build_jobs_ok d \<and> deployments_ok d \<and>
     webhook_registrations_ok d \<and> webhook_deliveries_ok d"

definition schema_ok :: "db \<Rightarrow> bool" where
  "schema_ok d \<longleftrightarrow> columns_ok d \<and> constraints_ok d"

section \<open>Row access and deletion\<close>

definition get_tenant_row :: "db \<Rightarrow> int \<Rightarrow> tenant option" where
  "get_tenant_row d i = find (\<lambda>t. t_id t = i) (tenants d)"

definition get_build_job_row :: "db \<Rightarrow> int \<Rightarrow> build_job option" where
  "get_build_job_row d i = find (\<lambda>b. bj_id b = i) (build_jobs d)"

definition get_deployment_row :: "db \<Rightarrow> int \<Rightarrow> deployment option" where
  "get_deployment_row d i = find (\<lambda>x. dp_id x = i) (deployments d)"

definition update_where :: "('r \<Rightarrow> int) \<Rightarrow> int \<Rightarrow> ('r \<Rightarrow> 'r) \<Rightarrow> 'r list \<Rightarrow> 'r list" where
  "update_where key i f rs = map (\<lambda>r. if key r = i then f r else r) rs"

text \<open>
  What a \<open>DELETE\<close> of a tenant row leaves: every table references \<open>tenants.id\<close> with
  \<open>ON DELETE CASCADE\<close>, and deliveries also follow their registration.
\<close>

definition cascade_delete_tenant :: "int \<Rightarrow> db \<Rightarrow> db" where
  "cascade_delete_tenant i d =
     (let gone = wr_id ` {r \<in> set (webhook_registrations d). wr_tenant_id r = i}
      in d\<lparr>tenants := filter (\<lambda>t. t_id t \<noteq> i) (tenants d),
           api_keys := filter (\<lambda>k. ak_tenant_id k \<noteq> i) (api_keys d),
           build_jobs := filter (\<lambda>b. bj_tenant_id b \<noteq> i) (build_jobs d),
           deployments := filter (\<lambda>x. dp_tenant_id x \<noteq> i) (deployments d),
           webhook_registrations := filter (\<lambda>r. wr_tenant_id r \<noteq> i) (webhook_registrations d),
           webhook_deliveries :=
             filter (\<lambda>w. wd_tenant_id w \<noteq> i \<and> wd_webhook_registration_id w \<notin> gone)
               (webhook_deliveries d)\<rparr>)"

text \<open>
  \<open>deployments.build_job_id\<close> is \<open>ON DELETE RESTRICT\<close>: deleting a build job some deployment still
  references is an error at once. The tenant's build jobs are in that position when some
  deployment references one of them.
\<close>

definition restricted_by_deployments :: "int \<Rightarrow> db \<Rightarrow> bool" where
  "restricted_by_deployments i d \<longleftrightarrow>
     (\<exists>x \<in> set (deployments d). \<exists>b \<in> set (build_jobs d).
        bj_tenant_id b = i \<and> dp_build_job_id x = bj_id b)"

section \<open>Lemmas\<close>

lemma schema_ok_empty [simp]: "schema_ok empty_db"
  by (simp add: schema_ok_def columns_ok_def constraints_ok_def tenants_ok_def api_keys_ok_def
      build_jobs_ok_def deployments_ok_def webhook_registrations_ok_def webhook_deliveries_ok_def
      empty_db_def)

lemmas constraint_defs = constraints_ok_def tenants_ok_def api_keys_ok_def build_jobs_ok_def
  deployments_ok_def webhook_registrations_ok_def webhook_deliveries_ok_def

lemmas column_defs = columns_ok_def tenant_columns_ok_def api_key_columns_ok_def
  build_job_columns_ok_def deployment_columns_ok_def webhook_registration_columns_ok_def
  webhook_delivery_columns_ok_def

lemma get_tenant_row_iff:
  "tenants_ok d \<Longrightarrow> get_tenant_row d i = Some t \<longleftrightarrow> t \<in> set (tenants d) \<and> t_id t = i"
  by (simp add: get_tenant_row_def tenants_ok_def find_Some_iff_distinct)

lemma get_build_job_row_iff:
  "build_jobs_ok d \<Longrightarrow> get_build_job_row d i = Some b \<longleftrightarrow> b \<in> set (build_jobs d) \<and> bj_id b = i"
  by (simp add: get_build_job_row_def build_jobs_ok_def find_Some_iff_distinct)

lemma get_deployment_row_iff:
  "deployments_ok d \<Longrightarrow> get_deployment_row d i = Some x \<longleftrightarrow> x \<in> set (deployments d) \<and> dp_id x = i"
  by (simp add: get_deployment_row_def deployments_ok_def find_Some_iff_distinct)

lemma get_tenant_rowD: "get_tenant_row d i = Some t \<Longrightarrow> t \<in> set (tenants d) \<and> t_id t = i"
  by (auto simp: get_tenant_row_def dest: find_SomeD)

lemma get_build_job_rowD: "get_build_job_row d i = Some b \<Longrightarrow> b \<in> set (build_jobs d) \<and> bj_id b = i"
  by (auto simp: get_build_job_row_def dest: find_SomeD)

lemma get_deployment_rowD: "get_deployment_row d i = Some x \<Longrightarrow> x \<in> set (deployments d) \<and> dp_id x = i"
  by (auto simp: get_deployment_row_def dest: find_SomeD)

lemma map_update_where: "(\<And>r. g (f r) = g r) \<Longrightarrow> map g (update_where key i f rs) = map g rs"
  by (simp add: update_where_def)

lemma find_update_where:
  assumes "\<And>r. key (f r) = key r"
  shows "find (\<lambda>r. key r = j) (update_where key i f rs) =
         map_option (\<lambda>r. if key r = i then f r else r) (find (\<lambda>r. key r = j) rs)"
  using assms by (induction rs) (auto simp: update_where_def)

lemma set_update_where:
  "set (update_where key i f rs) = (\<lambda>r. if key r = i then f r else r) ` set rs"
  by (simp add: update_where_def)

lemma filter_update_where:
  assumes "\<And>r. key r = i \<Longrightarrow> r \<in> set rs \<Longrightarrow> \<not> P r \<and> \<not> P (f r)"
  shows "filter P (update_where key i f rs) = filter P rs"
  using assms by (induction rs) (auto simp: update_where_def)

lemma update_where_append_new:
  assumes "key r \<notin> key ` set rs"
  shows "update_where key (key r) f (rs @ [r]) = rs @ [f r]"
  using assms by (force simp: update_where_def image_iff intro!: map_idI)

lemma schema_okD: "schema_ok d \<Longrightarrow> constraints_ok d"
  by (simp add: schema_ok_def)

lemma find_update_where_other:
  assumes "\<And>r. r \<in> set rs \<Longrightarrow> key r = i \<Longrightarrow> \<not> P r \<and> \<not> P (f r)"
  shows "find P (update_where key i f rs) = find P rs"
  using assms by (induction rs) (auto simp: update_where_def)

end
