(* ===== verification/Config.thy ===== *)
theory Config
  imports PyText
begin

text \<open>
  \<open>shared/config.py\<close>: the configuration read from the process environment, and the constants of
  \<open>shared/k8s_client.py\<close>. A variable that is not set is \<open>None\<close>.
\<close>

type_synonym environ = "string \<Rightarrow> string option"

record config =
  DATABASE_URL :: "string option"
  DATABASE_URL_SYNC :: "string option"
  ENV :: string
  API_KEY_SECRET :: "string option"
  ADMIN_SECRET_KEY :: "string option"
  KUBECONFIG_PATH :: "string option"
  IN_CLUSTER :: bool
  IMAGE_REGISTRY :: "string option"
  REGISTRY_SERVER :: "string option"
  REGISTRY_USERNAME :: "string option"
  REGISTRY_PASSWORD :: "string option"
  PLATFORM_CLUSTER_BUILDER_NAME :: string
  WEBHOOK_REPLAY_WINDOW_SECONDS :: int

section \<open>The string methods the module uses\<close>

text \<open>White space below code point 256, as \<open>str.strip\<close> and \<open>int\<close> see it.\<close>

definition is_space :: "char \<Rightarrow> bool" where
  "is_space c \<longleftrightarrow>
     (let n = (of_char c :: nat)
      in 9 \<le> n \<and> n \<le> 13 \<or> 28 \<le> n \<and> n \<le> 32 \<or> n = 133 \<or> n = 160)"

definition strip :: "string \<Rightarrow> string" where
  "strip s = rev (dropWhile is_space (rev (dropWhile is_space s)))"

definition lower_char :: "char \<Rightarrow> char" where
  "lower_char c =
     (let n = (of_char c :: nat)
      in if 65 \<le> n \<and> n \<le> 90 \<or> 192 \<le> n \<and> n \<le> 222 \<and> n \<noteq> 215 then char_of (n + 32) else c)"

definition lower :: "string \<Rightarrow> string" where
  "lower = map lower_char"

text \<open>
  \<open>int(s)\<close> on any string: surrounding white space, a sign, then decimal digits in which single
  underscores may separate digits.
\<close>

fun underscored_digits :: "string \<Rightarrow> string option" where
  "underscored_digits [] = None"
| "underscored_digits [c] = (if is_ascii_digit c then Some [c] else None)"
| "underscored_digits (c # d # cs) =
     (if \<not> is_ascii_digit c then None
      else if d = CHR ''_'' then map_option (Cons c) (underscored_digits cs)
      else map_option (Cons c) (underscored_digits (d # cs)))"

definition py_int_literal :: "string \<Rightarrow> int option" where
  "py_int_literal s =
     (case strip s of
        [] \<Rightarrow> None
      | c # cs \<Rightarrow>
          (if c = CHR ''-'' then map_option (\<lambda>ds. - int (read_nat ds)) (underscored_digits cs)
           else if c = CHR ''+'' then map_option (\<lambda>ds. int (read_nat ds)) (underscored_digits cs)
           else map_option (\<lambda>ds. int (read_nat ds)) (underscored_digits (c # cs))))"

section \<open>Loading\<close>

definition getenv_default :: "environ \<Rightarrow> string \<Rightarrow> string \<Rightarrow> string" where
  "getenv_default env k d = (case env k of None \<Rightarrow> d | Some v \<Rightarrow> v)"

definition parse_in_cluster :: "environ \<Rightarrow> bool" where
  "parse_in_cluster env \<longleftrightarrow>
     lower (strip (getenv_default env ''IN_CLUSTER'' ''false'')) \<in> {''true'', ''1''}"

definition load_config :: "environ \<Rightarrow> exn + config" where
  "load_config env =
     (case py_int_literal (getenv_default env ''WEBHOOK_REPLAY_WINDOW_SECONDS'' ''300'') of
        None \<Rightarrow> Inl (ValueError ''invalid literal for int() with base 10'')
      | Some w \<Rightarrow> Inr \<lparr>
          DATABASE_URL = env ''DATABASE_URL'',
          DATABASE_URL_SYNC = env ''DATABASE_URL_SYNC'',
          ENV = getenv_default env ''ENV'' ''dev'',
          API_KEY_SECRET = env ''API_KEY_SECRET'',
          ADMIN_SECRET_KEY = env ''ADMIN_SECRET_KEY'',
          KUBECONFIG_PATH = env ''KUBECONFIG_PATH'',
          IN_CLUSTER = parse_in_cluster env,
          IMAGE_REGISTRY = env ''IMAGE_REGISTRY'',
          REGISTRY_SERVER = env ''REGISTRY_SERVER'',
          REGISTRY_USERNAME = env ''REGISTRY_USERNAME'',
          REGISTRY_PASSWORD = env ''REGISTRY_PASSWORD'',
          PLATFORM_CLUSTER_BUILDER_NAME =
            getenv_default env ''PLATFORM_CLUSTER_BUILDER_NAME'' ''platform-builder'',
          WEBHOOK_REPLAY_WINDOW_SECONDS = w\<rparr>)"

definition KPACK_GROUP :: string where
  "KPACK_GROUP = ''kpack.io''"

definition KPACK_VERSION :: string where
  "KPACK_VERSION = ''v1alpha2''"

end
