(* ===== verification/K8sObjects.thy ===== *)
theory K8sObjects
  imports Json
begin

text \<open>
  The Kubernetes objects \<open>control_plane/app/k8s_resources.py\<close> builds, as records with the fields
  of the client classes it sets (\<open>V1ResourceQuota\<close>, \<open>V1NetworkPolicy\<close>, \<open>V1PodSpec\<close>, \<dots>), and the
  fields the \<open>restricted\<close> Pod Security Standard looks at. A field the code leaves unset is \<open>None\<close>.
  The kpack Image is an untyped custom object and stays a dict.
\<close>

type_synonym dict = "(string \<times> string) list"

record object_meta =
  om_name :: "string option"
  om_namespace :: "string option"
  om_labels :: "dict option"

abbreviation named_meta :: "string \<Rightarrow> string \<Rightarrow> object_meta" where
  "named_meta name ns \<equiv> \<lparr>om_name = Some name, om_namespace = Some ns, om_labels = None\<rparr>"

record resource_quota =
  rq_metadata :: object_meta
  rq_hard :: dict

record limit_range_item =
  lri_type :: string
  lri_default :: dict
  lri_default_request :: dict

record limit_range =
  lr_metadata :: object_meta
  lr_limits :: "limit_range_item list"

record policy_port =
  pp_protocol :: string
  pp_port :: int

text \<open>A network policy rule: the CIDRs of its ipBlock peers and its ports.\<close>

record policy_rule =
  pr_cidrs :: "string list"
  pr_ports :: "policy_port list"

record network_policy =
  np_metadata :: object_meta
  np_pod_selector :: "dict option"
  np_policy_types :: "string list"
  np_ingress :: "policy_rule list"
  np_egress :: "policy_rule list"

record secret =
  sec_metadata :: object_meta
  sec_type :: string
  sec_string_data :: dict

record service_account =
  sa_metadata :: object_meta
  sa_secrets :: "string list option"
  sa_image_pull_secrets :: "string list option"

record capabilities =
  cap_add :: "string list option"
  cap_drop :: "string list option"

record security_context =
  sc_privileged :: "bool option"
  sc_run_as_non_root :: "bool option"
  sc_run_as_user :: "int option"
  sc_allow_privilege_escalation :: "bool option"
  sc_capabilities :: "capabilities option"
  sc_seccomp_profile :: "string option"

record pod_security_context =
  psc_run_as_non_root :: "bool option"
  psc_run_as_user :: "int option"
  psc_seccomp_profile :: "string option"

record container_port =
  cp_container_port :: int
  cp_host_port :: "int option"

record container =
  c_name :: string
  c_image :: "string option"
  c_ports :: "container_port list"
  c_security_context :: "security_context option"
  c_requests :: dict
  c_limits :: dict

record pod_spec =
  ps_containers :: "container list"
  ps_init_containers :: "container list"
  ps_service_account_name :: "string option"
  ps_automount_service_account_token :: "bool option"
  ps_security_context :: "pod_security_context option"
  ps_host_network :: "bool option"
  ps_host_pid :: "bool option"
  ps_host_ipc :: "bool option"
  ps_volumes :: "string list"

record k8s_deployment =
  kd_metadata :: object_meta
  kd_replicas :: int
  kd_match_labels :: dict
  kd_template_labels :: dict
  kd_pod_spec :: pod_spec

record k8s_service =
  svc_metadata :: object_meta
  svc_selector :: dict
  svc_ports :: "(int \<times> int) list"

record policy_rbac_rule =
  rr_api_groups :: "string list"
  rr_resources :: "string list"
  rr_verbs :: "string list"

record role =
  ro_metadata :: object_meta
  ro_rules :: "policy_rbac_rule list"

record rbac_subject =
  su_kind :: string
  su_name :: string
  su_namespace :: string

record role_binding =
  rb_metadata :: object_meta
  rb_subjects :: "rbac_subject list"
  rb_role_ref_api_group :: string
  rb_role_ref_kind :: string
  rb_role_ref_name :: string

text \<open>
  The body of a create call, tagged by the client method that sends it; the custom object also
  carries its group, version and plural.
\<close>

datatype k8s_object =
    Namespace object_meta
  | ResourceQuota resource_quota
  | LimitRange limit_range
  | NetworkPolicy network_policy
  | Secret secret
  | ServiceAccount service_account
  | CustomObject string string string json
  | Deployment k8s_deployment
  | Service k8s_service
  | Role role
  | RoleBinding role_binding

text \<open>The part of a Deployment \<open>get_deployment_status\<close> reads.\<close>

record deployment_condition =
  dc_type :: string
  dc_status :: string
  dc_message :: "string option"

record deployment_view =
  dv_spec_replicas :: "int option"
  dv_ready_replicas :: "int option"
  dv_conditions :: "deployment_condition list option"

text \<open>
  The part of a kpack Image \<open>get_build_status\<close> reads, by the types of its resource definition: a
  missing key is \<open>None\<close>.
\<close>

record image_condition =
  ic_type :: "string option"
  ic_status :: "string option"
  ic_message :: "string option"

record image_status =
  is_conditions :: "image_condition list option"
  is_latest_image :: "string option"

record image_view =
  iv_status :: "image_status option"

text \<open>How the client finds its cluster (\<open>kubernetes.config\<close>).\<close>

datatype kube_config_source = InCluster | KubeConfigFile string | DefaultKubeConfig

end
