(* ===== verification/Sha256.thy ===== *)
theory Sha256
  imports PyText
begin

unbundle bit_operations_syntax

text \<open>
  \<open>hashlib.sha256\<close> and \<open>hmac.new(key, msg, hashlib.sha256).hexdigest()\<close> (FIPS 180-4, RFC 2104)
  over 32-bit words, which every secret of the program goes through: API key hashes and webhook
  signatures. \<open>compare_digest\<close> is the comparison both sides of the program use.
\<close>

section \<open>SHA-256\<close>

type_synonym w32 = "32 word"

definition rotr :: "nat \<Rightarrow> w32 \<Rightarrow> w32" where
  "rotr n x = drop_bit n x OR push_bit (32 - n) x"

definition sha_K :: "w32 list" where
  "sha_K =
    [1116352408, 1899447441, 3049323471, 3921009573, 961987163, 1508970993, 2453635748, 2870763221,
     3624381080, 310598401, 607225278, 1426881987, 1925078388, 2162078206, 2614888103, 3248222580,
     3835390401, 4022224774, 264347078, 604807628, 770255983, 1249150122, 1555081692, 1996064986,
     2554220882, 2821834349, 2952996808, 3210313671, 3336571891, 3584528711, 113926993, 338241895,
     666307205, 773529912, 1294757372, 1396182291, 1695183700, 1986661051, 2177026350, 2456956037,
     2730485921, 2820302411, 3259730800, 3345764771, 3516065817, 3600352804, 4094571909, 275423344,
     430227734, 506948616, 659060556, 883997877, 958139571, 1322822218, 1537002063, 1747873779,
     1955562222, 2024104815, 2227730452, 2361852424, 2428436474, 2756734187, 3204031479, 3329325298]"

text \<open>The working variables \<open>a\<close> to \<open>h\<close>, also the chaining value.\<close>

datatype sha_state = ShaState w32 w32 w32 w32 w32 w32 w32 w32

definition sha_init :: sha_state where
  "sha_init = ShaState 0x6a09e667 0xbb67ae85 0x3c6ef372 0xa54ff53a
                       0x510e527f 0x9b05688c 0x1f83d9ab 0x5be0cd19"

definition small_sigma0 :: "w32 \<Rightarrow> w32" where
  "small_sigma0 x = rotr 7 x XOR rotr 18 x XOR drop_bit 3 x"

definition small_sigma1 :: "w32 \<Rightarrow> w32" where
  "small_sigma1 x = rotr 17 x XOR rotr 19 x XOR drop_bit 10 x"

definition big_sigma0 :: "w32 \<Rightarrow> w32" where
  "big_sigma0 x = rotr 2 x XOR rotr 13 x XOR rotr 22 x"

definition big_sigma1 :: "w32 \<Rightarrow> w32" where
  "big_sigma1 x = rotr 6 x XOR rotr 11 x XOR rotr 25 x"

definition sha_ch :: "w32 \<Rightarrow> w32 \<Rightarrow> w32 \<Rightarrow> w32" where
  "sha_ch x y z = (x AND y) XOR (NOT x AND z)"

definition sha_maj :: "w32 \<Rightarrow> w32 \<Rightarrow> w32 \<Rightarrow> w32" where
  "sha_maj x y z = (x AND y) XOR (x AND z) XOR (y AND z)"

text \<open>
  The message schedule of one block. The window holds the last sixteen words, oldest first; each
  of the 48 steps emits the oldest and appends the next word.
\<close>

fun sha_schedule :: "nat \<Rightarrow> w32 list \<Rightarrow> w32 list" where
  "sha_schedule 0 ws = ws"
| "sha_schedule (Suc n) ws =
     hd ws # sha_schedule n
       (tl ws @ [small_sigma1 (ws ! 14) + ws ! 9 + small_sigma0 (ws ! 1) + ws ! 0])"

fun sha_round :: "sha_state \<Rightarrow> w32 \<times> w32 \<Rightarrow> sha_state" where
  "sha_round (ShaState a b c d e f g h) (k, w) =
     (let t1 = h + big_sigma1 e + sha_ch e f g + k + w;
          t2 = big_sigma0 a + sha_maj a b c
      in ShaState (t1 + t2) a b c (d + t1) e f g)"

fun sha_add :: "sha_state \<Rightarrow> sha_state \<Rightarrow> sha_state" where
  "sha_add (ShaState a b c d e f g h) (ShaState a' b' c' d' e' f' g' h') =
     ShaState (a + a') (b + b') (c + c') (d + d') (e + e') (f + f') (g + g') (h + h')"

definition sha_block :: "sha_state \<Rightarrow> w32 list \<Rightarrow> sha_state" where
  "sha_block st ws = sha_add st (foldl sha_round st (zip sha_K (sha_schedule 48 ws)))"

definition word_of_bytes :: "byte \<Rightarrow> byte \<Rightarrow> byte \<Rightarrow> byte \<Rightarrow> w32" where
  "word_of_bytes a b c d =
     push_bit 24 (ucast a) OR push_bit 16 (ucast b) OR push_bit 8 (ucast c) OR ucast d"

fun words_of_bytes :: "bytes \<Rightarrow> w32 list" where
  "words_of_bytes (a # b # c # d # bs) = word_of_bytes a b c d # words_of_bytes bs"
| "words_of_bytes _ = []"

text \<open>The \<open>k\<close> low bytes of a word, most significant first.\<close>

definition be_bytes :: "nat \<Rightarrow> 'a::len word \<Rightarrow> bytes" where
  "be_bytes k n = map (\<lambda>i. ucast (drop_bit (8 * i) n)) (rev [0..<k])"

text \<open>One bit, zeros up to 56 modulo 64, then the bit length in eight bytes.\<close>

definition sha_pad :: "bytes \<Rightarrow> bytes" where
  "sha_pad m = m @ [0x80] @ replicate ((119 - length m mod 64) mod 64) 0 @ be_bytes 8 (push_bit 3 (of_nat (length m) :: 64 word))"

fun sha_blocks :: "sha_state \<Rightarrow> w32 list \<Rightarrow> sha_state" where
  "sha_blocks st ws = (if length ws < 16 then st
                       else sha_blocks (sha_block st (take 16 ws)) (drop 16 ws))"

declare sha_blocks.simps [simp del]

fun sha_output :: "sha_state \<Rightarrow> bytes" where
  "sha_output (ShaState a b c d e f g h) = concat (map (\<lambda>x. be_bytes 4 x) [a, b, c, d, e, f, g, h])"

definition sha256 :: "bytes \<Rightarrow> bytes" where
  "sha256 m = sha_output (sha_blocks sha_init (words_of_bytes (sha_pad m)))"

section \<open>HMAC\<close>

definition hmac_key_block :: "bytes \<Rightarrow> bytes" where
  "hmac_key_block k =
     (let k' = (if length k > 64 then sha256 k else k) in k' @ replicate (64 - length k') 0)"

definition hmac_sha256 :: "bytes \<Rightarrow> bytes \<Rightarrow> bytes" where
  "hmac_sha256 k m =
     (let kb = hmac_key_block k
      in sha256 (map (\<lambda>b. b XOR 0x5c) kb @ sha256 (map (\<lambda>b. b XOR 0x36) kb @ m)))"

definition hmac_hexdigest :: "bytes \<Rightarrow> bytes \<Rightarrow> string" where
  "hmac_hexdigest k m = hex (hmac_sha256 k m)"

section \<open>Lengths\<close>

lemma length_be_bytes [simp]: "length (be_bytes k n) = k"
  by (simp add: be_bytes_def)

lemma length_sha_output [simp]: "length (sha_output st) = 32"
  by (cases st) simp

lemma length_sha256 [simp]: "length (sha256 m) = 32"
  by (simp add: sha256_def)

lemma length_hmac_key_block [simp]: "length (hmac_key_block k) = 64"
  by (simp add: hmac_key_block_def Let_def)

lemma length_hmac_sha256 [simp]: "length (hmac_sha256 k m) = 32"
  by (simp add: hmac_sha256_def Let_def)

lemma length_hmac_hexdigest [simp]: "length (hmac_hexdigest k m) = 64"
  by (simp add: hmac_hexdigest_def)

lemma sha_pad_fill: "(n + 9 + (119 - n mod 64) mod 64) mod 64 = (0 :: nat)"
proof -
  have r: "n mod 64 < 64" by simp
  have "(n + 9 + (119 - n mod 64) mod 64) mod 64 = (n mod 64 + 9 + (119 - n mod 64)) mod 64"
    by (metis mod_add_left_eq mod_add_right_eq)
  also from r have "n mod 64 + 9 + (119 - n mod 64) = 128" by linarith
  finally show ?thesis by simp
qed

lemma length_sha_pad: "length (sha_pad m) mod 64 = 0"
proof -
  have "length (sha_pad m) = length m + 9 + (119 - length m mod 64) mod 64"
    by (simp add: sha_pad_def)
  then show ?thesis using sha_pad_fill by simp
qed

end
