(* ===== verification/World.thy ===== *)
theory World
  imports Models Config K8sObjects Sha256
begin

text \<open>
  What the program runs against, and the shared helpers above it. The record \<open>env\<close> holds the
  code outside the repository as parameters: Kubernetes and its client, the receivers of
  webhooks, clocks, randomness, and what the database engine may do beyond the declared
  constraints (fail to commit, choose identifiers). The record \<open>world\<close> holds the state the program
  keeps: the database, the module variable \<open>_configured\<close> of \<open>shared/k8s_client.py\<close>, and the
  state of everything outside, of arbitrary type \<open>'w\<close>, which each external call may change.

  Then the SQLAlchemy session as the services use it (\<open>commit\<close>, \<open>flush\<close>, identifiers),
  \<open>shared/utils.py\<close>, and the client set-up of \<open>shared/k8s_client.py\<close>.
\<close>

section \<open>The environment and the state\<close>

record 'w env =
  e_cfg :: config
  e_commit_fails :: "db \<Rightarrow> db \<Rightarrow> string option"
  e_sql_message :: "db \<Rightarrow> string"
  e_build_jobs_first :: bool
  e_id_gap :: "table \<Rightarrow> 'w \<Rightarrow> nat \<times> 'w"
  e_random_byte :: "'w \<Rightarrow> byte \<times> 'w"
  e_now :: "'w \<Rightarrow> datetime \<times> 'w"
  e_time :: "'w \<Rightarrow> int \<times> 'w"
  e_load_config :: "kube_config_source \<Rightarrow> ('w, unit) py"
  e_create :: "string option \<Rightarrow> k8s_object \<Rightarrow> ('w, unit) py"
  e_patch_deployment :: "string \<Rightarrow> string \<Rightarrow> json \<Rightarrow> ('w, unit) py"
  e_read_service_cluster_ip :: "string \<Rightarrow> string \<Rightarrow> ('w, string option) py"
  e_get_custom_object :: "string \<Rightarrow> string \<Rightarrow> string \<Rightarrow> string \<Rightarrow> string \<Rightarrow> ('w, image_view) py"
  e_read_deployment :: "string \<Rightarrow> string \<Rightarrow> ('w, deployment_view) py"
  e_create_token :: "string \<Rightarrow> string \<Rightarrow> int \<Rightarrow> ('w, string) py"
  e_default_host :: "'w \<Rightarrow> string"
  e_read_ca_cert :: "('w, bytes) py"
  e_http_post :: "string \<Rightarrow> bytes \<Rightarrow> (string \<times> string) list \<Rightarrow> ('w, int) py"

record 'w world =
  w_db :: db
  w_last_id :: "table \<Rightarrow> int"
  w_configured :: bool
  w_ext :: 'w

text \<open>An external call, run on the external part of the state.\<close>

definition external :: "('w, 'a) py \<Rightarrow> ('w world, 'a) py" where
  "external m = (\<lambda>s. case m (w_ext s) of (r, x) \<Rightarrow> (r, s\<lparr>w_ext := x\<rparr>))"

definition external_read :: "('w \<Rightarrow> 'a \<times> 'w) \<Rightarrow> ('w world, 'a) py" where
  "external_read f = (\<lambda>s. case f (w_ext s) of (a, x) \<Rightarrow> (Inr a, s\<lparr>w_ext := x\<rparr>))"

section \<open>The database session\<close>

text \<open>
  What a transaction that would leave the database \<open>d'\<close> meets: an engine failure, a value that
  does not fit its column (DataError), a violated constraint (IntegrityError), or nothing.
\<close>

definition check_pending :: "'w env \<Rightarrow> db \<Rightarrow> db \<Rightarrow> exn option" where
  "check_pending e d d' =
     (case e_commit_fails e d d' of
        Some m \<Rightarrow> Some (OtherSQLError m)
      | None \<Rightarrow>
          if \<not> columns_ok d' then Some (OtherSQLError (e_sql_message e d'))
          else if \<not> constraints_ok d' then Some (IntegrityError (e_sql_message e d'))
          else None)"

text \<open>A statement the engine refuses for a constraint, unless the engine fails before.\<close>

definition integrity_failure :: "'w env \<Rightarrow> db \<Rightarrow> exn" where
  "integrity_failure e d =
     (case e_commit_fails e d d of
        Some m \<Rightarrow> OtherSQLError m
      | None \<Rightarrow> IntegrityError (e_sql_message e d))"

definition commit :: "'w env \<Rightarrow> db \<Rightarrow> ('w world, unit) py" where
  "commit e d' = (\<lambda>s. case check_pending e (w_db s) d' of
                        Some x \<Rightarrow> (Inl x, s)
                      | None \<Rightarrow> (Inr (), s\<lparr>w_db := d'\<rparr>))"

text \<open>\<open>flush\<close> sends the statements, so their errors surface, but makes nothing durable.\<close>

definition flush :: "'w env \<Rightarrow> db \<Rightarrow> ('w world, unit) py" where
  "flush e d' = (\<lambda>s. case check_pending e (w_db s) d' of
                       Some x \<Rightarrow> (Inl x, s)
                     | None \<Rightarrow> (Inr (), s))"

text \<open>
  The primary key the database assigns to a new row: identifiers of a table grow, possibly with
  gaps, and are not given back when the transaction fails.
\<close>

definition next_id :: "'w env \<Rightarrow> table \<Rightarrow> ('w world, int) py" where
  "next_id e tb = (\<lambda>s. case e_id_gap e tb (w_ext s) of (g, x) \<Rightarrow>
     (let i = w_last_id s tb + 1 + int g
      in (Inr i, s\<lparr>w_last_id := (w_last_id s)(tb := i), w_ext := x\<rparr>)))"

section \<open>\<open>shared/utils.py\<close>\<close>

fun token_bytes :: "'w env \<Rightarrow> nat \<Rightarrow> ('w world, bytes) py" where
  "token_bytes e 0 = ret []"
| "token_bytes e (Suc n) =
     bind (external_read (e_random_byte e)) (\<lambda>b. bind (token_bytes e n) (\<lambda>bs. ret (b # bs)))"

definition token_urlsafe :: "'w env \<Rightarrow> nat \<Rightarrow> ('w world, string) py" where
  "token_urlsafe e n = bind (token_bytes e n) (\<lambda>bs. ret (urlsafe_token bs))"

definition generate_secure_key :: "'w env \<Rightarrow> string \<Rightarrow> nat \<Rightarrow> ('w world, string) py" where
  "generate_secure_key e prefix len = bind (token_urlsafe e len) (\<lambda>r. ret (prefix @ ''_'' @ r))"

text \<open>\<open>secret.encode()\<close> raises AttributeError when the secret is not configured.\<close>

definition hash_api_key :: "string \<Rightarrow> string option \<Rightarrow> exn + string" where
  "hash_api_key api_key secret =
     (case secret of
        None \<Rightarrow> Inl (OtherException ''AttributeError: encode'')
      | Some sec \<Rightarrow> Inr (hmac_hexdigest (encode sec) (encode api_key)))"

text \<open>
  \<open>hmac.compare_digest\<close> on two \<open>str\<close>: equality of ASCII strings, TypeError when one is not ASCII or
  not a string.
\<close>

definition compare_digest_str :: "string \<Rightarrow> string option \<Rightarrow> exn + bool" where
  "compare_digest_str a b =
     (case b of
        None \<Rightarrow> Inl (OtherException ''TypeError: unsupported operand types(s)'')
      | Some v \<Rightarrow>
          if is_ascii a \<and> is_ascii v then Inr (a = v)
          else Inl (OtherException ''TypeError: comparing strings with non-ASCII characters is not supported''))"

definition now_naive :: "'w env \<Rightarrow> ('w world, datetime) py" where
  "now_naive e = external_read (e_now e)"

text \<open>The \<open>now()\<close> of the database server, for \<open>server_default=func.now()\<close>.\<close>

definition db_now :: "'w env \<Rightarrow> ('w world, datetime) py" where
  "db_now e = external_read (e_now e)"

definition lift_result :: "exn + 'a \<Rightarrow> ('s, 'a) py" where
  "lift_result r = (case r of Inl x \<Rightarrow> raise x | Inr a \<Rightarrow> ret a)"

lemma lift_result_apply [py_simps]: "lift_result r s = (r, s)"
  by (cases r) (simp_all add: lift_result_def raise_def ret_def)

lemmas atom_simps = ret_apply raise_apply gets_apply modify_apply lift_result_apply

section \<open>\<open>shared/k8s_client.py\<close>\<close>

definition config_source :: "config \<Rightarrow> kube_config_source" where
  "config_source c =
     (if IN_CLUSTER c then InCluster
      else case KUBECONFIG_PATH c of
             None \<Rightarrow> DefaultKubeConfig
           | Some p \<Rightarrow> if p = [] then DefaultKubeConfig else KubeConfigFile p)"

definition ensure_configured :: "'w env \<Rightarrow> ('w world, unit) py" where
  "ensure_configured e =
     bind (gets w_configured) (\<lambda>c.
       if c then ret ()
       else external (e_load_config e (config_source (e_cfg e))))"

definition get_core_v1_api :: "'w env \<Rightarrow> ('w world, unit) py" where
  "get_core_v1_api e = ensure_configured e"

definition get_custom_objects_api :: "'w env \<Rightarrow> ('w world, unit) py" where
  "get_custom_objects_api e = ensure_configured e"

definition get_apps_v1_api :: "'w env \<Rightarrow> ('w world, unit) py" where
  "get_apps_v1_api e = ensure_configured e"

definition get_networking_v1_api :: "'w env \<Rightarrow> ('w world, unit) py" where
  "get_networking_v1_api e = ensure_configured e"

definition get_rbac_v1_api :: "'w env \<Rightarrow> ('w world, unit) py" where
  "get_rbac_v1_api e = ensure_configured e"

lemmas client_defs = get_core_v1_api_def get_custom_objects_api_def get_apps_v1_api_def
  get_networking_v1_api_def get_rbac_v1_api_def

section \<open>Frame facts\<close>

text \<open>
  A computation that leaves the database, and one that leaves everything but the external state.
  Whatever computes a secret, reads a clock or calls the cluster is of the second kind.
\<close>

definition only_ext :: "('w world, 'a) py \<Rightarrow> bool" where
  "only_ext m \<longleftrightarrow>
     (\<forall>s. w_db (snd (m s)) = w_db s \<and> w_last_id (snd (m s)) = w_last_id s \<and>
          w_configured (snd (m s)) = w_configured s)"

named_theorems only_ext_rules \<open>computations that change the external state only\<close>

lemma only_extD:
  assumes "only_ext m" and "m s = (r, s')"
  shows "w_db s' = w_db s" and "w_last_id s' = w_last_id s" and "w_configured s' = w_configured s"
  using assms by (metis only_ext_def snd_conv)+

lemma only_ext_external [only_ext_rules]: "only_ext (external m)"
  by (simp add: only_ext_def external_def split: prod.splits)

lemma only_ext_external_read [only_ext_rules]: "only_ext (external_read f)"
  by (simp add: only_ext_def external_read_def split: prod.splits)

lemma only_ext_ret [only_ext_rules]: "only_ext (ret x)"
  by (simp add: only_ext_def ret_def)

lemma only_ext_raise [only_ext_rules]: "only_ext (raise x)"
  by (simp add: only_ext_def raise_def)

lemma only_ext_gets [only_ext_rules]: "only_ext (gets f)"
  by (simp add: only_ext_def gets_def)

lemma only_ext_bind [only_ext_rules]:
  assumes "only_ext m" and "\<And>x. only_ext (f x)"
  shows "only_ext (bind m f)"
  unfolding only_ext_def
proof
  fix s
  obtain r s' where m: "m s = (r, s')" by (cases "m s")
  show "w_db (snd (bind m f s)) = w_db s \<and> w_last_id (snd (bind m f s)) = w_last_id s \<and>
        w_configured (snd (bind m f s)) = w_configured s"
    using only_extD [OF assms(1) m] assms(2) by (cases r) (simp_all add: bind_def m only_ext_def)
qed

lemma only_ext_try_except [only_ext_rules]:
  assumes "only_ext m" and "\<And>x. only_ext (h x)"
  shows "only_ext (try_except m h)"
  unfolding only_ext_def
proof
  fix s
  obtain r s' where m: "m s = (r, s')" by (cases "m s")
  show "w_db (snd (try_except m h s)) = w_db s \<and> w_last_id (snd (try_except m h s)) = w_last_id s \<and>
        w_configured (snd (try_except m h s)) = w_configured s"
    using only_extD [OF assms(1) m] assms(2) by (cases r) (simp_all add: try_except_def m only_ext_def)
qed

lemma only_ext_if [only_ext_rules]: "only_ext m \<Longrightarrow> only_ext n \<Longrightarrow> only_ext (if b then m else n)"
  by simp

lemma only_ext_option [only_ext_rules]:
  "only_ext m \<Longrightarrow> (\<And>y. only_ext (f y)) \<Longrightarrow> only_ext (case x of None \<Rightarrow> m | Some y \<Rightarrow> f y)"
  by (cases x) simp_all

lemma only_ext_lift_result [only_ext_rules]: "only_ext (lift_result r)"
  by (cases r) (simp_all add: lift_result_def only_ext_rules)

lemma only_ext_token_bytes [only_ext_rules]: "only_ext (token_bytes e n)"
  by (induction n) (simp_all add: only_ext_rules)

lemma only_ext_token_urlsafe [only_ext_rules]: "only_ext (token_urlsafe e n)"
  by (simp add: token_urlsafe_def only_ext_rules)

lemma only_ext_generate_secure_key [only_ext_rules]: "only_ext (generate_secure_key e p n)"
  by (simp add: generate_secure_key_def only_ext_rules)

lemma only_ext_now_naive [only_ext_rules]: "only_ext (now_naive e)"
  by (simp add: now_naive_def only_ext_rules)

lemma only_ext_db_now [only_ext_rules]: "only_ext (db_now e)"
  by (simp add: db_now_def only_ext_rules)

lemma only_ext_ensure_configured [only_ext_rules]: "only_ext (ensure_configured e)"
  unfolding ensure_configured_def by (intro only_ext_rules)

section \<open>Facts about the session and the helpers\<close>

lemma commit_ok:
  "commit e d' s = (Inr u, s') \<longleftrightarrow>
     check_pending e (w_db s) d' = None \<and> s' = s\<lparr>w_db := d'\<rparr>"
  by (auto simp: commit_def split: option.splits)

lemma commit_exn:
  "commit e d' s = (Inl x, s') \<longleftrightarrow> check_pending e (w_db s) d' = Some x \<and> s' = s"
  by (auto simp: commit_def split: option.splits)

lemma flush_ok: "flush e d' s = (Inr u, s') \<longleftrightarrow> check_pending e (w_db s) d' = None \<and> s' = s"
  by (auto simp: flush_def split: option.splits)

lemma flush_exn: "flush e d' s = (Inl x, s') \<longleftrightarrow> check_pending e (w_db s) d' = Some x \<and> s' = s"
  by (auto simp: flush_def split: option.splits)

lemma check_pending_None:
  "check_pending e d d' = None \<longleftrightarrow> e_commit_fails e d d' = None \<and> schema_ok d'"
  by (auto simp: check_pending_def schema_ok_def split: option.splits)

lemma check_pending_sql: "check_pending e d d' = Some x \<Longrightarrow> is_sqlalchemy_error x"
  by (auto simp: check_pending_def split: option.splits if_splits)

lemma integrity_failure_sql [simp]: "is_sqlalchemy_error (integrity_failure e d)"
  by (simp add: integrity_failure_def split: option.split)

lemma next_id_apply:
  "next_id e tb s = (Inr i, s') \<Longrightarrow>
     i > w_last_id s tb \<and> w_db s' = w_db s \<and> w_last_id s' = (w_last_id s)(tb := i) \<and>
     w_configured s' = w_configured s"
  by (auto simp: next_id_def Let_def split: prod.splits)

lemma next_id_no_exn [simp]: "next_id e tb s \<noteq> (Inl x, s')"
  by (simp add: next_id_def Let_def split: prod.splits)

lemma external_read_no_exn [simp]: "external_read f s \<noteq> (Inl x, s')"
  by (simp add: external_read_def split: prod.splits)

lemma now_naive_no_exn [simp]: "now_naive e s \<noteq> (Inl x, s')"
  by (simp add: now_naive_def)

lemma next_id_returns:
  obtains i s' where "next_id e tb s = (Inr i, s')"
  using that by (cases "next_id e tb s") (metis next_id_no_exn sum.exhaust)

lemma now_naive_returns:
  obtains t s' where "now_naive e s = (Inr t, s')"
  using that by (cases "now_naive e s") (metis now_naive_no_exn sum.exhaust)

lemma db_now_returns:
  obtains t s' where "db_now e s = (Inr t, s')"
  using that by (cases "db_now e s") (metis db_now_def external_read_no_exn sum.exhaust)

lemma commit_apply:
  "commit e d' s = (case check_pending e (w_db s) d' of None \<Rightarrow> (Inr (), s\<lparr>w_db := d'\<rparr>) | Some x \<Rightarrow> (Inl x, s))"
  by (simp add: commit_def split: option.splits)

lemma token_bytes_length: "token_bytes e n s = (r, s') \<Longrightarrow> \<exists>bs. r = Inr bs \<and> length bs = n"
proof (induction n arbitrary: s r s')
  case 0
  then show ?case by (simp add: ret_def)
next
  case (Suc n)
  then show ?case
    by (fastforce simp: bind_def ret_def external_read_def split: prod.splits sum.splits)
qed

lemma token_urlsafe_length:
  "token_urlsafe e n s = (r, s') \<Longrightarrow> \<exists>t. r = Inr t \<and> length t = (4 * n + 2) div 3"
  by (auto simp: token_urlsafe_def bind_def ret_def length_urlsafe_token
      dest!: token_bytes_length split: prod.splits sum.splits)

lemma generate_secure_key_shape:
  "generate_secure_key e p n s = (r, s') \<Longrightarrow>
     \<exists>t. r = Inr (p @ ''_'' @ t) \<and> length t = (4 * n + 2) div 3"
  by (auto simp: generate_secure_key_def bind_def ret_def
      dest!: token_urlsafe_length split: prod.splits sum.splits)

lemma hash_api_key_length: "hash_api_key k sec = Inr h \<Longrightarrow> length h = 64"
  by (auto simp: hash_api_key_def split: option.splits)

end
