(* ===== verification/K8sResources.thy ===== *)
theory K8sResources
  imports World
begin

text \<open>
  \<open>control_plane/app/k8s_resources.py\<close>: the functions that make the cluster hold what a tenant
  needs. The bodies of the objects are definitions of their own; the operations send them in the
  code's order, each in its own \<open>try\<close> that swallows a 409 answer. What the API server does with a
  request is the parameter \<open>env\<close>.
\<close>

section \<open>Constants\<close>

definition TENANT_QUOTA_HARD :: dict where
  "TENANT_QUOTA_HARD =
     [(''requests.cpu'', ''2''), (''requests.memory'', ''4Gi''),
      (''limits.cpu'', ''4''), (''limits.memory'', ''8Gi''), (''pods'', ''20'')]"

definition TENANT_CONTAINER_REQUESTS :: dict where
  "TENANT_CONTAINER_REQUESTS = [(''cpu'', ''100m''), (''memory'', ''128Mi'')]"

definition TENANT_CONTAINER_LIMITS :: dict where
  "TENANT_CONTAINER_LIMITS = [(''cpu'', ''500m''), (''memory'', ''512Mi'')]"

definition REGISTRY_SECRET_NAME :: string where
  "REGISTRY_SECRET_NAME = ''tenant-registry-credentials''"

definition TENANT_SERVICE_ACCOUNT_NAME :: string where
  "TENANT_SERVICE_ACCOUNT_NAME = ''tenant-build-sa''"

definition TENANT_APP_NAME :: string where
  "TENANT_APP_NAME = ''tenant-app''"

definition TENANT_APP_PORT :: int where
  "TENANT_APP_PORT = 8080"

definition TENANT_VIEWER_SERVICE_ACCOUNT_NAME :: string where
  "TENANT_VIEWER_SERVICE_ACCOUNT_NAME = ''tenant-viewer-sa''"

definition TENANT_VIEWER_ROLE_NAME :: string where
  "TENANT_VIEWER_ROLE_NAME = ''tenant-viewer-role''"

section \<open>Bodies of the namespace objects\<close>

definition json_opt :: "string option \<Rightarrow> json" where
  "json_opt x = (case x of None \<Rightarrow> JNull | Some s \<Rightarrow> JStr s)"

text \<open>A \<open>None\<close> key is printed as \<open>null\<close> by \<open>json.dumps\<close>.\<close>

definition docker_config_json :: "config \<Rightarrow> string" where
  "docker_config_json c =
     (let auth = b64encode (encode (show_opt (REGISTRY_USERNAME c) @ '':'' @ show_opt (REGISTRY_PASSWORD c)));
          server = (case REGISTRY_SERVER c of None \<Rightarrow> ''null'' | Some s \<Rightarrow> s)
      in dumps (JObj [(''auths'', JObj [(server, JObj
           [(''username'', json_opt (REGISTRY_USERNAME c)),
            (''password'', json_opt (REGISTRY_PASSWORD c)),
            (''auth'', JStr auth)])])]))"

definition tenant_namespace_body :: "string \<Rightarrow> object_meta" where
  "tenant_namespace_body ns =
     \<lparr>om_name = Some ns, om_namespace = None,
      om_labels = Some [(''pod-security.kubernetes.io/enforce'', ''restricted'')]\<rparr>"

definition tenant_quota_body :: "string \<Rightarrow> resource_quota" where
  "tenant_quota_body ns =
     \<lparr>rq_metadata = named_meta ''tenant-quota'' ns, rq_hard = TENANT_QUOTA_HARD\<rparr>"

definition tenant_limit_range_body :: "string \<Rightarrow> limit_range" where
  "tenant_limit_range_body ns =
     \<lparr>lr_metadata = named_meta ''tenant-limit-range'' ns,
      lr_limits = [\<lparr>lri_type = ''Container'',
                    lri_default = [(''cpu'', ''500m''), (''memory'', ''512Mi'')],
                    lri_default_request = [(''cpu'', ''100m''), (''memory'', ''128Mi'')]\<rparr>]\<rparr>"

definition dns_egress_rules :: "string option \<Rightarrow> policy_rule list" where
  "dns_egress_rules dns_ip =
     (case dns_ip of
        None \<Rightarrow> []
      | Some ip \<Rightarrow>
          if ip = [] then []
          else [\<lparr>pr_cidrs = [ip @ ''/32''],
                 pr_ports = [\<lparr>pp_protocol = ''UDP'', pp_port = 53\<rparr>,
                             \<lparr>pp_protocol = ''TCP'', pp_port = 53\<rparr>]\<rparr>])"

definition default_deny_policy :: "string \<Rightarrow> string option \<Rightarrow> network_policy" where
  "default_deny_policy ns dns_ip =
     \<lparr>np_metadata = named_meta ''tenant-default-deny'' ns,
      np_pod_selector = None,
      np_policy_types = [''Ingress'', ''Egress''],
      np_ingress = [],
      np_egress = dns_egress_rules dns_ip\<rparr>"

definition registry_secret_body :: "config \<Rightarrow> string \<Rightarrow> secret" where
  "registry_secret_body c ns =
     \<lparr>sec_metadata = named_meta REGISTRY_SECRET_NAME ns,
      sec_type = ''kubernetes.io/dockerconfigjson'',
      sec_string_data = [(''.dockerconfigjson'', docker_config_json c)]\<rparr>"

definition build_service_account_body :: "string \<Rightarrow> service_account" where
  "build_service_account_body ns =
     \<lparr>sa_metadata = named_meta TENANT_SERVICE_ACCOUNT_NAME ns,
      sa_secrets = Some [REGISTRY_SECRET_NAME],
      sa_image_pull_secrets = Some [REGISTRY_SECRET_NAME]\<rparr>"

section \<open>Namespace operations\<close>

text \<open>\<open>except ApiException as e: if e.status!=409: raise\<close>.\<close>

definition ignore_conflict :: "('s, unit) py \<Rightarrow> ('s, unit) py" where
  "ignore_conflict m =
     try_except m (\<lambda>x. case x of
       ApiException st _ \<Rightarrow> if st \<noteq> 409 then raise x else ret ()
     | _ \<Rightarrow> raise x)"

definition create :: "'w env \<Rightarrow> string option \<Rightarrow> k8s_object \<Rightarrow> ('w world, unit) py" where
  "create e ns obj = external (e_create e ns obj)"

definition cluster_dns_ip :: "'w env \<Rightarrow> ('w world, string option) py" where
  "cluster_dns_ip e =
     andthen (get_core_v1_api e)
       (try_except (external (e_read_service_cluster_ip e ''kube-dns'' ''kube-system''))
          (\<lambda>x. case x of ApiException _ _ \<Rightarrow> ret None | _ \<Rightarrow> raise x))"

definition ensure_tenant_namespace :: "'w env \<Rightarrow> string \<Rightarrow> ('w world, unit) py" where
  "ensure_tenant_namespace e ns =
     andthen (get_core_v1_api e)
    (andthen (ignore_conflict (create e None (Namespace (tenant_namespace_body ns))))
    (andthen (ignore_conflict (create e (Some ns) (ResourceQuota (tenant_quota_body ns))))
    (andthen (ignore_conflict (create e (Some ns) (LimitRange (tenant_limit_range_body ns))))
    (andthen (ignore_conflict
                (andthen (get_networking_v1_api e)
                  (bind (cluster_dns_ip e) (\<lambda>dns_ip.
                     create e (Some ns) (NetworkPolicy (default_deny_policy ns dns_ip))))))
    (andthen (ignore_conflict (create e (Some ns) (Secret (registry_secret_body (e_cfg e) ns))))
             (ignore_conflict (create e (Some ns) (ServiceAccount (build_service_account_body ns)))))))))"

section \<open>kpack images\<close>

text \<open>Python's truth value of an optional string.\<close>

definition truthy :: "string option \<Rightarrow> bool" where
  "truthy x = (case x of None \<Rightarrow> False | Some s \<Rightarrow> s \<noteq> [])"

definition kpack_image_manifest ::
  "config \<Rightarrow> string \<Rightarrow> string \<Rightarrow> string \<Rightarrow> string \<Rightarrow> string \<Rightarrow> string option \<Rightarrow> json" where
  "kpack_image_manifest c ns image_name git_url git_revision image_tag git_sub_path =
     (let git = (''git'', JObj [(''url'', JStr git_url), (''revision'', JStr git_revision)]);
          source = (if truthy git_sub_path then [git, (''subPath'', json_opt git_sub_path)] else [git])
      in JObj
        [(''apiVersion'', JStr (KPACK_GROUP @ ''/'' @ KPACK_VERSION)),
         (''kind'', JStr ''Image''),
         (''metadata'', JObj [(''name'', JStr image_name), (''namespace'', JStr ns)]),
         (''spec'', JObj
           [(''tag'', JStr (show_opt (IMAGE_REGISTRY c) @ '':'' @ image_tag)),
            (''serviceAccountName'', JStr TENANT_SERVICE_ACCOUNT_NAME),
            (''builder'', JObj [(''name'', JStr (PLATFORM_CLUSTER_BUILDER_NAME c)),
                                (''kind'', JStr ''ClusterBuilder'')]),
            (''source'', JObj source)])])"

definition create_kpack_image ::
  "'w env \<Rightarrow> string \<Rightarrow> string \<Rightarrow> string \<Rightarrow> string \<Rightarrow> string \<Rightarrow> string option \<Rightarrow> ('w world, unit) py" where
  "create_kpack_image e ns image_name git_url git_revision image_tag git_sub_path =
     andthen (get_custom_objects_api e)
       (create e (Some ns) (CustomObject KPACK_GROUP KPACK_VERSION ''images''
          (kpack_image_manifest (e_cfg e) ns image_name git_url git_revision image_tag git_sub_path)))"

text \<open>The dicts \<open>get_build_status\<close> returns: \<open>ready\<close> None, True or False with what goes with each.\<close>

datatype build_poll = BuildNotReady string | BuildReady "string option" | BuildNotOk string

definition orelse :: "'a option \<Rightarrow> 'a \<Rightarrow> 'a" where
  "orelse x d = (case x of None \<Rightarrow> d | Some v \<Rightarrow> v)"

definition image_build_poll :: "image_view \<Rightarrow> build_poll" where
  "image_build_poll img =
     (let status = orelse (iv_status img) \<lparr>is_conditions = None, is_latest_image = None\<rparr>;
          conditions = orelse (is_conditions status) []
      in case find (\<lambda>c. ic_type c = Some ''Ready'') conditions of
           None \<Rightarrow> BuildNotReady ''no Ready condition yet''
         | Some c \<Rightarrow>
             if ic_status c = Some ''True'' then BuildReady (is_latest_image status)
             else if ic_status c = Some ''False'' then BuildNotOk (orelse (ic_message c) ''build failed'')
             else BuildNotReady (orelse (ic_message c) ''build in progress''))"

definition get_build_status :: "'w env \<Rightarrow> string \<Rightarrow> string \<Rightarrow> ('w world, build_poll) py" where
  "get_build_status e ns image_name =
     andthen (get_custom_objects_api e)
       (try_except
          (bind (external (e_get_custom_object e KPACK_GROUP KPACK_VERSION ns ''images'' image_name))
             (\<lambda>img. ret (image_build_poll img)))
          (\<lambda>x. case x of
             ApiException st _ \<Rightarrow>
               if st = 404 then ret (BuildNotReady ''Image resource not found yet'') else raise x
           | _ \<Rightarrow> raise x))"

section \<open>Deployments\<close>

definition tenant_container :: "string option \<Rightarrow> container" where
  "tenant_container img =
     \<lparr>c_name = ''app'', c_image = img,
      c_ports = [\<lparr>cp_container_port = TENANT_APP_PORT, cp_host_port = None\<rparr>],
      c_security_context = Some
        \<lparr>sc_privileged = None, sc_run_as_non_root = Some True, sc_run_as_user = None,
         sc_allow_privilege_escalation = Some False,
         sc_capabilities = Some \<lparr>cap_add = None, cap_drop = Some [''ALL'']\<rparr>,
         sc_seccomp_profile = Some ''RuntimeDefault''\<rparr>,
      c_requests = TENANT_CONTAINER_REQUESTS, c_limits = TENANT_CONTAINER_LIMITS\<rparr>"

definition tenant_pod_spec :: "string option \<Rightarrow> pod_spec" where
  "tenant_pod_spec img =
     \<lparr>ps_containers = [tenant_container img], ps_init_containers = [],
      ps_service_account_name = Some TENANT_SERVICE_ACCOUNT_NAME,
      ps_automount_service_account_token = Some False,
      ps_security_context = Some
        \<lparr>psc_run_as_non_root = Some True, psc_run_as_user = None,
         psc_seccomp_profile = Some ''RuntimeDefault''\<rparr>,
      ps_host_network = None, ps_host_pid = None, ps_host_ipc = None, ps_volumes = []\<rparr>"

definition tenant_deployment_body :: "string \<Rightarrow> string option \<Rightarrow> int \<Rightarrow> string \<Rightarrow> k8s_deployment" where
  "tenant_deployment_body ns img replica_count deployment_name =
     \<lparr>kd_metadata = named_meta deployment_name ns,
      kd_replicas = replica_count,
      kd_match_labels = [(''app'', deployment_name)],
      kd_template_labels = [(''app'', deployment_name)],
      kd_pod_spec = tenant_pod_spec img\<rparr>"

definition deployment_patch :: "string option \<Rightarrow> int \<Rightarrow> json" where
  "deployment_patch img replica_count =
     JObj [(''spec'', JObj
       [(''replicas'', JInt replica_count),
        (''template'', JObj [(''spec'', JObj [(''containers'', JArr
           [JObj [(''name'', JStr ''app''), (''image'', json_opt img)]])])])])]"

definition tenant_service_body :: "string \<Rightarrow> string \<Rightarrow> k8s_service" where
  "tenant_service_body ns deployment_name =
     \<lparr>svc_metadata = named_meta deployment_name ns,
      svc_selector = [(''app'', deployment_name)],
      svc_ports = [(TENANT_APP_PORT, TENANT_APP_PORT)]\<rparr>"

definition create_tenant_deployment ::
  "'w env \<Rightarrow> string \<Rightarrow> string option \<Rightarrow> int \<Rightarrow> string \<Rightarrow> ('w world, unit) py" where
  "create_tenant_deployment e ns img replica_count deployment_name =
     andthen (get_apps_v1_api e)
    (andthen (get_core_v1_api e)
    (andthen
       (try_except
          (create e (Some ns) (Deployment (tenant_deployment_body ns img replica_count deployment_name)))
          (\<lambda>x. case x of
             ApiException st _ \<Rightarrow>
               if st \<noteq> 409 then raise x
               else external (e_patch_deployment e deployment_name ns
                                (deployment_patch img replica_count))
           | _ \<Rightarrow> raise x))
       (ignore_conflict (create e (Some ns) (Service (tenant_service_body ns deployment_name))))))"

text \<open>The dicts \<open>get_deployment_status\<close> returns: \<open>running\<close> None, True or False.\<close>

datatype rollout = RolloutUnknown string | RolloutRunning | RolloutFailed string

definition deployment_rollout :: "deployment_view \<Rightarrow> rollout" where
  "deployment_rollout dep =
     (let desired = orelse (dv_spec_replicas dep) 0;
          ready = orelse (dv_ready_replicas dep) 0
      in if ready \<ge> desired \<and> desired > 0 then RolloutRunning
         else
           (let conditions = orelse (dv_conditions dep) []
            in case find (\<lambda>c. dc_type c = ''Progressing'') conditions of
                 Some c \<Rightarrow>
                   if dc_status c = ''False''
                   then RolloutFailed (if truthy (dc_message c) then orelse (dc_message c) []
                                       else ''deployment failed to progress'')
                   else RolloutUnknown (show_int ready @ ''/'' @ show_int desired @ '' replicas ready'')
               | None \<Rightarrow> RolloutUnknown (show_int ready @ ''/'' @ show_int desired @ '' replicas ready'')))"

definition get_deployment_status :: "'w env \<Rightarrow> string \<Rightarrow> string \<Rightarrow> ('w world, rollout) py" where
  "get_deployment_status e ns deployment_name =
     andthen (get_apps_v1_api e)
       (try_except
          (bind (external (e_read_deployment e deployment_name ns))
             (\<lambda>dep. ret (deployment_rollout dep)))
          (\<lambda>x. case x of
             ApiException st _ \<Rightarrow>
               if st = 404 then ret (RolloutUnknown ''Deployment not found yet'') else raise x
           | _ \<Rightarrow> raise x))"

section \<open>Tenant credentials\<close>

definition viewer_service_account_body :: "string \<Rightarrow> service_account" where
  "viewer_service_account_body ns =
     \<lparr>sa_metadata = named_meta TENANT_VIEWER_SERVICE_ACCOUNT_NAME ns,
      sa_secrets = None, sa_image_pull_secrets = None\<rparr>"

definition viewer_role_body :: "string \<Rightarrow> role" where
  "viewer_role_body ns =
     \<lparr>ro_metadata = named_meta TENANT_VIEWER_ROLE_NAME ns,
      ro_rules = [\<lparr>rr_api_groups = [''''], rr_resources = [''pods'', ''pods/log''],
                   rr_verbs = [''get'', ''list'']\<rparr>]\<rparr>"

definition viewer_binding_body :: "string \<Rightarrow> role_binding" where
  "viewer_binding_body ns =
     \<lparr>rb_metadata = named_meta ''tenant-viewer-binding'' ns,
      rb_subjects = [\<lparr>su_kind = ''ServiceAccount'', su_name = TENANT_VIEWER_SERVICE_ACCOUNT_NAME,
                      su_namespace = ns\<rparr>],
      rb_role_ref_api_group = ''rbac.authorization.k8s.io'',
      rb_role_ref_kind = ''Role'', rb_role_ref_name = TENANT_VIEWER_ROLE_NAME\<rparr>"

definition ensure_tenant_rbac :: "'w env \<Rightarrow> string \<Rightarrow> ('w world, unit) py" where
  "ensure_tenant_rbac e ns =
     andthen (get_core_v1_api e)
    (andthen (get_rbac_v1_api e)
    (andthen (ignore_conflict (create e (Some ns) (ServiceAccount (viewer_service_account_body ns))))
    (andthen (ignore_conflict (create e (Some ns) (Role (viewer_role_body ns))))
             (ignore_conflict (create e (Some ns) (RoleBinding (viewer_binding_body ns)))))))"

definition unlines :: "string list \<Rightarrow> string" where
  "unlines ls = concat (map (\<lambda>l. l @ [CHR 0x0A]) ls)"

definition kubeconfig_text :: "string \<Rightarrow> string \<Rightarrow> string \<Rightarrow> string \<Rightarrow> string" where
  "kubeconfig_text ns server ca_data token =
     (let context_name = ns @ ''-context'';
          cluster_name = ''tenant-cluster'';
          user_name = ns @ ''-viewer''
      in unlines
        [''apiVersion: v1'',
         ''kind: Config'',
         ''clusters:'',
         ''- name: '' @ cluster_name,
         ''  cluster:'',
         ''    server: '' @ server,
         ''    certificate-authority-data: '' @ ca_data,
         ''contexts:'',
         ''- name: '' @ context_name,
         ''  context:'',
         ''    cluster: '' @ cluster_name,
         ''    namespace: '' @ ns,
         ''    user: '' @ user_name,
         ''current-context: '' @ context_name,
         ''users:'',
         ''- name: '' @ user_name,
         ''  user:'',
         ''    token: '' @ token])"

definition mint_tenant_kubeconfig :: "'w env \<Rightarrow> string \<Rightarrow> int \<Rightarrow> ('w world, string) py" where
  "mint_tenant_kubeconfig e ns expiration_seconds =
     andthen (get_core_v1_api e)
       (bind (external (e_create_token e TENANT_VIEWER_SERVICE_ACCOUNT_NAME ns expiration_seconds))
          (\<lambda>token. bind (gets (\<lambda>s. e_default_host e (w_ext s)))
             (\<lambda>server. bind (external (e_read_ca_cert e))
                (\<lambda>ca. ret (kubeconfig_text ns server (b64encode ca) token)))))"

end
