(* ===== verification/K8sContracts.thy ===== *)
theory K8sContracts
  imports K8sResources
begin

text \<open>
  What the cluster operations of \<open>K8sResources\<close> promise. The API server is described by two
  predicates on the environment, both stating documented behaviour: \<open>api_server\<close> (a create adds
  the object, answers 409 when its name is taken, and an error creates nothing; reading local
  configuration raises no \<open>ApiException\<close>) and \<open>confined\<close> (a
  fact that every call into one namespace preserves). Then the contracts: frame, confinement,
  completeness and idempotence of the namespace and RBAC set-up, and the isolation content of the
  objects (network policy, role, pod security).
\<close>

section \<open>The API server\<close>

type_synonym object_key = "string option \<times> string \<times> string option"

definition json_name :: "json \<Rightarrow> string option" where
  "json_name j =
     (case j of
        JObj d \<Rightarrow>
          (case dict_get d ''metadata'' of
             Some (JObj m) \<Rightarrow> (case dict_get m ''name'' of Some (JStr s) \<Rightarrow> Some s | _ \<Rightarrow> None)
           | _ \<Rightarrow> None)
      | _ \<Rightarrow> None)"

definition json_namespace :: "json \<Rightarrow> string option" where
  "json_namespace j =
     (case j of
        JObj d \<Rightarrow>
          (case dict_get d ''metadata'' of
             Some (JObj m) \<Rightarrow> (case dict_get m ''namespace'' of Some (JStr s) \<Rightarrow> Some s | _ \<Rightarrow> None)
           | _ \<Rightarrow> None)
      | _ \<Rightarrow> None)"

text \<open>Kind and name of an object: with the namespace of the call, what a create collides on.\<close>

fun object_kind_name :: "k8s_object \<Rightarrow> string \<times> string option" where
  "object_kind_name (Namespace m) = (''Namespace'', om_name m)"
| "object_kind_name (ResourceQuota q) = (''ResourceQuota'', om_name (rq_metadata q))"
| "object_kind_name (LimitRange l) = (''LimitRange'', om_name (lr_metadata l))"
| "object_kind_name (NetworkPolicy p) = (''NetworkPolicy'', om_name (np_metadata p))"
| "object_kind_name (Secret x) = (''Secret'', om_name (sec_metadata x))"
| "object_kind_name (ServiceAccount a) = (''ServiceAccount'', om_name (sa_metadata a))"
| "object_kind_name (CustomObject g v p j) = (g @ ''/'' @ p, json_name j)"
| "object_kind_name (Deployment d) = (''Deployment'', om_name (kd_metadata d))"
| "object_kind_name (Service x) = (''Service'', om_name (svc_metadata x))"
| "object_kind_name (Role r) = (''Role'', om_name (ro_metadata r))"
| "object_kind_name (RoleBinding b) = (''RoleBinding'', om_name (rb_metadata b))"

definition object_key :: "string option \<Rightarrow> k8s_object \<Rightarrow> object_key" where
  "object_key ns obj = (ns, object_kind_name obj)"

definition create_outcome_ok ::
  "(object_key \<rightharpoonup> k8s_object) \<Rightarrow> object_key \<Rightarrow> k8s_object \<Rightarrow> exn + unit \<Rightarrow> (object_key \<rightharpoonup> k8s_object) \<Rightarrow> bool" where
  "create_outcome_ok before k obj r after \<longleftrightarrow>
     (case r of
        Inr _ \<Rightarrow> before k = None \<and> after = before(k \<mapsto> obj)
      | Inl x \<Rightarrow>
          (after = before \<or> before k = None \<and> after = before(k \<mapsto> obj)) \<and>
          (\<forall>m. x = ApiException 409 m \<longrightarrow> before k \<noteq> None))"

definition api_server :: "'w env \<Rightarrow> ('w \<Rightarrow> object_key \<rightharpoonup> k8s_object) \<Rightarrow> bool" where
  "api_server e view \<longleftrightarrow>
     (\<forall>ns obj w. create_outcome_ok (view w) (object_key ns obj) obj
        (fst (e_create e ns obj w)) (view (snd (e_create e ns obj w)))) \<and>
     (\<forall>src w. view (snd (e_load_config e src w)) = view w) \<and>
     (\<forall>src w st m. fst (e_load_config e src w) \<noteq> Inl (ApiException st m)) \<and>
     (\<forall>n ns w. view (snd (e_read_service_cluster_ip e n ns w)) = view w)"

text \<open>An object, and the namespace argument it is sent with, that belong to one namespace.\<close>

fun object_in :: "string \<Rightarrow> string option \<Rightarrow> k8s_object \<Rightarrow> bool" where
  "object_in ns c (Namespace m) \<longleftrightarrow> c = None \<and> om_name m = Some ns"
| "object_in ns c (ResourceQuota q) \<longleftrightarrow> c = Some ns \<and> om_namespace (rq_metadata q) = Some ns"
| "object_in ns c (LimitRange l) \<longleftrightarrow> c = Some ns \<and> om_namespace (lr_metadata l) = Some ns"
| "object_in ns c (NetworkPolicy p) \<longleftrightarrow> c = Some ns \<and> om_namespace (np_metadata p) = Some ns"
| "object_in ns c (Secret x) \<longleftrightarrow> c = Some ns \<and> om_namespace (sec_metadata x) = Some ns"
| "object_in ns c (ServiceAccount a) \<longleftrightarrow> c = Some ns \<and> om_namespace (sa_metadata a) = Some ns"
| "object_in ns c (CustomObject g v p j) \<longleftrightarrow> c = Some ns \<and> json_namespace j = Some ns"
| "object_in ns c (Deployment d) \<longleftrightarrow> c = Some ns \<and> om_namespace (kd_metadata d) = Some ns"
| "object_in ns c (Service x) \<longleftrightarrow> c = Some ns \<and> om_namespace (svc_metadata x) = Some ns"
| "object_in ns c (Role r) \<longleftrightarrow> c = Some ns \<and> om_namespace (ro_metadata r) = Some ns"
| "object_in ns c (RoleBinding b) \<longleftrightarrow> c = Some ns \<and> om_namespace (rb_metadata b) = Some ns"

text \<open>
  \<open>I\<close> is a fact about the outside world that calls into namespace \<open>ns\<close>, the lookup of the DNS
  service and the reading of local configuration preserve. Nothing is asked of other calls, so
  an operation that keeps every such \<open>I\<close> makes no other call.
\<close>

definition confined :: "'w env \<Rightarrow> string \<Rightarrow> ('w \<Rightarrow> bool) \<Rightarrow> bool" where
  "confined e ns I \<longleftrightarrow>
     (\<forall>c obj. object_in ns c obj \<longrightarrow> keeps I (e_create e c obj)) \<and>
     (\<forall>name body. keeps I (e_patch_deployment e name ns body)) \<and>
     (\<forall>name secs. keeps I (e_create_token e name ns secs)) \<and>
     (\<forall>g v p name. keeps I (e_get_custom_object e g v ns p name)) \<and>
     (\<forall>name. keeps I (e_read_deployment e name ns)) \<and>
     keeps I (e_read_service_cluster_ip e ''kube-dns'' ''kube-system'') \<and>
     (\<forall>src. keeps I (e_load_config e src)) \<and> keeps I (e_read_ca_cert e)"

section \<open>Frame: the cluster operations leave the database alone\<close>

lemma only_ext_create [only_ext_rules]: "only_ext (create e ns obj)"
  by (simp add: create_def only_ext_rules)

lemma only_ext_case_exn:
  "(\<And>st m. only_ext (f st m)) \<Longrightarrow> only_ext (case x of ApiException st m \<Rightarrow> f st m | _ \<Rightarrow> raise x)"
  by (cases x) (simp_all add: only_ext_rules)

lemma only_ext_ignore_conflict [only_ext_rules]: "only_ext m \<Longrightarrow> only_ext (ignore_conflict m)"
  unfolding ignore_conflict_def by (intro only_ext_rules only_ext_case_exn)

lemma only_ext_cluster_dns_ip [only_ext_rules]: "only_ext (cluster_dns_ip e)"
  unfolding cluster_dns_ip_def client_defs by (intro only_ext_rules only_ext_case_exn)

lemma only_ext_ensure_tenant_namespace [only_ext_rules]: "only_ext (ensure_tenant_namespace e ns)"
  unfolding ensure_tenant_namespace_def client_defs by (intro only_ext_rules)

lemma only_ext_create_kpack_image [only_ext_rules]: "only_ext (create_kpack_image e ns i u r t p)"
  unfolding create_kpack_image_def client_defs by (intro only_ext_rules)

lemma only_ext_get_build_status [only_ext_rules]: "only_ext (get_build_status e ns i)"
  unfolding get_build_status_def client_defs by (intro only_ext_rules only_ext_case_exn)

lemma only_ext_create_tenant_deployment [only_ext_rules]:
  "only_ext (create_tenant_deployment e ns i n d)"
  unfolding create_tenant_deployment_def client_defs by (intro only_ext_rules only_ext_case_exn)

lemma only_ext_get_deployment_status [only_ext_rules]: "only_ext (get_deployment_status e ns d)"
  unfolding get_deployment_status_def client_defs by (intro only_ext_rules only_ext_case_exn)

lemma only_ext_ensure_tenant_rbac [only_ext_rules]: "only_ext (ensure_tenant_rbac e ns)"
  unfolding ensure_tenant_rbac_def client_defs by (intro only_ext_rules)

lemma only_ext_mint_tenant_kubeconfig [only_ext_rules]: "only_ext (mint_tenant_kubeconfig e ns x)"
  unfolding mint_tenant_kubeconfig_def client_defs by (intro only_ext_rules)

section \<open>Confinement to one namespace\<close>

abbreviation keeps_ext :: "('w \<Rightarrow> bool) \<Rightarrow> ('w world, 'a) py \<Rightarrow> bool" where
  "keeps_ext I m \<equiv> keeps (\<lambda>s. I (w_ext s)) m"

lemma keeps_ext_external: "keeps I m \<Longrightarrow> keeps_ext I (external m)"
  by (auto simp: keeps_def external_def split: prod.splits)

lemma keeps_case_exn:
  "(\<And>st m. keeps I (f st m)) \<Longrightarrow> keeps I (case x of ApiException st m \<Rightarrow> f st m | _ \<Rightarrow> raise x)"
  by (cases x) (simp_all add: keeps_rules)

lemma keeps_ignore_conflict: "keeps I m \<Longrightarrow> keeps I (ignore_conflict m)"
  unfolding ignore_conflict_def by (intro keeps_rules keeps_case_exn)

lemma keeps_ext_ensure_configured:
  "(\<And>src. keeps I (e_load_config e src)) \<Longrightarrow> keeps_ext I (ensure_configured e)"
  unfolding ensure_configured_def by (intro keeps_rules keeps_ext_external)

lemma confinedD:
  assumes "confined e ns I"
  shows "object_in ns c obj \<Longrightarrow> keeps_ext I (create e c obj)"
    and "keeps_ext I (external (e_patch_deployment e name ns body))"
    and "keeps_ext I (external (e_create_token e name ns secs))"
    and "keeps_ext I (external (e_get_custom_object e g v ns p name))"
    and "keeps_ext I (external (e_read_deployment e name ns))"
    and "keeps_ext I (external (e_read_service_cluster_ip e ''kube-dns'' ''kube-system''))"
    and "keeps_ext I (ensure_configured e)"
    and "keeps_ext I (external (e_read_ca_cert e))"
  using assms unfolding confined_def create_def
  by (auto intro: keeps_ext_external keeps_ext_ensure_configured)

lemmas body_defs = tenant_namespace_body_def tenant_quota_body_def tenant_limit_range_body_def
  default_deny_policy_def registry_secret_body_def build_service_account_body_def
  tenant_deployment_body_def tenant_service_body_def viewer_service_account_body_def
  viewer_role_body_def viewer_binding_body_def

lemma keeps_ext_cluster_dns_ip: "confined e ns I \<Longrightarrow> keeps_ext I (cluster_dns_ip e)"
  unfolding cluster_dns_ip_def client_defs
  by (intro keeps_rules keeps_case_exn confinedD) auto

lemma json_namespace_kpack [simp]:
  "json_namespace (kpack_image_manifest c ns i u r t p) = Some ns"
  by (simp add: kpack_image_manifest_def Let_def json_namespace_def dict_get_def)

lemma confined_ensure_tenant_namespace:
  "confined e ns I \<Longrightarrow> keeps_ext I (ensure_tenant_namespace e ns)"
  unfolding ensure_tenant_namespace_def client_defs
  by (intro keeps_rules keeps_ignore_conflict confinedD keeps_ext_cluster_dns_ip)
    (auto simp: body_defs)

lemma confined_ensure_tenant_rbac: "confined e ns I \<Longrightarrow> keeps_ext I (ensure_tenant_rbac e ns)"
  unfolding ensure_tenant_rbac_def client_defs
  by (intro keeps_rules keeps_ignore_conflict confinedD) (auto simp: body_defs)

lemma confined_create_kpack_image:
  "confined e ns I \<Longrightarrow> keeps_ext I (create_kpack_image e ns i u r t p)"
  unfolding create_kpack_image_def client_defs by (intro keeps_rules confinedD) auto

lemma confined_create_tenant_deployment:
  "confined e ns I \<Longrightarrow> keeps_ext I (create_tenant_deployment e ns i n d)"
  unfolding create_tenant_deployment_def client_defs
  by (intro keeps_rules keeps_case_exn keeps_ignore_conflict confinedD) (auto simp: body_defs)

lemma confined_get_build_status: "confined e ns I \<Longrightarrow> keeps_ext I (get_build_status e ns i)"
  unfolding get_build_status_def client_defs by (intro keeps_rules keeps_case_exn confinedD)

lemma confined_get_deployment_status:
  "confined e ns I \<Longrightarrow> keeps_ext I (get_deployment_status e ns d)"
  unfolding get_deployment_status_def client_defs by (intro keeps_rules keeps_case_exn confinedD)

lemma confined_mint_tenant_kubeconfig:
  "confined e ns I \<Longrightarrow> keeps_ext I (mint_tenant_kubeconfig e ns x)"
  unfolding mint_tenant_kubeconfig_def client_defs by (intro keeps_rules confinedD)

section \<open>Completeness and idempotence of the set-up\<close>

text \<open>
  The objects of a tenant namespace, by key. \<open>m ++ n\<close> gives \<open>n\<close> precedence, so
  \<open>tenant_objects c ns dns ++ v\<close> is the view \<open>v\<close> with exactly the missing objects added.
\<close>

definition tenant_object_list :: "config \<Rightarrow> string \<Rightarrow> string option \<Rightarrow> (string option \<times> k8s_object) list" where
  "tenant_object_list c ns dns =
     [(None, Namespace (tenant_namespace_body ns)),
      (Some ns, ResourceQuota (tenant_quota_body ns)),
      (Some ns, LimitRange (tenant_limit_range_body ns)),
      (Some ns, NetworkPolicy (default_deny_policy ns dns)),
      (Some ns, Secret (registry_secret_body c ns)),
      (Some ns, ServiceAccount (build_service_account_body ns))]"

definition viewer_object_list :: "string \<Rightarrow> (string option \<times> k8s_object) list" where
  "viewer_object_list ns =
     [(Some ns, ServiceAccount (viewer_service_account_body ns)),
      (Some ns, Role (viewer_role_body ns)),
      (Some ns, RoleBinding (viewer_binding_body ns))]"

definition keyed :: "(string option \<times> k8s_object) list \<Rightarrow> object_key \<rightharpoonup> k8s_object" where
  "keyed os = map_of (map (\<lambda>(c, obj). (object_key c obj, obj)) os)"

abbreviation tenant_objects :: "config \<Rightarrow> string \<Rightarrow> string option \<Rightarrow> object_key \<rightharpoonup> k8s_object" where
  "tenant_objects c ns dns \<equiv> keyed (tenant_object_list c ns dns)"

lemma keyed_dom: "dom (keyed os) = (\<lambda>(c, obj). object_key c obj) ` set os"
  by (force simp: keyed_def dom_map_of_conv_image_fst image_image split_def)

lemma tenant_object_keys:
  "(\<lambda>(c, obj). object_key c obj) ` set (tenant_object_list cfg ns dns) =
   (\<lambda>(c, obj). object_key c obj) ` set (tenant_object_list cfg ns dns')"
  by (simp add: tenant_object_list_def object_key_def default_deny_policy_def)

lemma keyed_tenant_dom:
  assumes "(c, obj) \<in> set (tenant_object_list cfg ns dns)"
  shows "(keyed (tenant_object_list cfg ns dns') ++ v) (object_key c obj) \<noteq> None"
proof -
  from assms have "object_key c obj \<in> dom (keyed (tenant_object_list cfg ns dns'))"
    unfolding keyed_dom tenant_object_keys [of cfg ns dns' dns] by force
  then show ?thesis by (auto simp: map_add_None)
qed

text \<open>The set-up on a cluster whose API server behaves as documented.\<close>

locale cluster =
  fixes e :: "'w env" and view :: "'w \<Rightarrow> object_key \<rightharpoonup> k8s_object"
  assumes server: "api_server e view"
begin

lemma api_server_create:
  assumes "create e c obj s = (r, s')"
  shows "create_outcome_ok (view (w_ext s)) (object_key c obj) obj r (view (w_ext s'))"
  using server assms by (auto simp: api_server_def create_def external_def split: prod.splits)
    (metis fst_conv snd_conv)

lemma api_server_configured:
  assumes "ensure_configured e s = (r, s')"
  shows "view (w_ext s') = view (w_ext s)" and "r \<noteq> Inl (ApiException st m)"
  using server assms
  by (auto simp: api_server_def ensure_configured_def external_def py_simps
      split: if_splits prod.splits) (metis fst_conv snd_conv)+

lemma api_server_dns:
  assumes "cluster_dns_ip e s = (r, s')"
  shows "view (w_ext s') = view (w_ext s)" and "r \<noteq> Inl (ApiException st m)"
proof -
  obtain r1 s1 where c: "ensure_configured e s = (r1, s1)" by (cases "ensure_configured e s")
  note cfg = api_server_configured [OF c]
  have rd: "view (snd (e_read_service_cluster_ip e n k w)) = view w" for n k w
    using server by (simp add: api_server_def)
  have "view (w_ext s') = view (w_ext s) \<and> r \<noteq> Inl (ApiException st m)"
    using assms c cfg(1) cfg(2) [of st m]
      rd [of "''kube-dns''" "''kube-system''" "w_ext s1"]
    by (auto simp: cluster_dns_ip_def client_defs py_simps external_def
        split: sum.splits prod.splits exn.splits)
  then show "view (w_ext s') = view (w_ext s)" and "r \<noteq> Inl (ApiException st m)" by simp_all
qed

lemma ensure_step:
  assumes "ignore_conflict (create e c obj) s = (Inr u, s')"
  shows "view (w_ext s') = [object_key c obj \<mapsto> obj] ++ view (w_ext s)"
proof -
  obtain r1 s1 where c: "create e c obj s = (r1, s1)" by (cases "create e c obj s")
  from api_server_create [OF c] assms c show ?thesis
    by (auto simp: ignore_conflict_def py_simps create_outcome_ok_def map_add_def fun_eq_iff
        split: sum.splits exn.splits if_splits option.splits)
qed

lemma ensure_policy_step:
  assumes "ignore_conflict (andthen (ensure_configured e)
           (bind (cluster_dns_ip e) (\<lambda>dns. create e c (f dns)))) s = (Inr u, s')"
    and "\<And>dns dns'. object_key c (f dns) = object_key c (f dns')"
  shows "\<exists>dns. view (w_ext s') = [object_key c (f dns) \<mapsto> f dns] ++ view (w_ext s)"
proof -
  obtain r1 s1 where c: "ensure_configured e s = (r1, s1)" by (cases "ensure_configured e s")
  note cfg = api_server_configured [OF c]
  obtain r2 s2 where d: "cluster_dns_ip e s1 = (r2, s2)" by (cases "cluster_dns_ip e s1")
  note dns = api_server_dns [OF d]
  from assms(1) c d cfg(2) dns(2) obtain ip where
    step: "ignore_conflict (create e c (f ip)) s2 = (Inr u, s')"
    by (auto simp: ignore_conflict_def py_simps split: sum.splits exn.splits if_splits)
  from ensure_step [OF step] cfg(1) dns(1) show ?thesis by auto
qed

lemma ensure_tenant_namespace_view:
  assumes "ensure_tenant_namespace e ns s = (Inr u, s')"
  shows "\<exists>dns. view (w_ext s') = tenant_objects (e_cfg e) ns dns ++ view (w_ext s)"
proof -
  note E = ensure_step
  from assms obtain s0 s1 s2 s3 s4 s5 u0 u1 u2 u3 u4 u5 where
    c0: "ensure_configured e s = (Inr u0, s0)" and
    c1: "ignore_conflict (create e None (Namespace (tenant_namespace_body ns))) s0 = (Inr u1, s1)" and
    c2: "ignore_conflict (create e (Some ns) (ResourceQuota (tenant_quota_body ns))) s1 = (Inr u2, s2)" and
    c3: "ignore_conflict (create e (Some ns) (LimitRange (tenant_limit_range_body ns))) s2 = (Inr u3, s3)" and
    c4: "ignore_conflict (andthen (ensure_configured e) (bind (cluster_dns_ip e) (\<lambda>dns.
           create e (Some ns) (NetworkPolicy (default_deny_policy ns dns))))) s3 = (Inr u4, s4)" and
    c5: "ignore_conflict (create e (Some ns) (Secret (registry_secret_body (e_cfg e) ns))) s4 = (Inr u5, s5)" and
    c6: "ignore_conflict (create e (Some ns) (ServiceAccount (build_service_account_body ns))) s5 = (Inr u, s')"
    unfolding ensure_tenant_namespace_def client_defs by (auto elim!: bind_InrE)
  obtain dns where p: "view (w_ext s4) =
      [object_key (Some ns) (NetworkPolicy (default_deny_policy ns dns))
         \<mapsto> NetworkPolicy (default_deny_policy ns dns)] ++ view (w_ext s3)"
    using ensure_policy_step [OF c4] by (auto simp: object_key_def body_defs)
  show ?thesis
    by (rule exI [of _ dns])
      (simp add: keyed_def tenant_object_list_def E [OF c6] E [OF c5] p E [OF c3] E [OF c2] E [OF c1]
        api_server_configured(1) [OF c0] map_add_upd_left map_add_assoc [symmetric])
qed

lemma ensure_tenant_rbac_view:
  assumes "ensure_tenant_rbac e ns s = (Inr u, s')"
  shows "view (w_ext s') = keyed (viewer_object_list ns) ++ view (w_ext s)"
proof -
  note E = ensure_step and C = api_server_configured(1)
  from assms obtain s0 s1 s2 s3 u0 u1 u2 u3 where
    c0: "ensure_configured e s = (Inr u0, s0)" and
    c1: "ensure_configured e s0 = (Inr u1, s1)" and
    c2: "ignore_conflict (create e (Some ns) (ServiceAccount (viewer_service_account_body ns))) s1 = (Inr u2, s2)" and
    c3: "ignore_conflict (create e (Some ns) (Role (viewer_role_body ns))) s2 = (Inr u3, s3)" and
    c4: "ignore_conflict (create e (Some ns) (RoleBinding (viewer_binding_body ns))) s3 = (Inr u, s')"
    unfolding ensure_tenant_rbac_def client_defs by (auto elim!: bind_InrE)
  show ?thesis
    by (simp add: keyed_def viewer_object_list_def E [OF c4] E [OF c3] E [OF c2] C [OF c1] C [OF c0]
        map_add_upd_left map_add_assoc [symmetric])
qed

lemma keeps_view_create:
  assumes "v (object_key c obj) \<noteq> None"
  shows "keeps_ext (\<lambda>w. view w = v) (create e c obj)"
proof (rule keepsI)
  fix s :: "'w world"
  assume s: "view (w_ext s) = v"
  obtain r s' where c: "create e c obj s = (r, s')" by (cases "create e c obj s")
  from api_server_create [OF c] assms s c show "view (w_ext (snd (create e c obj s))) = v"
    by (auto simp: create_outcome_ok_def split: sum.splits)
qed

lemma keeps_view_configured:
  "keeps_ext (\<lambda>w. view w = v) (ensure_configured e)"
  by (rule keepsI) (metis api_server_configured(1) prod.collapse)

lemma keeps_view_dns: "keeps_ext (\<lambda>w. view w = v) (cluster_dns_ip e)"
  by (rule keepsI) (metis api_server_dns(1) prod.collapse)

lemma ensure_tenant_namespace_again:
  assumes "v = tenant_objects (e_cfg e) ns dns ++ v0"
  shows "keeps_ext (\<lambda>w. view w = v) (ensure_tenant_namespace e ns)"
proof -
  have K: "keeps_ext (\<lambda>w. view w = v) (create e c obj)"
    if "(c, obj) \<in> set (tenant_object_list (e_cfg e) ns dns')" for c obj dns'
    unfolding assms by (rule keeps_view_create, rule keyed_tenant_dom [OF that])
  show ?thesis
    unfolding ensure_tenant_namespace_def client_defs
    by (intro keeps_rules keeps_ignore_conflict keeps_view_configured
        keeps_view_dns; rule K; simp add: tenant_object_list_def)
qed

end

section \<open>What the objects allow\<close>

text \<open>
  A rule of a network policy matches a peer and a port; an empty list of peers or of ports matches
  all of them. A policy whose \<open>policyTypes\<close> name a direction denies what no rule of it allows.
\<close>

definition rule_matches :: "policy_rule \<Rightarrow> string \<Rightarrow> string \<Rightarrow> int \<Rightarrow> bool" where
  "rule_matches r cidr proto port \<longleftrightarrow>
     (pr_cidrs r = [] \<or> cidr \<in> set (pr_cidrs r)) \<and>
     (pr_ports r = [] \<or> (\<exists>p \<in> set (pr_ports r). pp_protocol p = proto \<and> pp_port p = port))"

definition egress_allowed :: "network_policy \<Rightarrow> string \<Rightarrow> string \<Rightarrow> int \<Rightarrow> bool" where
  "egress_allowed np cidr proto port \<longleftrightarrow>
     ''Egress'' \<notin> set (np_policy_types np) \<or> (\<exists>r \<in> set (np_egress np). rule_matches r cidr proto port)"

definition ingress_allowed :: "network_policy \<Rightarrow> string \<Rightarrow> string \<Rightarrow> int \<Rightarrow> bool" where
  "ingress_allowed np cidr proto port \<longleftrightarrow>
     ''Ingress'' \<notin> set (np_policy_types np) \<or> (\<exists>r \<in> set (np_ingress np). rule_matches r cidr proto port)"

definition role_allows :: "role \<Rightarrow> string \<Rightarrow> string \<Rightarrow> string \<Rightarrow> bool" where
  "role_allows ro grp resource verb \<longleftrightarrow>
     (\<exists>r \<in> set (ro_rules ro).
        (grp \<in> set (rr_api_groups r) \<or> ''*'' \<in> set (rr_api_groups r)) \<and>
        (resource \<in> set (rr_resources r) \<or> ''*'' \<in> set (rr_resources r)) \<and>
        (verb \<in> set (rr_verbs r) \<or> ''*'' \<in> set (rr_verbs r)))"

text \<open>The rules of the \<open>restricted\<close> Pod Security Standard on the fields of the model.\<close>

definition restricted_container :: "pod_security_context option \<Rightarrow> container \<Rightarrow> bool" where
  "restricted_container pod c \<longleftrightarrow>
     (case c_security_context c of
        None \<Rightarrow> False
      | Some sc \<Rightarrow>
          sc_privileged sc \<noteq> Some True \<and>
          sc_allow_privilege_escalation sc = Some False \<and>
          (case sc_capabilities sc of
             None \<Rightarrow> False
           | Some cap \<Rightarrow> ''ALL'' \<in> set (orelse (cap_drop cap) []) \<and>
                         set (orelse (cap_add cap) []) \<subseteq> {''NET_BIND_SERVICE''}) \<and>
          (case sc_run_as_non_root sc of
             Some b \<Rightarrow> b
           | None \<Rightarrow> (case pod of None \<Rightarrow> False | Some p \<Rightarrow> psc_run_as_non_root p = Some True)) \<and>
          sc_run_as_user sc \<noteq> Some 0 \<and>
          (case sc_seccomp_profile sc of
             Some t \<Rightarrow> t \<in> {''RuntimeDefault'', ''Localhost''}
           | None \<Rightarrow>
               (case pod of
                  None \<Rightarrow> False
                | Some p \<Rightarrow> psc_seccomp_profile p \<in> {Some ''RuntimeDefault'', Some ''Localhost''})) \<and>
          (\<forall>p \<in> set (c_ports c). cp_host_port p \<in> {None, Some 0}))"

definition restricted_pod :: "pod_spec \<Rightarrow> bool" where
  "restricted_pod p \<longleftrightarrow>
     ps_host_network p \<noteq> Some True \<and> ps_host_pid p \<noteq> Some True \<and> ps_host_ipc p \<noteq> Some True \<and>
     set (ps_volumes p) \<subseteq> {''configMap'', ''csi'', ''downwardAPI'', ''emptyDir'', ''ephemeral'',
                              ''persistentVolumeClaim'', ''projected'', ''secret''} \<and>
     (case ps_security_context p of None \<Rightarrow> True | Some c \<Rightarrow> psc_run_as_user c \<noteq> Some 0) \<and>
     (\<forall>c \<in> set (ps_init_containers p @ ps_containers p).
        restricted_container (ps_security_context p) c)"

end
