(* ===== verification/RefEnv.thy ===== *)
theory RefEnv
  imports K8sContracts
begin

text \<open>
  A concrete environment that meets the documented behaviour the contracts assume: an in-memory
  API server, a counter for randomness, clocks that tick, and a log of webhook posts. It plays
  the part the fake cluster plays in the repository's tests and instantiates the parameters of
  the model where a theorem has to be exhibited on a concrete run.
\<close>

record mem =
  m_objects :: "(object_key \<times> k8s_object) list"
  m_patches :: "(string \<times> string \<times> json) list"
  m_counter :: nat
  m_clock :: int
  m_image :: image_view
  m_deployment :: deployment_view
  m_posts :: "(string \<times> bytes \<times> (string \<times> string) list) list"

definition mem_init :: mem where
  "mem_init =
     \<lparr>m_objects = [], m_patches = [], m_counter = 0, m_clock = 1000,
      m_image = \<lparr>iv_status = Some \<lparr>is_conditions = Some
                  [\<lparr>ic_type = Some ''Ready'', ic_status = Some ''True'', ic_message = None\<rparr>],
                  is_latest_image = Some ''registry@sha256:1''\<rparr>\<rparr>,
      m_deployment = \<lparr>dv_spec_replicas = Some 1, dv_ready_replicas = Some 1, dv_conditions = None\<rparr>,
      m_posts = []\<rparr>"

definition mem_create :: "string option \<Rightarrow> k8s_object \<Rightarrow> (mem, unit) py" where
  "mem_create ns obj = (\<lambda>w.
     if map_of (m_objects w) (object_key ns obj) \<noteq> None then (Inl (ApiException 409 ''Conflict''), w)
     else (Inr (), w\<lparr>m_objects := (object_key ns obj, obj) # m_objects w\<rparr>))"

definition mem_view :: "mem \<Rightarrow> object_key \<rightharpoonup> k8s_object" where
  "mem_view w = map_of (m_objects w)"

definition tick :: "mem \<Rightarrow> int \<times> mem" where
  "tick w = (m_clock w, w\<lparr>m_clock := m_clock w + 1\<rparr>)"

definition mem_byte :: "mem \<Rightarrow> byte \<times> mem" where
  "mem_byte w = (of_nat (m_counter w), w\<lparr>m_counter := Suc (m_counter w)\<rparr>)"

definition mem_cfg :: config where
  "mem_cfg =
     \<lparr>DATABASE_URL = None, DATABASE_URL_SYNC = None, ENV = ''dev'',
      API_KEY_SECRET = Some ''k'', ADMIN_SECRET_KEY = Some ''a'', KUBECONFIG_PATH = None,
      IN_CLUSTER = True, IMAGE_REGISTRY = Some ''registry'', REGISTRY_SERVER = Some ''registry'',
      REGISTRY_USERNAME = Some ''u'', REGISTRY_PASSWORD = Some ''p'',
      PLATFORM_CLUSTER_BUILDER_NAME = ''platform-builder'', WEBHOOK_REPLAY_WINDOW_SECONDS = 300\<rparr>"

definition mem_env :: "mem env" where
  "mem_env =
     \<lparr>e_cfg = mem_cfg,
      e_commit_fails = (\<lambda>_ _. None), e_sql_message = (\<lambda>_. ''constraint violated''),
      e_build_jobs_first = True,
      e_id_gap = (\<lambda>_ w. (0, w)), e_random_byte = mem_byte, e_now = tick, e_time = tick,
      e_load_config = (\<lambda>_. ret ()),
      e_create = mem_create,
      e_patch_deployment = (\<lambda>name ns body w. (Inr (), w\<lparr>m_patches := (name, ns, body) # m_patches w\<rparr>)),
      e_read_service_cluster_ip = (\<lambda>_ _. ret (Some ''10.96.0.10'')),
      e_get_custom_object = (\<lambda>_ _ _ _ _ w. (Inr (m_image w), w)),
      e_read_deployment = (\<lambda>_ _ w. (Inr (m_deployment w), w)),
      e_create_token = (\<lambda>_ _ _. ret ''token''),
      e_default_host = (\<lambda>_. ''https://cluster''),
      e_read_ca_cert = ret [1, 2, 3],
      e_http_post = (\<lambda>url body hs w. (Inr 200, w\<lparr>m_posts := (url, body, hs) # m_posts w\<rparr>))\<rparr>"

definition mem_world :: "db \<Rightarrow> mem world" where
  "mem_world d = \<lparr>w_db = d, w_last_id = (\<lambda>_. 0), w_configured = False, w_ext = mem_init\<rparr>"

lemma api_server_mem_env: "api_server mem_env mem_view"
  by (auto simp: api_server_def mem_env_def mem_view_def mem_create_def create_outcome_ok_def ret_def)

interpretation mem_cluster: cluster mem_env mem_view
  by unfold_locales (rule api_server_mem_env)

text \<open>The objects of the reference API server all belong to one namespace.\<close>

definition mem_only :: "string \<Rightarrow> mem \<Rightarrow> bool" where
  "mem_only ns w \<longleftrightarrow> (\<forall>(k, obj) \<in> set (m_objects w). object_in ns (fst k) obj)"

lemma confined_mem_env: "confined mem_env ns (mem_only ns)"
  by (auto simp: confined_def mem_env_def mem_only_def mem_create_def keeps_def ret_def object_key_def)

end
