(* ===== verification/K8sProperties.thy ===== *)
theory K8sProperties
  imports RefEnv
begin

text \<open>
  The properties of the cluster operations, each with a run of the reference environment where it
  has hypotheses.
\<close>

section \<open>Set-up of a tenant namespace\<close>

text \<open>
  C8: When \<open>ensure_tenant_namespace\<close> returns, the cluster holds exactly what it held before plus
  those of the six tenant objects that were missing: namespace with the restricted label, quota,
  limit range, default-deny policy, registry secret, build ServiceAccount. Objects that existed
  are untouched.
\<close>

theorem ensure_tenant_namespace_complete:
  assumes "api_server e view" and "ensure_tenant_namespace e ns s = (Inr u, s')"
  shows "\<exists>dns. view (w_ext s') = keyed (tenant_object_list (e_cfg e) ns dns) ++ view (w_ext s)"
  using cluster.ensure_tenant_namespace_view [OF cluster.intro] assms by blast

lemma mem_ensure_ok:
  "fst (ensure_tenant_namespace mem_env ''tenant-7'' (mem_world empty_db)) = Inr ()"
  by code_simp

lemma mem_ensure_run:
  obtains s' where "ensure_tenant_namespace mem_env ''tenant-7'' (mem_world empty_db) = (Inr (), s')"
  using mem_ensure_ok by (metis prod.collapse)

theorem ensure_tenant_namespace_complete_witness:
  "\<exists>s' dns. ensure_tenant_namespace mem_env ''tenant-7'' (mem_world empty_db) = (Inr (), s') \<and>
     mem_view (w_ext s') = keyed (tenant_object_list mem_cfg ''tenant-7'' dns) ++ Map.empty"
proof -
  obtain s' where run: "ensure_tenant_namespace mem_env ''tenant-7'' (mem_world empty_db) = (Inr (), s')"
    by (rule mem_ensure_run)
  from ensure_tenant_namespace_complete [OF api_server_mem_env run] run show ?thesis
    by (auto simp: mem_env_def mem_world_def mem_view_def mem_init_def)
qed



definition never_conflict :: "('s, 'a) py \<Rightarrow> bool" where
  "never_conflict m \<longleftrightarrow> (\<forall>s t s'. m s \<noteq> (Inl (ApiException 409 t), s'))"

lemma never_conflict_ignore_conflict: "never_conflict (ignore_conflict m)"
  by (auto simp: never_conflict_def ignore_conflict_def py_simps
      split: prod.splits sum.splits exn.splits)

lemma never_conflict_configured: "api_server e view \<Longrightarrow> never_conflict (ensure_configured e)"
  unfolding never_conflict_def by (metis cluster.api_server_configured(2) cluster.intro)

lemma never_conflict_bind:
  assumes "never_conflict m" and "\<And>x. never_conflict (f x)"
  shows "never_conflict (bind m f)"
  using assms unfolding never_conflict_def bind_apply by (auto split: prod.splits sum.splits)

text \<open>
  A conflict answer never escapes from the set-up functions: if \<open>ensure_tenant_namespace\<close> or
  \<open>ensure_tenant_rbac\<close> raises, the exception is not a 409 \<open>ApiException\<close>; every other error is
  passed on.
\<close>

theorem setup_never_raises_conflict:
  assumes "api_server e view"
  shows "ensure_tenant_namespace e ns s \<noteq> (Inl (ApiException 409 t), s') \<and>
         ensure_tenant_rbac e ns s \<noteq> (Inl (ApiException 409 t), s')"
proof -
  note rules = never_conflict_bind never_conflict_ignore_conflict never_conflict_configured [OF assms]
  have "never_conflict (ensure_tenant_namespace e ns)"
    unfolding ensure_tenant_namespace_def client_defs by (intro rules)
  moreover have "never_conflict (ensure_tenant_rbac e ns)"
    unfolding ensure_tenant_rbac_def client_defs by (intro rules)
  ultimately show ?thesis by (simp add: never_conflict_def)
qed

theorem setup_never_raises_conflict_witness:
  "ensure_tenant_namespace mem_env ''tenant-7'' (mem_world empty_db)
     \<noteq> (Inl (ApiException 409 ''Conflict''), mem_world empty_db)"
  using setup_never_raises_conflict [OF api_server_mem_env] by blast

text \<open>
  C9: Every cluster operation for a namespace makes calls into that namespace only, besides the
  lookup of the cluster DNS service and the reading of local configuration: any fact about the
  outside world that such calls preserve is preserved by all seven operations. In particular
  nothing done for one tenant's namespace touches an object of another's.
\<close>

theorem cluster_calls_confined:
  assumes "confined e ns I"
  shows "keeps (\<lambda>s. I (w_ext s)) (ensure_tenant_namespace e ns) \<and>
     keeps (\<lambda>s. I (w_ext s)) (create_kpack_image e ns image_name url revision tag sub) \<and>
     keeps (\<lambda>s. I (w_ext s)) (get_build_status e ns image_name) \<and>
     keeps (\<lambda>s. I (w_ext s)) (create_tenant_deployment e ns img n name) \<and>
     keeps (\<lambda>s. I (w_ext s)) (get_deployment_status e ns name) \<and>
     keeps (\<lambda>s. I (w_ext s)) (ensure_tenant_rbac e ns) \<and>
     keeps (\<lambda>s. I (w_ext s)) (mint_tenant_kubeconfig e ns secs)"
  using confined_ensure_tenant_namespace [OF assms] confined_create_kpack_image [OF assms]
    confined_get_build_status [OF assms] confined_create_tenant_deployment [OF assms]
    confined_get_deployment_status [OF assms] confined_ensure_tenant_rbac [OF assms]
    confined_mint_tenant_kubeconfig [OF assms]
  by blast

theorem cluster_calls_confined_witness:
  "mem_only ''tenant-7'' (w_ext (snd (ensure_tenant_namespace mem_env ''tenant-7'' (mem_world empty_db))))"
  by (rule keepsD [OF conjunct1 [OF cluster_calls_confined [OF confined_mem_env]]])
    (simp add: mem_world_def mem_init_def mem_only_def)

section \<open>Isolation content\<close>

text \<open>
  C33: The tenant network policy selects every pod of the namespace, allows no ingress at all, and
  allows egress exactly to port 53 (UDP and TCP) of the cluster DNS address; when that address
  is unknown it allows no egress.
\<close>

theorem default_deny_policy_denies:
  "np_pod_selector (default_deny_policy ns dns) = None \<and>
   \<not> ingress_allowed (default_deny_policy ns dns) cidr proto port \<and>
   (egress_allowed (default_deny_policy ns dns) cidr proto port \<longleftrightarrow>
      (\<exists>ip. dns = Some ip \<and> ip \<noteq> [] \<and> cidr = ip @ ''/32'' \<and> proto \<in> {''UDP'', ''TCP''} \<and> port = 53))"
  by (auto simp: default_deny_policy_def ingress_allowed_def egress_allowed_def dns_egress_rules_def
      rule_matches_def split: option.splits)

text \<open>
  C34: The pod of a tenant deployment meets every rule of the restricted Pod Security Standard for
  any image, mounts no ServiceAccount token, and the namespace it runs in enforces that standard.
\<close>

theorem tenant_pod_restricted:
  "restricted_pod (kd_pod_spec (tenant_deployment_body ns img n name)) \<and>
   ps_automount_service_account_token (kd_pod_spec (tenant_deployment_body ns img n name)) = Some False \<and>
   om_labels (tenant_namespace_body ns) = Some [(''pod-security.kubernetes.io/enforce'', ''restricted'')]"
  by (simp add: restricted_pod_def restricted_container_def tenant_deployment_body_def
      tenant_pod_spec_def tenant_container_def tenant_namespace_body_def orelse_def)

text \<open>
  C39: The role a tenant's kubeconfig is bound to allows exactly \<open>get\<close> and \<open>list\<close> on pods and pod logs
  of the core group, in the tenant's own namespace; the binding is a namespaced Role binding of
  that role to the viewer account of the same namespace.
\<close>

theorem viewer_role_read_only:
  "(role_allows (viewer_role_body ns) grp resource verb \<longleftrightarrow>
      grp = [] \<and> resource \<in> {''pods'', ''pods/log''} \<and> verb \<in> {''get'', ''list''}) \<and>
   om_namespace (ro_metadata (viewer_role_body ns)) = Some ns \<and>
   om_namespace (rb_metadata (viewer_binding_body ns)) = Some ns \<and>
   rb_role_ref_kind (viewer_binding_body ns) = ''Role'' \<and>
   Some (rb_role_ref_name (viewer_binding_body ns)) = om_name (ro_metadata (viewer_role_body ns)) \<and>
   (\<forall>sub. sub \<in> set (rb_subjects (viewer_binding_body ns)) \<longleftrightarrow>
      sub = \<lparr>su_kind = ''ServiceAccount'', su_name = TENANT_VIEWER_SERVICE_ACCOUNT_NAME, su_namespace = ns\<rparr>)"
  by (auto simp: role_allows_def viewer_role_body_def viewer_binding_body_def)

end
