(* ===== verification/Queries.thy ===== *)
theory Queries
  imports World "HOL-Library.Multiset"
begin

text \<open>
  The shapes of query the services share: a row of a tenant by its identifier
  (\<open>scalar_one_or_none\<close>), the listing of a tenant's rows, and pagination. The locale
  \<open>tenant_scoped\<close> is the contract the routes rely on: whatever a tenant asks for, only rows of
  that tenant come back, and another tenant's identifier is as good as a missing one.
\<close>

section \<open>Results\<close>

definition scalar_one_or_none :: "'r list \<Rightarrow> exn + 'r option" where
  "scalar_one_or_none rs =
     (case rs of
        [] \<Rightarrow> Inr None
      | [r] \<Rightarrow> Inr (Some r)
      | _ \<Rightarrow> Inl (OtherException ''Multiple rows were found when one or none was required''))"

definition paginate :: "nat option \<Rightarrow> nat \<Rightarrow> 'r list \<Rightarrow> 'r list" where
  "paginate lim off rs = (case lim of None \<Rightarrow> drop off rs | Some n \<Rightarrow> take n (drop off rs))"

definition rollback :: "('s, unit) py" where
  "rollback = ret ()"

text \<open>
  \<open>except SQLAlchemyError: await session.rollback(); raise\<close>. The pending changes of a session are
  values the computation has not committed, so dropping them changes nothing.
\<close>

definition with_rollback :: "('s, 'a) py \<Rightarrow> ('s, 'a) py" where
  "with_rollback m =
     try_except m (\<lambda>x. if is_sqlalchemy_error x then andthen rollback (raise x) else raise x)"

lemma with_rollback_eq [simp]: "with_rollback m = m"
  by (rule ext) (simp add: with_rollback_def try_except_def rollback_def raise_def bind_def ret_def
      split: prod.splits sum.splits)

section \<open>Lemmas\<close>

lemma scalar_one_or_none_simps [simp]:
  "scalar_one_or_none [] = Inr None" "scalar_one_or_none [r] = Inr (Some r)"
  by (simp_all add: scalar_one_or_none_def)

lemma filter_by_key:
  assumes "distinct (map key rs)" and "r \<in> set rs" and "P r"
  shows "filter (\<lambda>x. key x = key r \<and> P x) rs = [r]"
  using assms
proof (induction rs)
  case (Cons a rs)
  show ?case
  proof (cases "a = r")
    case True
    with Cons.prems(1) have "\<forall>x \<in> set rs. key x \<noteq> key r" by (auto simp: image_iff)
    with True Cons.prems(3) show ?thesis by (simp add: filter_empty_conv)
  next
    case False
    with Cons.prems have "key a \<noteq> key r" by (auto simp: image_iff)
    with False Cons show ?thesis by simp
  qed
qed simp

lemma one_by_key_cases:
  assumes "distinct (map key rs)"
  shows "scalar_one_or_none (filter (\<lambda>x. key x = k \<and> P x) rs) = Inr (find (\<lambda>x. key x = k \<and> P x) rs)"
proof (cases "find (\<lambda>x. key x = k \<and> P x) rs")
  case None
  then have "filter (\<lambda>x. key x = k \<and> P x) rs = []"
    by (auto simp: find_None_iff filter_empty_conv)
  with None show ?thesis by simp
next
  case (Some r)
  then have "r \<in> set rs" "key r = k" "P r" by (auto dest: find_SomeD)
  with filter_by_key [OF assms, of r P] Some show ?thesis by simp
qed

lemma paginate_pages:
  "concat (map (\<lambda>k. paginate (Some n) (k * n) rs) [0..<m]) = take (m * n) rs"
proof (induction m)
  case (Suc m)
  have "take (Suc m * n) rs = take (m * n) rs @ take n (drop (m * n) rs)"
    by (simp add: take_add [symmetric] add.commute)
  with Suc show ?case by (simp add: paginate_def)
qed simp

section \<open>Tenant-scoped resources\<close>

locale tenant_scoped =
  fixes rows :: "db \<Rightarrow> 'r list"
    and row_id :: "'r \<Rightarrow> int"
    and row_tenant :: "'r \<Rightarrow> int"
    and get_one :: "int \<Rightarrow> int \<Rightarrow> ('w world, 'r option) py"
    and get_many :: "int \<Rightarrow> ('w world, 'r list) py"
  assumes distinct_ids: "constraints_ok d \<Longrightarrow> distinct (map row_id (rows d))"
    and get_one_law: "get_one tid i s =
          (scalar_one_or_none (filter (\<lambda>r. row_id r = i \<and> row_tenant r = tid) (rows (w_db s))), s)"
    and get_many_law: "\<exists>rs. get_many tid s = (Inr rs, s) \<and>
          mset rs = mset (filter (\<lambda>r. row_tenant r = tid) (rows (w_db s)))"
begin

lemma get_one_find:
  "constraints_ok (w_db s) \<Longrightarrow>
     get_one tid i s = (Inr (find (\<lambda>r. row_id r = i \<and> row_tenant r = tid) (rows (w_db s))), s)"
  by (simp add: get_one_law one_by_key_cases distinct_ids)

lemma get_one_iff:
  assumes "constraints_ok (w_db s)"
  shows "get_one tid i s = (Inr (Some r), s) \<longleftrightarrow>
         r \<in> set (rows (w_db s)) \<and> row_id r = i \<and> row_tenant r = tid"
proof
  assume "get_one tid i s = (Inr (Some r), s)"
  then show "r \<in> set (rows (w_db s)) \<and> row_id r = i \<and> row_tenant r = tid"
    by (auto simp: get_one_find [OF assms] dest: find_SomeD)
next
  assume r: "r \<in> set (rows (w_db s)) \<and> row_id r = i \<and> row_tenant r = tid"
  with filter_by_key [OF distinct_ids [OF assms], of r "\<lambda>x. row_tenant x = tid"]
  show "get_one tid i s = (Inr (Some r), s)" by (simp add: get_one_law)
qed

lemma get_one_returns:
  assumes "constraints_ok (w_db s)"
  shows "\<exists>x. get_one tid i s = (Inr x, s)"
  by (simp add: get_one_find [OF assms])

lemma get_one_foreign:
  assumes "constraints_ok (w_db s)" and "r \<in> set (rows (w_db s))" and "row_id r = i"
    and "row_tenant r \<noteq> tid"
  shows "get_one tid i s = (Inr None, s)"
proof -
  from get_one_returns [OF assms(1)] obtain x where x: "get_one tid i s = (Inr x, s)" by blast
  have "x = None"
  proof (cases x)
    case (Some r')
    with x get_one_iff [OF assms(1)] have "r' \<in> set (rows (w_db s))" "row_id r' = i" "row_tenant r' = tid"
      by auto
    with distinct_map_the_one [OF distinct_ids [OF assms(1)] assms(2)] assms(3,4) show ?thesis by auto
  qed
  with x show ?thesis by simp
qed

lemma get_many_iff:
  assumes "get_many tid s = (Inr rs, s')"
  shows "r \<in> set rs \<longleftrightarrow> r \<in> set (rows (w_db s)) \<and> row_tenant r = tid"
proof -
  from get_many_law [of tid s] assms
  have "mset rs = mset (filter (\<lambda>r. row_tenant r = tid) (rows (w_db s)))" by auto
  then have "set rs = set (filter (\<lambda>r. row_tenant r = tid) (rows (w_db s)))" by (rule mset_eq_setD)
  then show ?thesis by simp
qed

end

end
