(* ===== verification/Schemas.thy ===== *)
theory Schemas
  imports Models K8sResources
begin

text \<open>
  \<open>control_plane/app/schemas/\<close>: the request bodies with the bounds their fields declare (a body
  that breaks one is answered 422 before any handler runs) and the response models, which are
  the columns a response shows.
\<close>

section \<open>Requests\<close>

record tenant_create =
  tc_name :: string

text \<open>
  A field of an update is unset (\<open>None\<close>), set to \<open>null\<close> (\<open>Some None\<close>) or set to a value;
  \<open>model_dump(exclude_unset=True)\<close> keeps the last two.
\<close>

record tenant_update =
  tu_name :: "string option option"
  tu_is_active :: "bool option option"

record api_key_create =
  kc_name :: string

record build_job_create =
  bc_git_url :: string
  bc_git_revision :: string
  bc_git_sub_path :: "string option"

record deployment_create =
  dc_build_job_id :: int
  dc_replica_count :: int

record webhook_registration_create =
  wc_callback_url :: string

definition tenant_create_valid :: "tenant_create \<Rightarrow> bool" where
  "tenant_create_valid b \<longleftrightarrow> 1 \<le> length (tc_name b) \<and> length (tc_name b) \<le> 255"

definition tenant_update_valid :: "tenant_update \<Rightarrow> bool" where
  "tenant_update_valid b \<longleftrightarrow>
     (case tu_name b of Some (Some n) \<Rightarrow> 1 \<le> length n \<and> length n \<le> 255 | _ \<Rightarrow> True)"

definition api_key_create_valid :: "api_key_create \<Rightarrow> bool" where
  "api_key_create_valid b \<longleftrightarrow> 1 \<le> length (kc_name b) \<and> length (kc_name b) \<le> 50"

definition build_job_create_valid :: "build_job_create \<Rightarrow> bool" where
  "build_job_create_valid b \<longleftrightarrow>
     1 \<le> length (bc_git_url b) \<and> length (bc_git_url b) \<le> 2048 \<and>
     length (bc_git_revision b) \<le> 255 \<and> fits 1024 (bc_git_sub_path b)"

definition deployment_create_valid :: "deployment_create \<Rightarrow> bool" where
  "deployment_create_valid b \<longleftrightarrow> 1 \<le> dc_replica_count b \<and> dc_replica_count b \<le> 8"

definition webhook_registration_create_valid :: "webhook_registration_create \<Rightarrow> bool" where
  "webhook_registration_create_valid b \<longleftrightarrow>
     1 \<le> length (wc_callback_url b) \<and> length (wc_callback_url b) \<le> 2048"

text \<open>The defaults: \<open>git_revision="main"\<close>, no sub path, one replica.\<close>

definition build_job_create_of :: "string \<Rightarrow> string option \<Rightarrow> string option \<Rightarrow> build_job_create" where
  "build_job_create_of url revision sub =
     \<lparr>bc_git_url = url, bc_git_revision = orelse revision ''main'', bc_git_sub_path = sub\<rparr>"

definition deployment_create_of :: "int \<Rightarrow> int option \<Rightarrow> deployment_create" where
  "deployment_create_of job n = \<lparr>dc_build_job_id = job, dc_replica_count = orelse n 1\<rparr>"

section \<open>Responses\<close>

record tenant_response =
  tr_id :: int
  tr_name :: string
  tr_k8s_namespace :: string
  tr_created_at :: datetime
  tr_is_active :: bool

record api_key_response =
  kr_id :: int
  kr_tenant_id :: int
  kr_name :: string
  kr_key_prefix :: string
  kr_created_at :: datetime
  kr_revoked_at :: "datetime option"

record webhook_registration_response =
  rr_id :: int
  rr_tenant_id :: int
  rr_callback_url :: string
  rr_created_at :: datetime
  rr_is_active :: bool

definition tenant_response_of :: "tenant \<Rightarrow> tenant_response" where
  "tenant_response_of t =
     \<lparr>tr_id = t_id t, tr_name = t_name t, tr_k8s_namespace = t_k8s_namespace t,
      tr_created_at = t_created_at t, tr_is_active = t_is_active t\<rparr>"

definition api_key_response_of :: "api_key \<Rightarrow> api_key_response" where
  "api_key_response_of k =
     \<lparr>kr_id = ak_id k, kr_tenant_id = ak_tenant_id k, kr_name = ak_name k,
      kr_key_prefix = ak_key_prefix k, kr_created_at = ak_created_at k,
      kr_revoked_at = ak_revoked_at k\<rparr>"

definition webhook_registration_response_of :: "webhook_registration \<Rightarrow> webhook_registration_response" where
  "webhook_registration_response_of r =
     \<lparr>rr_id = wr_id r, rr_tenant_id = wr_tenant_id r, rr_callback_url = wr_callback_url r,
      rr_created_at = wr_created_at r, rr_is_active = wr_is_active r\<rparr>"

text \<open>\<open>BuildJobResponse\<close> and \<open>DeploymentResponse\<close> have every column of their row.\<close>

type_synonym build_job_response = build_job
type_synonym deployment_response = deployment

section \<open>The replica bound and the quota\<close>

text \<open>
  Kubernetes quantities in thousandths: a plain number, \<open>m\<close> for milli, \<open>Mi\<close> and \<open>Gi\<close> for binary
  multiples. \<open>fits_quota n\<close>: \<open>n\<close> tenant pods are within every bound of the namespace quota.
\<close>

definition parse_quantity :: "string \<Rightarrow> nat" where
  "parse_quantity q =
     (let num = read_nat (takeWhile is_ascii_digit q); unit = dropWhile is_ascii_digit q
      in if unit = ''m'' then num
         else if unit = ''Mi'' then num * 1048576 * 1000
         else if unit = ''Gi'' then num * 1073741824 * 1000
         else num * 1000)"

definition quantity :: "dict \<Rightarrow> string \<Rightarrow> nat" where
  "quantity d k = (case map_of d k of None \<Rightarrow> 0 | Some q \<Rightarrow> parse_quantity q)"

definition fits_quota :: "int \<Rightarrow> bool" where
  "fits_quota n \<longleftrightarrow>
     n * int (quantity TENANT_CONTAINER_REQUESTS ''cpu'') \<le> int (quantity TENANT_QUOTA_HARD ''requests.cpu'') \<and>
     n * int (quantity TENANT_CONTAINER_REQUESTS ''memory'') \<le> int (quantity TENANT_QUOTA_HARD ''requests.memory'') \<and>
     n * int (quantity TENANT_CONTAINER_LIMITS ''cpu'') \<le> int (quantity TENANT_QUOTA_HARD ''limits.cpu'') \<and>
     n * int (quantity TENANT_CONTAINER_LIMITS ''memory'') \<le> int (quantity TENANT_QUOTA_HARD ''limits.memory'') \<and>
     n * 1000 \<le> int (quantity TENANT_QUOTA_HARD ''pods'')"

lemmas quota_defs = quantity_def parse_quantity_def TENANT_CONTAINER_REQUESTS_def
  TENANT_CONTAINER_LIMITS_def TENANT_QUOTA_HARD_def is_ascii_digit_def read_nat_def digit_value_def

text \<open>
  C40: The API accepts a replica count exactly when it is positive and that many tenant pods fit
  every bound of the namespace quota: eight fit, nine do not.
\<close>

theorem replica_bound_is_quota:
  "deployment_create_valid b \<longleftrightarrow> 1 \<le> dc_replica_count b \<and> fits_quota (dc_replica_count b)"
  by (auto simp: deployment_create_valid_def fits_quota_def quota_defs)

end
