(* ===== verification/Tenants.thy ===== *)
theory Tenants
  imports Queries Schemas
begin

text \<open>
  \<open>control_plane/app/services/tenants.py\<close> and \<open>services/api_keys.py\<close>: tenants and the keys that
  authenticate them. The session's pending changes are the database values handed to \<open>flush\<close> and
  \<open>commit\<close>; nothing else is durable.
\<close>

section \<open>Tenants\<close>

definition namespace_of :: "int \<Rightarrow> string" where
  "namespace_of i = ''tenant-'' @ show_int i"

definition new_tenant :: "int \<Rightarrow> string \<Rightarrow> datetime \<Rightarrow> tenant" where
  "new_tenant i name ts =
     \<lparr>t_id = i, t_name = name, t_k8s_namespace = ''pending'', t_created_at = ts, t_is_active = True\<rparr>"

definition new_api_key :: "int \<Rightarrow> int \<Rightarrow> string \<Rightarrow> string \<Rightarrow> string \<Rightarrow> datetime \<Rightarrow> api_key" where
  "new_api_key i tid name raw key_hash ts =
     \<lparr>ak_id = i, ak_tenant_id = tid, ak_name = name, ak_key_prefix = take 16 raw,
      ak_key_hash = key_hash, ak_created_at = ts, ak_revoked_at = None\<rparr>"

definition create_tenant_service :: "'w env \<Rightarrow> tenant_create \<Rightarrow> ('w world, tenant \<times> string) py" where
  "create_tenant_service e tenant_data = with_rollback
    (bind (gets w_db) (\<lambda>d.
     bind (next_id e Tenants) (\<lambda>i.
     bind (db_now e) (\<lambda>ts.
     let tenant = new_tenant i (tc_name tenant_data) ts in
     andthen (flush e (d\<lparr>tenants := tenants d @ [tenant]\<rparr>))
    (let tenant = tenant\<lparr>t_k8s_namespace := namespace_of (t_id tenant)\<rparr> in
     bind (generate_secure_key e ''mtp'' 32) (\<lambda>raw_api_key.
     bind (lift_result (hash_api_key raw_api_key (API_KEY_SECRET (e_cfg e)))) (\<lambda>key_hash.
     bind (next_id e ApiKeys) (\<lambda>k.
     bind (db_now e) (\<lambda>kts.
     let api_key = new_api_key k (t_id tenant) ''primary'' raw_api_key key_hash kts in
     andthen (commit e (d\<lparr>tenants := tenants d @ [tenant], api_keys := api_keys d @ [api_key]\<rparr>))
       (ret (tenant, raw_api_key))))))))))) "

definition get_tenant_service :: "int \<Rightarrow> ('w world, tenant option) py" where
  "get_tenant_service tenant_id = gets (\<lambda>s. get_tenant_row (w_db s) tenant_id)"

definition get_all_tenants_service :: "nat option \<Rightarrow> nat \<Rightarrow> ('w world, tenant list) py" where
  "get_all_tenants_service lim off =
     gets (\<lambda>s. paginate lim off (sort_key t_id (tenants (w_db s))))"

text \<open>
  The delete statement. \<open>e_build_jobs_first\<close> says whether the engine checks the \<open>RESTRICT\<close> rule of
  \<open>deployments.build_job_id\<close> for the tenant's build jobs before the cascade to its deployments has
  removed those; if so, a deployment of one of them stops the statement.
\<close>

definition delete_tenant_service :: "'w env \<Rightarrow> int \<Rightarrow> ('w world, nat) py" where
  "delete_tenant_service e tenant_id = with_rollback
    (bind (gets w_db) (\<lambda>d.
     if e_build_jobs_first e \<and> restricted_by_deployments tenant_id d
     then raise (integrity_failure e d)
     else andthen (commit e (cascade_delete_tenant tenant_id d))
            (ret (length (filter (\<lambda>t. t_id t = tenant_id) (tenants d))))))"

text \<open>
  \<open>setattr\<close> of every field that was set, then commit. Both columns are \<open>NOT NULL\<close>, so a field set
  to \<open>null\<close> is an IntegrityError.
\<close>

definition update_tenant_row :: "tenant_update \<Rightarrow> tenant \<Rightarrow> tenant" where
  "update_tenant_row u t =
     t\<lparr>t_name := (case tu_name u of Some (Some n) \<Rightarrow> n | _ \<Rightarrow> t_name t),
       t_is_active := (case tu_is_active u of Some (Some b) \<Rightarrow> b | _ \<Rightarrow> t_is_active t)\<rparr>"

lemma update_tenant_row_simps [simp]:
  "t_id (update_tenant_row u t) = t_id t"
  "t_k8s_namespace (update_tenant_row u t) = t_k8s_namespace t"
  by (simp_all add: update_tenant_row_def)

definition update_tenant_service ::
  "'w env \<Rightarrow> int \<Rightarrow> tenant_update \<Rightarrow> ('w world, tenant option) py" where
  "update_tenant_service e tenant_id u =
     bind (gets w_db) (\<lambda>d.
       case get_tenant_row d tenant_id of
         None \<Rightarrow> ret None
       | Some t \<Rightarrow>
           if tu_name u = None \<and> tu_is_active u = None
           then raise (ValueError ''No fields were provided for update.'')
           else with_rollback
             (if tu_name u = Some None \<or> tu_is_active u = Some None
              then raise (integrity_failure e d)
              else andthen (commit e (d\<lparr>tenants :=
                              update_where t_id tenant_id (update_tenant_row u) (tenants d)\<rparr>))
                     (ret (Some (update_tenant_row u t)))))"

section \<open>API keys\<close>

definition create_api_key_service ::
  "'w env \<Rightarrow> int \<Rightarrow> api_key_create \<Rightarrow> ('w world, api_key \<times> string) py" where
  "create_api_key_service e tenant_id key_data =
     bind (generate_secure_key e ''mtp'' 32) (\<lambda>raw_api_key.
     bind (lift_result (hash_api_key raw_api_key (API_KEY_SECRET (e_cfg e)))) (\<lambda>key_hash.
     with_rollback
      (bind (gets w_db) (\<lambda>d.
       bind (next_id e ApiKeys) (\<lambda>k.
       bind (db_now e) (\<lambda>ts.
       let api_key = new_api_key k tenant_id (kc_name key_data) raw_api_key key_hash ts in
       andthen (commit e (d\<lparr>api_keys := api_keys d @ [api_key]\<rparr>))
         (ret (api_key, raw_api_key))))))))"

definition get_api_key_service :: "int \<Rightarrow> int \<Rightarrow> ('w world, api_key option) py" where
  "get_api_key_service tenant_id key_id =
     bind (gets (\<lambda>s. filter (\<lambda>k. ak_id k = key_id \<and> ak_tenant_id k = tenant_id) (api_keys (w_db s))))
       (\<lambda>rs. lift_result (scalar_one_or_none rs))"

definition get_all_api_keys_service :: "int \<Rightarrow> ('w world, api_key list) py" where
  "get_all_api_keys_service tenant_id =
     gets (\<lambda>s. sort_key ak_id (filter (\<lambda>k. ak_tenant_id k = tenant_id) (api_keys (w_db s))))"

definition revoke_row :: "datetime \<Rightarrow> api_key \<Rightarrow> api_key" where
  "revoke_row now k = k\<lparr>ak_revoked_at := Some now\<rparr>"

definition revoke_api_key_service :: "'w env \<Rightarrow> int \<Rightarrow> int \<Rightarrow> ('w world, api_key option) py" where
  "revoke_api_key_service e tenant_id key_id =
     bind (get_api_key_service tenant_id key_id) (\<lambda>found.
       case found of
         None \<Rightarrow> ret None
       | Some api_key \<Rightarrow> with_rollback
          (bind (now_naive e) (\<lambda>now.
           bind (gets w_db) (\<lambda>d.
           andthen (commit e (d\<lparr>api_keys :=
                      update_where ak_id (ak_id api_key) (revoke_row now) (api_keys d)\<rparr>))
             (ret (Some (revoke_row now api_key)))))))"

section \<open>Reads are scoped to the tenant\<close>

interpretation keys: tenant_scoped api_keys ak_id ak_tenant_id get_api_key_service
    get_all_api_keys_service
  by unfold_locales
    (auto simp: constraint_defs get_api_key_service_def get_all_api_keys_service_def py_simps)

section \<open>What the services do to the database\<close>

lemma revoke_row_simps [simp]:
  "ak_id (revoke_row now k) = ak_id k" "ak_key_hash (revoke_row now k) = ak_key_hash k"
  "ak_revoked_at (revoke_row now k) = Some now"
  by (simp_all add: revoke_row_def)

text \<open>The parts of the state two of the operations share: generating a key and its hash.\<close>

definition key_hash_of :: "'w env \<Rightarrow> string \<Rightarrow> string" where
  "key_hash_of e raw =
     hmac_hexdigest (encode (orelse (API_KEY_SECRET (e_cfg e)) [])) (encode raw)"

lemma hash_api_key_cfg:
  "hash_api_key raw (API_KEY_SECRET (e_cfg e)) = Inr h \<Longrightarrow>
     API_KEY_SECRET (e_cfg e) \<noteq> None \<and> h = key_hash_of e raw"
  by (auto simp: hash_api_key_def key_hash_of_def orelse_def split: option.splits)

lemma create_tenant_service_ok:
  assumes "create_tenant_service e td s = (Inr (t, raw), s')"
  shows "\<exists>ts k kts.
    t = (new_tenant (t_id t) (tc_name td) ts)\<lparr>t_k8s_namespace := namespace_of (t_id t)\<rparr> \<and>
    t_id t > w_last_id s Tenants \<and> k > w_last_id s ApiKeys \<and>
    (\<exists>r. raw = ''mtp_'' @ r \<and> length r = 43) \<and> API_KEY_SECRET (e_cfg e) \<noteq> None \<and>
    w_db s' = (w_db s)\<lparr>tenants := tenants (w_db s) @ [t],
       api_keys := api_keys (w_db s) @ [new_api_key k (t_id t) ''primary'' raw (key_hash_of e raw) kts]\<rparr> \<and>
    schema_ok (w_db s') \<and>
    w_last_id s' = (w_last_id s)(Tenants := t_id t, ApiKeys := k)"
proof -
  from assms obtain i s1 ts s2 s3 s4 h s5 k s6 kts s7 where
    1: "next_id e Tenants s = (Inr i, s1)" and 2: "db_now e s1 = (Inr ts, s2)" and
    3: "flush e ((w_db s)\<lparr>tenants := tenants (w_db s) @ [new_tenant i (tc_name td) ts]\<rparr>) s2 = (Inr (), s3)" and
    4: "generate_secure_key e ''mtp'' 32 s3 = (Inr raw, s4)" and
    5: "hash_api_key raw (API_KEY_SECRET (e_cfg e)) = Inr h" "s5 = s4" and
    6: "next_id e ApiKeys s5 = (Inr k, s6)" and 7: "db_now e s6 = (Inr kts, s7)" and
    8: "t = (new_tenant i (tc_name td) ts)\<lparr>t_k8s_namespace := namespace_of i\<rparr>" and
    9: "commit e ((w_db s)\<lparr>tenants := tenants (w_db s) @ [t],
          api_keys := api_keys (w_db s) @ [new_api_key k i ''primary'' raw h kts]\<rparr>) s7 = (Inr (), s')"
    unfolding create_tenant_service_def
    by (auto simp: Let_def atom_simps new_tenant_def elim!: bind_InrE)
  note frame = only_extD [OF only_ext_db_now 2] only_extD [OF only_ext_db_now 7]
    only_extD [OF only_ext_generate_secure_key 4]
  have raw: "\<exists>r. raw = ''mtp_'' @ r \<and> length r = 43"
    using generate_secure_key_shape [OF 4] by auto
  have ti: "t_id t = i" by (simp add: 8 new_tenant_def)
  show ?thesis
    using next_id_apply [OF 1] next_id_apply [OF 6] 3 9 5 frame raw ti 8
      hash_api_key_cfg [OF 5(1)]
    by (auto simp: flush_ok commit_ok check_pending_None)
qed

lemma create_api_key_service_ok:
  assumes "create_api_key_service e tid kd s = (Inr (k, raw), s')"
  obtains i ts where "k = new_api_key i tid (kc_name kd) raw (key_hash_of e raw) ts"
    "w_last_id s ApiKeys < i" "w_last_id s' ApiKeys = i" "schema_ok (w_db s')"
    "w_db s' = (w_db s)\<lparr>api_keys := api_keys (w_db s) @ [k]\<rparr>"
proof -
  from assms obtain s1 h i s2 ts s3 where
    1: "generate_secure_key e ''mtp'' 32 s = (Inr raw, s1)" and
    h: "hash_api_key raw (API_KEY_SECRET (e_cfg e)) = Inr h" and
    2: "next_id e ApiKeys s1 = (Inr i, s2)" and 3: "db_now e s2 = (Inr ts, s3)" and
    k: "k = new_api_key i tid (kc_name kd) raw h ts" and
    4: "commit e ((w_db s1)\<lparr>api_keys := api_keys (w_db s1) @ [k]\<rparr>) s3 = (Inr (), s')"
    unfolding create_api_key_service_def by (auto simp: Let_def atom_simps elim!: bind_InrE)
  note f1 = only_extD [OF only_ext_generate_secure_key 1] and f2 = next_id_apply [OF 2]
    and f3 = only_extD [OF only_ext_db_now 3]
  show thesis
    by (rule that [of i ts])
      (use f1 f2 f3 4 k hash_api_key_cfg [OF h] in \<open>auto simp: commit_ok check_pending_None\<close>)
qed

end
