(* ===== verification/Auth.thy ===== *)
theory Auth
  imports Tenants
begin

text \<open>
  \<open>control_plane/app/dependencies.py\<close>: the two checks every request passes, and their contract.
\<close>

section \<open>The checks\<close>

definition verify_admin :: "'w env \<Rightarrow> string \<Rightarrow> ('w world, unit) py" where
  "verify_admin e x_admin_secret =
     bind (lift_result (compare_digest_str x_admin_secret (ADMIN_SECRET_KEY (e_cfg e)))) (\<lambda>is_valid.
       if \<not> is_valid then raise (HTTPException 401 ''Invalid admin secret'') else ret ())"

text \<open>The join of \<open>api_keys\<close> and \<open>tenants\<close> on the key's tenant, for one hash, not revoked.\<close>

definition key_tenant_rows :: "db \<Rightarrow> string \<Rightarrow> (api_key \<times> tenant) list" where
  "key_tenant_rows d h =
     concat (map (\<lambda>k. map (Pair k) (filter (\<lambda>t. ak_tenant_id k = t_id t) (tenants d)))
       (filter (\<lambda>k. ak_key_hash k = h \<and> ak_revoked_at k = None) (api_keys d)))"

definition verify_tenant :: "'w env \<Rightarrow> int \<Rightarrow> string \<Rightarrow> ('w world, unit) py" where
  "verify_tenant e tenant_id x_api_key =
     bind (lift_result (hash_api_key x_api_key (API_KEY_SECRET (e_cfg e)))) (\<lambda>api_key_hash.
     bind (gets (\<lambda>s. key_tenant_rows (w_db s) api_key_hash)) (\<lambda>rows.
     bind (lift_result (scalar_one_or_none rows)) (\<lambda>row.
       case row of
         None \<Rightarrow> raise (HTTPException 401 ''Invalid or revoked API key'')
       | Some (api_key, tenant) \<Rightarrow>
           if ak_tenant_id api_key \<noteq> tenant_id then raise (HTTPException 403 ''Forbidden resource'')
           else if \<not> t_is_active tenant then raise (HTTPException 403 ''Tenant is inactive'')
           else ret ())))"

section \<open>Contract\<close>

text \<open>The key row a presented key is matched with: same hash, not revoked.\<close>

definition live_key :: "db \<Rightarrow> string \<Rightarrow> api_key option" where
  "live_key d h = find (\<lambda>k. ak_key_hash k = h \<and> ak_revoked_at k = None) (api_keys d)"

lemma key_tenant_rows_cases:
  assumes "constraints_ok d"
  shows "(live_key d h = None \<and> key_tenant_rows d h = []) \<or>
         (\<exists>k t. live_key d h = Some k \<and> key_tenant_rows d h = [(k, t)] \<and>
                get_tenant_row d (ak_tenant_id k) = Some t)"
proof (cases "live_key d h")
  case None
  then have "filter (\<lambda>k. ak_key_hash k = h \<and> ak_revoked_at k = None) (api_keys d) = []"
    by (auto simp: live_key_def find_None_iff filter_empty_conv)
  with None show ?thesis by (simp add: key_tenant_rows_def)
next
  case (Some k)
  then have k: "k \<in> set (api_keys d)" "ak_key_hash k = h" "ak_revoked_at k = None"
    by (auto simp: live_key_def dest: find_SomeD)
  from assms have ds: "distinct (map ak_key_hash (api_keys d))" and ts: "tenants_ok d"
    and fk: "ak_tenant_id ` set (api_keys d) \<subseteq> t_id ` set (tenants d)"
    by (auto simp: constraint_defs)
  from filter_by_key [OF ds k(1), of "\<lambda>k. ak_revoked_at k = None"] k
  have one: "filter (\<lambda>k. ak_key_hash k = h \<and> ak_revoked_at k = None) (api_keys d) = [k]" by simp
  from fk k(1) obtain t where t: "t \<in> set (tenants d)" "t_id t = ak_tenant_id k" by force
  from filter_by_key [of t_id "tenants d" t "\<lambda>_. True"] ts t
  have "filter (\<lambda>t. ak_tenant_id k = t_id t) (tenants d) = [t]"
    by (simp add: tenants_ok_def eq_commute)
  with one Some t get_tenant_row_iff [OF ts] show ?thesis by (simp add: key_tenant_rows_def)
qed

lemma verify_tenant_eq:
  assumes "constraints_ok (w_db s)" and "API_KEY_SECRET (e_cfg e) \<noteq> None"
  shows "verify_tenant e tid raw s =
    (case live_key (w_db s) (key_hash_of e raw) of
       None \<Rightarrow> (Inl (HTTPException 401 ''Invalid or revoked API key''), s)
     | Some k \<Rightarrow>
         if ak_tenant_id k \<noteq> tid then (Inl (HTTPException 403 ''Forbidden resource''), s)
         else (case get_tenant_row (w_db s) tid of
                 Some t \<Rightarrow> if t_is_active t then (Inr (), s)
                           else (Inl (HTTPException 403 ''Tenant is inactive''), s)
               | None \<Rightarrow> (Inr (), s)))"
proof -
  from assms(2) have h: "hash_api_key raw (API_KEY_SECRET (e_cfg e)) = Inr (key_hash_of e raw)"
    by (auto simp: hash_api_key_def key_hash_of_def orelse_def)
  from key_tenant_rows_cases [OF assms(1), of "key_hash_of e raw"] show ?thesis
    by (auto simp: verify_tenant_def py_simps h)
qed

lemma verify_tenant_state: "snd (verify_tenant e tid raw s) = s"
  by (auto simp: verify_tenant_def py_simps split: sum.splits option.splits)

lemma verify_tenant_accepts:
  assumes "constraints_ok (w_db s)" and "API_KEY_SECRET (e_cfg e) \<noteq> None"
  shows "fst (verify_tenant e tid raw s) = Inr () \<longleftrightarrow>
    (\<exists>k \<in> set (api_keys (w_db s)). \<exists>t \<in> set (tenants (w_db s)).
       ak_key_hash k = key_hash_of e raw \<and> ak_revoked_at k = None \<and> ak_tenant_id k = tid \<and>
       t_id t = tid \<and> t_is_active t)"
    (is "?accepted \<longleftrightarrow> ?keyed")
proof -
  let ?d = "w_db s" and ?h = "key_hash_of e raw"
  from assms(1) have ts: "tenants_ok ?d" and ks: "distinct (map ak_key_hash (api_keys ?d))"
    by (auto simp: constraint_defs)
  have live: "live_key ?d ?h = Some k"
    if "k \<in> set (api_keys ?d)" "ak_key_hash k = ?h" "ak_revoked_at k = None" for k
  proof -
    have "live_key ?d ?h \<noteq> None" using that by (auto simp: live_key_def find_None_iff)
    then obtain k' where k': "live_key ?d ?h = Some k'" by blast
    then have "k' \<in> set (api_keys ?d)" "ak_key_hash k' = ?h"
      by (auto simp: live_key_def dest: find_SomeD)
    with distinct_map_the_one [OF ks that(1)] that(2) k' show ?thesis by auto
  qed
  show ?thesis
  proof
    assume acc: ?accepted
    with verify_tenant_eq [OF assms, of tid raw] obtain k where
      k: "live_key ?d ?h = Some k" "ak_tenant_id k = tid"
      by (auto split: option.splits if_splits)
    with key_tenant_rows_cases [OF assms(1), of ?h] obtain t where
      t: "get_tenant_row ?d tid = Some t" by auto
    with acc k verify_tenant_eq [OF assms, of tid raw] have "t_is_active t"
      by (auto split: if_splits)
    with k get_tenant_rowD [OF t] show ?keyed
      by (auto simp: live_key_def dest!: find_SomeD)
  next
    assume ?keyed
    then obtain k t where kt: "k \<in> set (api_keys ?d)" "t \<in> set (tenants ?d)" "ak_key_hash k = ?h"
      "ak_revoked_at k = None" "ak_tenant_id k = tid" "t_id t = tid" "t_is_active t" by blast
    then have "get_tenant_row ?d tid = Some t" by (simp add: get_tenant_row_iff [OF ts])
    with kt live verify_tenant_eq [OF assms, of tid raw] show ?accepted by auto
  qed
qed

end
