(* ===== verification/Webhooks.thy ===== *)
theory Webhooks
  imports Queries Schemas
begin

text \<open>
  \<open>services/webhook_registrations.py\<close> and \<open>shared/webhook_dispatcher.py\<close>: registration of callbacks,
  signing, and delivery of an event to every active callback of a tenant.
\<close>

section \<open>Registrations\<close>

definition new_webhook_registration :: "int \<Rightarrow> int \<Rightarrow> string \<Rightarrow> string \<Rightarrow> datetime \<Rightarrow> webhook_registration" where
  "new_webhook_registration i tid url sec ts =
     \<lparr>wr_id = i, wr_tenant_id = tid, wr_callback_url = url, wr_signing_secret = sec,
      wr_created_at = ts, wr_is_active = True\<rparr>"

definition create_webhook_registration_service ::
  "'w env \<Rightarrow> int \<Rightarrow> webhook_registration_create \<Rightarrow> ('w world, webhook_registration \<times> string) py" where
  "create_webhook_registration_service e tenant_id reg_data =
     bind (token_urlsafe e 32) (\<lambda>signing_secret.
     with_rollback
      (bind (gets w_db) (\<lambda>d.
       bind (next_id e WebhookRegistrations) (\<lambda>i.
       bind (db_now e) (\<lambda>ts.
       let registration = new_webhook_registration i tenant_id (wc_callback_url reg_data) signing_secret ts in
       andthen (commit e (d\<lparr>webhook_registrations := webhook_registrations d @ [registration]\<rparr>))
         (ret (registration, signing_secret)))))))"

definition get_all_webhook_registrations_service ::
  "int \<Rightarrow> ('w world, webhook_registration list) py" where
  "get_all_webhook_registrations_service tenant_id =
     gets (\<lambda>s. sort_key wr_id
       (filter (\<lambda>r. wr_tenant_id r = tenant_id) (webhook_registrations (w_db s))))"

section \<open>Signing\<close>

text \<open>The signed message \<open>f"{timestamp}.".encode()+raw_body\<close>.\<close>

definition signed_message :: "int \<Rightarrow> bytes \<Rightarrow> bytes" where
  "signed_message timestamp raw_body = encode (show_int timestamp @ ''.'') @ raw_body"

definition sign_payload :: "string \<Rightarrow> int \<Rightarrow> bytes \<Rightarrow> string" where
  "sign_payload signing_secret timestamp raw_body =
     hmac_hexdigest (encode signing_secret) (signed_message timestamp raw_body)"

section \<open>Delivery\<close>

definition webhook_headers :: "string \<Rightarrow> int \<Rightarrow> (string \<times> string) list" where
  "webhook_headers signature timestamp =
     [(''Content-Type'', ''application/json''),
      (''X-Platform-Signature'', ''sha256='' @ signature),
      (''X-Platform-Timestamp'', show_int timestamp)]"

text \<open>The new row before it has an identifier; status \<open>failed\<close> until a 2xx answer.\<close>

definition new_delivery :: "webhook_registration \<Rightarrow> int \<Rightarrow> string \<Rightarrow> json \<Rightarrow> string \<Rightarrow> int \<Rightarrow> webhook_delivery" where
  "new_delivery r tid event payload signature timestamp =
     \<lparr>wd_id = 0, wd_webhook_registration_id = wr_id r, wd_tenant_id = tid, wd_event = event,
      wd_payload = payload, wd_signature = signature, wd_timestamp = timestamp,
      wd_status = DeliveryFailed, wd_http_status_code = None, wd_error_message = None,
      wd_created_at = 0\<rparr>"

definition record_response :: "int \<Rightarrow> webhook_delivery \<Rightarrow> webhook_delivery" where
  "record_response code w =
     (if 200 \<le> code \<and> code < 300
      then w\<lparr>wd_http_status_code := Some code, wd_status := DeliverySuccess\<rparr>
      else w\<lparr>wd_http_status_code := Some code,
             wd_error_message := Some (''Webhook returned non-2xx status code: '' @ show_int code)\<rparr>)"

definition deliver :: "'w env \<Rightarrow> int \<Rightarrow> string \<Rightarrow> json \<Rightarrow> webhook_registration \<Rightarrow> ('w world, webhook_delivery) py" where
  "deliver e tenant_id event payload r =
     (let raw_body = encode (dumps_sorted payload) in
      bind (external_read (e_time e)) (\<lambda>timestamp.
      let signature = sign_payload (wr_signing_secret r) timestamp raw_body;
          delivery = new_delivery r tenant_id event payload signature timestamp in
      try_except
        (bind (external (e_http_post e (wr_callback_url r) raw_body (webhook_headers signature timestamp)))
           (\<lambda>code. ret (record_response code delivery)))
        (\<lambda>x. ret (delivery\<lparr>wd_error_message := Some (str_exn x)\<rparr>))))"

text \<open>The identifier and creation time the database gives a pending row.\<close>

definition insert_delivery :: "'w env \<Rightarrow> webhook_delivery \<Rightarrow> ('w world, webhook_delivery) py" where
  "insert_delivery e w =
     bind (next_id e WebhookDeliveries) (\<lambda>i. bind (db_now e) (\<lambda>ts. ret (w\<lparr>wd_id := i, wd_created_at := ts\<rparr>)))"

definition active_registrations :: "db \<Rightarrow> int \<Rightarrow> webhook_registration list" where
  "active_registrations d tenant_id =
     filter (\<lambda>r. wr_tenant_id r = tenant_id \<and> wr_is_active r) (webhook_registrations d)"

definition dispatch_tenant_webhooks :: "'w env \<Rightarrow> int \<Rightarrow> string \<Rightarrow> json \<Rightarrow> ('w world, unit) py" where
  "dispatch_tenant_webhooks e tenant_id event payload =
     bind (gets (\<lambda>s. active_registrations (w_db s) tenant_id)) (\<lambda>registrations.
     bind (for_each registrations (deliver e tenant_id event payload)) (\<lambda>pending.
       if registrations = [] then ret ()
       else bind (for_each pending (insert_delivery e)) (\<lambda>rows.
            bind (gets w_db) (\<lambda>d.
              commit e (d\<lparr>webhook_deliveries := webhook_deliveries d @ rows\<rparr>)))))"

section \<open>The signed message is unambiguous\<close>

lemma byte_of_ascii: "(of_char c :: nat) < 128 \<Longrightarrow> utf8_char c = [of_nat (of_char c)]"
  by (simp add: utf8_char_def)

lemma show_int_chars: "c \<in> set (show_int n) \<Longrightarrow> is_ascii_digit c \<or> c = CHR ''-''"
  by (auto simp: show_int_def dest: show_nat_digits split: if_splits)

lemma encode_show_int: "encode (show_int n) = map (\<lambda>c. of_nat (of_char c)) (show_int n)"
  by (simp add: encode_ascii is_ascii_show_int)

lemma of_nat_byte_inj:
  assumes "m < 256" and "n < 256"
  shows "(of_nat m :: byte) = of_nat n \<longleftrightarrow> m = n"
  using assms by (simp add: word_of_nat_eq_iff take_bit_nat_eq_self)

lemma of_char_byte_inj: "(of_nat (of_char c) :: byte) = of_nat (of_char d) \<longleftrightarrow> c = d"
  by (simp add: of_nat_byte_inj)

lemma inj_map_byte: "map (\<lambda>c. of_nat (of_char c) :: byte) s = map (\<lambda>c. of_nat (of_char c)) t \<longleftrightarrow> s = t"
  by (simp add: inj_map_eq_map inj_def of_char_byte_inj)

lemma split_at_first:
  assumes "x \<notin> set as" and "x \<notin> set bs" and "as @ x # cs = bs @ x # ds"
  shows "as = bs \<and> cs = ds"
  using assms
proof (induction as arbitrary: bs)
  case Nil
  then show ?case by (cases bs) auto
next
  case (Cons a as)
  then show ?case by (cases bs) auto
qed

lemma signed_message_split:
  "signed_message t b = map (\<lambda>c. of_nat (of_char c)) (show_int t) @ 46 # b"
proof -
  have "encode ''.'' = [46 :: byte]" by (simp add: encode_def utf8_char_def)
  then show ?thesis by (simp add: signed_message_def encode_show_int)
qed

lemma dot_not_in_show_int: "(46 :: byte) \<notin> (\<lambda>c. of_nat (of_char c)) ` set (show_int t)"
proof
  assume "(46 :: byte) \<in> (\<lambda>c. of_nat (of_char c)) ` set (show_int t)"
  then obtain c where c: "c \<in> set (show_int t)" "(of_nat (of_char c) :: byte) = of_nat (of_char (CHR ''.''))"
    by auto
  then have "c = CHR ''.''" by (simp only: of_char_byte_inj)
  with show_int_chars [OF c(1)] show False by (auto simp: is_ascii_digit_def)
qed

text \<open>
  C32: The message a webhook signature covers determines the timestamp and the body: two requests
  with the same signed message have the same timestamp and the same body, so neither can be
  replaced without changing what is signed.
\<close>

theorem signed_message_injective:
  "signed_message t b = signed_message t' b' \<longleftrightarrow> t = t' \<and> b = b'"
proof
  assume "signed_message t b = signed_message t' b'"
  then have "map (\<lambda>c. of_nat (of_char c) :: byte) (show_int t) = map (\<lambda>c. of_nat (of_char c)) (show_int t') \<and> b = b'"
    unfolding signed_message_split
    by (intro split_at_first) (simp_all add: dot_not_in_show_int)
  then show "t = t' \<and> b = b'" by (simp add: inj_map_byte)
qed simp

section \<open>What a dispatch records\<close>

text \<open>
  The row that records one attempt for a registration: what is posted, to which address, with which
  signature over which message, and the answer of the receiver as the outside gave it.
\<close>

definition delivery_for :: "'w env \<Rightarrow> int \<Rightarrow> string \<Rightarrow> json \<Rightarrow> webhook_registration \<Rightarrow> webhook_delivery \<Rightarrow> bool" where
  "delivery_for e tid event payload r w \<longleftrightarrow>
     wd_webhook_registration_id w = wr_id r \<and> wd_tenant_id w = tid \<and> wd_event w = event \<and>
     wd_payload w = payload \<and>
     wd_signature w = hmac_hexdigest (encode (wr_signing_secret r))
       (encode (show_int (wd_timestamp w) @ ''.'') @ encode (dumps_sorted payload)) \<and>
     (\<exists>outside. case fst (e_http_post e (wr_callback_url r) (encode (dumps_sorted payload))
           [(''Content-Type'', ''application/json''),
            (''X-Platform-Signature'', ''sha256='' @ wd_signature w),
            (''X-Platform-Timestamp'', show_int (wd_timestamp w))] outside) of
        Inl x \<Rightarrow> wd_status w = DeliveryFailed \<and> wd_http_status_code w = None \<and>
          wd_error_message w = Some (str_exn x)
      | Inr code \<Rightarrow> wd_http_status_code w = Some code \<and>
          (if 200 \<le> code \<and> code < 300
           then wd_status w = DeliverySuccess \<and> wd_error_message w = None
           else wd_status w = DeliveryFailed \<and>
             wd_error_message w = Some (''Webhook returned non-2xx status code: '' @ show_int code)))"

lemma only_ext_deliver [only_ext_rules]: "only_ext (deliver e tid event payload r)"
  unfolding deliver_def Let_def by (intro only_ext_rules)

lemma deliver_no_exn: "deliver e tid event payload r s \<noteq> (Inl x, s')"
  by (auto simp: deliver_def Let_def bind_apply try_except_apply atom_simps external_read_def
      split: prod.splits sum.splits)

lemma deliver_row:
  assumes "deliver e tid event payload r s = (Inr w, s')"
  shows "delivery_for e tid event payload r w"
proof -
  obtain ts x where clock: "e_time e (w_ext s) = (ts, x)" by (cases "e_time e (w_ext s)")
  let ?body = "encode (dumps_sorted payload)"
  let ?sig = "sign_payload (wr_signing_secret r) ts ?body"
  obtain q y where post: "e_http_post e (wr_callback_url r) ?body (webhook_headers ?sig ts) x = (q, y)"
    by (cases "e_http_post e (wr_callback_url r) ?body (webhook_headers ?sig ts) x")
  note sent = post [unfolded webhook_headers_def sign_payload_def signed_message_def]
  from assms clock post show ?thesis
    by (cases q)
      (auto simp: deliver_def Let_def bind_apply try_except_apply atom_simps external_read_def external_def
        delivery_for_def new_delivery_def record_response_def webhook_headers_def sign_payload_def signed_message_def sent
        intro!: exI [of _ x])
qed

lemma insert_delivery_no_exn: "insert_delivery e w s \<noteq> (Inl x, s')"
  by (auto simp: insert_delivery_def bind_apply atom_simps db_now_def external_read_def next_id_def Let_def
      split: prod.splits sum.splits)

lemma insert_delivery_row:
  assumes "insert_delivery e w s = (Inr w', s')"
  shows "\<exists>i ts. w' = w\<lparr>wd_id := i, wd_created_at := ts\<rparr>"
proof -
  from assms obtain i ts where "w' = w\<lparr>wd_id := i, wd_created_at := ts\<rparr>"
    unfolding insert_delivery_def ret_def by (elim bind_InrE) blast
  then show ?thesis by blast
qed

lemma keeps_db_next_id [keeps_rules]: "keeps (\<lambda>s. w_db s = d) (next_id e tb)"
  by (auto simp: keeps_def next_id_def Let_def split: prod.splits)

lemma keeps_db_only_ext: "only_ext m \<Longrightarrow> keeps (\<lambda>s. w_db s = d) m"
  by (simp add: keeps_def only_ext_def)

lemma keeps_db_insert_delivery: "keeps (\<lambda>s. w_db s = d) (insert_delivery e w)"
  unfolding insert_delivery_def by (intro keeps_rules keeps_db_only_ext only_ext_rules)

lemma delivery_for_ids [simp]:
  "delivery_for e tid event payload r (w\<lparr>wd_id := i, wd_created_at := ts\<rparr>) \<longleftrightarrow>
   delivery_for e tid event payload r w"
  by (simp add: delivery_for_def cong: sum.case_cong)

lemma delivery_for_insert:
  assumes "list_all2 (delivery_for e tid event payload) rs ws"
    and "list_all2 (\<lambda>w w'. \<exists>i ts. w' = w\<lparr>wd_id := i, wd_created_at := ts\<rparr>) ws ws'"
  shows "list_all2 (delivery_for e tid event payload) rs ws'"
  by (rule list_all2_trans [OF _ assms]) auto

lemma dispatch_ok:
  assumes "dispatch_tenant_webhooks e tid event payload s = (Inr u, s')"
  shows "\<exists>rows. list_all2 (delivery_for e tid event payload) (active_registrations (w_db s) tid) rows \<and>
     w_db s' = (w_db s)\<lparr>webhook_deliveries := webhook_deliveries (w_db s) @ rows\<rparr> \<and>
     (rows \<noteq> [] \<longrightarrow> schema_ok (w_db s'))"
proof -
  let ?rs = "active_registrations (w_db s) tid"
  from assms obtain ws s1 where
    d: "for_each ?rs (deliver e tid event payload) s = (Inr ws, s1)" and
    r: "(if ?rs = [] then ret ()
         else bind (for_each ws (insert_delivery e)) (\<lambda>rows. bind (gets w_db) (\<lambda>d.
           commit e (d\<lparr>webhook_deliveries := webhook_deliveries d @ rows\<rparr>)))) s1 = (Inr u, s')"
    unfolding dispatch_tenant_webhooks_def by (auto simp: atom_simps elim!: bind_InrE)
  have ws: "list_all2 (delivery_for e tid event payload) ?rs ws"
    by (rule for_each_list_all2 [OF _ d]) (rule deliver_row)
  have "keeps (\<lambda>t. w_db t = w_db s) (for_each ?rs (deliver e tid event payload))"
    by (intro keeps_for_each keeps_db_only_ext only_ext_deliver)
  from keepsD_eq [OF this d] have db1: "w_db s1 = w_db s" by simp
  show ?thesis
  proof (cases "?rs = []")
    case True
    with r ws db1 show ?thesis by (intro exI [of _ "[]"]) (simp add: ret_def)
  next
    case False
    with r obtain rows s2 where
      i: "for_each ws (insert_delivery e) s1 = (Inr rows, s2)" and
      c: "commit e ((w_db s2)\<lparr>webhook_deliveries := webhook_deliveries (w_db s2) @ rows\<rparr>) s2 = (Inr u, s')"
      by (auto simp: atom_simps elim!: bind_InrE)
    have "list_all2 (\<lambda>w w'. \<exists>i ts. w' = w\<lparr>wd_id := i, wd_created_at := ts\<rparr>) ws rows"
      by (rule for_each_list_all2 [OF _ i]) (rule insert_delivery_row)
    with ws have rows: "list_all2 (delivery_for e tid event payload) ?rs rows"
      by (rule delivery_for_insert)
    have "keeps (\<lambda>t. w_db t = w_db s) (for_each ws (insert_delivery e))"
      by (intro keeps_for_each keeps_db_insert_delivery)
    from keepsD_eq [OF this i] db1 have "w_db s2 = w_db s" by simp
    with c rows show ?thesis by (auto simp: commit_ok check_pending_None)
  qed
qed

lemma dispatch_exn:
  assumes "dispatch_tenant_webhooks e tid event payload s = (Inl x, s')"
  shows "is_sqlalchemy_error x \<and> w_db s' = w_db s"
proof -
  have k: "keeps (\<lambda>t. w_db t = w_db s) (for_each rs (deliver e tid event payload))"
    and k': "keeps (\<lambda>t. w_db t = w_db s) (for_each ws (insert_delivery e))" for rs ws
    by (intro keeps_for_each keeps_db_only_ext only_ext_deliver keeps_db_insert_delivery)+
  note no = for_each_no_exn [OF deliver_no_exn] for_each_no_exn [OF insert_delivery_no_exn]
  from assms obtain ws s1 rows s2 where
    "for_each (active_registrations (w_db s) tid) (deliver e tid event payload) s = (Inr ws, s1)"
    "for_each ws (insert_delivery e) s1 = (Inr rows, s2)"
    "commit e ((w_db s2)\<lparr>webhook_deliveries := webhook_deliveries (w_db s2) @ rows\<rparr>) s2 = (Inl x, s')"
    unfolding dispatch_tenant_webhooks_def
    by (auto simp: bind_apply atom_simps no split: prod.splits sum.splits if_splits)
  with keepsD_eq [OF k] keepsD_eq [OF k'] check_pending_sql show ?thesis
    by (auto simp: commit_exn)
qed

lemma create_webhook_registration_service_ok:
  assumes "create_webhook_registration_service e tid wd s = (Inr (w, sec), s')"
  obtains i ts where "w = new_webhook_registration i tid (wc_callback_url wd) sec ts"
    "w_last_id s WebhookRegistrations < i" "w_last_id s' WebhookRegistrations = i" "schema_ok (w_db s')"
    "w_db s' = (w_db s)\<lparr>webhook_registrations := webhook_registrations (w_db s) @ [w]\<rparr>"
proof -
  from assms obtain s1 i s2 ts s3 where
    1: "token_urlsafe e 32 s = (Inr sec, s1)" and
    2: "next_id e WebhookRegistrations s1 = (Inr i, s2)" and 3: "db_now e s2 = (Inr ts, s3)" and
    w: "w = new_webhook_registration i tid (wc_callback_url wd) sec ts" and
    4: "commit e ((w_db s1)\<lparr>webhook_registrations := webhook_registrations (w_db s1) @ [w]\<rparr>) s3 = (Inr (), s')"
    unfolding create_webhook_registration_service_def by (auto simp: Let_def atom_simps elim!: bind_InrE)
  note f1 = only_extD [OF only_ext_token_urlsafe 1] and f2 = next_id_apply [OF 2]
    and f3 = only_extD [OF only_ext_db_now 3]
  show thesis
    by (rule that [of i ts]) (use f1 f2 f3 4 w in \<open>auto simp: commit_ok check_pending_None\<close>)
qed

end
