(* ===== verification/Polling.thy ===== *)
theory Polling
  imports World
begin

text \<open>
  The contract of the two background pollers (builds and deployments have the same loop): sleep,
  ask for the status, go round while it is pending, settle when it is not, expire when the time
  is up. \<open>poll_steps\<close> runs a number of rounds that all find the status pending; the locale
  \<open>polling\<close> says from its loop equation alone which of the three ends a run reaches.
\<close>

text \<open>
  What the loop has done after \<open>k\<close> pending rounds from time \<open>n\<close>: \<open>None\<close> if some round of them
  raised or was not pending.
\<close>

fun poll_steps ::
  "(int \<Rightarrow> ('s, unit) py) \<Rightarrow> ('s, 'r) py \<Rightarrow> ('r \<Rightarrow> bool) \<Rightarrow> int \<Rightarrow> nat \<Rightarrow> int \<Rightarrow> 's \<Rightarrow> 's option" where
  "poll_steps slp check pending interval 0 n s = Some s"
| "poll_steps slp check pending interval (Suc k) n s =
     (case andthen (slp n) check s of
        (Inl _, _) \<Rightarrow> None
      | (Inr r, s') \<Rightarrow>
          if pending r then poll_steps slp check pending interval k (n + interval) s' else None)"

text \<open>A world in which nothing happens while the status is pending: any number of rounds leaves it.\<close>

lemma poll_steps_idle:
  assumes "\<And>n. andthen (slp n) check s = (Inr r, s)" and "pending r"
  shows "poll_steps slp check pending interval k n s = Some s"
  using assms by (induction k arbitrary: n) simp_all

text \<open>\<open>asyncio.sleep\<close>: the rest of the world goes on, by an arbitrary change.\<close>

definition sleep :: "(int \<Rightarrow> 'w world \<Rightarrow> 'w world) \<Rightarrow> int \<Rightarrow> ('w world, unit) py" where
  "sleep drift elapsed = modify (drift elapsed)"

text \<open>The round of number \<open>k\<close>.\<close>

definition poll_round :: "(int \<Rightarrow> ('s, unit) py) \<Rightarrow> ('s, 'r) py \<Rightarrow> int \<Rightarrow> nat \<Rightarrow> ('s, 'r) py" where
  "poll_round slp check interval k = andthen (slp (int k * interval)) check"

lemma poll_round_db:
  assumes "only_ext check" and "poll_round (sleep drift) check interval k s = (r, s')"
  shows "w_db s' = w_db (drift (int k * interval) s)"
  using only_extD(1) [OF assms(1)] assms(2)
  by (simp add: poll_round_def sleep_def bind_apply modify_apply)

locale polling =
  fixes loop :: "int \<Rightarrow> ('s, unit) py"
    and slp :: "int \<Rightarrow> ('s, unit) py"
    and check :: "('s, 'r) py"
    and pending :: "'r \<Rightarrow> bool"
    and settle :: "'r \<Rightarrow> ('s, unit) py"
    and expire :: "('s, unit) py"
    and interval :: int
    and timeout :: int
  assumes loop_eq: "loop n =
      (if n < timeout
       then andthen (slp n) (bind check (\<lambda>r. if pending r then loop (n + interval) else settle r))
       else expire)"
    and interval_pos: "0 < interval"
begin

lemma loop_round:
  assumes "n < timeout"
  shows "loop n s =
    (case andthen (slp n) check s of
       (Inl x, s') \<Rightarrow> (Inl x, s')
     | (Inr r, s') \<Rightarrow> if pending r then loop (n + interval) s' else settle r s')"
  using assms by (subst loop_eq) (simp add: bind_apply split: prod.splits sum.splits)

lemma loop_skip:
  assumes "poll_steps slp check pending interval k n s = Some s'"
    and "n + int k * interval < timeout + interval"
  shows "loop n s = loop (n + int k * interval) s'"
  using assms
proof (induction k arbitrary: n s)
  case 0
  then show ?case by simp
next
  case (Suc k)
  have "0 \<le> int k * interval" using interval_pos by simp
  with Suc.prems(2) have lt: "n < timeout" by (simp add: algebra_simps)
  from Suc.prems(1) obtain r s1 where
    c: "andthen (slp n) check s = (Inr r, s1)" "pending r" and
    rest: "poll_steps slp check pending interval k (n + interval) s1 = Some s'"
    by (auto split: prod.splits sum.splits if_splits)
  from Suc.prems(2) have "(n + interval) + int k * interval < timeout + interval"
    by (simp add: algebra_simps)
  with Suc.IH [OF rest] have "loop (n + interval) s1 = loop (n + int (Suc k) * interval) s'"
    by (simp add: algebra_simps)
  with loop_round [OF lt] c show ?case by simp
qed

text \<open>After \<open>k\<close> pending rounds, a round that is not pending settles the run.\<close>

lemma settles:
  assumes "poll_steps slp check pending interval k n s = Some s1"
    and "n + int k * interval < timeout"
    and "andthen (slp (n + int k * interval)) check s1 = (Inr r, s2)" and "\<not> pending r"
  shows "loop n s = settle r s2"
proof -
  have "loop n s = loop (n + int k * interval) s1"
    using assms(1,2) interval_pos by (intro loop_skip) simp_all
  with loop_round [OF assms(2)] assms(3,4) show ?thesis by simp
qed

text \<open>A round that raises ends the run with that exception: nothing is settled or expired.\<close>

lemma aborts:
  assumes "poll_steps slp check pending interval k n s = Some s1"
    and "n + int k * interval < timeout"
    and "andthen (slp (n + int k * interval)) check s1 = (Inl x, s2)"
  shows "loop n s = (Inl x, s2)"
proof -
  have "loop n s = loop (n + int k * interval) s1"
    using assms(1,2) interval_pos by (intro loop_skip) simp_all
  with loop_round [OF assms(2)] assms(3) show ?thesis by simp
qed

text \<open>Pending to the end of the time: the run expires.\<close>

lemma expires:
  assumes "poll_steps slp check pending interval k n s = Some s1"
    and "timeout \<le> n + int k * interval" and "n + int k * interval < timeout + interval"
  shows "loop n s = expire s1"
proof -
  have "loop n s = loop (n + int k * interval) s1"
    using assms(1,3) by (rule loop_skip)
  with assms(2) show ?thesis by (simp add: loop_eq)
qed

text \<open>Every run reaches one of the three ends, after at most \<open>timeout / interval\<close> rounds.\<close>

lemma reaches_end:
  assumes "n < timeout + interval"
  shows "(\<exists>k s1 r s2. poll_steps slp check pending interval k n s = Some s1 \<and>
            n + int k * interval < timeout \<and>
            andthen (slp (n + int k * interval)) check s1 = (Inr r, s2) \<and> \<not> pending r) \<or>
        (\<exists>k s1 x s2. poll_steps slp check pending interval k n s = Some s1 \<and>
            n + int k * interval < timeout \<and>
            andthen (slp (n + int k * interval)) check s1 = (Inl x, s2)) \<or>
        (\<exists>k s1. poll_steps slp check pending interval k n s = Some s1 \<and>
            timeout \<le> n + int k * interval \<and> n + int k * interval < timeout + interval)"
    (is "?S n s \<or> ?A n s \<or> ?E n s")
  using assms
proof (induction "nat (timeout - n)" arbitrary: n s rule: less_induct)
  case less
  show ?case
  proof (cases "n < timeout")
    case False
    with less.prems have "?E n s" by (intro exI [of _ 0] exI [of _ s]) simp
    then show ?thesis by blast
  next
    case lt: True
    obtain r s1 where c: "andthen (slp n) check s = (r, s1)" by (cases "andthen (slp n) check s")
    show ?thesis
    proof (cases r)
      case (Inl x)
      with c lt have "?A n s" by (intro exI [of _ 0] exI [of _ s] exI [of _ x] exI [of _ s1]) simp
      then show ?thesis by blast
    next
      case (Inr v)
      show ?thesis
      proof (cases "pending v")
        case False
        with c lt Inr have "?S n s"
          by (intro exI [of _ 0] exI [of _ s] exI [of _ v] exI [of _ s1]) simp
        then show ?thesis by blast
      next
        case True
        have shift: "poll_steps slp check pending interval (Suc k) n s =
            poll_steps slp check pending interval k (n + interval) s1"
          "n + int (Suc k) * interval = (n + interval) + int k * interval" for k
          using c Inr True by (simp_all add: algebra_simps)
        have "nat (timeout - (n + interval)) < nat (timeout - n)" "n + interval < timeout + interval"
          using lt interval_pos by auto
        from less.hyps [OF this, of s1] consider "?S (n + interval) s1" | "?A (n + interval) s1"
          | "?E (n + interval) s1" by blast
        then show ?thesis
        proof cases
          case 1
          then show ?thesis by (metis shift)
        next
          case 2
          then show ?thesis by (metis shift)
        next
          case 3
          then show ?thesis by (metis shift)
        qed
      qed
    qed
  qed
qed

lemma outcome:
  assumes "n \<le> timeout"
  obtains (settled) k s1 r s2 where
    "poll_steps slp check pending interval k n s = Some s1" "n + int k * interval < timeout"
    "andthen (slp (n + int k * interval)) check s1 = (Inr r, s2)" "\<not> pending r"
    "loop n s = settle r s2"
  | (aborted) k s1 x s2 where
    "poll_steps slp check pending interval k n s = Some s1" "n + int k * interval < timeout"
    "andthen (slp (n + int k * interval)) check s1 = (Inl x, s2)" "loop n s = (Inl x, s2)"
  | (expired) k s1 where
    "poll_steps slp check pending interval k n s = Some s1" "timeout \<le> n + int k * interval"
    "n + int k * interval < timeout + interval" "loop n s = expire s1"
proof -
  have "n < timeout + interval" using assms interval_pos by simp
  from reaches_end [OF this, of s] show thesis
  proof (elim disjE exE conjE)
    fix k s1 r s2
    assume "poll_steps slp check pending interval k n s = Some s1" "n + int k * interval < timeout"
      "andthen (slp (n + int k * interval)) check s1 = (Inr r, s2)" "\<not> pending r"
    note run = this
    show thesis by (rule settled [OF run settles [OF run]])
  next
    fix k s1 x s2
    assume "poll_steps slp check pending interval k n s = Some s1" "n + int k * interval < timeout"
      "andthen (slp (n + int k * interval)) check s1 = (Inl x, s2)"
    note run = this
    show thesis by (rule aborted [OF run aborts [OF run]])
  next
    fix k s1
    assume "poll_steps slp check pending interval k n s = Some s1"
      "timeout \<le> n + int k * interval" "n + int k * interval < timeout + interval"
    note run = this
    show thesis by (rule expired [OF run expires [OF run]])
  qed
qed

text \<open>The same from the start of a run whose time is a whole number of rounds.\<close>

lemma ends:
  assumes "timeout = int N * interval"
  shows "(\<exists>k s1 r s2. k < N \<and> poll_steps slp check pending interval k 0 s = Some s1 \<and>
            poll_round slp check interval k s1 = (Inr r, s2) \<and> \<not> pending r \<and> loop 0 s = settle r s2) \<or>
         (\<exists>k s1 x s2. k < N \<and> poll_steps slp check pending interval k 0 s = Some s1 \<and>
            poll_round slp check interval k s1 = (Inl x, s2) \<and> loop 0 s = (Inl x, s2)) \<or>
         (\<exists>s1. poll_steps slp check pending interval N 0 s = Some s1 \<and> loop 0 s = expire s1)"
proof -
  have "0 \<le> timeout" using interval_pos by (simp add: assms)
  then show ?thesis
  proof (cases rule: outcome [of 0 s])
    case (settled k s1 r s2)
    then have "k < N" using interval_pos by (simp add: assms)
    moreover have "poll_round slp check interval k s1 = (Inr r, s2)"
      using settled(3) by (simp add: poll_round_def)
    ultimately show ?thesis using settled(1,4,5) by blast
  next
    case (aborted k s1 x s2)
    then have "k < N" using interval_pos by (simp add: assms)
    moreover have "poll_round slp check interval k s1 = (Inl x, s2)"
      using aborted(3) by (simp add: poll_round_def)
    ultimately show ?thesis using aborted(1,4) by blast
  next
    case (expired k s1)
    from expired(2) have "N \<le> k" using interval_pos by (simp add: assms)
    moreover from expired(3) have "int k * interval < int (Suc N) * interval"
      by (simp add: assms algebra_simps)
    then have "k < Suc N" using interval_pos by (simp only: mult_less_cancel_right) simp
    ultimately have "k = N" by simp
    with expired(1,4) show ?thesis by blast
  qed
qed

text \<open>A run is decided by its first round that is not pending, or by the time-out.\<close>

lemma settles_at:
  assumes "timeout = int N * interval" and "k < N"
    and "poll_steps slp check pending interval k 0 s = Some s1"
    and "poll_round slp check interval k s1 = (Inr r, s2)" and "\<not> pending r"
  shows "loop 0 s = settle r s2"
  using assms interval_pos
  by (intro settles [where k = k and s = s and ?s1.0 = s1]) (simp_all add: poll_round_def)

lemma expires_at:
  assumes "timeout = int N * interval" and "poll_steps slp check pending interval N 0 s = Some s1"
  shows "loop 0 s = expire s1"
  using assms interval_pos by (intro expires [where k = N]) simp_all

lemma loop_keeps:
  assumes "\<And>m. keeps I (slp m)" and "keeps I check" and "\<And>r. keeps I (settle r)" and "keeps I expire"
  shows "keeps I (loop n)"
proof (induction "nat (timeout - n)" arbitrary: n rule: less_induct)
  case less
  show ?case
  proof (cases "n < timeout")
    case True
    then have "nat (timeout - (n + interval)) < nat (timeout - n)" using interval_pos by auto
    with less have "keeps I (loop (n + interval))" by blast
    with True show ?thesis
      by (subst loop_eq) (auto intro!: keeps_rules assms)
  next
    case False
    then show ?thesis by (simp add: loop_eq assms(4))
  qed
qed

end

end
