(* ===== verification/BuildJobs.thy ===== *)
theory BuildJobs
  imports K8sContracts Webhooks Polling
begin

text \<open>
  \<open>control_plane/app/services/build_jobs.py\<close>: submitting a build, the background poller that
  follows it to its end, and the tenant's reads. What other requests and the cluster do while the
  poller sleeps is the parameter \<open>drift\<close>, an arbitrary change of the whole state.
\<close>

section \<open>Names\<close>

definition POLL_INTERVAL_SECONDS :: int where
  "POLL_INTERVAL_SECONDS = 5"

definition BUILD_POLL_TIMEOUT_SECONDS :: int where
  "BUILD_POLL_TIMEOUT_SECONDS = 900"

definition image_name :: "int \<Rightarrow> string" where
  "image_name build_job_id = ''build-'' @ show_int build_job_id"

definition image_tag :: "int \<Rightarrow> int \<Rightarrow> string" where
  "image_tag tenant_id build_job_id =
     ''tenant-'' @ show_int tenant_id @ ''-build-'' @ show_int build_job_id"

section \<open>Submitting a build\<close>

definition new_build_job :: "int \<Rightarrow> int \<Rightarrow> build_job_create \<Rightarrow> datetime \<Rightarrow> build_job" where
  "new_build_job i tid b ts =
     \<lparr>bj_id = i, bj_tenant_id = tid, bj_git_url = bc_git_url b, bj_git_revision = bc_git_revision b,
      bj_git_sub_path = bc_git_sub_path b, bj_status = Queued, bj_image_tag = None,
      bj_error_message = None, bj_created_at = ts, bj_started_at = None, bj_ended_at = None\<rparr>"

lemma new_build_job_simps [simp]:
  "bj_id (new_build_job i tid bd ts) = i" "bj_tenant_id (new_build_job i tid bd ts) = tid"
  "bj_status (new_build_job i tid bd ts) = Queued"
  by (simp_all add: new_build_job_def)

text \<open>The changed columns of one row, committed.\<close>

definition save_build_job :: "'w env \<Rightarrow> int \<Rightarrow> (build_job \<Rightarrow> build_job) \<Rightarrow> ('w world, unit) py" where
  "save_build_job e i f =
     bind (gets w_db) (\<lambda>d. commit e (d\<lparr>build_jobs := update_where bj_id i f (build_jobs d)\<rparr>))"

definition start_build :: "'w env \<Rightarrow> string \<Rightarrow> int \<Rightarrow> build_job \<Rightarrow> ('w world, unit) py" where
  "start_build e ns tenant_id b =
     andthen (ensure_tenant_namespace e ns)
       (create_kpack_image e ns (image_name (bj_id b)) (bj_git_url b) (bj_git_revision b)
          (image_tag tenant_id (bj_id b)) (bj_git_sub_path b))"

definition mark_building :: "datetime \<Rightarrow> build_job \<Rightarrow> build_job" where
  "mark_building now b = b\<lparr>bj_status := Building, bj_started_at := Some now\<rparr>"

definition mark_start_failed :: "exn \<Rightarrow> datetime \<Rightarrow> build_job \<Rightarrow> build_job" where
  "mark_start_failed x now b =
     b\<lparr>bj_status := BuildFailed, bj_error_message := Some (''Failed to start build: '' @ str_exn x),
       bj_ended_at := Some now\<rparr>"

text \<open>
  A cluster failure marks the row failed. When instead the second commit of the \<open>try\<close> fails, its
  handler runs on a session whose transaction is already lost: its first statement reads the
  expired \<open>build_job.id\<close>, which SQLAlchemy answers with a further error (PendingRollbackError), so
  that error leaves the function and the committed row stays queued.
\<close>

definition create_build_job_service ::
  "'w env \<Rightarrow> int \<Rightarrow> build_job_create \<Rightarrow> ('w world, build_job \<times> string option) py" where
  "create_build_job_service e tenant_id build_data =
     bind (gets w_db) (\<lambda>d.
     case get_tenant_row d tenant_id of
       None \<Rightarrow> raise (ValueError (''tenant '' @ show_int tenant_id @ '' does not exist''))
     | Some tenant \<Rightarrow>
         bind (with_rollback
           (bind (next_id e BuildJobs) (\<lambda>i.
            bind (db_now e) (\<lambda>ts.
            let b = new_build_job i tenant_id build_data ts in
            andthen (commit e (d\<lparr>build_jobs := build_jobs d @ [b]\<rparr>)) (ret b))))) (\<lambda>b.
         bind (attempt (start_build e (t_k8s_namespace tenant) tenant_id b)) (\<lambda>started.
         bind (now_naive e) (\<lambda>now.
         case started of
           Inr _ \<Rightarrow>
             try_except
               (andthen (save_build_job e (bj_id b) (mark_building now))
                  (ret (mark_building now b, Some (t_k8s_namespace tenant))))
               (\<lambda>_. bind (gets w_db) (\<lambda>d'. raise (OtherSQLError (e_sql_message e d'))))
         | Inl x \<Rightarrow>
             andthen (save_build_job e (bj_id b) (mark_start_failed x now))
               (ret (mark_start_failed x now b, None))))))"

section \<open>Following a build\<close>

fun build_pending :: "build_poll \<Rightarrow> bool" where
  "build_pending (BuildNotReady _) = True"
| "build_pending _ = False"

fun resolved_build :: "build_poll \<Rightarrow> datetime \<Rightarrow> build_job \<Rightarrow> build_job" where
  "resolved_build (BuildReady img) now b =
     b\<lparr>bj_ended_at := Some now, bj_status := Succeeded, bj_image_tag := img\<rparr>"
| "resolved_build (BuildNotOk msg) now b =
     b\<lparr>bj_ended_at := Some now, bj_status := BuildFailed, bj_error_message := Some msg\<rparr>"
| "resolved_build (BuildNotReady _) now b = b"

definition build_event :: "build_job \<Rightarrow> string" where
  "build_event b = ''build.'' @ show_build_status (bj_status b)"

definition build_payload :: "build_job \<Rightarrow> json" where
  "build_payload b = JObj
     [(''build_job_id'', JInt (bj_id b)), (''tenant_id'', JInt (bj_tenant_id b)),
      (''status'', JStr (show_build_status (bj_status b))), (''image_tag'', json_opt (bj_image_tag b)),
      (''error_message'', json_opt (bj_error_message b))]"

definition resolve_build :: "'w env \<Rightarrow> int \<Rightarrow> build_poll \<Rightarrow> ('w world, unit) py" where
  "resolve_build e build_job_id status =
     bind (gets (\<lambda>s. get_build_job_row (w_db s) build_job_id)) (\<lambda>row.
     case row of
       None \<Rightarrow> ret ()
     | Some b \<Rightarrow>
         bind (now_naive e) (\<lambda>now.
         let b' = resolved_build status now b in
         andthen (save_build_job e build_job_id (resolved_build status now))
           (dispatch_tenant_webhooks e (bj_tenant_id b') (build_event b') (build_payload b'))))"

definition mark_timed_out :: "datetime \<Rightarrow> build_job \<Rightarrow> build_job" where
  "mark_timed_out now b =
     b\<lparr>bj_status := BuildFailed,
       bj_error_message := Some (''Build did not complete within '' @ show_int BUILD_POLL_TIMEOUT_SECONDS @ ''s''),
       bj_ended_at := Some now\<rparr>"

definition expire_build :: "'w env \<Rightarrow> int \<Rightarrow> ('w world, unit) py" where
  "expire_build e build_job_id =
     bind (gets (\<lambda>s. get_build_job_row (w_db s) build_job_id)) (\<lambda>row.
     case row of
       None \<Rightarrow> ret ()
     | Some b \<Rightarrow>
         if bj_status b = Building
         then bind (now_naive e) (\<lambda>now. save_build_job e build_job_id (mark_timed_out now))
         else ret ())"

function poll_build_loop ::
  "'w env \<Rightarrow> (int \<Rightarrow> 'w world \<Rightarrow> 'w world) \<Rightarrow> int \<Rightarrow> string \<Rightarrow> int \<Rightarrow> ('w world, unit) py" where
  "poll_build_loop e drift build_job_id ns elapsed =
     (if elapsed < BUILD_POLL_TIMEOUT_SECONDS
      then andthen (sleep drift elapsed)
             (bind (get_build_status e ns (image_name build_job_id)) (\<lambda>status.
                if build_pending status
                then poll_build_loop e drift build_job_id ns (elapsed + POLL_INTERVAL_SECONDS)
                else resolve_build e build_job_id status))
      else expire_build e build_job_id)"
  by pat_completeness auto
termination
  by (relation "measure (\<lambda>(e, drift, i, ns, elapsed). nat (BUILD_POLL_TIMEOUT_SECONDS - elapsed))")
    (auto simp: POLL_INTERVAL_SECONDS_def)

declare poll_build_loop.simps [simp del]

definition poll_build_until_done ::
  "'w env \<Rightarrow> (int \<Rightarrow> 'w world \<Rightarrow> 'w world) \<Rightarrow> int \<Rightarrow> string \<Rightarrow> ('w world, unit) py" where
  "poll_build_until_done e drift build_job_id ns = poll_build_loop e drift build_job_id ns 0"

section \<open>Reads\<close>

definition get_build_job_service :: "int \<Rightarrow> int \<Rightarrow> ('w world, build_job option) py" where
  "get_build_job_service tenant_id build_job_id =
     bind (gets (\<lambda>s. filter (\<lambda>b. bj_id b = build_job_id \<and> bj_tenant_id b = tenant_id) (build_jobs (w_db s))))
       (\<lambda>rs. lift_result (scalar_one_or_none rs))"

definition get_all_build_jobs_service :: "int \<Rightarrow> nat option \<Rightarrow> nat \<Rightarrow> ('w world, build_job list) py" where
  "get_all_build_jobs_service tenant_id lim off =
     gets (\<lambda>s. paginate lim off
       (sort_key (\<lambda>b. - bj_id b) (filter (\<lambda>b. bj_tenant_id b = tenant_id) (build_jobs (w_db s)))))"

interpretation builds: tenant_scoped build_jobs bj_id bj_tenant_id get_build_job_service
    "\<lambda>tid. get_all_build_jobs_service tid None 0"
  by unfold_locales
    (auto simp: constraint_defs get_build_job_service_def get_all_build_jobs_service_def py_simps paginate_def)

interpretation build_poll: polling "poll_build_loop e drift i ns" "sleep drift"
    "get_build_status e ns (image_name i)" build_pending "resolve_build e i" "expire_build e i"
    POLL_INTERVAL_SECONDS BUILD_POLL_TIMEOUT_SECONDS
  for e drift i ns
  by unfold_locales (subst poll_build_loop.simps, simp_all add: POLL_INTERVAL_SECONDS_def)

section \<open>What a submission leaves\<close>

lemma save_build_job_apply:
  "save_build_job e i f s =
     (let d' = (w_db s)\<lparr>build_jobs := update_where bj_id i f (build_jobs (w_db s))\<rparr>
      in case check_pending e (w_db s) d' of None \<Rightarrow> (Inr (), s\<lparr>w_db := d'\<rparr>) | Some x \<Rightarrow> (Inl x, s))"
  by (simp add: save_build_job_def py_simps commit_apply Let_def)

lemma only_ext_start_build [only_ext_rules]: "only_ext (start_build e ns tid b)"
  unfolding start_build_def by (intro only_ext_rules)

lemma update_new_build_job:
  assumes "schema_ok (d\<lparr>build_jobs := build_jobs d @ [b]\<rparr>)"
  shows "update_where bj_id (bj_id b) f (build_jobs d @ [b]) = build_jobs d @ [f b]"
  using assms by (intro update_where_append_new) (auto simp: schema_ok_def constraint_defs)

lemma create_build_job_cases:
  "case create_build_job_service e tid bd s of
     (Inl x, s') \<Rightarrow>
       (get_tenant_row (w_db s) tid = None \<and>
        x = ValueError (''tenant '' @ show_int tid @ '' does not exist'') \<and> s' = s) \<or>
       (is_sqlalchemy_error x \<and>
        (w_db s' = w_db s \<or>
         (\<exists>i ts. w_last_id s BuildJobs < i \<and> w_last_id s' BuildJobs = i \<and> schema_ok (w_db s') \<and>
            w_db s' = (w_db s)\<lparr>build_jobs := build_jobs (w_db s) @ [new_build_job i tid bd ts]\<rparr>)))
   | (Inr (b, ns), s') \<Rightarrow>
       (\<exists>t i ts now s1. get_tenant_row (w_db s) tid = Some t \<and> w_last_id s BuildJobs < i \<and> w_last_id s' BuildJobs = i \<and>
          w_db s' = (w_db s)\<lparr>build_jobs := build_jobs (w_db s) @ [b]\<rparr> \<and> schema_ok (w_db s') \<and>
          w_db s1 = (w_db s)\<lparr>build_jobs := build_jobs (w_db s) @ [new_build_job i tid bd ts]\<rparr> \<and>
          (case fst (start_build e (t_k8s_namespace t) tid (new_build_job i tid bd ts) s1) of
             Inr _ \<Rightarrow> b = mark_building now (new_build_job i tid bd ts) \<and> ns = Some (t_k8s_namespace t)
           | Inl x \<Rightarrow> b = mark_start_failed x now (new_build_job i tid bd ts) \<and> ns = None))"
proof (cases "get_tenant_row (w_db s) tid")
  case None
  then show ?thesis by (simp add: create_build_job_service_def py_simps)
next
  case (Some t)
  note Some_t = Some
  let ?d = "w_db s"
  obtain i s1 where 1: "next_id e BuildJobs s = (Inr i, s1)" by (rule next_id_returns)
  obtain ts s2 where 2: "db_now e s1 = (Inr ts, s2)" by (rule db_now_returns)
  let ?b = "new_build_job i tid bd ts"
  let ?new = "?d\<lparr>build_jobs := build_jobs ?d @ [?b]\<rparr>"
  from next_id_apply [OF 1] only_extD [OF only_ext_db_now 2]
  have s2: "w_db s2 = ?d" and i: "w_last_id s BuildJobs < i" and l2: "w_last_id s2 BuildJobs = i" by auto
  note eval = create_build_job_service_def py_simps Some 1 2 s2 commit_apply Let_def
  show ?thesis
  proof (cases "check_pending e ?d ?new")
    case (Some x)
    then show ?thesis using s2 check_pending_sql [OF Some] by (simp add: eval)
  next
    case None
    let ?st = "s2\<lparr>w_db := ?new\<rparr>"
    obtain r s4 where 4: "start_build e (t_k8s_namespace t) tid ?b ?st = (r, s4)"
      by (cases "start_build e (t_k8s_namespace t) tid ?b ?st")
    obtain now s5 where 5: "now_naive e s4 = (Inr now, s5)" by (rule now_naive_returns)
    have s5: "w_db s5 = ?new"
      using only_extD(1) [OF only_ext_start_build 4] only_extD(1) [OF only_ext_now_naive 5] by simp
    have l5: "w_last_id s5 BuildJobs = i"
      using only_extD(2) [OF only_ext_start_build 4] only_extD(2) [OF only_ext_now_naive 5] l2 by simp
    have ok: "schema_ok ?new" using None by (simp add: check_pending_None)
    have id: "bj_id ?b = i" by (simp add: new_build_job_def)
    note upd = update_new_build_job [OF ok, unfolded id]
    note eval' = eval None 4 5 s5 l5 save_build_job_apply upd id
    from 4 have r: "fst (start_build e (t_k8s_namespace t) tid ?b ?st) = r" by simp
    show ?thesis
    proof (cases "check_pending e ?new (?d\<lparr>build_jobs := build_jobs ?d @
        [case r of Inl x \<Rightarrow> mark_start_failed x now ?b | Inr _ \<Rightarrow> mark_building now ?b]\<rparr>)")
      case (Some x)
      with i ok show ?thesis
        by (cases r) (auto simp: eval' dest: check_pending_sql)
    next
      case None
      then have new: "schema_ok (?d\<lparr>build_jobs := build_jobs ?d @
          [case r of Inl x \<Rightarrow> mark_start_failed x now ?b | Inr _ \<Rightarrow> mark_building now ?b]\<rparr>)"
        by (simp add: check_pending_None)
      have st: "w_db ?st = ?new" by simp
      let ?left = "s5\<lparr>w_db := ?d\<lparr>build_jobs := build_jobs ?d @
          [case r of Inl x \<Rightarrow> mark_start_failed x now ?b | Inr _ \<Rightarrow> mark_building now ?b]\<rparr>\<rparr>"
      have run: "create_build_job_service e tid bd s =
          (Inr (case r of Inl x \<Rightarrow> (mark_start_failed x now ?b, None)
                | Inr _ \<Rightarrow> (mark_building now ?b, Some (t_k8s_namespace t))), ?left)"
        using None by (cases r) (simp_all add: eval')
      show ?thesis
        by (cases r; simp only: run prod.case sum.case; intro exI [of _ t] exI [of _ i] exI [of _ ts] exI [of _ now] exI [of _ ?st])
          (use new i Some_t r l5 in auto)
    qed
  qed
qed

text \<open>
  C10: Submitting a build has exactly these ends. The tenant does not exist: ValueError and nothing
  changed. The database refuses: a SQLAlchemy error, and either nothing was stored or the new row
  is there, still queued. Otherwise the one new row of the tenant, with the repository, revision
  and path asked for, has been stored as queued, then namespace and kpack Image were set up under
  the names of that row, and what they came to is stored and returned: building since now, with the
  namespace to poll, when both calls returned; failed now, with the exception in its error message
  and no namespace, when one raised.
\<close>

theorem create_build_job_outcome:
  "case create_build_job_service e tid bd s of
     (Inl x, s') \<Rightarrow>
       (get_tenant_row (w_db s) tid = None \<and>
        x = ValueError (''tenant '' @ show_int tid @ '' does not exist'') \<and> s' = s) \<or>
       (is_sqlalchemy_error x \<and>
        (w_db s' = w_db s \<or>
         (\<exists>i ts. w_last_id s BuildJobs < i \<and> w_last_id s' BuildJobs = i \<and> schema_ok (w_db s') \<and>
            w_db s' = (w_db s)\<lparr>build_jobs := build_jobs (w_db s) @
              [\<lparr>bj_id = i, bj_tenant_id = tid, bj_git_url = bc_git_url bd, bj_git_revision = bc_git_revision bd,
                bj_git_sub_path = bc_git_sub_path bd, bj_status = Queued, bj_image_tag = None,
                bj_error_message = None, bj_created_at = ts, bj_started_at = None, bj_ended_at = None\<rparr>]\<rparr>)))
   | (Inr (b, ns), s') \<Rightarrow>
       (\<exists>t i ts now s1. get_tenant_row (w_db s) tid = Some t \<and> w_last_id s BuildJobs < i \<and> w_last_id s' BuildJobs = i \<and>
          w_db s' = (w_db s)\<lparr>build_jobs := build_jobs (w_db s) @ [b]\<rparr> \<and> schema_ok (w_db s') \<and>
          (let queued = \<lparr>bj_id = i, bj_tenant_id = tid, bj_git_url = bc_git_url bd, bj_git_revision = bc_git_revision bd,
                bj_git_sub_path = bc_git_sub_path bd, bj_status = Queued, bj_image_tag = None,
                bj_error_message = None, bj_created_at = ts, bj_started_at = None, bj_ended_at = None\<rparr>
           in w_db s1 = (w_db s)\<lparr>build_jobs := build_jobs (w_db s) @ [queued]\<rparr> \<and>
              (case fst (andthen (ensure_tenant_namespace e (t_k8s_namespace t))
                   (create_kpack_image e (t_k8s_namespace t) (''build-'' @ show_int i) (bc_git_url bd)
                      (bc_git_revision bd) (''tenant-'' @ show_int tid @ ''-build-'' @ show_int i)
                      (bc_git_sub_path bd)) s1) of
                 Inr _ \<Rightarrow> b = queued\<lparr>bj_status := Building, bj_started_at := Some now\<rparr> \<and>
                   ns = Some (t_k8s_namespace t)
               | Inl x \<Rightarrow> b = queued\<lparr>bj_status := BuildFailed,
                     bj_error_message := Some (''Failed to start build: '' @ str_exn x), bj_ended_at := Some now\<rparr> \<and>
                   ns = None)))"
  unfolding Let_def build_job.simps
  by (rule create_build_job_cases [unfolded new_build_job_def mark_building_def mark_start_failed_def start_build_def
        image_name_def image_tag_def build_job.simps])

section \<open>Image names\<close>

lemma letter_not_in_show_int: "\<not> is_ascii_digit c \<Longrightarrow> c \<noteq> CHR ''-'' \<Longrightarrow> c \<notin> set (show_int n)"
  by (auto dest: show_int_chars)

text \<open>
  The tag a build's image is pushed under determines the tenant and the build: no two builds,
  of one tenant or of two, share a tag in the common registry.
\<close>

theorem image_tag_injective: "image_tag t b = image_tag t' b' \<longleftrightarrow> t = t' \<and> b = b'"
proof
  let ?c = "CHR ''b''"
  assume "image_tag t b = image_tag t' b'"
  then have "(show_int t @ ''-'') @ ?c # ''uild-'' @ show_int b = (show_int t' @ ''-'') @ ?c # ''uild-'' @ show_int b'"
    by (simp add: image_tag_def)
  moreover have "?c \<notin> set (show_int n @ ''-'')" for n
    using letter_not_in_show_int [of ?c n] by (simp add: is_ascii_digit_def)
  ultimately have "show_int t @ ''-'' = show_int t' @ ''-'' \<and> ''uild-'' @ show_int b = ''uild-'' @ show_int b'"
    by (intro split_at_first)
  then show "t = t' \<and> b = b'" by simp
qed simp

section \<open>What the poller does\<close>

lemma resolved_build_id [simp]: "bj_id (resolved_build r now b) = bj_id b"
  by (cases r) simp_all

lemma resolved_build_tenant [simp]: "bj_tenant_id (resolved_build r now b) = bj_tenant_id b"
  by (cases r) simp_all

lemma get_build_job_row_update:
  assumes "\<And>b. bj_id (f b) = bj_id b"
  shows "get_build_job_row (d\<lparr>build_jobs := update_where bj_id i f (build_jobs d)\<rparr>) j =
         map_option (\<lambda>b. if bj_id b = i then f b else b) (get_build_job_row d j)"
  using find_update_where [of bj_id f, OF assms] by (simp add: get_build_job_row_def)

lemma active_registrations_build_jobs [simp]:
  "active_registrations (d\<lparr>build_jobs := bs\<rparr>) tid = active_registrations d tid"
  by (simp add: active_registrations_def)

text \<open>The state after the poller has settled build \<open>i\<close> with status \<open>r\<close>, webhooks included.\<close>

definition build_recorded :: "'w env \<Rightarrow> int \<Rightarrow> build_poll \<Rightarrow> build_job \<Rightarrow> db \<Rightarrow> db \<Rightarrow> bool" where
  "build_recorded e i r b d d' \<longleftrightarrow>
     (\<exists>now rows.
        d' = d\<lparr>build_jobs := update_where bj_id i (resolved_build r now) (build_jobs d),
               webhook_deliveries := webhook_deliveries d @ rows\<rparr> \<and>
        get_build_job_row d' i = Some (resolved_build r now b) \<and>
        list_all2 (delivery_for e (bj_tenant_id b) (build_event (resolved_build r now b))
             (build_payload (resolved_build r now b)))
          (active_registrations d (bj_tenant_id b)) rows)"

lemma resolve_build_outcome:
  assumes "get_build_job_row (w_db s) i = Some b"
  shows "case resolve_build e i r s of
      (Inr _, s') \<Rightarrow> build_recorded e i r b (w_db s) (w_db s')
    | (Inl x, s') \<Rightarrow> is_sqlalchemy_error x \<and>
        (w_db s' = w_db s \<or>
         (\<exists>now. w_db s' = (w_db s)\<lparr>build_jobs :=
            update_where bj_id i (resolved_build r now) (build_jobs (w_db s))\<rparr>))"
proof -
  obtain now s1 where 1: "now_naive e s = (Inr now, s1)" by (rule now_naive_returns)
  have d1: "w_db s1 = w_db s" using only_extD(1) [OF only_ext_now_naive 1] .
  from assms have bi: "bj_id b = i" by (auto dest: get_build_job_rowD)
  let ?b = "resolved_build r now b"
  let ?d = "(w_db s)\<lparr>build_jobs := update_where bj_id i (resolved_build r now) (build_jobs (w_db s))\<rparr>"
  have row: "get_build_job_row (?d\<lparr>webhook_deliveries := ws\<rparr>) i = Some ?b" for ws
    using get_build_job_row_update [of "resolved_build r now" i "w_db s" i] assms bi
    by (simp add: get_build_job_row_def)
  note eval = resolve_build_def py_simps assms 1 save_build_job_apply d1 Let_def
  show ?thesis
  proof (cases "check_pending e (w_db s) ?d")
    case (Some x)
    then show ?thesis using check_pending_sql [OF Some] by (simp add: eval)
  next
    case None
    let ?s = "s1\<lparr>w_db := ?d\<rparr>"
    let ?send = "dispatch_tenant_webhooks e (bj_tenant_id b) (build_event ?b) (build_payload ?b)"
    obtain res s2 where 2: "?send ?s = (res, s2)" by (cases "?send ?s")
    then have run: "resolve_build e i r s = (res, s2)" using None by (simp add: eval)
    show ?thesis
    proof (cases res)
      case (Inl x)
      from dispatch_exn [OF 2 [unfolded Inl]] show ?thesis by (auto simp: run Inl)
    next
      case (Inr u)
      from dispatch_ok [OF 2 [unfolded Inr]] obtain rows where
        "list_all2 (delivery_for e (bj_tenant_id b) (build_event ?b) (build_payload ?b))
           (active_registrations (w_db s) (bj_tenant_id b)) rows"
        "w_db s2 = ?d\<lparr>webhook_deliveries := webhook_deliveries (w_db s) @ rows\<rparr>" by auto
      with row have "build_recorded e i r b (w_db s) (w_db s2)"
        unfolding build_recorded_def by (intro exI [of _ now] exI [of _ rows]) simp
      then show ?thesis by (simp add: run Inr)
    qed
  qed
qed

end
