(* ===== verification/Deployments.thy ===== *)
theory Deployments
  imports BuildJobs
begin

text \<open>
  \<open>control_plane/app/services/deployments.py\<close> and \<open>services/kubeconfig.py\<close>: deploying a finished
  build, the background poller of the rollout, the tenant's reads, and the tenant's kubeconfig.
\<close>

section \<open>Deploying a build\<close>

definition DEPLOY_POLL_INTERVAL_SECONDS :: int where
  "DEPLOY_POLL_INTERVAL_SECONDS = 5"

definition DEPLOY_POLL_TIMEOUT_SECONDS :: int where
  "DEPLOY_POLL_TIMEOUT_SECONDS = 180"

definition not_ready_message :: "build_job \<Rightarrow> string" where
  "not_ready_message b =
     (let q = [CHR 0x27]
      in ''build_job '' @ show_int (bj_id b) @ '' is '' @ q @ show_build_status (bj_status b) @ q @
         '', not '' @ q @ ''succeeded'' @ q)"

definition new_deployment :: "int \<Rightarrow> int \<Rightarrow> int \<Rightarrow> int \<Rightarrow> datetime \<Rightarrow> deployment" where
  "new_deployment i tid bid replicas ts =
     \<lparr>dp_id = i, dp_tenant_id = tid, dp_build_job_id = bid, dp_k8s_deployment_name = TENANT_APP_NAME,
      dp_status = Pending, dp_replica_count = replicas, dp_created_at = ts, dp_updated_at = ts\<rparr>"

lemma new_deployment_simps [simp]:
  "dp_id (new_deployment i tid bid n ts) = i" "dp_tenant_id (new_deployment i tid bid n ts) = tid"
  "dp_build_job_id (new_deployment i tid bid n ts) = bid"
  "dp_k8s_deployment_name (new_deployment i tid bid n ts) = TENANT_APP_NAME"
  by (simp_all add: new_deployment_def)

text \<open>
  A new status. \<open>updated_at\<close> has \<open>onupdate=func.now()\<close>, and SQLAlchemy sends an \<open>UPDATE\<close> only for a row
  some column of which changed.
\<close>

definition set_deployment_status :: "deployment_status \<Rightarrow> datetime \<Rightarrow> deployment \<Rightarrow> deployment" where
  "set_deployment_status st ts x =
     (if dp_status x = st then x else x\<lparr>dp_status := st, dp_updated_at := ts\<rparr>)"

definition save_deployment ::
  "'w env \<Rightarrow> int \<Rightarrow> deployment_status \<Rightarrow> ('w world, datetime) py" where
  "save_deployment e i st =
     bind (gets w_db) (\<lambda>d.
     bind (db_now e) (\<lambda>ts.
     andthen (commit e (d\<lparr>deployments := update_where dp_id i (set_deployment_status st ts) (deployments d)\<rparr>))
       (ret ts)))"

lemma set_deployment_status_simps [simp]:
  "dp_id (set_deployment_status st ts x) = dp_id x"
  "dp_tenant_id (set_deployment_status st ts x) = dp_tenant_id x"
  "dp_build_job_id (set_deployment_status st ts x) = dp_build_job_id x"
  "dp_k8s_deployment_name (set_deployment_status st ts x) = dp_k8s_deployment_name x"
  "dp_status (set_deployment_status st ts x) = st"
  by (simp_all add: set_deployment_status_def)

text \<open>
  The cluster call, inside the \<open>try\<close>; \<open>tenant.k8s_namespace\<close> of a missing tenant is an
  AttributeError there.
\<close>

definition start_deployment :: "'w env \<Rightarrow> tenant option \<Rightarrow> build_job \<Rightarrow> deployment \<Rightarrow> ('w world, unit) py" where
  "start_deployment e tenant b x =
     (case tenant of
        None \<Rightarrow> raise (OtherException ''AttributeError: k8s_namespace'')
      | Some t \<Rightarrow> create_tenant_deployment e (t_k8s_namespace t) (bj_image_tag b) (dp_replica_count x) TENANT_APP_NAME)"

lemma only_ext_start_deployment [only_ext_rules]: "only_ext (start_deployment e t b x)"
  unfolding start_deployment_def by (intro only_ext_rules)

definition create_deployment_service ::
  "'w env \<Rightarrow> int \<Rightarrow> deployment_create \<Rightarrow> ('w world, deployment \<times> string option) py" where
  "create_deployment_service e tenant_id deploy_data =
     bind (gets w_db) (\<lambda>d.
     case get_build_job_row d (dc_build_job_id deploy_data) of
       None \<Rightarrow> raise (ValueError ''build_job_id does not belong to this tenant'')
     | Some b \<Rightarrow>
         if bj_tenant_id b \<noteq> tenant_id
         then raise (ValueError ''build_job_id does not belong to this tenant'')
         else if bj_status b \<noteq> Succeeded then raise (BuildJobNotReadyError (not_ready_message b))
         else
           let tenant = get_tenant_row d tenant_id in
           bind (with_rollback
             (bind (next_id e Deployments) (\<lambda>i.
              bind (db_now e) (\<lambda>ts.
              let x = new_deployment i tenant_id (bj_id b) (dc_replica_count deploy_data) ts in
              andthen (commit e (d\<lparr>deployments := deployments d @ [x]\<rparr>)) (ret x))))) (\<lambda>x.
           bind (attempt (start_deployment e tenant b x)) (\<lambda>started.
           case started of
             Inr _ \<Rightarrow>
               try_except
                 (bind (save_deployment e (dp_id x) Deploying) (\<lambda>ts.
                    ret (set_deployment_status Deploying ts x, map_option t_k8s_namespace tenant)))
                 (\<lambda>_. bind (gets w_db) (\<lambda>d'. raise (OtherSQLError (e_sql_message e d'))))
           | Inl _ \<Rightarrow>
               bind (save_deployment e (dp_id x) DeployFailed) (\<lambda>ts.
                 ret (set_deployment_status DeployFailed ts x, None)))))"

section \<open>Following a rollout\<close>

fun rollout_pending :: "rollout \<Rightarrow> bool" where
  "rollout_pending (RolloutUnknown _) = True"
| "rollout_pending _ = False"

definition resolved_status :: "rollout \<Rightarrow> deployment_status" where
  "resolved_status r = (if r = RolloutRunning then Running else DeployFailed)"

definition deployment_event :: "deployment \<Rightarrow> string" where
  "deployment_event x = ''deployment.'' @ show_deployment_status (dp_status x)"

definition deployment_payload :: "deployment \<Rightarrow> json" where
  "deployment_payload x = JObj
     [(''deployment_id'', JInt (dp_id x)), (''tenant_id'', JInt (dp_tenant_id x)),
      (''status'', JStr (show_deployment_status (dp_status x))),
      (''k8s_deployment_name'', JStr (dp_k8s_deployment_name x))]"

definition resolve_deployment :: "'w env \<Rightarrow> int \<Rightarrow> rollout \<Rightarrow> ('w world, unit) py" where
  "resolve_deployment e deployment_id status =
     bind (gets (\<lambda>s. get_deployment_row (w_db s) deployment_id)) (\<lambda>row.
     case row of
       None \<Rightarrow> ret ()
     | Some x \<Rightarrow>
         bind (save_deployment e deployment_id (resolved_status status)) (\<lambda>ts.
         let x' = set_deployment_status (resolved_status status) ts x in
         dispatch_tenant_webhooks e (dp_tenant_id x') (deployment_event x') (deployment_payload x')))"

definition expire_deployment :: "'w env \<Rightarrow> int \<Rightarrow> ('w world, unit) py" where
  "expire_deployment e deployment_id =
     bind (gets (\<lambda>s. get_deployment_row (w_db s) deployment_id)) (\<lambda>row.
     case row of
       None \<Rightarrow> ret ()
     | Some x \<Rightarrow>
         if dp_status x = Deploying
         then andthen (save_deployment e deployment_id DeployFailed) (ret ())
         else ret ())"

function poll_deployment_loop ::
  "'w env \<Rightarrow> (int \<Rightarrow> 'w world \<Rightarrow> 'w world) \<Rightarrow> int \<Rightarrow> string \<Rightarrow> string \<Rightarrow> int \<Rightarrow> ('w world, unit) py" where
  "poll_deployment_loop e drift deployment_id ns deployment_name elapsed =
     (if elapsed < DEPLOY_POLL_TIMEOUT_SECONDS
      then andthen (sleep drift elapsed)
             (bind (get_deployment_status e ns deployment_name) (\<lambda>status.
                if rollout_pending status
                then poll_deployment_loop e drift deployment_id ns deployment_name
                       (elapsed + DEPLOY_POLL_INTERVAL_SECONDS)
                else resolve_deployment e deployment_id status))
      else expire_deployment e deployment_id)"
  by pat_completeness auto
termination
  by (relation "measure (\<lambda>(e, drift, i, ns, name, elapsed). nat (DEPLOY_POLL_TIMEOUT_SECONDS - elapsed))")
    (auto simp: DEPLOY_POLL_INTERVAL_SECONDS_def)

declare poll_deployment_loop.simps [simp del]

definition poll_deployment_until_running ::
  "'w env \<Rightarrow> (int \<Rightarrow> 'w world \<Rightarrow> 'w world) \<Rightarrow> int \<Rightarrow> string \<Rightarrow> string \<Rightarrow> ('w world, unit) py" where
  "poll_deployment_until_running e drift deployment_id ns deployment_name =
     poll_deployment_loop e drift deployment_id ns deployment_name 0"

section \<open>Reads\<close>

definition get_deployment_service :: "int \<Rightarrow> int \<Rightarrow> ('w world, deployment option) py" where
  "get_deployment_service tenant_id deployment_id =
     bind (gets (\<lambda>s. filter (\<lambda>x. dp_id x = deployment_id \<and> dp_tenant_id x = tenant_id) (deployments (w_db s))))
       (\<lambda>rs. lift_result (scalar_one_or_none rs))"

definition get_all_deployments_service :: "int \<Rightarrow> nat option \<Rightarrow> nat \<Rightarrow> ('w world, deployment list) py" where
  "get_all_deployments_service tenant_id lim off =
     gets (\<lambda>s. paginate lim off
       (sort_key (\<lambda>x. - dp_id x) (filter (\<lambda>x. dp_tenant_id x = tenant_id) (deployments (w_db s)))))"

interpretation deploys: tenant_scoped deployments dp_id dp_tenant_id get_deployment_service
    "\<lambda>tid. get_all_deployments_service tid None 0"
  by unfold_locales
    (auto simp: constraint_defs get_deployment_service_def get_all_deployments_service_def py_simps
      paginate_def)

interpretation deploy_poll: polling "poll_deployment_loop e drift i ns name" "sleep drift"
    "get_deployment_status e ns name" rollout_pending "resolve_deployment e i" "expire_deployment e i"
    DEPLOY_POLL_INTERVAL_SECONDS DEPLOY_POLL_TIMEOUT_SECONDS
  for e drift i ns name
  by unfold_locales (subst poll_deployment_loop.simps, simp_all add: DEPLOY_POLL_INTERVAL_SECONDS_def)

section \<open>The tenant's kubeconfig\<close>

definition get_tenant_kubeconfig_service :: "'w env \<Rightarrow> int \<Rightarrow> ('w world, string) py" where
  "get_tenant_kubeconfig_service e tenant_id =
     bind (gets (\<lambda>s. get_tenant_row (w_db s) tenant_id)) (\<lambda>row.
     case row of
       None \<Rightarrow> raise (ValueError (''tenant '' @ show_int tenant_id @ '' does not exist''))
     | Some tenant \<Rightarrow>
         andthen (ensure_tenant_namespace e (t_k8s_namespace tenant))
        (andthen (ensure_tenant_rbac e (t_k8s_namespace tenant))
           (mint_tenant_kubeconfig e (t_k8s_namespace tenant) 3600)))"

end
