(* ===== verification/BuildProperties.thy ===== *)
theory BuildProperties
  imports BuildJobs RefEnv
begin

text \<open>
  What becomes of a build: the ends of the background poller, each stated for an arbitrary
  environment and an arbitrary drift of the world between two rounds, and exhibited on the
  reference environment.
\<close>

section \<open>Rounds\<close>

text \<open>The round \<open>k\<close> of the poller, and \<open>k\<close> rounds that all find the build pending.\<close>

abbreviation build_round ::
  "'w env \<Rightarrow> (int \<Rightarrow> 'w world \<Rightarrow> 'w world) \<Rightarrow> int \<Rightarrow> string \<Rightarrow> nat \<Rightarrow> ('w world, build_poll) py" where
  "build_round e drift i ns \<equiv>
     poll_round (sleep drift) (get_build_status e ns (image_name i)) POLL_INTERVAL_SECONDS"

abbreviation build_rounds ::
  "'w env \<Rightarrow> (int \<Rightarrow> 'w world \<Rightarrow> 'w world) \<Rightarrow> int \<Rightarrow> string \<Rightarrow> nat \<Rightarrow> 'w world \<Rightarrow> 'w world option" where
  "build_rounds e drift i ns k \<equiv>
     poll_steps (sleep drift) (get_build_status e ns (image_name i)) build_pending
       POLL_INTERVAL_SECONDS k 0"

lemma build_timeout_rounds: "BUILD_POLL_TIMEOUT_SECONDS = int 180 * POLL_INTERVAL_SECONDS"
  by (simp add: POLL_INTERVAL_SECONDS_def BUILD_POLL_TIMEOUT_SECONDS_def)

section \<open>Properties\<close>

text \<open>
  C15: The build poller always ends, after at most 180 rounds (900 seconds), in one of three
  ways: a round reports success or failure and the build is settled with that report; a round
  raises (any cluster error but 404), the poller dies with that exception and the database keeps
  what it held, so the row stays as it was; or all 180 rounds find the build pending and the
  time-out is recorded.
\<close>

theorem poll_build_ends:
  "(\<exists>k s1 r s2. k < 180 \<and> build_rounds e drift i ns k s = Some s1 \<and>
      build_round e drift i ns k s1 = (Inr r, s2) \<and> \<not> build_pending r \<and>
      poll_build_until_done e drift i ns s = resolve_build e i r s2) \<or>
   (\<exists>k s1 x s2. k < 180 \<and> build_rounds e drift i ns k s = Some s1 \<and>
      build_round e drift i ns k s1 = (Inl x, s2) \<and>
      w_db s2 = w_db (drift (int k * POLL_INTERVAL_SECONDS) s1) \<and>
      poll_build_until_done e drift i ns s = (Inl x, s2)) \<or>
   (\<exists>s1. build_rounds e drift i ns 180 s = Some s1 \<and>
      poll_build_until_done e drift i ns s = expire_build e i s1)"
  unfolding poll_build_until_done_def
  using build_poll.ends [OF build_timeout_rounds, of drift e ns i s]
    poll_round_db [OF only_ext_get_build_status]
  by blast

lemma settled_event:
  "build_event (resolved_build r now b) =
     (if build_pending r then build_event b else case r of BuildReady _ \<Rightarrow> ''build.succeeded'' | _ \<Rightarrow> ''build.failed'')"
  by (cases r) (simp_all add: build_event_def)

lemma settled_payload:
  "build_payload (resolved_build r now b) = (if build_pending r then build_payload b else JObj
     [(''build_job_id'', JInt (bj_id b)), (''tenant_id'', JInt (bj_tenant_id b)),
      (''status'', JStr (case r of BuildReady _ \<Rightarrow> ''succeeded'' | _ \<Rightarrow> ''failed'')),
      (''image_tag'', json_opt (case r of BuildReady img \<Rightarrow> img | _ \<Rightarrow> bj_image_tag b)),
      (''error_message'', json_opt (case r of BuildNotOk msg \<Rightarrow> Some msg | _ \<Rightarrow> bj_error_message b))])"
  by (cases r) (simp_all add: build_payload_def)

lemma settled_rows:
  "update_where bj_id i (resolved_build r now) bs = map (\<lambda>a. if bj_id a = i
     then case r of
         BuildReady img \<Rightarrow> a\<lparr>bj_ended_at := Some now, bj_status := Succeeded, bj_image_tag := img\<rparr>
       | BuildNotOk msg \<Rightarrow> a\<lparr>bj_ended_at := Some now, bj_status := BuildFailed, bj_error_message := Some msg\<rparr>
       | BuildNotReady _ \<Rightarrow> a
     else a) bs"
  by (cases r) (simp_all add: update_where_def cong: if_cong)

text \<open>
  C16: When some round before the time-out reports the build finished, the poller stores the
  report in the row of that build and in no other: succeeded now with the image reported, or failed
  now with the message reported. For every active webhook of the tenant, in order, it adds one
  delivery row: the event and the payload with that status, image and message, posted to its address
  under its signature, with the answer of the outside. Or the database refuses, and at most the row
  changed.
\<close>

theorem finished_build_recorded:
  assumes "build_rounds e drift i ns k s = Some s1" and "k < 180"
    and "build_round e drift i ns k s1 = (Inr r, s2)" and "\<not> build_pending r"
    and "get_build_job_row (w_db s2) i = Some b"
  shows "let settled = (\<lambda>now a. if bj_id a = i
           then case r of
               BuildReady img \<Rightarrow> a\<lparr>bj_ended_at := Some now, bj_status := Succeeded, bj_image_tag := img\<rparr>
             | BuildNotOk msg \<Rightarrow> a\<lparr>bj_ended_at := Some now, bj_status := BuildFailed, bj_error_message := Some msg\<rparr>
             | BuildNotReady _ \<Rightarrow> a
           else a);
         event = (case r of BuildReady _ \<Rightarrow> ''build.succeeded'' | _ \<Rightarrow> ''build.failed'');
         payload = JObj
           [(''build_job_id'', JInt i), (''tenant_id'', JInt (bj_tenant_id b)),
            (''status'', JStr (case r of BuildReady _ \<Rightarrow> ''succeeded'' | _ \<Rightarrow> ''failed'')),
            (''image_tag'', json_opt (case r of BuildReady img \<Rightarrow> img | _ \<Rightarrow> bj_image_tag b)),
            (''error_message'', json_opt (case r of BuildNotOk msg \<Rightarrow> Some msg | _ \<Rightarrow> bj_error_message b))]
    in case poll_build_until_done e drift i ns s of
      (Inr _, s') \<Rightarrow> \<exists>now rows.
        w_db s' = (w_db s2)\<lparr>build_jobs := map (settled now) (build_jobs (w_db s2)),
                            webhook_deliveries := webhook_deliveries (w_db s2) @ rows\<rparr> \<and>
        list_all2 (delivery_for e (bj_tenant_id b) event payload)
          (filter (\<lambda>w. wr_tenant_id w = bj_tenant_id b \<and> wr_is_active w) (webhook_registrations (w_db s2))) rows
    | (Inl x, s') \<Rightarrow> is_sqlalchemy_error x \<and>
        (w_db s' = w_db s2 \<or>
         (\<exists>now. w_db s' = (w_db s2)\<lparr>build_jobs := map (settled now) (build_jobs (w_db s2))\<rparr>))"
proof -
  from build_poll.settles_at [OF build_timeout_rounds assms(2,1,3,4)]
  have run: "poll_build_until_done e drift i ns s = resolve_build e i r s2"
    by (simp add: poll_build_until_done_def)
  have bi: "bj_id b = i" using assms(5) by (auto dest: get_build_job_rowD)
  obtain res s' where res: "resolve_build e i r s2 = (res, s')" by (cases "resolve_build e i r s2")
  show ?thesis
    unfolding run res Let_def prod.case
    using resolve_build_outcome [OF assms(5), where e = e and r = r, unfolded res prod.case] assms(4)
    unfolding build_recorded_def settled_event settled_payload settled_rows bi active_registrations_def
    by (cases res) auto
qed

lemma mark_timed_out_message:
  "mark_timed_out now b = b\<lparr>bj_status := BuildFailed,
     bj_error_message := Some ''Build did not complete within 900s'', bj_ended_at := Some now\<rparr>"
proof -
  have "show_int BUILD_POLL_TIMEOUT_SECONDS = ''900''" by code_simp
  then show ?thesis by (simp add: mark_timed_out_def)
qed

text \<open>
  C17: A build that all 180 rounds find pending, and that is still building by then, is marked
  failed now, with the time-out of 900 seconds as its error message, and nothing else in the
  database changes, so that no delivery is recorded; a row some other step has settled meanwhile is
  left alone.
\<close>

theorem timed_out_build_failed:
  assumes "build_rounds e drift i ns 180 s = Some s1" and "get_build_job_row (w_db s1) i = Some b"
  shows "case poll_build_until_done e drift i ns s of
      (Inr _, s') \<Rightarrow>
        if bj_status b = Building
        then \<exists>now. w_db s' = (w_db s1)\<lparr>build_jobs := map (\<lambda>a. if bj_id a = i
               then a\<lparr>bj_status := BuildFailed,
                      bj_error_message := Some ''Build did not complete within 900s'', bj_ended_at := Some now\<rparr>
               else a) (build_jobs (w_db s1))\<rparr>
        else w_db s' = w_db s1
    | (Inl x, s') \<Rightarrow> is_sqlalchemy_error x \<and> w_db s' = w_db s1"
proof -
  from build_poll.expires_at [OF build_timeout_rounds assms(1)]
  have "poll_build_loop e drift i ns 0 s = expire_build e i s1" .
  moreover obtain now s2 where 1: "now_naive e s1 = (Inr now, s2)" by (rule now_naive_returns)
  moreover have "w_db s2 = w_db s1" using only_extD(1) [OF only_ext_now_naive 1] .
  ultimately show ?thesis
    using assms(2)
    by (auto simp: poll_build_until_done_def expire_build_def py_simps save_build_job_apply Let_def
        mark_timed_out_message [abs_def] update_where_def dest: check_pending_sql split: option.split cong: if_cong)
qed

section \<open>On the reference environment\<close>

definition sample_tenant :: tenant where
  "sample_tenant = \<lparr>t_id = 1, t_name = ''acme'', t_k8s_namespace = ''tenant-1'', t_created_at = 0,
                    t_is_active = True\<rparr>"

definition sample_build :: build_job where
  "sample_build = mark_building 5 (new_build_job 1 1 (build_job_create_of ''https://x/r'' None None) 4)"

definition sample_db :: db where
  "sample_db = empty_db\<lparr>tenants := [sample_tenant], build_jobs := [sample_build]\<rparr>"

text \<open>The reference world with that database, in which kpack has not reported yet.\<close>

definition silent_world :: "mem world" where
  "silent_world = (mem_world sample_db)\<lparr>w_ext := mem_init\<lparr>m_image := \<lparr>iv_status = None\<rparr>\<rparr>\<rparr>"

lemmas sample_defs = sample_db_def sample_build_def sample_tenant_def empty_db_def mark_building_def
  new_build_job_def build_job_create_of_def orelse_def

lemma sample_build_row: "get_build_job_row sample_db 1 = Some sample_build"
  by (simp add: get_build_job_row_def sample_defs)

lemma sample_build_building [simp]: "bj_status sample_build = Building"
  by (simp add: sample_defs)

lemmas mem_poll_defs = get_build_status_def client_defs ensure_configured_def mem_env_def
  external_def py_simps image_build_poll_def orelse_def mem_world_def mem_init_def

lemma sample_round:
  "build_round mem_env (\<lambda>_ s. s) 1 ''tenant-1'' k (mem_world sample_db) =
     (Inr (BuildReady (Some ''registry@sha256:1'')), mem_world sample_db)"
  by (simp add: poll_round_def sleep_def mem_poll_defs)

lemma silent_rounds: "build_rounds mem_env (\<lambda>_ s. s) 1 ''tenant-1'' k silent_world = Some silent_world"
  by (rule poll_steps_idle [where r = "BuildNotReady ''no Ready condition yet''"])
    (simp_all add: sleep_def silent_world_def mem_poll_defs)

theorem finished_build_recorded_witness:
  "case poll_build_until_done mem_env (\<lambda>_ s. s) 1 ''tenant-1'' (mem_world sample_db) of
      (Inr _, s') \<Rightarrow> \<exists>now. build_jobs (w_db s') =
        [sample_build\<lparr>bj_ended_at := Some now, bj_status := Succeeded, bj_image_tag := Some ''registry@sha256:1''\<rparr>]
    | (Inl x, s') \<Rightarrow> is_sqlalchemy_error x"
proof -
  have "build_rounds mem_env (\<lambda>_ s. s) 1 ''tenant-1'' 0 (mem_world sample_db) = Some (mem_world sample_db)"
    by simp
  moreover have "w_db (mem_world sample_db) = sample_db" "build_jobs sample_db = [sample_build]" "bj_id sample_build = 1"
    by (simp_all add: mem_world_def sample_defs)
  ultimately show ?thesis
    using finished_build_recorded [where k = 0, OF _ _ sample_round, of "mem_world sample_db" sample_build]
      sample_build_row by (auto simp: Let_def split: prod.splits sum.splits)
qed

theorem timed_out_build_failed_witness:
  "case poll_build_until_done mem_env (\<lambda>_ s. s) 1 ''tenant-1'' silent_world of
      (Inr _, s') \<Rightarrow> \<exists>now. build_jobs (w_db s') =
        [sample_build\<lparr>bj_status := BuildFailed,
           bj_error_message := Some ''Build did not complete within 900s'', bj_ended_at := Some now\<rparr>]
    | (Inl x, s') \<Rightarrow> is_sqlalchemy_error x \<and> w_db s' = sample_db"
proof -
  have "w_db silent_world = sample_db" "build_jobs sample_db = [sample_build]" "bj_id sample_build = 1"
    by (simp_all add: silent_world_def mem_world_def sample_defs)
  with timed_out_build_failed [OF silent_rounds, of sample_build] sample_build_row
  show ?thesis by (auto split: prod.splits sum.splits)
qed

end
