(* ===== verification/DeployProperties.thy ===== *)
theory DeployProperties
  imports Deployments BuildProperties
begin

text \<open>
  What a deployment request and its poller leave behind, stated for an arbitrary environment and
  exhibited on the reference one.
\<close>

section \<open>What a request leaves\<close>

lemma save_deployment_apply:
  assumes "db_now e s = (Inr ts, s1)"
  shows "save_deployment e i st s =
     (let d' = (w_db s)\<lparr>deployments := update_where dp_id i (set_deployment_status st ts) (deployments (w_db s))\<rparr>
      in case check_pending e (w_db s) d' of None \<Rightarrow> (Inr ts, s1\<lparr>w_db := d'\<rparr>) | Some x \<Rightarrow> (Inl x, s1))"
  using assms only_extD(1) [OF only_ext_db_now assms]
  by (simp add: save_deployment_def py_simps commit_apply Let_def split: option.split)

lemma save_deployment_outcome:
  "case save_deployment e i st s of
     (Inr ts, s') \<Rightarrow> schema_ok (w_db s') \<and> w_db s' = (w_db s)\<lparr>deployments :=
        update_where dp_id i (set_deployment_status st ts) (deployments (w_db s))\<rparr>
   | (Inl x, s') \<Rightarrow> is_sqlalchemy_error x \<and> w_db s' = w_db s"
proof -
  obtain ts s1 where now: "db_now e s = (Inr ts, s1)" by (rule db_now_returns)
  show ?thesis
    using only_extD(1) [OF only_ext_db_now now]
    by (auto simp: save_deployment_apply [OF now] Let_def check_pending_None
        dest: check_pending_sql split: option.split)
qed

lemma update_new_deployment:
  assumes "schema_ok (d\<lparr>deployments := deployments d @ [x]\<rparr>)"
  shows "update_where dp_id (dp_id x) f (deployments d @ [x]) = deployments d @ [f x]"
  using assms by (intro update_where_append_new) (auto simp: schema_ok_def constraint_defs)

lemma save_deployment_ids:
  assumes "save_deployment e i st s = (r, s')"
  shows "w_last_id s' = w_last_id s"
proof -
  obtain ts s1 where now: "db_now e s = (Inr ts, s1)" by (rule db_now_returns)
  show ?thesis
    using assms only_extD(2) [OF only_ext_db_now now]
    by (auto simp: save_deployment_apply [OF now] Let_def split: option.splits)
qed

lemma create_deployment_cases:
  "case create_deployment_service e tid dd s of
     (Inl x, s') \<Rightarrow>
       (\<not> (\<exists>b. get_build_job_row (w_db s) (dc_build_job_id dd) = Some b \<and> bj_tenant_id b = tid) \<and>
        x = ValueError ''build_job_id does not belong to this tenant'' \<and> s' = s) \<or>
       (\<exists>b. get_build_job_row (w_db s) (dc_build_job_id dd) = Some b \<and> bj_tenant_id b = tid \<and>
          bj_status b \<noteq> Succeeded \<and> x = BuildJobNotReadyError (not_ready_message b) \<and> s' = s) \<or>
       (is_sqlalchemy_error x \<and>
        (w_db s' = w_db s \<or>
         (\<exists>i ts b. get_build_job_row (w_db s) (dc_build_job_id dd) = Some b \<and> bj_tenant_id b = tid \<and>
            bj_status b = Succeeded \<and> w_last_id s Deployments < i \<and> w_last_id s' Deployments = i \<and>
            schema_ok (w_db s') \<and> w_db s' = (w_db s)\<lparr>deployments := deployments (w_db s) @
            [new_deployment i tid (dc_build_job_id dd) (dc_replica_count dd) ts]\<rparr>)))
   | (Inr (x, ns), s') \<Rightarrow>
       (\<exists>b i ts ts' s1. get_build_job_row (w_db s) (dc_build_job_id dd) = Some b \<and> bj_tenant_id b = tid \<and>
          bj_status b = Succeeded \<and> w_last_id s Deployments < i \<and> w_last_id s' Deployments = i \<and>
          w_db s' = (w_db s)\<lparr>deployments := deployments (w_db s) @ [x]\<rparr> \<and> schema_ok (w_db s') \<and>
          w_db s1 = (w_db s)\<lparr>deployments := deployments (w_db s) @
            [new_deployment i tid (bj_id b) (dc_replica_count dd) ts]\<rparr> \<and>
          (if is_ok (fst (start_deployment e (get_tenant_row (w_db s) tid) b
               (new_deployment i tid (bj_id b) (dc_replica_count dd) ts) s1))
           then x = set_deployment_status Deploying ts'
                  (new_deployment i tid (bj_id b) (dc_replica_count dd) ts) \<and>
                ns = map_option t_k8s_namespace (get_tenant_row (w_db s) tid)
           else x = set_deployment_status DeployFailed ts'
                  (new_deployment i tid (bj_id b) (dc_replica_count dd) ts) \<and> ns = None))"
proof (cases "\<exists>b. get_build_job_row (w_db s) (dc_build_job_id dd) = Some b \<and> bj_tenant_id b = tid \<and> bj_status b = Succeeded")
  case False
  then show ?thesis
    by (auto simp: create_deployment_service_def py_simps split: option.split)
next
  case True
  then obtain b where b: "get_build_job_row (w_db s) (dc_build_job_id dd) = Some b" "bj_tenant_id b = tid"
    "bj_status b = Succeeded" by blast
  then have bid: "dc_build_job_id dd = bj_id b" by (auto dest: get_build_job_rowD)
  let ?d = "w_db s" and ?t = "get_tenant_row (w_db s) tid"
  obtain i s1 where 1: "next_id e Deployments s = (Inr i, s1)" by (rule next_id_returns)
  obtain ts s2 where 2: "db_now e s1 = (Inr ts, s2)" by (rule db_now_returns)
  let ?x = "new_deployment i tid (bj_id b) (dc_replica_count dd) ts"
  let ?new = "?d\<lparr>deployments := deployments ?d @ [?x]\<rparr>"
  from next_id_apply [OF 1] only_extD [OF only_ext_db_now 2]
  have s2: "w_db s2 = ?d" and i: "w_last_id s Deployments < i" and l2: "w_last_id s2 Deployments = i" by auto
  note eval = create_deployment_service_def py_simps b 1 2 s2 commit_apply Let_def
  show ?thesis
  proof (cases "check_pending e ?d ?new")
    case (Some x)
    then show ?thesis using s2 check_pending_sql [OF Some] by (simp add: eval)
  next
    case None
    let ?st = "s2\<lparr>w_db := ?new\<rparr>"
    obtain r s4 where 4: "start_deployment e ?t b ?x ?st = (r, s4)"
      by (cases "start_deployment e ?t b ?x ?st")
    have s4: "w_db s4 = ?new" using only_extD(1) [OF only_ext_start_deployment 4] by simp
    have ok: "schema_ok ?new" using None by (simp add: check_pending_None)
    have id: "dp_id ?x = i" by (simp add: new_deployment_def)
    note upd = update_new_deployment [OF ok, unfolded id]
    let ?st' = "if is_ok r then Deploying else DeployFailed"
    obtain q s5 where 5: "save_deployment e i ?st' s4 = (q, s5)" by (cases "save_deployment e i ?st' s4")
    have l5: "w_last_id s5 Deployments = i"
      using save_deployment_ids [OF 5] only_extD(2) [OF only_ext_start_deployment 4] l2 by simp
    have saved: "case q of
        Inr ts' \<Rightarrow> w_db s5 = ?d\<lparr>deployments := deployments ?d @ [set_deployment_status ?st' ts' ?x]\<rparr> \<and> schema_ok (w_db s5)
      | Inl y \<Rightarrow> is_sqlalchemy_error y \<and> w_db s5 = ?new"
      using save_deployment_outcome [where e = e and i = i and st = ?st' and s = s4] by (auto simp: 5 s4 upd split: sum.splits)
    have run: "create_deployment_service e tid dd s =
        (case q of
           Inr ts' \<Rightarrow> (Inr (set_deployment_status ?st' ts' ?x,
              if is_ok r then map_option t_k8s_namespace ?t else None), s5)
         | Inl y \<Rightarrow> (Inl (if is_ok r then OtherSQLError (e_sql_message e (w_db s5)) else y), s5))"
      using 4 5 by (cases r; cases q) (simp_all add: eval None id)
    show ?thesis
    proof (cases q)
      case (Inl y)
      with saved l5 i b bid ok show ?thesis by (simp add: run) metis
    next
      case (Inr ts')
      show ?thesis
        unfolding run Inr sum.case prod.case
        by (rule exI [of _ b], rule exI [of _ i], rule exI [of _ ts], rule exI [of _ ts'], rule exI [of _ ?st])
          (use saved l5 i b bid in \<open>auto simp: Inr 4 simp del: fun_upd_apply\<close>)
    qed
  qed
qed

text \<open>
  C11: A deployment request has exactly these ends. The build is not the tenant's (or does not
  exist): ValueError, nothing changed. The build has not succeeded: BuildJobNotReadyError, nothing
  changed. The database refuses: a SQLAlchemy error, and at most the new row is there, pending.
  Otherwise one new row of the tenant, for that succeeded build of the tenant and with the
  requested replicas, has been stored as pending, then the build's image was deployed in the
  tenant's namespace with those replicas, and what it came to is stored and returned: deploying,
  with that namespace to poll, when the cluster call returned; failed, with none, when it raised or
  the tenant was gone.
\<close>

theorem create_deployment_outcome:
  "case create_deployment_service e tid dd s of
     (Inl x, s') \<Rightarrow>
       (\<not> (\<exists>b. get_build_job_row (w_db s) (dc_build_job_id dd) = Some b \<and> bj_tenant_id b = tid) \<and>
        x = ValueError ''build_job_id does not belong to this tenant'' \<and> s' = s) \<or>
       (\<exists>b. get_build_job_row (w_db s) (dc_build_job_id dd) = Some b \<and> bj_tenant_id b = tid \<and>
          bj_status b \<noteq> Succeeded \<and>
          x = BuildJobNotReadyError (''build_job '' @ show_int (bj_id b) @ '' is '' @ [CHR 0x27] @
            show_build_status (bj_status b) @ [CHR 0x27] @ '', not '' @ [CHR 0x27] @ ''succeeded'' @ [CHR 0x27]) \<and>
          s' = s) \<or>
       (is_sqlalchemy_error x \<and>
        (w_db s' = w_db s \<or>
         (\<exists>i ts b. get_build_job_row (w_db s) (dc_build_job_id dd) = Some b \<and> bj_tenant_id b = tid \<and>
            bj_status b = Succeeded \<and> w_last_id s Deployments < i \<and> w_last_id s' Deployments = i \<and>
            schema_ok (w_db s') \<and> w_db s' = (w_db s)\<lparr>deployments := deployments (w_db s) @
            [\<lparr>dp_id = i, dp_tenant_id = tid, dp_build_job_id = dc_build_job_id dd,
              dp_k8s_deployment_name = ''tenant-app'', dp_status = Pending,
              dp_replica_count = dc_replica_count dd, dp_created_at = ts, dp_updated_at = ts\<rparr>]\<rparr>)))
   | (Inr (x, ns), s') \<Rightarrow>
       (\<exists>b i ts ts' s1. get_build_job_row (w_db s) (dc_build_job_id dd) = Some b \<and> bj_tenant_id b = tid \<and>
          bj_status b = Succeeded \<and> w_last_id s Deployments < i \<and> w_last_id s' Deployments = i \<and>
          w_db s' = (w_db s)\<lparr>deployments := deployments (w_db s) @ [x]\<rparr> \<and> schema_ok (w_db s') \<and>
          (let pending = \<lparr>dp_id = i, dp_tenant_id = tid, dp_build_job_id = bj_id b,
                 dp_k8s_deployment_name = ''tenant-app'', dp_status = Pending,
                 dp_replica_count = dc_replica_count dd, dp_created_at = ts, dp_updated_at = ts\<rparr>;
               failed = pending\<lparr>dp_status := DeployFailed, dp_updated_at := ts'\<rparr>
           in w_db s1 = (w_db s)\<lparr>deployments := deployments (w_db s) @ [pending]\<rparr> \<and>
              (case get_tenant_row (w_db s) tid of
                 None \<Rightarrow> x = failed \<and> ns = None
               | Some t \<Rightarrow>
                   (case fst (create_tenant_deployment e (t_k8s_namespace t) (bj_image_tag b)
                        (dc_replica_count dd) ''tenant-app'' s1) of
                      Inr _ \<Rightarrow> x = pending\<lparr>dp_status := Deploying, dp_updated_at := ts'\<rparr> \<and>
                        ns = Some (t_k8s_namespace t)
                    | Inl _ \<Rightarrow> x = failed \<and> ns = None))))"
proof -
  obtain res s' where res: "create_deployment_service e tid dd s = (res, s')"
    by (cases "create_deployment_service e tid dd s")
  note ends = create_deployment_cases [where e = e and tid = tid and dd = dd and s = s, unfolded res prod.case]
  note row = new_deployment_def set_deployment_status_def TENANT_APP_NAME_def not_ready_message_def Let_def
  show ?thesis
  proof (cases res)
    case (Inl x)
    with ends show ?thesis unfolding res prod.case by (simp add: row)
  next
    case (Inr p)
    with ends show ?thesis
      unfolding res prod.case
      by (cases "get_tenant_row (w_db s) tid") (fastforce simp: row start_deployment_def raise_def split: sum.splits prod.splits)+
  qed
qed

section \<open>What the poller does\<close>

abbreviation rollout_round ::
  "'w env \<Rightarrow> (int \<Rightarrow> 'w world \<Rightarrow> 'w world) \<Rightarrow> string \<Rightarrow> string \<Rightarrow> nat \<Rightarrow> ('w world, rollout) py" where
  "rollout_round e drift ns name \<equiv>
     poll_round (sleep drift) (get_deployment_status e ns name) DEPLOY_POLL_INTERVAL_SECONDS"

abbreviation rollout_rounds ::
  "'w env \<Rightarrow> (int \<Rightarrow> 'w world \<Rightarrow> 'w world) \<Rightarrow> string \<Rightarrow> string \<Rightarrow> nat \<Rightarrow> 'w world \<Rightarrow> 'w world option" where
  "rollout_rounds e drift ns name k \<equiv>
     poll_steps (sleep drift) (get_deployment_status e ns name) rollout_pending
       DEPLOY_POLL_INTERVAL_SECONDS k 0"

lemma rollout_timeout_rounds: "DEPLOY_POLL_TIMEOUT_SECONDS = int 36 * DEPLOY_POLL_INTERVAL_SECONDS"
  by (simp add: DEPLOY_POLL_INTERVAL_SECONDS_def DEPLOY_POLL_TIMEOUT_SECONDS_def)

lemma get_deployment_row_update:
  assumes "\<And>x. dp_id (f x) = dp_id x"
  shows "get_deployment_row (d\<lparr>deployments := update_where dp_id i f (deployments d)\<rparr>) j =
         map_option (\<lambda>x. if dp_id x = i then f x else x) (get_deployment_row d j)"
  using find_update_where [of dp_id f, OF assms] by (simp add: get_deployment_row_def)

lemma active_registrations_deployments [simp]:
  "active_registrations (d\<lparr>deployments := xs\<rparr>) tid = active_registrations d tid"
  by (simp add: active_registrations_def)

text \<open>The state after the poller has settled deployment \<open>i\<close> with status \<open>r\<close>, webhooks included.\<close>

definition rollout_recorded :: "'w env \<Rightarrow> int \<Rightarrow> rollout \<Rightarrow> deployment \<Rightarrow> db \<Rightarrow> db \<Rightarrow> bool" where
  "rollout_recorded e i r x d d' \<longleftrightarrow>
     (\<exists>ts rows. let x' = set_deployment_status (resolved_status r) ts x in
        d' = d\<lparr>deployments := update_where dp_id i (set_deployment_status (resolved_status r) ts) (deployments d),
               webhook_deliveries := webhook_deliveries d @ rows\<rparr> \<and>
        get_deployment_row d' i = Some x' \<and>
        list_all2 (delivery_for e (dp_tenant_id x) (deployment_event x') (deployment_payload x'))
          (active_registrations d (dp_tenant_id x)) rows)"

lemma resolve_deployment_outcome:
  assumes "get_deployment_row (w_db s) i = Some x"
  shows "case resolve_deployment e i r s of
      (Inr _, s') \<Rightarrow> rollout_recorded e i r x (w_db s) (w_db s')
    | (Inl y, s') \<Rightarrow> is_sqlalchemy_error y \<and>
        (w_db s' = w_db s \<or>
         (\<exists>ts. w_db s' = (w_db s)\<lparr>deployments :=
            update_where dp_id i (set_deployment_status (resolved_status r) ts) (deployments (w_db s))\<rparr>))"
proof -
  from assms have xi: "dp_id x = i" by (auto dest: get_deployment_rowD)
  let ?save = "save_deployment e i (resolved_status r)"
  obtain q s1 where 1: "?save s = (q, s1)" by (cases "?save s")
  note saved = save_deployment_outcome [where e = e and i = i and st = "resolved_status r" and s = s,
      unfolded 1]
  show ?thesis
  proof (cases q)
    case (Inl y)
    with saved show ?thesis by (simp add: resolve_deployment_def py_simps assms 1)
  next
    case (Inr ts)
    let ?x = "set_deployment_status (resolved_status r) ts x"
    let ?d = "(w_db s)\<lparr>deployments := update_where dp_id i (set_deployment_status (resolved_status r) ts) (deployments (w_db s))\<rparr>"
    have d1: "w_db s1 = ?d" using saved Inr by simp
    have row: "get_deployment_row (?d\<lparr>webhook_deliveries := ws\<rparr>) i = Some ?x" for ws
      using get_deployment_row_update [of "set_deployment_status (resolved_status r) ts" i "w_db s" i]
        assms xi by (simp add: get_deployment_row_def)
    let ?send = "dispatch_tenant_webhooks e (dp_tenant_id x) (deployment_event ?x) (deployment_payload ?x)"
    obtain res s2 where 2: "?send s1 = (res, s2)" by (cases "?send s1")
    then have run: "resolve_deployment e i r s = (res, s2)"
      by (simp add: resolve_deployment_def py_simps assms 1 Inr Let_def)
    show ?thesis
    proof (cases res)
      case (Inl y)
      from dispatch_exn [OF 2 [unfolded Inl]] show ?thesis by (auto simp: run Inl d1)
    next
      case (Inr u)
      from dispatch_ok [OF 2 [unfolded Inr]] obtain rows where
        "list_all2 (delivery_for e (dp_tenant_id x) (deployment_event ?x) (deployment_payload ?x))
           (active_registrations (w_db s) (dp_tenant_id x)) rows"
        "w_db s2 = ?d\<lparr>webhook_deliveries := webhook_deliveries (w_db s) @ rows\<rparr>" by (auto simp: d1)
      with row have "rollout_recorded e i r x (w_db s) (w_db s2)"
        unfolding rollout_recorded_def Let_def by (intro exI [of _ ts] exI [of _ rows]) simp
      then show ?thesis by (simp add: run Inr)
    qed
  qed
qed

text \<open>
  C18: The rollout poller always ends, after at most 36 rounds (180 seconds): with the first
  report that is not pending, with the exception of a round that raises (the database then keeps
  what it held and the row stays as it was), or with the time-out.
\<close>

theorem poll_deployment_ends:
  "(\<exists>k s1 r s2. k < 36 \<and> rollout_rounds e drift ns name k s = Some s1 \<and>
      rollout_round e drift ns name k s1 = (Inr r, s2) \<and> \<not> rollout_pending r \<and>
      poll_deployment_until_running e drift i ns name s = resolve_deployment e i r s2) \<or>
   (\<exists>k s1 x s2. k < 36 \<and> rollout_rounds e drift ns name k s = Some s1 \<and>
      rollout_round e drift ns name k s1 = (Inl x, s2) \<and>
      w_db s2 = w_db (drift (int k * DEPLOY_POLL_INTERVAL_SECONDS) s1) \<and>
      poll_deployment_until_running e drift i ns name s = (Inl x, s2)) \<or>
   (\<exists>s1. rollout_rounds e drift ns name 36 s = Some s1 \<and>
      poll_deployment_until_running e drift i ns name s = expire_deployment e i s1)"
  unfolding poll_deployment_until_running_def
  using deploy_poll.ends [OF rollout_timeout_rounds, of drift e ns name s i]
    poll_round_db [OF only_ext_get_deployment_status]
  by blast

lemma rollout_settled_rows:
  "update_where dp_id i (set_deployment_status st ts) xs =
     map (\<lambda>a. if dp_id a = i \<and> dp_status a \<noteq> st then a\<lparr>dp_status := st, dp_updated_at := ts\<rparr> else a) xs"
  by (auto simp: update_where_def set_deployment_status_def)

lemma resolved_status_cases: "resolved_status r = (case r of RolloutRunning \<Rightarrow> Running | _ \<Rightarrow> DeployFailed)"
  by (cases r) (simp_all add: resolved_status_def)

lemma rollout_settled_event:
  "deployment_event (set_deployment_status (case r of RolloutRunning \<Rightarrow> Running | _ \<Rightarrow> DeployFailed) ts x) =
     (case r of RolloutRunning \<Rightarrow> ''deployment.running'' | _ \<Rightarrow> ''deployment.failed'')"
  by (cases r) (simp_all add: deployment_event_def)

lemma rollout_settled_payload:
  "deployment_payload (set_deployment_status (case r of RolloutRunning \<Rightarrow> Running | _ \<Rightarrow> DeployFailed) ts x) = JObj
     [(''deployment_id'', JInt (dp_id x)), (''tenant_id'', JInt (dp_tenant_id x)),
      (''status'', JStr (case r of RolloutRunning \<Rightarrow> ''running'' | _ \<Rightarrow> ''failed'')),
      (''k8s_deployment_name'', JStr (dp_k8s_deployment_name x))]"
  by (cases r) (simp_all add: deployment_payload_def)

text \<open>
  C19: When some round before the time-out reports the rollout complete or failed, the poller
  stores that in the row of that deployment and in no other: running when it is complete, failed
  otherwise, with the time of the change. For every active webhook of the tenant, in order, it adds
  one delivery row: the event and the payload with that status, posted to its address under its
  signature, with the answer of the outside. Or the database refuses, and at most the row changed.
\<close>

theorem finished_rollout_recorded:
  assumes "rollout_rounds e drift ns name k s = Some s1" and "k < 36"
    and "rollout_round e drift ns name k s1 = (Inr r, s2)" and "\<not> rollout_pending r"
    and "get_deployment_row (w_db s2) i = Some x"
  shows "let st = (case r of RolloutRunning \<Rightarrow> Running | _ \<Rightarrow> DeployFailed);
         settled = (\<lambda>ts a. if dp_id a = i \<and> dp_status a \<noteq> st then a\<lparr>dp_status := st, dp_updated_at := ts\<rparr> else a);
         event = (case r of RolloutRunning \<Rightarrow> ''deployment.running'' | _ \<Rightarrow> ''deployment.failed'');
         payload = JObj
           [(''deployment_id'', JInt i), (''tenant_id'', JInt (dp_tenant_id x)),
            (''status'', JStr (case r of RolloutRunning \<Rightarrow> ''running'' | _ \<Rightarrow> ''failed'')),
            (''k8s_deployment_name'', JStr (dp_k8s_deployment_name x))]
    in case poll_deployment_until_running e drift i ns name s of
      (Inr _, s') \<Rightarrow> \<exists>ts rows.
        w_db s' = (w_db s2)\<lparr>deployments := map (settled ts) (deployments (w_db s2)),
                            webhook_deliveries := webhook_deliveries (w_db s2) @ rows\<rparr> \<and>
        list_all2 (delivery_for e (dp_tenant_id x) event payload)
          (filter (\<lambda>w. wr_tenant_id w = dp_tenant_id x \<and> wr_is_active w) (webhook_registrations (w_db s2))) rows
    | (Inl y, s') \<Rightarrow> is_sqlalchemy_error y \<and>
        (w_db s' = w_db s2 \<or>
         (\<exists>ts. w_db s' = (w_db s2)\<lparr>deployments := map (settled ts) (deployments (w_db s2))\<rparr>))"
proof -
  from deploy_poll.settles_at [OF rollout_timeout_rounds assms(2,1,3,4)]
  have run: "poll_deployment_until_running e drift i ns name s = resolve_deployment e i r s2"
    by (simp add: poll_deployment_until_running_def)
  have xi: "dp_id x = i" using assms(5) by (auto dest: get_deployment_rowD)
  obtain res s' where res: "resolve_deployment e i r s2 = (res, s')" by (cases "resolve_deployment e i r s2")
  show ?thesis
    unfolding run res Let_def prod.case
    using resolve_deployment_outcome [OF assms(5), where e = e and r = r, unfolded res prod.case]
    unfolding rollout_recorded_def Let_def rollout_settled_rows rollout_settled_event rollout_settled_payload
      resolved_status_cases xi active_registrations_def
    by (cases res) auto
qed

definition sample_deployment :: deployment where
  "sample_deployment = set_deployment_status Deploying 7 (new_deployment 1 1 1 1 6)"

definition sample_deploy_db :: db where
  "sample_deploy_db = sample_db\<lparr>deployments := [sample_deployment]\<rparr>"

theorem finished_rollout_recorded_witness:
  "case poll_deployment_until_running mem_env (\<lambda>_ s. s) 1 ''tenant-1'' TENANT_APP_NAME (mem_world sample_deploy_db) of
      (Inr _, s') \<Rightarrow> \<exists>ts. deployments (w_db s') = [sample_deployment\<lparr>dp_status := Running, dp_updated_at := ts\<rparr>]
    | (Inl y, s') \<Rightarrow> is_sqlalchemy_error y"
proof -
  let ?s = "mem_world sample_deploy_db"
  have "rollout_round mem_env (\<lambda>_ s. s) ''tenant-1'' TENANT_APP_NAME 0 ?s = (Inr RolloutRunning, ?s)"
    by (simp add: poll_round_def sleep_def get_deployment_status_def deployment_rollout_def mem_poll_defs)
  moreover have "w_db ?s = sample_deploy_db" by (simp add: mem_world_def)
  moreover have "get_deployment_row sample_deploy_db 1 = Some sample_deployment"
    "deployments sample_deploy_db = [sample_deployment]" "dp_id sample_deployment = 1" "dp_status sample_deployment = Deploying"
    by (simp_all add: get_deployment_row_def sample_deploy_db_def sample_deployment_def new_deployment_def)
  ultimately show ?thesis
    using finished_rollout_recorded [where k = 0 and s = ?s and e = mem_env and drift = "\<lambda>_ s. s"
        and ns = "''tenant-1''" and name = TENANT_APP_NAME and i = 1 and r = RolloutRunning
        and ?s1.0 = ?s and ?s2.0 = ?s and x = sample_deployment]
    by (auto simp: Let_def split: prod.splits sum.splits)
qed

end
