(* ===== verification/Lifecycle.thy ===== *)
theory Lifecycle
  imports Deployments Tenants
begin

text \<open>
  The abstract specification of the platform: the transitions its database may make, each with the
  actor that makes it, free of requests, sessions, clusters and failures. Invariants, the life of
  builds and deployments and the isolation of tenants are proved here, once; every segment of a
  running request or poller is shown to make one of these transitions, or none.
\<close>

section \<open>Transitions\<close>

definition fresh :: "(table \<Rightarrow> int) \<Rightarrow> (table \<Rightarrow> int) \<Rightarrow> table \<Rightarrow> int \<Rightarrow> bool" where
  "fresh used used' tb i \<longleftrightarrow> used tb < i \<and> i \<le> used' tb"

text \<open>A delivery row that reports to a registration of the tenant itself.\<close>

definition own_delivery :: "db \<Rightarrow> int \<Rightarrow> webhook_delivery \<Rightarrow> bool" where
  "own_delivery d tid w \<longleftrightarrow> wd_tenant_id w = tid \<and>
     (\<exists>r \<in> set (webhook_registrations d). wr_id r = wd_webhook_registration_id w \<and> wr_tenant_id r = tid)"

text \<open>
  Who makes a step: the administrator, a request of a tenant, whoever is in charge of one build or
  one deployment (the request that starts it, then its poller), and background work for a tenant.
\<close>

datatype actor = ByAdmin | ByTenant int | ByBuild int int | ByDeployment int int | ByWorker int

fun actor_tenant :: "actor \<Rightarrow> int option" where
  "actor_tenant ByAdmin = None"
| "actor_tenant (ByTenant t) = Some t"
| "actor_tenant (ByBuild t i) = Some t"
| "actor_tenant (ByDeployment t i) = Some t"
| "actor_tenant (ByWorker t) = Some t"

text \<open>The one row whose status an actor may move.\<close>

datatype row_ref = BuildRow int | DeploymentRow int

fun actor_row :: "actor \<Rightarrow> row_ref option" where
  "actor_row (ByBuild t i) = Some (BuildRow i)"
| "actor_row (ByDeployment t i) = Some (DeploymentRow i)"
| "actor_row _ = None"

text \<open>
  The life of a build: from queued to building or failed, from building to its end, and no more;
  the life of a deployment likewise.
\<close>

inductive build_moves :: "build_status \<Rightarrow> build_status \<Rightarrow> bool" where
  "build_moves Queued Building"
| "build_moves Queued BuildFailed"
| "build_moves Building Succeeded"
| "build_moves Building BuildFailed"

code_pred build_moves .

inductive_simps build_moves_simps [simp]: "build_moves a Succeeded" "build_moves a Building"
  "build_moves a BuildFailed" "build_moves a Queued" "build_moves Succeeded b" "build_moves BuildFailed b"

inductive deployment_moves :: "deployment_status \<Rightarrow> deployment_status \<Rightarrow> bool" where
  "deployment_moves Pending Deploying"
| "deployment_moves Pending DeployFailed"
| "deployment_moves Deploying Running"
| "deployment_moves Deploying DeployFailed"

code_pred deployment_moves .

inductive_simps deployment_moves_simps [simp]: "deployment_moves a Running" "deployment_moves a Deploying"
  "deployment_moves a DeployFailed" "deployment_moves a Pending" "deployment_moves Running b"
  "deployment_moves DeployFailed b"

text \<open>
  The transitions, between two values of the identifiers handed out so far. The identifier of a new
  tenant is drawn before its row is committed; every other new row draws its own as it is inserted.
\<close>

inductive db_step :: "(table \<Rightarrow> int) \<Rightarrow> (table \<Rightarrow> int) \<Rightarrow> actor \<Rightarrow> db \<Rightarrow> db \<Rightarrow> bool"
  for used used' where
  idle: "db_step used used' who d d"
| add_tenant:
    "t_id t \<le> used' Tenants \<Longrightarrow> fresh used used' ApiKeys (ak_id k) \<Longrightarrow>
     t_k8s_namespace t = namespace_of (t_id t) \<Longrightarrow> ak_tenant_id k = t_id t \<Longrightarrow>
     db_step used used' ByAdmin d (d\<lparr>tenants := tenants d @ [t], api_keys := api_keys d @ [k]\<rparr>)"
| edit_tenant:
    "db_step used used' ByAdmin d (d\<lparr>tenants := update_where t_id i (update_tenant_row u) (tenants d)\<rparr>)"
| delete_tenant: "db_step used used' ByAdmin d (cascade_delete_tenant i d)"
| add_key:
    "fresh used used' ApiKeys (ak_id k) \<Longrightarrow> ak_tenant_id k = tid \<Longrightarrow>
     db_step used used' (ByTenant tid) d (d\<lparr>api_keys := api_keys d @ [k]\<rparr>)"
| revoke_key:
    "k \<in> set (api_keys d) \<Longrightarrow> ak_id k = i \<Longrightarrow> ak_tenant_id k = tid \<Longrightarrow>
     db_step used used' (ByTenant tid) d (d\<lparr>api_keys := update_where ak_id i (revoke_row now) (api_keys d)\<rparr>)"
| add_build:
    "fresh used used' BuildJobs (bj_id b) \<Longrightarrow> bj_tenant_id b = tid \<Longrightarrow> bj_status b = Queued \<Longrightarrow>
     db_step used used' (ByTenant tid) d (d\<lparr>build_jobs := build_jobs d @ [b]\<rparr>)"
| start_build:
    "b \<in> set (build_jobs d) \<Longrightarrow> bj_id b = i \<Longrightarrow> bj_tenant_id b = tid \<Longrightarrow> bj_status b = Queued \<Longrightarrow>
     f = mark_building now \<or> f = mark_start_failed x now \<Longrightarrow>
     db_step used used' (ByBuild tid i) d (d\<lparr>build_jobs := update_where bj_id i f (build_jobs d)\<rparr>)"
| settle_build:
    "b \<in> set (build_jobs d) \<Longrightarrow> bj_id b = i \<Longrightarrow> bj_tenant_id b = tid \<Longrightarrow> bj_status b = Building \<Longrightarrow>
     \<not> build_pending r \<Longrightarrow>
     db_step used used' (ByBuild tid i) d
       (d\<lparr>build_jobs := update_where bj_id i (resolved_build r now) (build_jobs d)\<rparr>)"
| expire_build:
    "b \<in> set (build_jobs d) \<Longrightarrow> bj_id b = i \<Longrightarrow> bj_tenant_id b = tid \<Longrightarrow> bj_status b = Building \<Longrightarrow>
     db_step used used' (ByBuild tid i) d
       (d\<lparr>build_jobs := update_where bj_id i (mark_timed_out now) (build_jobs d)\<rparr>)"
| add_deployment:
    "fresh used used' Deployments (dp_id x) \<Longrightarrow> dp_tenant_id x = tid \<Longrightarrow>
     b \<in> set (build_jobs d) \<Longrightarrow> bj_id b = dp_build_job_id x \<Longrightarrow> bj_tenant_id b = tid \<Longrightarrow>
     bj_status b = Succeeded \<Longrightarrow> dp_k8s_deployment_name x = TENANT_APP_NAME \<Longrightarrow> dp_status x = Pending \<Longrightarrow>
     db_step used used' (ByTenant tid) d (d\<lparr>deployments := deployments d @ [x]\<rparr>)"
| move_deployment:
    "x \<in> set (deployments d) \<Longrightarrow> dp_id x = i \<Longrightarrow> dp_tenant_id x = tid \<Longrightarrow> deployment_moves (dp_status x) st \<Longrightarrow>
     db_step used used' (ByDeployment tid i) d
       (d\<lparr>deployments := update_where dp_id i (set_deployment_status st ts) (deployments d)\<rparr>)"
| add_deliveries:
    "list_all (own_delivery d tid) ws \<Longrightarrow>
     db_step used used' (ByWorker tid) d (d\<lparr>webhook_deliveries := webhook_deliveries d @ ws\<rparr>)"
| add_webhook:
    "fresh used used' WebhookRegistrations (wr_id r) \<Longrightarrow> wr_tenant_id r = tid \<Longrightarrow>
     db_step used used' (ByTenant tid) d (d\<lparr>webhook_registrations := webhook_registrations d @ [r]\<rparr>)"

section \<open>Invariant\<close>

text \<open>
  What every database the platform reaches satisfies beyond the declared constraints: identifiers
  were handed out before, namespaces are derived from identifiers, every deployment comes from a
  succeeded build of its own tenant, every delivery went to a registration of its own tenant.
\<close>

definition ids_bounded :: "(table \<Rightarrow> int) \<Rightarrow> db \<Rightarrow> bool" where
  "ids_bounded used d \<longleftrightarrow>
     (\<forall>t \<in> set (tenants d). t_id t \<le> used Tenants) \<and> (\<forall>k \<in> set (api_keys d). ak_id k \<le> used ApiKeys) \<and>
     (\<forall>b \<in> set (build_jobs d). bj_id b \<le> used BuildJobs) \<and>
     (\<forall>x \<in> set (deployments d). dp_id x \<le> used Deployments) \<and>
     (\<forall>r \<in> set (webhook_registrations d). wr_id r \<le> used WebhookRegistrations)"

definition namespaces_derived :: "db \<Rightarrow> bool" where
  "namespaces_derived d \<longleftrightarrow> (\<forall>t \<in> set (tenants d). t_k8s_namespace t = namespace_of (t_id t))"

definition deployments_own_builds :: "db \<Rightarrow> bool" where
  "deployments_own_builds d \<longleftrightarrow>
     (\<forall>x \<in> set (deployments d). dp_k8s_deployment_name x = TENANT_APP_NAME \<and>
        (\<exists>b \<in> set (build_jobs d). bj_id b = dp_build_job_id x \<and>
           bj_tenant_id b = dp_tenant_id x \<and> bj_status b = Succeeded))"

definition deliveries_own :: "db \<Rightarrow> bool" where
  "deliveries_own d \<longleftrightarrow> (\<forall>w \<in> set (webhook_deliveries d). own_delivery d (wd_tenant_id w) w)"

definition db_inv :: "(table \<Rightarrow> int) \<Rightarrow> db \<Rightarrow> bool" where
  "db_inv used d \<longleftrightarrow>
     constraints_ok d \<and> ids_bounded used d \<and> namespaces_derived d \<and> deployments_own_builds d \<and>
     deliveries_own d"

lemma db_inv_empty: "db_inv (\<lambda>_. 0) empty_db"
  using schema_ok_empty
  by (simp add: db_inv_def schema_ok_def ids_bounded_def namespaces_derived_def
      deployments_own_builds_def deliveries_own_def empty_db_def)

section \<open>Preservation\<close>

lemma mark_timed_out_simps [simp]:
  "bj_id (mark_timed_out now b) = bj_id b" "bj_tenant_id (mark_timed_out now b) = bj_tenant_id b"
  by (simp_all add: mark_timed_out_def)

lemma mark_started_simps [simp]:
  "bj_id (mark_building now b) = bj_id b" "bj_tenant_id (mark_building now b) = bj_tenant_id b"
  "bj_status (mark_building now b) = Building"
  "bj_id (mark_start_failed x now b) = bj_id b" "bj_tenant_id (mark_start_failed x now b) = bj_tenant_id b"
  "bj_status (mark_start_failed x now b) = BuildFailed"
  by (simp_all add: mark_building_def mark_start_failed_def)

lemma ids_bounded_step:
  assumes "db_step used used' who d d'" and "ids_bounded used d" and "used \<le> used'"
  shows "ids_bounded used' d'"
proof -
  have "ids_bounded used' d"
    using assms(2,3) by (auto simp: ids_bounded_def le_fun_def intro: order_trans)
  with assms(1) show ?thesis
    by (cases rule: db_step.cases)
      (auto simp: ids_bounded_def fresh_def set_update_where cascade_delete_tenant_def Let_def
        revoke_row_def)
qed

lemma namespaces_derived_step:
  assumes "db_step used used' who d d'" and "namespaces_derived d"
  shows "namespaces_derived d'"
  using assms
  by (cases rule: db_step.cases)
    (auto simp: namespaces_derived_def set_update_where cascade_delete_tenant_def Let_def)

text \<open>A step keeps the succeeded builds of the tenants it keeps.\<close>

lemma same_build:
  assumes "build_jobs_ok d" and "b \<in> set (build_jobs d)" and "b' \<in> set (build_jobs d)" and "bj_id b = bj_id b'"
  shows "b = b'"
  using distinct_map_the_one [of bj_id "build_jobs d" b b'] assms by (simp add: build_jobs_ok_def)

lemma succeeded_build_kept:
  assumes "build_jobs_ok d" and "b \<in> set (build_jobs d)" and "bj_status b = Succeeded"
    and "b0 \<in> set (build_jobs d)" and "bj_status b0 \<noteq> Succeeded"
  shows "b \<in> set (update_where bj_id (bj_id b0) f (build_jobs d))"
  using same_build [OF assms(1,2,4)] assms by (auto simp: set_update_where image_iff intro!: bexI [of _ b])

lemma deployments_own_builds_step:
  assumes "db_step used used' who d d'" and "deployments_own_builds d" and "build_jobs_ok d"
  shows "deployments_own_builds d'"
  using assms
proof (cases rule: db_step.cases)
  case (start_build b i tid f now x)
  then have "\<And>b. bj_id (f b) = bj_id b" by auto
  with start_build show ?thesis
    using assms(2) succeeded_build_kept [OF assms(3)] unfolding deployments_own_builds_def
    by simp (metis build_status.distinct(3))
next
  case (settle_build b i tid r now)
  then show ?thesis
    using assms(2) succeeded_build_kept [OF assms(3)] unfolding deployments_own_builds_def
    by simp (metis build_status.distinct(7))
next
  case (expire_build b i tid now)
  then show ?thesis
    using assms(2) succeeded_build_kept [OF assms(3)] unfolding deployments_own_builds_def
    by simp (metis build_status.distinct(7))
qed (force simp: deployments_own_builds_def set_update_where cascade_delete_tenant_def Let_def)+

lemma own_delivery_mono:
  assumes "own_delivery d tid w" and "set (webhook_registrations d) \<subseteq> set (webhook_registrations d')"
  shows "own_delivery d' tid w"
  using assms by (auto simp: own_delivery_def)

lemma deliveries_own_step:
  assumes "db_step used used' who d d'" and "deliveries_own d"
  shows "deliveries_own d'"
  using assms
proof (cases rule: db_step.cases)
  case (delete_tenant i)
  let ?regs = "\<lambda>d. set (webhook_registrations d)"
  have "own_delivery d' (wd_tenant_id w) w" if w: "w \<in> set (webhook_deliveries d')" for w
  proof -
    from w delete_tenant have "w \<in> set (webhook_deliveries d)" "wd_tenant_id w \<noteq> i"
      by (auto simp: cascade_delete_tenant_def Let_def)
    with assms(2) obtain r where "r \<in> ?regs d" "wr_id r = wd_webhook_registration_id w"
      "wr_tenant_id r = wd_tenant_id w" "wr_tenant_id r \<noteq> i"
      by (auto simp: deliveries_own_def own_delivery_def)
    moreover from this have "r \<in> ?regs d'"
      using delete_tenant by (simp add: cascade_delete_tenant_def Let_def)
    ultimately show ?thesis by (auto simp: own_delivery_def)
  qed
  then show ?thesis by (simp add: deliveries_own_def)
next
  case (add_deliveries tid ws)
  then show ?thesis
    using assms(2) by (auto simp: deliveries_own_def list_all_iff own_delivery_def)
qed (auto simp: deliveries_own_def own_delivery_def)

lemma db_inv_step:
  assumes "db_step used used' who d d'" and "db_inv used d" and "used \<le> used'" and "constraints_ok d'"
  shows "db_inv used' d'"
  using assms ids_bounded_step [OF assms(1)] namespaces_derived_step [OF assms(1)]
    deployments_own_builds_step [OF assms(1)] deliveries_own_step [OF assms(1)]
  by (simp add: db_inv_def constraints_ok_def)

section \<open>Isolation\<close>

text \<open>Everything the database holds for one tenant.\<close>

definition tenant_data ::
  "db \<Rightarrow> int \<Rightarrow> tenant list \<times> api_key list \<times> build_job list \<times> deployment list \<times> webhook_registration list" where
  "tenant_data d i =
     (filter (\<lambda>t. t_id t = i) (tenants d), filter (\<lambda>k. ak_tenant_id k = i) (api_keys d),
      filter (\<lambda>b. bj_tenant_id b = i) (build_jobs d), filter (\<lambda>x. dp_tenant_id x = i) (deployments d),
      filter (\<lambda>r. wr_tenant_id r = i) (webhook_registrations d))"

lemma tenant_data_cascade:
  "tenant_data (cascade_delete_tenant i d) j = (if j = i then ([], [], [], [], []) else tenant_data d j)"
  by (auto simp: tenant_data_def cascade_delete_tenant_def Let_def filter_empty_conv
      intro!: filter_cong [OF refl])

lemma deliveries_cascade:
  "filter (\<lambda>w. wd_tenant_id w = i) (webhook_deliveries (cascade_delete_tenant i d)) = []"
  by (auto simp: cascade_delete_tenant_def Let_def filter_empty_conv)

lemma filter_update_where_id:
  assumes "\<And>r. r \<in> set rs \<Longrightarrow> key r = i \<Longrightarrow> \<not> P r \<and> \<not> P (f r)"
  shows "filter P (update_where key i f rs) = filter P rs"
  using assms by (induction rs) (auto simp: update_where_def)

text \<open>What a tenant's own step does not touch: the rows of every other tenant.\<close>

lemma db_step_isolated:
  assumes "db_step used used' who d d'" and "actor_tenant who = Some t" and "constraints_ok d" and "j \<noteq> t"
  shows "tenant_data d' j = tenant_data d j \<and>
         filter (\<lambda>w. wd_tenant_id w = j) (webhook_deliveries d') = filter (\<lambda>w. wd_tenant_id w = j) (webhook_deliveries d)"
proof -
  have key: "ak_tenant_id k' = ak_tenant_id k" if "k \<in> set (api_keys d)" "k' \<in> set (api_keys d)" "ak_id k' = ak_id k" for k k'
    using distinct_map_the_one [of ak_id, OF _ that(1,2)] that(3) assms(3) by (auto simp: constraint_defs)
  have build: "bj_tenant_id b' = bj_tenant_id b" if "b \<in> set (build_jobs d)" "b' \<in> set (build_jobs d)" "bj_id b' = bj_id b" for b b'
    using distinct_map_the_one [of bj_id, OF _ that(1,2)] that(3) assms(3) by (auto simp: constraint_defs)
  have depl: "dp_tenant_id x' = dp_tenant_id x" if "x \<in> set (deployments d)" "x' \<in> set (deployments d)" "dp_id x' = dp_id x" for x x'
    using distinct_map_the_one [of dp_id, OF _ that(1,2)] that(3) assms(3) by (auto simp: constraint_defs)
  show ?thesis
    using assms(1,2,4)
    by (cases rule: db_step.cases)
      (auto simp: tenant_data_def list_all_iff own_delivery_def filter_empty_conv revoke_row_def
        dest: key build depl intro!: filter_update_where_id)
qed

section \<open>What a step makes of a row\<close>

text \<open>
  A row whose identifier was handed out before was there before, of the same tenant; only the actor
  in charge of it has moved its status.
\<close>

lemma db_step_build_origin:
  assumes "db_step used used' who d d'" and "constraints_ok d"
    and "b' \<in> set (build_jobs d')" and "bj_id b' \<le> used BuildJobs"
  shows "\<exists>b \<in> set (build_jobs d). bj_id b = bj_id b' \<and> bj_tenant_id b = bj_tenant_id b' \<and>
    (b' = b \<or> who = ByBuild (bj_tenant_id b) (bj_id b) \<and> build_moves (bj_status b) (bj_status b'))"
proof -
  have upd: ?thesis
    if "who = ByBuild (bj_tenant_id b0) i" "b' \<in> set (update_where bj_id i f (build_jobs d))" "b0 \<in> set (build_jobs d)" "bj_id b0 = i"
      "bj_id (f b0) = bj_id b0" "bj_tenant_id (f b0) = bj_tenant_id b0" "build_moves (bj_status b0) (bj_status (f b0))" for f i b0
  proof -
    from that(2) obtain b where b: "b \<in> set (build_jobs d)" "b' = (if bj_id b = i then f b else b)"
      by (auto simp: set_update_where)
    have "b = b0" if "bj_id b = i"
      using same_build [of d b b0] assms(2) b(1) \<open>b0 \<in> set (build_jobs d)\<close> \<open>bj_id b0 = i\<close> that by (simp add: constraints_ok_def)
    with b that show ?thesis by (intro bexI [of _ b]) auto
  qed
  show ?thesis
    using assms(1)
  proof (cases rule: db_step.cases)
    case (start_build b0 i tid f now x)
    with assms(3) show ?thesis by (intro upd [where i = i and f = f and ?b0.0 = b0]) auto
  next
    case (settle_build b0 i tid r now)
    then have "build_moves (bj_status b0) (bj_status (resolved_build r now b0))" by (cases r) auto
    with settle_build assms(3) show ?thesis by (intro upd [where i = i and f = "resolved_build r now" and ?b0.0 = b0]) auto
  next
    case (expire_build b0 i tid now)
    with assms(3) show ?thesis by (intro upd [where i = i and f = "mark_timed_out now" and ?b0.0 = b0]) (auto simp: mark_timed_out_def)
  qed (use assms(3,4) in \<open>auto simp: cascade_delete_tenant_def Let_def fresh_def\<close>)
qed

lemma db_step_deployment_origin:
  assumes "db_step used used' who d d'" and "constraints_ok d"
    and "x' \<in> set (deployments d')" and "dp_id x' \<le> used Deployments"
  shows "\<exists>x \<in> set (deployments d). dp_id x = dp_id x' \<and> dp_tenant_id x = dp_tenant_id x' \<and>
    (x' = x \<or> who = ByDeployment (dp_tenant_id x) (dp_id x) \<and> deployment_moves (dp_status x) (dp_status x'))"
  using assms(1)
proof (cases rule: db_step.cases)
  case (move_deployment x0 i tid st ts)
  with assms(3) obtain x where x: "x \<in> set (deployments d)" "x' = (if dp_id x = i then set_deployment_status st ts x else x)"
    by (auto simp: set_update_where)
  have "x = x0" if "dp_id x = i"
    using distinct_map_the_one [of dp_id, OF _ x(1), of x0] assms(2) move_deployment that by (simp add: constraint_defs)
  with x move_deployment show ?thesis by (intro bexI [of _ x]) auto
qed (use assms(3,4) in \<open>auto simp: cascade_delete_tenant_def Let_def fresh_def\<close>)

lemma db_step_webhook_origin:
  assumes "db_step used used' who d d'" and "r \<in> set (webhook_registrations d')" and "wr_id r \<le> used WebhookRegistrations"
  shows "r \<in> set (webhook_registrations d)"
  using assms by (cases rule: db_step.cases) (auto simp: cascade_delete_tenant_def Let_def fresh_def)

lemma db_step_key_origin:
  assumes "db_step used used' who d d'" and "k' \<in> set (api_keys d')" and "ak_id k' \<le> used ApiKeys"
  shows "\<exists>k \<in> set (api_keys d). ak_id k = ak_id k' \<and> ak_tenant_id k = ak_tenant_id k'"
  using assms
  by (cases rule: db_step.cases) (auto simp: cascade_delete_tenant_def Let_def fresh_def set_update_where revoke_row_def)

lemma db_step_build_status:
  assumes "db_step used used' who d d'" and "db_inv used d"
    and "b \<in> set (build_jobs d)" and "b' \<in> set (build_jobs d')" and "bj_id b' = bj_id b" and "b' \<noteq> b"
  shows "who = ByBuild (bj_tenant_id b) (bj_id b) \<and> build_moves (bj_status b) (bj_status b')"
proof -
  from assms(2,3,5) have c: "constraints_ok d" and "bj_id b' \<le> used BuildJobs"
    by (auto simp: db_inv_def ids_bounded_def)
  from db_step_build_origin [OF assms(1) c assms(4) this(2)] obtain b0 where
    "b0 \<in> set (build_jobs d)" "bj_id b0 = bj_id b'"
    "b' = b0 \<or> who = ByBuild (bj_tenant_id b0) (bj_id b0) \<and> build_moves (bj_status b0) (bj_status b')" by blast
  with same_build [of d b0 b] c assms(3,5,6) show ?thesis by (auto simp: constraints_ok_def)
qed

lemma db_step_deployment_status:
  assumes "db_step used used' who d d'" and "db_inv used d"
    and "x \<in> set (deployments d)" and "x' \<in> set (deployments d')" and "dp_id x' = dp_id x" and "x' \<noteq> x"
  shows "who = ByDeployment (dp_tenant_id x) (dp_id x) \<and> deployment_moves (dp_status x) (dp_status x')"
proof -
  from assms(2,3,5) have c: "constraints_ok d" and "dp_id x' \<le> used Deployments"
    by (auto simp: db_inv_def ids_bounded_def)
  from db_step_deployment_origin [OF assms(1) c assms(4) this(2)] obtain x0 where
    "x0 \<in> set (deployments d)" "dp_id x0 = dp_id x'"
    "x' = x0 \<or> who = ByDeployment (dp_tenant_id x0) (dp_id x0) \<and> deployment_moves (dp_status x0) (dp_status x')" by blast
  with distinct_map_the_one [of dp_id "deployments d" x0 x] c assms(3,5,6) show ?thesis
    by (auto simp: constraint_defs)
qed

end
