(* ===== verification/TenantProperties.thy ===== *)
theory TenantProperties
  imports Auth DeployProperties Lifecycle
begin

text \<open>
  Who may act for a tenant, and what the administration of tenants and keys leaves behind.
\<close>

section \<open>Sample data\<close>

text \<open>The sample tenant with one live key; the hash stays symbolic.\<close>

definition sample_key :: api_key where
  "sample_key = new_api_key 1 1 ''primary'' ''mtp_x'' (key_hash_of mem_env ''mtp_x'') 3"

definition sample_key_db :: db where
  "sample_key_db = sample_db\<lparr>api_keys := [sample_key]\<rparr>"

lemmas sample_key_defs = sample_key_db_def sample_key_def new_api_key_def sample_defs

lemma length_key_hash_of [simp]: "length (key_hash_of e raw) = 64"
  by (simp add: key_hash_of_def)

lemma schema_ok_sample_key_db: "schema_ok sample_key_db"
  by (simp add: schema_ok_def column_defs constraint_defs sample_key_defs int32_def fits_def)

lemma w_db_mem_world [simp]: "w_db (mem_world d) = d"
  by (simp add: mem_world_def)

lemma secret_mem_env [simp]: "API_KEY_SECRET (e_cfg mem_env) = Some ''k''"
  by (simp add: mem_env_def mem_cfg_def)

section \<open>Authentication\<close>

text \<open>
  C7: A request is let through to a tenant's resources exactly when the presented key hashes to
  the hash of a stored key that is not revoked and belongs to that tenant, and the tenant is
  active.
\<close>

theorem tenant_access_iff:
  assumes "constraints_ok (w_db s)" and "API_KEY_SECRET (e_cfg e) \<noteq> None"
  shows "verify_tenant e tid raw s = (Inr (), s) \<longleftrightarrow>
    (\<exists>k \<in> set (api_keys (w_db s)). \<exists>t \<in> set (tenants (w_db s)).
       ak_key_hash k = key_hash_of e raw \<and> ak_revoked_at k = None \<and> ak_tenant_id k = tid \<and>
       t_id t = tid \<and> t_is_active t)"
  using verify_tenant_accepts [OF assms, of tid raw] verify_tenant_state [of e tid raw s]
  by (cases "verify_tenant e tid raw s") auto

theorem tenant_access_iff_witness:
  "verify_tenant mem_env 1 ''mtp_x'' (mem_world sample_key_db) = (Inr (), mem_world sample_key_db)"
proof -
  have "constraints_ok (w_db (mem_world sample_key_db))"
    using schema_ok_sample_key_db by (simp add: schema_ok_def)
  then have "verify_tenant mem_env 1 ''mtp_x'' (mem_world sample_key_db) = (Inr (), mem_world sample_key_db) \<longleftrightarrow>
    (\<exists>k \<in> set (api_keys sample_key_db). \<exists>t \<in> set (tenants sample_key_db).
       ak_key_hash k = key_hash_of mem_env ''mtp_x'' \<and> ak_revoked_at k = None \<and> ak_tenant_id k = 1 \<and>
       t_id t = 1 \<and> t_is_active t)"
    using tenant_access_iff [of "mem_world sample_key_db" mem_env 1 "''mtp_x''"] by simp
  then show ?thesis by (simp add: sample_key_defs)
qed

lemma live_key_iff:
  assumes "constraints_ok d"
  shows "live_key d h = Some k \<longleftrightarrow> k \<in> set (api_keys d) \<and> ak_key_hash k = h \<and> ak_revoked_at k = None"
proof
  assume "live_key d h = Some k"
  then show "k \<in> set (api_keys d) \<and> ak_key_hash k = h \<and> ak_revoked_at k = None"
    by (auto simp: live_key_def dest: find_SomeD)
next
  assume k: "k \<in> set (api_keys d) \<and> ak_key_hash k = h \<and> ak_revoked_at k = None"
  then have "live_key d h \<noteq> None" by (auto simp: live_key_def find_None_iff)
  then obtain k' where k': "live_key d h = Some k'" by blast
  then have "k' \<in> set (api_keys d)" "ak_key_hash k' = h" by (auto simp: live_key_def dest: find_SomeD)
  with distinct_map_the_one [of ak_key_hash "api_keys d" k' k] assms k k'
  show "live_key d h = Some k" by (auto simp: constraint_defs)
qed

lemma new_tenant_key_verifies:
  assumes "create_tenant_service e td s = (Inr (t, raw), s')"
  shows "verify_tenant e tid raw s' =
    (if tid = t_id t then Inr () else Inl (HTTPException 403 ''Forbidden resource''), s')"
proof -
  from create_tenant_service_ok [OF assms] obtain ts k kts where
    t: "t = (new_tenant (t_id t) (tc_name td) ts)\<lparr>t_k8s_namespace := namespace_of (t_id t)\<rparr>" and
    sec: "API_KEY_SECRET (e_cfg e) \<noteq> None" and
    d: "w_db s' = (w_db s)\<lparr>tenants := tenants (w_db s) @ [t],
       api_keys := api_keys (w_db s) @ [new_api_key k (t_id t) ''primary'' raw (key_hash_of e raw) kts]\<rparr>" and
    ok: "schema_ok (w_db s')" by blast
  let ?k = "new_api_key k (t_id t) ''primary'' raw (key_hash_of e raw) kts"
  from ok have c: "constraints_ok (w_db s')" and ts: "tenants_ok (w_db s')"
    by (simp_all add: schema_ok_def constraints_ok_def)
  have "live_key (w_db s') (key_hash_of e raw) = Some ?k"
    unfolding live_key_iff [OF c] by (simp add: d new_api_key_def)
  moreover have "get_tenant_row (w_db s') (t_id t) = Some t"
    unfolding get_tenant_row_iff [OF ts] by (simp add: d)
  moreover have "t_is_active t" by (subst t) (simp add: new_tenant_def)
  moreover have "ak_tenant_id ?k = t_id t" by (simp add: new_api_key_def)
  ultimately show ?thesis by (auto simp: verify_tenant_eq [OF c sec])
qed

text \<open>
  C22: A new tenant can work at once with the key its creation returned, and with that key on no
  other tenant: right after \<open>create_tenant_service\<close> the key passes for the new tenant and is
  answered 403 for every other identifier.
\<close>

theorem new_tenant_key_authenticates:
  assumes "create_tenant_service e td s = (Inr (t, raw), s')"
  shows "verify_tenant e tid raw s' =
    (if tid = t_id t then Inr () else Inl (HTTPException 403 ''Forbidden resource''), s')"
  using assms by (rule new_tenant_key_verifies)

lemma commit_fails_mem_env [simp]: "e_commit_fails mem_env d d' = None"
  by (simp add: mem_env_def)

lemma sample_tenant_created:
  "\<exists>t raw s'. create_tenant_service mem_env \<lparr>tc_name = ''acme''\<rparr> (mem_world empty_db) = (Inr (t, raw), s') \<and>
     t_id t = 1"
proof -
  let ?s = "mem_world empty_db"
  obtain i s1 where 1: "next_id mem_env Tenants ?s = (Inr i, s1)" by (rule next_id_returns)
  then have i: "i = 1" by (simp add: next_id_def mem_env_def mem_world_def)
  obtain ts s2 where 2: "db_now mem_env s1 = (Inr ts, s2)" by (rule db_now_returns)
  have d2: "w_db s2 = empty_db"
    using next_id_apply [OF 1] only_extD(1) [OF only_ext_db_now 2] by simp
  obtain r s3 where 3: "generate_secure_key mem_env ''mtp'' 32 s2 = (r, s3)"
    by (cases "generate_secure_key mem_env ''mtp'' 32 s2")
  from generate_secure_key_shape [OF 3] obtain x where r: "r = Inr (''mtp_'' @ x)" by auto
  obtain k s4 where 4: "next_id mem_env ApiKeys s3 = (Inr k, s4)" by (rule next_id_returns)
  have k: "k = 1"
    using 4 next_id_apply [OF 1] only_extD(2) [OF only_ext_db_now 2]
      only_extD(2) [OF only_ext_generate_secure_key 3]
    by (simp add: next_id_def mem_env_def mem_world_def split: prod.splits)
  obtain kts s5 where 5: "db_now mem_env s4 = (Inr kts, s5)" by (rule db_now_returns)
  have d5: "w_db s5 = empty_db"
    using d2 only_extD(1) [OF only_ext_generate_secure_key 3] next_id_apply [OF 4]
      only_extD(1) [OF only_ext_db_now 5] by simp
  have h: "hash_api_key raw (Some ''k'') = Inr (key_hash_of mem_env raw)" for raw
    by (simp add: hash_api_key_def key_hash_of_def orelse_def)
  let ?t = "(new_tenant 1 ''acme'' ts)\<lparr>t_k8s_namespace := namespace_of 1\<rparr>"
  let ?k = "new_api_key 1 1 ''primary'' (''mtp_'' @ x) (key_hash_of mem_env (''mtp_'' @ x)) kts"
  note ok = check_pending_None schema_ok_def column_defs constraint_defs empty_db_def new_tenant_def
    new_api_key_def namespace_of_def int32_def show_int_def show_nat.simps
  have c1: "check_pending mem_env empty_db
      (empty_db\<lparr>tenants := tenants empty_db @ [new_tenant 1 ''acme'' ts]\<rparr>) = None"
    by (simp add: ok)
  have c2: "check_pending mem_env empty_db
      (empty_db\<lparr>tenants := tenants empty_db @ [?t], api_keys := api_keys empty_db @ [?k]\<rparr>) = None"
    by (simp add: ok)
  have "t_id (new_tenant 1 ''acme'' ts) = 1" by (simp add: new_tenant_def)
  with c1 c2 show ?thesis
    by (simp add: create_tenant_service_def py_simps Let_def 1 2 3 r 4 5 h i k commit_apply flush_def d2 d5)
qed

theorem new_tenant_key_authenticates_witness:
  "\<exists>t raw s'. create_tenant_service mem_env \<lparr>tc_name = ''acme''\<rparr> (mem_world empty_db) = (Inr (t, raw), s') \<and>
     verify_tenant mem_env (t_id t) raw s' = (Inr (), s')"
  using sample_tenant_created new_tenant_key_authenticates by fastforce

section \<open>Revocation\<close>

lemma revoke_api_key_service_ok:
  assumes "constraints_ok (w_db s)" and "revoke_api_key_service e tid kid s = (Inr (Some k), s')"
  obtains k0 now where
    "k0 \<in> set (api_keys (w_db s))" "ak_id k0 = kid" "ak_tenant_id k0 = tid" "k = revoke_row now k0"
    "w_db s' = (w_db s)\<lparr>api_keys := update_where ak_id kid (revoke_row now) (api_keys (w_db s))\<rparr>"
    "schema_ok (w_db s')"
proof -
  from keys.get_one_returns [OF assms(1), of tid kid] obtain x where
    x: "get_api_key_service tid kid s = (Inr x, s)" by blast
  show thesis
  proof (cases x)
    case None
    with assms(2) x show thesis by (simp add: revoke_api_key_service_def py_simps)
  next
    case (Some k0)
    with x keys.get_one_iff [OF assms(1)] have k0: "k0 \<in> set (api_keys (w_db s))" "ak_id k0 = kid" "ak_tenant_id k0 = tid"
      by auto
    obtain now s1 where 1: "now_naive e s = (Inr now, s1)" by (rule now_naive_returns)
    have "w_db s1 = w_db s" using only_extD(1) [OF only_ext_now_naive 1] .
    with assms(2) x Some 1 k0(2)
    have "k = revoke_row now k0 \<and> schema_ok (w_db s') \<and>
      w_db s' = (w_db s)\<lparr>api_keys := update_where ak_id kid (revoke_row now) (api_keys (w_db s))\<rparr>"
      by (auto simp: revoke_api_key_service_def py_simps commit_apply
          check_pending_None split: option.splits)
    with k0 that show thesis by blast
  qed
qed

text \<open>
  C23: Revocation takes effect with the next request and touches nothing else: after it the key
  is answered 401 for every tenant, and every other key is answered as before.
\<close>

theorem revoked_key_rejected:
  assumes "constraints_ok (w_db s)" and "API_KEY_SECRET (e_cfg e) \<noteq> None"
    and "revoke_api_key_service e tid kid s = (Inr (Some k), s')"
  shows "fst (verify_tenant e tid' raw s') =
    (if key_hash_of e raw = ak_key_hash k then Inl (HTTPException 401 ''Invalid or revoked API key'')
     else fst (verify_tenant e tid' raw s))"
proof -
  from revoke_api_key_service_ok [OF assms(1,3)] obtain k0 now where
    k0: "k0 \<in> set (api_keys (w_db s))" "ak_id k0 = kid" "k = revoke_row now k0" and
    d: "w_db s' = (w_db s)\<lparr>api_keys := update_where ak_id kid (revoke_row now) (api_keys (w_db s))\<rparr>" and
    ok: "schema_ok (w_db s')" .
  let ?h = "key_hash_of e raw"
  have c: "constraints_ok (w_db s')" using ok by (simp add: schema_ok_def)
  have only: "r = k0" if "r \<in> set (api_keys (w_db s))" "ak_id r = kid" for r
    using distinct_map_the_one [of ak_id, OF _ that(1) k0(1)] that(2) k0(2) assms(1)
    by (simp add: constraint_defs)
  have hash: "r = k0" if "r \<in> set (api_keys (w_db s))" "ak_key_hash r = ak_key_hash k0" for r
    using distinct_map_the_one [of ak_key_hash, OF _ that(1) k0(1)] that(2) assms(1)
    by (simp add: constraint_defs)
  show ?thesis
  proof (cases "?h = ak_key_hash k")
    case True
    have "live_key (w_db s') ?h = None"
      using hash k0 True
      by (auto simp: live_key_def find_None_iff d set_update_where split: if_splits)
    with True show ?thesis by (simp add: verify_tenant_eq [OF c assms(2)])
  next
    case False
    have "live_key (w_db s') ?h = live_key (w_db s) ?h"
      unfolding live_key_def d using only False k0(3)
      by (auto intro!: find_update_where_other)
    moreover have "get_tenant_row (w_db s') t = get_tenant_row (w_db s) t" for t
      by (simp add: d get_tenant_row_def)
    ultimately show ?thesis
      using False
      by (simp add: verify_tenant_eq [OF c assms(2)] verify_tenant_eq [OF assms(1,2)] split: option.split)
  qed
qed

lemma sample_key_revoked:
  "\<exists>k s'. revoke_api_key_service mem_env 1 1 (mem_world sample_key_db) = (Inr (Some k), s') \<and>
     ak_key_hash k = key_hash_of mem_env ''mtp_x''"
proof -
  let ?s = "mem_world sample_key_db"
  obtain now s1 where 1: "now_naive mem_env ?s = (Inr now, s1)" by (rule now_naive_returns)
  have d1: "w_db s1 = sample_key_db" using only_extD(1) [OF only_ext_now_naive 1] by simp
  have "get_api_key_service 1 1 ?s = (Inr (Some sample_key), ?s)"
    by (simp add: get_api_key_service_def py_simps sample_key_defs)
  moreover have "check_pending mem_env sample_key_db (sample_key_db\<lparr>api_keys :=
      update_where ak_id 1 (revoke_row now) (api_keys sample_key_db)\<rparr>) = None"
    by (simp add: check_pending_None schema_ok_def column_defs constraint_defs sample_key_defs
        int32_def fits_def update_where_def revoke_row_def)
  moreover have "ak_id sample_key = 1" "ak_key_hash sample_key = key_hash_of mem_env ''mtp_x''"
    by (simp_all add: sample_key_defs)
  ultimately show ?thesis
    by (simp add: revoke_api_key_service_def py_simps 1 d1 commit_apply)
qed

theorem revoked_key_rejected_witness:
  "\<exists>k s'. revoke_api_key_service mem_env 1 1 (mem_world sample_key_db) = (Inr (Some k), s') \<and>
     fst (verify_tenant mem_env 1 ''mtp_x'' s') = Inl (HTTPException 401 ''Invalid or revoked API key'')"
proof -
  have "constraints_ok (w_db (mem_world sample_key_db))"
    using schema_ok_sample_key_db by (simp add: schema_ok_def)
  with sample_key_revoked revoked_key_rejected [of "mem_world sample_key_db" mem_env 1 1 _ _ 1 "''mtp_x''"]
  show ?thesis by fastforce
qed

section \<open>Deletion\<close>

lemma delete_tenant_service_cases:
  "delete_tenant_service e i s =
     (if e_build_jobs_first e \<and> restricted_by_deployments i (w_db s)
      then (Inl (integrity_failure e (w_db s)), s)
      else case check_pending e (w_db s) (cascade_delete_tenant i (w_db s)) of
             Some x \<Rightarrow> (Inl x, s)
           | None \<Rightarrow> (Inr (length (filter (\<lambda>t. t_id t = i) (tenants (w_db s)))),
                      s\<lparr>w_db := cascade_delete_tenant i (w_db s)\<rparr>))"
  by (simp add: delete_tenant_service_def py_simps commit_apply split: option.split)

lemma deliveries_left:
  assumes "constraints_ok d" and "deliveries_own d"
  shows "webhook_deliveries (cascade_delete_tenant i d) = filter (\<lambda>w. wd_tenant_id w \<noteq> i) (webhook_deliveries d)"
proof -
  have "wr_tenant_id r = wd_tenant_id w"
    if "w \<in> set (webhook_deliveries d)" "r \<in> set (webhook_registrations d)" "wr_id r = wd_webhook_registration_id w" for w r
  proof -
    from assms(2) that(1) obtain r' where "r' \<in> set (webhook_registrations d)" "wr_id r' = wd_webhook_registration_id w"
      "wr_tenant_id r' = wd_tenant_id w" by (auto simp: deliveries_own_def own_delivery_def)
    with distinct_map_the_one [of wr_id "webhook_registrations d" r' r] assms(1) that(2,3) show ?thesis
      by (simp add: constraint_defs)
  qed
  then show ?thesis by (fastforce simp: cascade_delete_tenant_def Let_def intro!: filter_cong [OF refl])
qed

text \<open>
  C24: In a database whose deliveries belong to registrations of their own tenant, deleting a tenant
  removes from every table exactly the rows of that tenant (the tenant, its keys, builds,
  deployments, webhooks and the record of its deliveries); all rows of other tenants stay, in their
  order, and nothing else of the state changes. A deletion that raises leaves the whole state as it
  was.
\<close>

theorem delete_tenant_outcome:
  assumes "constraints_ok (w_db s)" and "deliveries_own (w_db s)"
  shows "case delete_tenant_service e i s of
     (Inl x, s') \<Rightarrow> is_sqlalchemy_error x \<and> s' = s
   | (Inr n, s') \<Rightarrow>
       n = length (filter (\<lambda>t. t_id t = i) (tenants (w_db s))) \<and> schema_ok (w_db s') \<and>
       s' = s\<lparr>w_db :=
         \<lparr>tenants = filter (\<lambda>t. t_id t \<noteq> i) (tenants (w_db s)),
          api_keys = filter (\<lambda>k. ak_tenant_id k \<noteq> i) (api_keys (w_db s)),
          build_jobs = filter (\<lambda>b. bj_tenant_id b \<noteq> i) (build_jobs (w_db s)),
          deployments = filter (\<lambda>x. dp_tenant_id x \<noteq> i) (deployments (w_db s)),
          webhook_registrations = filter (\<lambda>r. wr_tenant_id r \<noteq> i) (webhook_registrations (w_db s)),
          webhook_deliveries = filter (\<lambda>w. wd_tenant_id w \<noteq> i) (webhook_deliveries (w_db s))\<rparr>\<rparr>"
proof -
  have gone: "cascade_delete_tenant i (w_db s) =
      \<lparr>tenants = filter (\<lambda>t. t_id t \<noteq> i) (tenants (w_db s)),
       api_keys = filter (\<lambda>k. ak_tenant_id k \<noteq> i) (api_keys (w_db s)),
       build_jobs = filter (\<lambda>b. bj_tenant_id b \<noteq> i) (build_jobs (w_db s)),
       deployments = filter (\<lambda>x. dp_tenant_id x \<noteq> i) (deployments (w_db s)),
       webhook_registrations = filter (\<lambda>r. wr_tenant_id r \<noteq> i) (webhook_registrations (w_db s)),
       webhook_deliveries = filter (\<lambda>w. wd_tenant_id w \<noteq> i) (webhook_deliveries (w_db s))\<rparr>"
    using deliveries_left [OF assms, of i] by (simp add: cascade_delete_tenant_def Let_def)
  show ?thesis
    unfolding delete_tenant_service_cases gone
    by (auto simp: check_pending_None dest: check_pending_sql split: option.split)
qed

theorem delete_tenant_outcome_witness:
  "case delete_tenant_service mem_env 1 (mem_world sample_key_db) of
     (Inl x, s') \<Rightarrow> is_sqlalchemy_error x \<and> s' = mem_world sample_key_db
   | (Inr n, s') \<Rightarrow> n = 1 \<and> w_db s' = empty_db"
proof -
  have "constraints_ok (w_db (mem_world sample_key_db))" "deliveries_own (w_db (mem_world sample_key_db))"
    using schema_ok_sample_key_db by (simp_all add: schema_ok_def deliveries_own_def sample_key_defs)
  from delete_tenant_outcome [OF this, where e = mem_env and i = 1] show ?thesis
    by (auto simp: sample_key_defs split: prod.splits sum.splits)
qed

lemma cascade_parts:
  "tenants (cascade_delete_tenant i d) = filter (\<lambda>t. t_id t \<noteq> i) (tenants d)"
  "api_keys (cascade_delete_tenant i d) = filter (\<lambda>k. ak_tenant_id k \<noteq> i) (api_keys d)"
  "build_jobs (cascade_delete_tenant i d) = filter (\<lambda>b. bj_tenant_id b \<noteq> i) (build_jobs d)"
  "deployments (cascade_delete_tenant i d) = filter (\<lambda>x. dp_tenant_id x \<noteq> i) (deployments d)"
  "webhook_registrations (cascade_delete_tenant i d) = filter (\<lambda>r. wr_tenant_id r \<noteq> i) (webhook_registrations d)"
  "webhook_deliveries (cascade_delete_tenant i d) = filter (\<lambda>w. wd_tenant_id w \<noteq> i \<and>
     wd_webhook_registration_id w \<notin> wr_id ` {r \<in> set (webhook_registrations d). wr_tenant_id r = i}) (webhook_deliveries d)"
  by (simp_all add: cascade_delete_tenant_def Let_def)

lemma schema_ok_cascade:
  assumes "schema_ok d" and "deployments_own_builds d"
  shows "schema_ok (cascade_delete_tenant i d)"
proof -
  let ?d = "cascade_delete_tenant i d"
  have "columns_ok ?d"
    using assms(1) by (simp add: schema_ok_def columns_ok_def list_all_iff cascade_delete_tenant_def Let_def)
  moreover have "tenants_ok ?d" "api_keys_ok ?d" "build_jobs_ok ?d" "webhook_registrations_ok ?d"
    using schema_okD [OF assms(1)] by (auto simp: constraint_defs cascade_parts distinct_map_filter)
  moreover have "deployments_ok ?d"
  proof -
    have "dp_build_job_id x \<in> bj_id ` {b \<in> set (build_jobs d). bj_tenant_id b \<noteq> i}"
      if "x \<in> set (deployments d)" "dp_tenant_id x \<noteq> i" for x
      using assms(2) that by (force simp: deployments_own_builds_def)
    with schema_okD [OF assms(1)] show ?thesis
      by (auto simp: constraint_defs cascade_parts distinct_map_filter)
  qed
  moreover have "webhook_deliveries_ok ?d"
  proof -
    have "wd_webhook_registration_id w \<in> wr_id ` {r \<in> set (webhook_registrations d). wr_tenant_id r \<noteq> i}"
      if w: "w \<in> set (webhook_deliveries d)"
        "wd_webhook_registration_id w \<notin> wr_id ` {r \<in> set (webhook_registrations d). wr_tenant_id r = i}" for w
    proof -
      from schema_okD [OF assms(1)] w(1) obtain r where "r \<in> set (webhook_registrations d)"
        "wd_webhook_registration_id w = wr_id r" by (force simp: constraint_defs)
      with w(2) show ?thesis by auto
    qed
    with schema_okD [OF assms(1)] show ?thesis
      by (auto simp: constraint_defs cascade_parts distinct_map_filter)
  qed
  ultimately show ?thesis by (simp add: schema_ok_def constraints_ok_def)
qed

lemma not_restricted:
  assumes "constraints_ok d" and "deployments_own_builds d" and "\<And>x. x \<in> set (deployments d) \<Longrightarrow> dp_tenant_id x \<noteq> i"
  shows "\<not> restricted_by_deployments i d"
proof
  assume "restricted_by_deployments i d"
  then obtain x b where x: "x \<in> set (deployments d)" and b: "b \<in> set (build_jobs d)" "bj_tenant_id b = i"
    "dp_build_job_id x = bj_id b" by (auto simp: restricted_by_deployments_def)
  from assms(2) x obtain b' where "b' \<in> set (build_jobs d)" "bj_id b' = dp_build_job_id x" "bj_tenant_id b' = dp_tenant_id x"
    by (auto simp: deployments_own_builds_def)
  with distinct_map_the_one [of bj_id "build_jobs d" b' b] assms(1) b assms(3) [OF x] show False
    by (simp add: constraint_defs)
qed

text \<open>
  C37: When the database accepts what satisfies its schema, a tenant can be deleted if it has no
  deployment, or if the engine removes its deployments before it checks what refers to its builds:
  the deletion returns the number one and the tenant is gone. No reference of another row is in its
  way and none is left dangling, because deployments use builds of their own tenant only.
\<close>

theorem delete_tenant_succeeds:
  assumes "schema_ok (w_db s)" and "deployments_own_builds (w_db s)"
    and "\<And>d'. e_commit_fails e (w_db s) d' = None" and "get_tenant_row (w_db s) i = Some t"
    and "e_build_jobs_first e = False \<or> list_all (\<lambda>x. dp_tenant_id x \<noteq> i) (deployments (w_db s))"
  shows "\<exists>s'. delete_tenant_service e i s = (Inr 1, s') \<and> get_tenant_row (w_db s') i = None"
proof -
  have c: "constraints_ok (w_db s)" using assms(1) by (simp add: schema_ok_def)
  from assms(5) have "\<not> (e_build_jobs_first e \<and> restricted_by_deployments i (w_db s))"
    using not_restricted [OF c assms(2)] by (auto simp: list_all_iff)
  moreover have "check_pending e (w_db s) (cascade_delete_tenant i (w_db s)) = None"
    using schema_ok_cascade [OF assms(1,2)] assms(3) by (simp add: check_pending_None)
  moreover have "length (filter (\<lambda>t. t_id t = i) (tenants (w_db s))) = 1"
  proof -
    from assms(4) have t: "t \<in> set (tenants (w_db s))" "t_id t = i" by (auto dest: get_tenant_rowD)
    have "distinct (map t_id (filter (\<lambda>t. t_id t = i) (tenants (w_db s))))"
      using c by (simp add: constraint_defs distinct_map_filter)
    moreover have "set (map t_id (filter (\<lambda>t. t_id t = i) (tenants (w_db s)))) = {i}" using t by auto
    ultimately show ?thesis using distinct_card [of "map t_id (filter (\<lambda>t. t_id t = i) (tenants (w_db s)))"] by simp
  qed
  moreover have "get_tenant_row (cascade_delete_tenant i (w_db s)) i = None"
    by (auto simp: get_tenant_row_def cascade_delete_tenant_def Let_def find_None_iff)
  ultimately show ?thesis by (simp add: delete_tenant_service_cases)
qed

theorem delete_tenant_succeeds_witness:
  "\<exists>s'. delete_tenant_service mem_env 1 (mem_world sample_key_db) = (Inr 1, s') \<and> get_tenant_row (w_db s') 1 = None"
proof (rule delete_tenant_succeeds)
  show "schema_ok (w_db (mem_world sample_key_db))" using schema_ok_sample_key_db by simp
  show "e_commit_fails mem_env (w_db (mem_world sample_key_db)) d' = None" for d' by (simp add: mem_env_def)
qed (simp_all add: deployments_own_builds_def get_tenant_row_def sample_key_defs)

section \<open>Updates\<close>

lemma update_where_the_row:
  assumes "distinct (map key rs)" and "r \<in> set rs" and "key r = i"
  shows "update_where key i f rs = map (\<lambda>x. if key x = i then f r else x) rs"
  using distinct_map_the_one [OF assms(1,2)] assms(3) by (auto simp: update_where_def)

lemma update_tenant_row_fields:
  "update_tenant_row u t =
     \<lparr>t_id = t_id t, t_name = (case tu_name u of Some (Some n) \<Rightarrow> n | _ \<Rightarrow> t_name t),
      t_k8s_namespace = t_k8s_namespace t, t_created_at = t_created_at t,
      t_is_active = (case tu_is_active u of Some (Some a) \<Rightarrow> a | _ \<Rightarrow> t_is_active t)\<rparr>"
  by (simp add: update_tenant_row_def)

text \<open>
  C35: An update of a tenant has exactly these ends: no such tenant, None and nothing changed; no
  field given, ValueError and nothing changed; a field given as null, the error of the constraint
  it violates (or of the engine) and nothing changed; another refusal of the database, a SQLAlchemy
  error and nothing changed; otherwise that one row has the name and the active flag that were
  given, keeps the one that was not, its identifier, namespace and creation time, and is returned;
  nothing else changes.
\<close>

theorem update_tenant_outcome:
  "case update_tenant_service e i u s of
     (Inl x, s') \<Rightarrow> s' = s \<and> get_tenant_row (w_db s) i \<noteq> None \<and>
       (if tu_name u = None \<and> tu_is_active u = None then x = ValueError ''No fields were provided for update.''
        else if tu_name u = Some None \<or> tu_is_active u = Some None
        then x = (case e_commit_fails e (w_db s) (w_db s) of
                    Some m \<Rightarrow> OtherSQLError m | None \<Rightarrow> IntegrityError (e_sql_message e (w_db s)))
        else is_sqlalchemy_error x)
   | (Inr None, s') \<Rightarrow> get_tenant_row (w_db s) i = None \<and> s' = s
   | (Inr (Some t'), s') \<Rightarrow>
       (\<exists>t. get_tenant_row (w_db s) i = Some t \<and>
          t' = \<lparr>t_id = i, t_name = (case tu_name u of Some (Some n) \<Rightarrow> n | _ \<Rightarrow> t_name t),
                t_k8s_namespace = t_k8s_namespace t, t_created_at = t_created_at t,
                t_is_active = (case tu_is_active u of Some (Some a) \<Rightarrow> a | _ \<Rightarrow> t_is_active t)\<rparr> \<and>
          \<not> (tu_name u = None \<and> tu_is_active u = None) \<and> tu_name u \<noteq> Some None \<and> tu_is_active u \<noteq> Some None \<and>
          schema_ok (w_db s') \<and>
          s' = s\<lparr>w_db := (w_db s)\<lparr>tenants := map (\<lambda>r. if t_id r = i then t' else r) (tenants (w_db s))\<rparr>\<rparr>)"
proof (cases "get_tenant_row (w_db s) i")
  case None
  then show ?thesis by (simp add: update_tenant_service_def py_simps)
next
  case (Some t)
  then have t: "t \<in> set (tenants (w_db s))" "t_id t = i" by (auto dest: get_tenant_rowD)
  let ?new = "update_where t_id i (update_tenant_row u) (tenants (w_db s))"
  have only: "?new = map (\<lambda>r. if t_id r = i then update_tenant_row u t else r) (tenants (w_db s))"
    if "schema_ok ((w_db s)\<lparr>tenants := ?new\<rparr>)"
  proof (rule update_where_the_row [where key = t_id, OF _ t])
    from that show "distinct (map t_id (tenants (w_db s)))"
      by (simp add: schema_ok_def constraint_defs map_update_where)
  qed
  show ?thesis
  proof (cases "check_pending e (w_db s) ((w_db s)\<lparr>tenants := ?new\<rparr>)")
    case None
    then have ok: "schema_ok ((w_db s)\<lparr>tenants := ?new\<rparr>)" by (simp add: check_pending_None)
    with None Some t show ?thesis
      by (simp add: update_tenant_service_def py_simps commit_apply only [OF ok] integrity_failure_def
          update_tenant_row_fields split: option.split)
  next
    case (Some x)
    with \<open>get_tenant_row (w_db s) i = Some t\<close> check_pending_sql [OF Some] show ?thesis
      by (simp add: update_tenant_service_def py_simps commit_apply integrity_failure_def split: option.split)
  qed
qed

section \<open>Reads\<close>

text \<open>
  C25: A tenant sees its own rows and nothing else: asked for a key, build or deployment by
  identifier, the service answers with the row exactly when it exists and belongs to that tenant;
  an identifier of another tenant's row is answered like a missing one.
\<close>

theorem tenant_reads_scoped:
  assumes "constraints_ok (w_db s)"
  shows "(\<forall>k. get_api_key_service tid i s = (Inr (Some k), s) \<longleftrightarrow>
            k \<in> set (api_keys (w_db s)) \<and> ak_id k = i \<and> ak_tenant_id k = tid) \<and>
         (\<forall>b. get_build_job_service tid i s = (Inr (Some b), s) \<longleftrightarrow>
            b \<in> set (build_jobs (w_db s)) \<and> bj_id b = i \<and> bj_tenant_id b = tid) \<and>
         (\<forall>x. get_deployment_service tid i s = (Inr (Some x), s) \<longleftrightarrow>
            x \<in> set (deployments (w_db s)) \<and> dp_id x = i \<and> dp_tenant_id x = tid) \<and>
         (\<exists>k b x. get_api_key_service tid i s = (Inr k, s) \<and> get_build_job_service tid i s = (Inr b, s) \<and>
            get_deployment_service tid i s = (Inr x, s))"
  using keys.get_one_iff [OF assms] builds.get_one_iff [OF assms] deploys.get_one_iff [OF assms]
    keys.get_one_returns [OF assms] builds.get_one_returns [OF assms] deploys.get_one_returns [OF assms]
  by simp

theorem tenant_reads_scoped_witness:
  "get_build_job_service 1 1 (mem_world sample_key_db) = (Inr (Some sample_build), mem_world sample_key_db) \<and>
   get_build_job_service 2 1 (mem_world sample_key_db) = (Inr None, mem_world sample_key_db)"
proof -
  let ?s = "mem_world sample_key_db"
  have "constraints_ok (w_db ?s)" using schema_ok_sample_key_db by (simp add: schema_ok_def)
  note scoped = tenant_reads_scoped [OF this]
  have one: "get_build_job_service 1 1 ?s = (Inr (Some sample_build), ?s)"
    using scoped [of 1 1] by (simp add: sample_key_defs)
  have row: "build_jobs (w_db ?s) = [sample_build]" "bj_tenant_id sample_build = 1"
    by (simp_all add: sample_key_defs)
  from scoped [of 2 1] obtain y where y: "get_build_job_service 2 1 ?s = (Inr y, ?s)" by blast
  moreover have "y = None"
  proof (cases y)
    case (Some b)
    with y scoped [of 2 1] row show ?thesis by auto
  qed
  ultimately show ?thesis using one by simp
qed

text \<open>The rows of a listing call.\<close>

definition listed :: "(exn + 'r list) \<times> 's \<Rightarrow> 'r list" where
  "listed res = (case fst res of Inr rs \<Rightarrow> rs | Inl _ \<Rightarrow> [])"

lemma sorted_key_desc:
  fixes f :: "'r \<Rightarrow> int"
  assumes "distinct (map f xs)"
  shows "sorted_wrt (\<lambda>a b. f a > f b) (sort_key (\<lambda>x. - f x) xs)"
proof -
  let ?ys = "sort_key (\<lambda>x. - f x) xs"
  have "sorted (map (\<lambda>x. - f x) ?ys)" by (rule sorted_sort_key)
  then have "f (?ys ! i) \<ge> f (?ys ! j)" if "i < j" "j < length ?ys" for i j
    using that by (simp add: sorted_wrt_map sorted_wrt_iff_nth_less)
  moreover have "distinct (map f ?ys)" using assms by (simp add: distinct_map)
  then have "f (?ys ! i) \<noteq> f (?ys ! j)" if "i < j" "j < length ?ys" for i j
    using that by (auto simp: distinct_conv_nth)
  ultimately show ?thesis by (fastforce simp: sorted_wrt_iff_nth_less order_less_le)
qed

text \<open>
  C36: The pages of a tenant's build listing put together are the whole listing, newest build
  first, each build of the tenant once: nothing is skipped or repeated between pages.
\<close>

theorem build_pages_cover:
  assumes "constraints_ok (w_db s)"
    and "length (filter (\<lambda>b. bj_tenant_id b = tid) (build_jobs (w_db s))) \<le> m * n"
  shows "let pages = concat (map (\<lambda>k. listed (get_all_build_jobs_service tid (Some n) (k * n) s)) [0..<m])
         in pages = listed (get_all_build_jobs_service tid None 0 s) \<and>
            sorted_wrt (\<lambda>a b. bj_id a > bj_id b) pages \<and>
            set pages = {b \<in> set (build_jobs (w_db s)). bj_tenant_id b = tid}"
proof -
  let ?rs = "sort_key (\<lambda>b. - bj_id b) (filter (\<lambda>b. bj_tenant_id b = tid) (build_jobs (w_db s)))"
  have page: "listed (get_all_build_jobs_service tid lim off s) = paginate lim off ?rs" for lim off
    by (simp add: listed_def get_all_build_jobs_service_def gets_def)
  have "distinct (map bj_id (filter (\<lambda>b. bj_tenant_id b = tid) (build_jobs (w_db s))))"
    using assms(1) by (simp add: constraint_defs distinct_map_filter)
  from sorted_key_desc [OF this] paginate_pages [of n ?rs m] assms(2) show ?thesis
    unfolding page Let_def by (auto simp: paginate_def)
qed

theorem build_pages_cover_witness:
  "concat (map (\<lambda>k. listed (get_all_build_jobs_service 1 (Some 1) (k * 1) (mem_world sample_db))) [0..<2]) =
     listed (get_all_build_jobs_service 1 None 0 (mem_world sample_db))"
proof -
  have "constraints_ok (w_db (mem_world sample_db))"
    by (simp add: constraint_defs sample_defs)
  moreover have "length (filter (\<lambda>b. bj_tenant_id b = 1) (build_jobs (w_db (mem_world sample_db)))) \<le> 2 * 1"
    by (simp add: sample_defs)
  ultimately show ?thesis
    using build_pages_cover [of "mem_world sample_db" 1 2 1] by (simp only: Let_def simp_thms)
qed

end
