(* ===== verification/Receiver.thy ===== *)
theory Receiver
  imports Webhooks
begin

text \<open>
  \<open>scripts/webhook_test_receiver.py\<close>: the check a tenant's receiver makes of a delivery. A header
  that is missing is \<open>None\<close>; the answer is the HTTP status and body, or the exception the handler
  dies with. The body of the request is what the connection holds, read up to Content-Length.
\<close>

definition REPLAY_WINDOW_SECONDS :: int where
  "REPLAY_WINDOW_SECONDS = 300"

definition starts_with :: "string \<Rightarrow> string \<Rightarrow> bool" where
  "starts_with p s \<longleftrightarrow> take (length p) s = p"

definition reject :: "string \<Rightarrow> exn + int \<times> string" where
  "reject reason = Inr (401, reason)"

text \<open>\<open>int(headers.get("Content-Length", 0))\<close> and \<open>rfile.read(length)\<close>; a negative length reads all.\<close>

definition read_body :: "string option \<Rightarrow> bytes \<Rightarrow> exn + bytes" where
  "read_body content_length stream =
     (case (case content_length of None \<Rightarrow> Some 0 | Some h \<Rightarrow> py_int_literal h) of
        None \<Rightarrow> Inl (ValueError ''invalid literal for int() with base 10'')
      | Some n \<Rightarrow> Inr (if n < 0 then stream else take (nat n) stream))"

definition check_delivery :: "string \<Rightarrow> int \<Rightarrow> string \<Rightarrow> string \<Rightarrow> bytes \<Rightarrow> exn + int \<times> string" where
  "check_delivery signing_secret now sig_header ts_header raw_body =
     (if \<not> starts_with ''sha256='' sig_header
      then reject ''missing/malformed X-Platform-Signature header''
      else
        (let provided_sig = drop (length ''sha256='') sig_header in
         if \<not> py_isdigit ts_header then reject ''missing/malformed X-Platform-Timestamp header''
         else
           (case py_int ts_header of
              None \<Rightarrow> Inl (ValueError ''invalid literal for int() with base 10'')
            | Some timestamp \<Rightarrow>
                if \<bar>now - timestamp\<bar> > REPLAY_WINDOW_SECONDS
                then reject (''timestamp '' @ show_int timestamp @ '' is outside the '' @
                       show_int REPLAY_WINDOW_SECONDS @ ''s replay window (now='' @ show_int now @ '')'')
                else
                  (let message = encode (show_int timestamp @ ''.'') @ raw_body;
                       expected_sig = hmac_hexdigest (encode signing_secret) message in
                   case compare_digest_str provided_sig (Some expected_sig) of
                     Inl x \<Rightarrow> Inl x
                   | Inr same \<Rightarrow>
                       if \<not> same
                       then reject ''signature mismatch, payload or timestamp was tampered with''
                       else Inr (200, ''ok'')))))"

definition do_POST ::
  "string \<Rightarrow> int \<Rightarrow> string option \<Rightarrow> string option \<Rightarrow> string option \<Rightarrow> bytes \<Rightarrow> exn + int \<times> string" where
  "do_POST signing_secret now content_length sig_header ts_header stream =
     (case read_body content_length stream of
        Inl x \<Rightarrow> Inl x
      | Inr raw_body \<Rightarrow>
          check_delivery signing_secret now (orelse sig_header []) (orelse ts_header []) raw_body)"

text \<open>
  The command line: the secret and an optional port. The server listens on the loopback interface and
  every request is handled with that secret; an exception of the handler ends its request only.
\<close>

record receiver_server =
  rv_address :: "string \<times> int"
  rv_secret :: string

definition receiver_main :: "string list \<Rightarrow> exn + receiver_server" where
  "receiver_main argv =
     (case argv of
        _ # secret # rest \<Rightarrow>
          (case (case rest of [] \<Rightarrow> Some 9000 | port # _ \<Rightarrow> py_int_literal port) of
             None \<Rightarrow> Inl (ValueError ''invalid literal for int() with base 10'')
           | Some port \<Rightarrow> Inr \<lparr>rv_address = (''127.0.0.1'', port), rv_secret = secret\<rparr>)
      | _ \<Rightarrow> Inl (OtherException ''IndexError: list index out of range''))"

section \<open>Lemmas\<close>

lemma receiver_main_loopback: "receiver_main argv = Inr sv \<Longrightarrow> fst (rv_address sv) = ''127.0.0.1'' \<and> rv_secret sv = argv ! 1"
  by (auto simp: receiver_main_def split: list.splits option.splits)

lemma is_ascii_hex: "is_ascii (hex bs)"
proof -
  have "(of_char (hex_char (unat b div 16)) :: nat) < 128 \<and> (of_char (hex_char (unat b mod 16)) :: nat) < 128"
    for b :: byte
  proof -
    have "unat b < 2 ^ LENGTH(8)" by (rule unsigned_less)
    then show ?thesis by (intro conjI of_char_hex_char) simp_all
  qed
  then show ?thesis by (induction bs) (simp_all add: hex_def)
qed

lemma is_ascii_hmac_hexdigest [simp]: "is_ascii (hmac_hexdigest k m)"
  by (simp add: hmac_hexdigest_def is_ascii_hex)

lemma compare_digest_expected:
  "compare_digest_str a (Some (hmac_hexdigest k m)) = Inr True \<longleftrightarrow> a = hmac_hexdigest k m"
  by (auto simp: compare_digest_str_def)

lemma starts_with_append [simp]: "starts_with p (p @ s)"
  by (simp add: starts_with_def)

lemma starts_with_iff: "starts_with p s \<longleftrightarrow> (\<exists>r. s = p @ r)"
  by (metis append_take_drop_id starts_with_append starts_with_def)

lemma py_int_isdigit: "py_int s = Some n \<Longrightarrow> py_isdigit s \<and> 0 \<le> n"
  by (auto simp: py_int_def py_isdigit_def split: if_splits)

lemma py_int_show_int: "0 \<le> n \<Longrightarrow> py_int (show_int n) = Some n"
  by (simp add: show_int_def py_int_show_nat)

lemma reject_not_ok [simp]: "reject r \<noteq> Inr (200, b)"
  by (simp add: reject_def)

lemma check_delivery_iff:
  "check_delivery sec now sig ts body = Inr (200, ''ok'') \<longleftrightarrow>
     (\<exists>t. py_int ts = Some t \<and> \<bar>now - t\<bar> \<le> 300 \<and> sig = ''sha256='' @ sign_payload sec t body)"
proof
  assume "check_delivery sec now sig ts body = Inr (200, ''ok'')"
  then obtain t r where "sig = ''sha256='' @ r" "py_int ts = Some t" "\<bar>now - t\<bar> \<le> 300"
    "compare_digest_str r (Some (sign_payload sec t body)) = Inr True"
    by (auto simp: check_delivery_def Let_def starts_with_iff sign_payload_def signed_message_def
        REPLAY_WINDOW_SECONDS_def split: if_splits option.splits sum.splits)
  then show "\<exists>t. py_int ts = Some t \<and> \<bar>now - t\<bar> \<le> 300 \<and> sig = ''sha256='' @ sign_payload sec t body"
    by (auto simp: sign_payload_def compare_digest_expected)
next
  assume "\<exists>t. py_int ts = Some t \<and> \<bar>now - t\<bar> \<le> 300 \<and> sig = ''sha256='' @ sign_payload sec t body"
  then obtain t where t: "py_int ts = Some t" "\<bar>now - t\<bar> \<le> 300" "sig = ''sha256='' @ sign_payload sec t body"
    by blast
  have pre: "starts_with ''sha256='' sig" "drop (length ''sha256='') sig = sign_payload sec t body"
    using t(3) by (simp_all add: starts_with_def)
  have "compare_digest_str (sign_payload sec t body) (Some (sign_payload sec t body)) = Inr True"
    by (simp add: sign_payload_def compare_digest_expected)
  with t pre py_int_isdigit [OF t(1)] show "check_delivery sec now sig ts body = Inr (200, ''ok'')"
    by (simp add: check_delivery_def Let_def REPLAY_WINDOW_SECONDS_def sign_payload_def signed_message_def)
qed

section \<open>Properties\<close>

text \<open>
  C30: The receiver answers 200 exactly when the timestamp header is a decimal number within 300
  seconds of its clock and the signature header is the prefix \<open>sha256=\<close> followed by the
  signature the dispatcher computes for that timestamp and body under the receiver's secret.
\<close>

theorem receiver_accepts_iff_signed:
  "check_delivery sec now sig ts body = Inr (200, ''ok'') \<longleftrightarrow>
     (\<exists>t. py_int ts = Some t \<and> \<bar>now - t\<bar> \<le> 300 \<and> sig = ''sha256='' @ sign_payload sec t body)"
  by (rule check_delivery_iff)

text \<open>
  C31: What the dispatcher sends, the receiver accepts: for the headers the dispatcher builds for a
  body at time \<open>t\<close>, the receiver with the same secret answers 200 at any time within the replay
  window.
\<close>

theorem dispatched_delivery_accepted:
  assumes "0 \<le> t" and "\<bar>now - t\<bar> \<le> 300"
  shows "check_delivery sec now
     (orelse (map_of (webhook_headers (sign_payload sec t body) t) ''X-Platform-Signature'') [])
     (orelse (map_of (webhook_headers (sign_payload sec t body) t) ''X-Platform-Timestamp'') [])
     body = Inr (200, ''ok'')"
  using assms by (simp add: webhook_headers_def orelse_def check_delivery_iff py_int_show_int)

theorem dispatched_delivery_accepted_witness:
  "check_delivery ''s'' 1700
     (orelse (map_of (webhook_headers (sign_payload ''s'' 1500 [1, 2]) 1500) ''X-Platform-Signature'') [])
     (orelse (map_of (webhook_headers (sign_payload ''s'' 1500 [1, 2]) 1500) ''X-Platform-Timestamp'') [])
     [1, 2] = Inr (200, ''ok'')"
  by (rule dispatched_delivery_accepted) simp_all

text \<open>
  A replay is refused: a request accepted at some time with a timestamp header is never
  accepted at a time more than 300 seconds away from that timestamp, whatever signature or body
  comes with it.
\<close>

theorem replay_outside_window_rejected:
  assumes "py_int ts = Some t" and "\<bar>now - t\<bar> > 300"
  shows "check_delivery sec now sig ts body \<noteq> Inr (200, ''ok'')"
  using assms by (simp add: check_delivery_iff)

theorem replay_outside_window_rejected_witness:
  "check_delivery ''s'' 1900 (''sha256='' @ sign_payload ''s'' 1500 [1, 2]) (show_int 1500) [1, 2]
     \<noteq> Inr (200, ''ok'')"
  by (rule replay_outside_window_rejected [where t = 1500]) (simp_all add: py_int_show_int)

text \<open>
  A timestamp header of superscript digits crashes the handler: \<open>isdigit\<close> accepts it and
  \<open>int\<close> raises ValueError, so the request is neither accepted nor rejected.
\<close>

theorem superscript_timestamp_crashes:
  "check_delivery sec now (''sha256='' @ sig) [char_of (178 :: nat)] body =
     Inl (ValueError ''invalid literal for int() with base 10'')"
  by (simp add: check_delivery_def starts_with_def py_isdigit_def py_int_def is_ascii_digit_def)

end
