(* ===== verification/Routes.thy ===== *)
theory Routes
  imports Auth Deployments
begin

text \<open>
  \<open>control_plane/app/routes/\<close> and \<open>control_plane/app/main.py\<close>: the handlers, and how the application
  composes them. A request is what FastAPI has parsed: the route, its path and query integers and
  its body fields, beside the two headers the checks read. FastAPI's own part is its documented
  one: the dependency of a router runs before the handler, a missing header or a value out of a
  declared bound is answered 422, an HTTPException becomes its status, any other exception 500,
  and background tasks are run after the response.
\<close>

section \<open>Requests and responses\<close>

datatype request =
    GetRoot
  | GetHealth
  | CreateTenant tenant_create
  | GetTenant int
  | GetAllTenants
  | DeleteTenant int
  | UpdateTenant int tenant_update
  | CreateApiKey int api_key_create
  | GetApiKey int int
  | GetAllApiKeys int
  | RevokeApiKey int int
  | CreateBuildJob int build_job_create
  | GetBuildJob int int
  | GetAllBuildJobs int "int option" int
  | CreateDeployment int deployment_create
  | GetDeployment int int
  | GetAllDeployments int "int option" int
  | CreateWebhookRegistration int webhook_registration_create
  | GetAllWebhookRegistrations int
  | GetKubeconfig int

record headers =
  x_admin_secret :: "string option"
  x_api_key :: "string option"

datatype body =
    NoBody
  | Detail string
  | JsonBody json
  | TextBody string
  | TenantBody tenant_response
  | TenantsBody "tenant_response list"
  | TenantCreatedBody tenant_response string
  | ApiKeyBody api_key_response
  | ApiKeysBody "api_key_response list"
  | ApiKeyCreatedBody api_key_response string
  | BuildJobBody build_job_response
  | BuildJobsBody "build_job_response list"
  | DeploymentBody deployment_response
  | DeploymentsBody "deployment_response list"
  | WebhookRegistrationsBody "webhook_registration_response list"
  | WebhookRegistrationCreatedBody webhook_registration_response string

datatype task = PollBuild int string | PollDeployment int string string

record response =
  rs_status :: int
  rs_body :: body
  rs_tasks :: "task list"

definition answer :: "int \<Rightarrow> body \<Rightarrow> response" where
  "answer st b = \<lparr>rs_status = st, rs_body = b, rs_tasks = []\<rparr>"

text \<open>
  An identifier the database driver binds to an \<open>INTEGER\<close> parameter: outside its range the query
  fails with a SQLAlchemy error.
\<close>

definition query_arg :: "'w env \<Rightarrow> int \<Rightarrow> ('w world, unit) py" where
  "query_arg e i =
     bind (gets w_db) (\<lambda>d. if int32 i then ret () else raise (OtherSQLError (e_sql_message e d)))"

text \<open>\<open>LIMIT\<close> and \<open>OFFSET\<close> are literals, bound with the smallest integer type that holds them.\<close>

definition literal_arg :: "'w env \<Rightarrow> int \<Rightarrow> ('w world, unit) py" where
  "literal_arg e i =
     bind (gets w_db) (\<lambda>d. if int64 i then ret () else raise (OtherSQLError (e_sql_message e d)))"

definition page_args :: "'w env \<Rightarrow> int option \<Rightarrow> int \<Rightarrow> ('w world, unit) py" where
  "page_args e lim off =
     andthen (literal_arg e off) (case lim of None \<Rightarrow> ret () | Some n \<Rightarrow> literal_arg e n)"

text \<open>The answer of a route that looks one row up.\<close>

definition found :: "string \<Rightarrow> ('r \<Rightarrow> body) \<Rightarrow> 'r option \<Rightarrow> exn + response" where
  "found msg f x = (case x of None \<Rightarrow> Inl (HTTPException 404 msg) | Some r \<Rightarrow> Inr (answer 200 (f r)))"

definition or_404 :: "string \<Rightarrow> ('r \<Rightarrow> body) \<Rightarrow> 'r option \<Rightarrow> ('w world, response) py" where
  "or_404 msg f x = lift_result (found msg f x)"

text \<open>The \<open>except\<close> clause two routes share: a ValueError becomes a 400.\<close>

definition bad_request :: "exn \<Rightarrow> exn" where
  "bad_request x = (case x of ValueError m \<Rightarrow> HTTPException 400 m | _ \<Rightarrow> x)"

section \<open>\<open>routes/tenants.py\<close>\<close>

definition create_tenant_error :: "exn \<Rightarrow> exn" where
  "create_tenant_error x =
     (case x of
        IntegrityError _ \<Rightarrow> HTTPException 409 ''Tenant could not be created because of a database constraint violation.''
      | OtherSQLError _ \<Rightarrow> HTTPException 500 ''Database error while creating tenant.''
      | _ \<Rightarrow> x)"

definition tenant_created :: "tenant \<times> string \<Rightarrow> response" where
  "tenant_created = (\<lambda>(tenant, raw_api_key). answer 201 (TenantCreatedBody (tenant_response_of tenant) raw_api_key))"

definition create_tenant :: "'w env \<Rightarrow> tenant_create \<Rightarrow> ('w world, response) py" where
  "create_tenant e tenant_data =
     bind (try_except (create_tenant_service e tenant_data) (\<lambda>x. raise (create_tenant_error x)))
       (\<lambda>r. ret (tenant_created r))"

definition get_tenant :: "'w env \<Rightarrow> int \<Rightarrow> ('w world, response) py" where
  "get_tenant e tenant_id =
     andthen (query_arg e tenant_id)
       (bind (get_tenant_service tenant_id) (or_404 ''Tenant not found'' (\<lambda>t. TenantBody (tenant_response_of t))))"

definition get_all_tenants :: "('w world, response) py" where
  "get_all_tenants =
     bind (get_all_tenants_service None 0) (\<lambda>ts. ret (answer 200 (TenantsBody (map tenant_response_of ts))))"

definition delete_tenant :: "'w env \<Rightarrow> int \<Rightarrow> ('w world, response) py" where
  "delete_tenant e tenant_id =
     andthen (query_arg e tenant_id)
       (bind (delete_tenant_service e tenant_id) (\<lambda>deleted_count.
          if deleted_count = 0 then raise (HTTPException 404 ''Tenant not found'')
          else ret (answer 204 NoBody)))"

definition update_tenant :: "'w env \<Rightarrow> int \<Rightarrow> tenant_update \<Rightarrow> ('w world, response) py" where
  "update_tenant e tenant_id tenant_data =
     andthen (query_arg e tenant_id)
       (bind (try_except (update_tenant_service e tenant_id tenant_data) (\<lambda>x. raise (bad_request x)))
        (or_404 ''Tenant not found'' (\<lambda>t. TenantBody (tenant_response_of t))))"

section \<open>\<open>routes/api_keys.py\<close>\<close>

definition create_api_key_error :: "exn \<Rightarrow> exn" where
  "create_api_key_error x =
     (case x of
        IntegrityError _ \<Rightarrow> HTTPException 409 ''A key with that name already exists for this tenant.''
      | OtherSQLError _ \<Rightarrow> HTTPException 500 ''Database error while creating API key.''
      | _ \<Rightarrow> x)"

definition api_key_created :: "api_key \<times> string \<Rightarrow> response" where
  "api_key_created = (\<lambda>(api_key, raw_api_key). answer 201 (ApiKeyCreatedBody (api_key_response_of api_key) raw_api_key))"

definition create_api_key :: "'w env \<Rightarrow> int \<Rightarrow> api_key_create \<Rightarrow> ('w world, response) py" where
  "create_api_key e tenant_id key_data =
     bind (try_except (create_api_key_service e tenant_id key_data) (\<lambda>x. raise (create_api_key_error x)))
       (\<lambda>r. ret (api_key_created r))"

definition get_api_key :: "'w env \<Rightarrow> int \<Rightarrow> int \<Rightarrow> ('w world, response) py" where
  "get_api_key e tenant_id key_id =
     andthen (query_arg e key_id)
       (bind (get_api_key_service tenant_id key_id) (or_404 ''API key not found'' (\<lambda>k. ApiKeyBody (api_key_response_of k))))"

definition get_all_api_keys :: "int \<Rightarrow> ('w world, response) py" where
  "get_all_api_keys tenant_id =
     bind (get_all_api_keys_service tenant_id) (\<lambda>ks. ret (answer 200 (ApiKeysBody (map api_key_response_of ks))))"

definition revoke_api_key :: "'w env \<Rightarrow> int \<Rightarrow> int \<Rightarrow> ('w world, response) py" where
  "revoke_api_key e tenant_id key_id =
     andthen (query_arg e key_id)
       (bind (revoke_api_key_service e tenant_id key_id)
          (or_404 ''API key not found'' (\<lambda>k. ApiKeyBody (api_key_response_of k))))"

section \<open>\<open>routes/build_jobs.py\<close>\<close>

text \<open>The response, and the poller handed to \<open>background_tasks\<close>.\<close>

definition build_submitted :: "build_job \<times> string option \<Rightarrow> response" where
  "build_submitted = (\<lambda>(build_job, k8s_namespace).
     \<lparr>rs_status = 201, rs_body = BuildJobBody build_job,
      rs_tasks = (case k8s_namespace of
                    Some ns \<Rightarrow> if ns \<noteq> [] then [PollBuild (bj_id build_job) ns] else []
                  | None \<Rightarrow> [])\<rparr>)"

definition create_build_job :: "'w env \<Rightarrow> int \<Rightarrow> build_job_create \<Rightarrow> ('w world, response) py" where
  "create_build_job e tenant_id build_data =
     bind (create_build_job_service e tenant_id build_data) (\<lambda>r. ret (build_submitted r))"

definition get_build_job :: "'w env \<Rightarrow> int \<Rightarrow> int \<Rightarrow> ('w world, response) py" where
  "get_build_job e tenant_id build_job_id =
     andthen (query_arg e build_job_id)
       (bind (get_build_job_service tenant_id build_job_id) (or_404 ''Build job not found'' BuildJobBody))"

definition get_all_build_jobs :: "'w env \<Rightarrow> int \<Rightarrow> int option \<Rightarrow> int \<Rightarrow> ('w world, response) py" where
  "get_all_build_jobs e tenant_id lim off =
     andthen (page_args e lim off)
       (bind (get_all_build_jobs_service tenant_id (map_option nat lim) (nat off))
          (\<lambda>bs. ret (answer 200 (BuildJobsBody bs))))"

section \<open>\<open>routes/deployments.py\<close>\<close>

definition create_deployment_error :: "exn \<Rightarrow> exn" where
  "create_deployment_error x =
     (case x of
        ValueError m \<Rightarrow> HTTPException 400 m
      | BuildJobNotReadyError m \<Rightarrow> HTTPException 409 m
      | _ \<Rightarrow> x)"

definition deployment_submitted :: "deployment \<times> string option \<Rightarrow> response" where
  "deployment_submitted = (\<lambda>(deployment, k8s_namespace).
     \<lparr>rs_status = 201, rs_body = DeploymentBody deployment,
      rs_tasks = (case k8s_namespace of
         Some ns \<Rightarrow> if ns \<noteq> [] then [PollDeployment (dp_id deployment) ns (dp_k8s_deployment_name deployment)] else []
       | None \<Rightarrow> [])\<rparr>)"

definition create_deployment :: "'w env \<Rightarrow> int \<Rightarrow> deployment_create \<Rightarrow> ('w world, response) py" where
  "create_deployment e tenant_id deploy_data =
     andthen (query_arg e (dc_build_job_id deploy_data))
       (bind (try_except (create_deployment_service e tenant_id deploy_data) (\<lambda>x. raise (create_deployment_error x)))
         (\<lambda>r. ret (deployment_submitted r)))"

definition get_deployment :: "'w env \<Rightarrow> int \<Rightarrow> int \<Rightarrow> ('w world, response) py" where
  "get_deployment e tenant_id deployment_id =
     andthen (query_arg e deployment_id)
       (bind (get_deployment_service tenant_id deployment_id) (or_404 ''Deployment not found'' DeploymentBody))"

definition get_all_deployments :: "'w env \<Rightarrow> int \<Rightarrow> int option \<Rightarrow> int \<Rightarrow> ('w world, response) py" where
  "get_all_deployments e tenant_id lim off =
     andthen (page_args e lim off)
       (bind (get_all_deployments_service tenant_id (map_option nat lim) (nat off))
          (\<lambda>xs. ret (answer 200 (DeploymentsBody xs))))"

section \<open>\<open>routes/webhook_registrations.py\<close> and \<open>routes/kubeconfig.py\<close>\<close>

definition webhook_registered :: "webhook_registration \<times> string \<Rightarrow> response" where
  "webhook_registered = (\<lambda>(registration, signing_secret).
     answer 201 (WebhookRegistrationCreatedBody (webhook_registration_response_of registration) signing_secret))"

definition create_webhook_registration ::
  "'w env \<Rightarrow> int \<Rightarrow> webhook_registration_create \<Rightarrow> ('w world, response) py" where
  "create_webhook_registration e tenant_id reg_data =
     bind (create_webhook_registration_service e tenant_id reg_data) (\<lambda>r. ret (webhook_registered r))"

definition get_all_webhook_registrations :: "int \<Rightarrow> ('w world, response) py" where
  "get_all_webhook_registrations tenant_id =
     bind (get_all_webhook_registrations_service tenant_id)
       (\<lambda>rs. ret (answer 200 (WebhookRegistrationsBody (map webhook_registration_response_of rs))))"

definition get_kubeconfig :: "'w env \<Rightarrow> int \<Rightarrow> ('w world, response) py" where
  "get_kubeconfig e tenant_id =
     bind (try_except (get_tenant_kubeconfig_service e tenant_id) (\<lambda>x. raise (bad_request x)))
     (\<lambda>txt. ret (answer 200 (TextBody txt)))"

section \<open>\<open>main.py\<close>\<close>

definition get_root :: "('w world, response) py" where
  "get_root = ret (answer 200 (JsonBody (JObj
     [(''message'', JStr ''multi-tenant-platform control plane is running!''), (''docs'', JStr ''/docs'')])))"

definition get_health :: "('w world, response) py" where
  "get_health = ret (answer 200 (JsonBody (JObj [(''status'', JStr ''healthy'')])))"

datatype route_guard = Open | Admin | TenantScope int

text \<open>The dependency each router carries.\<close>

fun guard_of :: "request \<Rightarrow> route_guard" where
  "guard_of GetRoot = Open"
| "guard_of GetHealth = Open"
| "guard_of (CreateTenant _) = Admin"
| "guard_of (GetTenant _) = Admin"
| "guard_of GetAllTenants = Admin"
| "guard_of (DeleteTenant _) = Admin"
| "guard_of (UpdateTenant _ _) = Admin"
| "guard_of (CreateApiKey t _) = TenantScope t"
| "guard_of (GetApiKey t _) = TenantScope t"
| "guard_of (GetAllApiKeys t) = TenantScope t"
| "guard_of (RevokeApiKey t _) = TenantScope t"
| "guard_of (CreateBuildJob t _) = TenantScope t"
| "guard_of (GetBuildJob t _) = TenantScope t"
| "guard_of (GetAllBuildJobs t _ _) = TenantScope t"
| "guard_of (CreateDeployment t _) = TenantScope t"
| "guard_of (GetDeployment t _) = TenantScope t"
| "guard_of (GetAllDeployments t _ _) = TenantScope t"
| "guard_of (CreateWebhookRegistration t _) = TenantScope t"
| "guard_of (GetAllWebhookRegistrations t) = TenantScope t"
| "guard_of (GetKubeconfig t) = TenantScope t"

definition check_guard :: "'w env \<Rightarrow> headers \<Rightarrow> route_guard \<Rightarrow> ('w world, unit) py" where
  "check_guard e h g =
     (case g of
        Open \<Rightarrow> ret ()
      | Admin \<Rightarrow>
          (case x_admin_secret h of
             None \<Rightarrow> raise (HTTPException 422 ''Field required'')
           | Some v \<Rightarrow> verify_admin e v)
      | TenantScope t \<Rightarrow>
          (case x_api_key h of
             None \<Rightarrow> raise (HTTPException 422 ''Field required'')
           | Some v \<Rightarrow> verify_tenant e t v))"

definition page_ok :: "int option \<Rightarrow> int \<Rightarrow> bool" where
  "page_ok lim off \<longleftrightarrow> (case lim of None \<Rightarrow> True | Some n \<Rightarrow> 1 \<le> n) \<and> 0 \<le> off"

text \<open>The bounds of body fields and query parameters.\<close>

fun request_valid :: "request \<Rightarrow> bool" where
  "request_valid (CreateTenant b) = tenant_create_valid b"
| "request_valid (UpdateTenant _ b) = tenant_update_valid b"
| "request_valid (CreateApiKey _ b) = api_key_create_valid b"
| "request_valid (CreateBuildJob _ b) = build_job_create_valid b"
| "request_valid (CreateDeployment _ b) = deployment_create_valid b"
| "request_valid (CreateWebhookRegistration _ b) = webhook_registration_create_valid b"
| "request_valid (GetAllBuildJobs _ lim off) = page_ok lim off"
| "request_valid (GetAllDeployments _ lim off) = page_ok lim off"
| "request_valid _ = True"

fun handler :: "'w env \<Rightarrow> request \<Rightarrow> ('w world, response) py" where
  "handler e GetRoot = get_root"
| "handler e GetHealth = get_health"
| "handler e (CreateTenant b) = create_tenant e b"
| "handler e (GetTenant t) = get_tenant e t"
| "handler e GetAllTenants = get_all_tenants"
| "handler e (DeleteTenant t) = delete_tenant e t"
| "handler e (UpdateTenant t b) = update_tenant e t b"
| "handler e (CreateApiKey t b) = create_api_key e t b"
| "handler e (GetApiKey t i) = get_api_key e t i"
| "handler e (GetAllApiKeys t) = get_all_api_keys t"
| "handler e (RevokeApiKey t i) = revoke_api_key e t i"
| "handler e (CreateBuildJob t b) = create_build_job e t b"
| "handler e (GetBuildJob t i) = get_build_job e t i"
| "handler e (GetAllBuildJobs t lim off) = get_all_build_jobs e t lim off"
| "handler e (CreateDeployment t b) = create_deployment e t b"
| "handler e (GetDeployment t i) = get_deployment e t i"
| "handler e (GetAllDeployments t lim off) = get_all_deployments e t lim off"
| "handler e (CreateWebhookRegistration t b) = create_webhook_registration e t b"
| "handler e (GetAllWebhookRegistrations t) = get_all_webhook_registrations t"
| "handler e (GetKubeconfig t) = get_kubeconfig e t"

text \<open>What FastAPI makes of an exception.\<close>

definition error_response :: "exn \<Rightarrow> response" where
  "error_response x =
     (case x of HTTPException st d \<Rightarrow> answer st (Detail d) | _ \<Rightarrow> answer 500 (Detail ''Internal Server Error''))"

definition serve :: "'w env \<Rightarrow> headers \<Rightarrow> request \<Rightarrow> 'w world \<Rightarrow> response \<times> 'w world" where
  "serve e h req s =
     (case andthen (check_guard e h (guard_of req))
             (if request_valid req then handler e req
              else raise (HTTPException 422 ''Request validation failed'')) s of
        (Inl x, s') \<Rightarrow> (error_response x, s')
      | (Inr r, s') \<Rightarrow> (r, s'))"

section \<open>Frame facts\<close>

lemma only_ext_query_arg [only_ext_rules]: "only_ext (query_arg e i)"
  unfolding query_arg_def by (intro only_ext_rules)

lemma only_ext_page_args [only_ext_rules]: "only_ext (page_args e lim off)"
  unfolding page_args_def literal_arg_def by (intro only_ext_rules)

lemma only_ext_or_404 [only_ext_rules]: "only_ext (or_404 msg f x)"
  unfolding or_404_def by (intro only_ext_rules)

lemma only_ext_reads [only_ext_rules]:
  "only_ext (get_tenant_service i)" "only_ext (get_all_tenants_service lim off)"
  "only_ext (get_api_key_service t i)" "only_ext (get_all_api_keys_service t)"
  "only_ext (get_build_job_service t i)" "only_ext (get_all_build_jobs_service t lim off)"
  "only_ext (get_deployment_service t i)" "only_ext (get_all_deployments_service t lim off)"
  "only_ext (get_all_webhook_registrations_service t)"
  unfolding get_tenant_service_def get_all_tenants_service_def get_api_key_service_def
    get_all_api_keys_service_def get_build_job_service_def get_all_build_jobs_service_def
    get_deployment_service_def get_all_deployments_service_def get_all_webhook_registrations_service_def
  by (intro only_ext_rules)+

lemma only_ext_get_tenant_kubeconfig_service [only_ext_rules]: "only_ext (get_tenant_kubeconfig_service e t)"
  unfolding get_tenant_kubeconfig_service_def by (intro only_ext_rules)

lemma only_ext_prod [only_ext_rules]:
  "(\<And>a b. only_ext (f a b)) \<Longrightarrow> only_ext (case p of (a, b) \<Rightarrow> f a b)"
  by (cases p) simp

lemma only_ext_check_guard: "only_ext (check_guard e h g)"
proof -
  have "only_ext (verify_tenant e t v)" for t v
    using verify_tenant_state [of e t v] by (simp add: only_ext_def)
  moreover have "only_ext (verify_admin e v)" for v
    unfolding verify_admin_def by (intro only_ext_rules)
  ultimately show ?thesis
    by (cases g) (auto simp: check_guard_def intro!: only_ext_rules split: option.split)
qed

end
