(* ===== verification/Threads.thy ===== *)
theory Threads
  imports Prelude
begin

text \<open>
  Coroutines: an \<open>async\<close> function runs without interruption from one \<open>await\<close> to the next, and other
  coroutines may run in between. A program is finished, or a segment that runs to its next \<open>await\<close>
  and says how to go on from there. The programs are a datatype, so each ends after finitely many
  segments of its own.
\<close>

datatype ('s, 'a) prog = Done "exn + 'a" | Seg "'s \<Rightarrow> ('s, 'a) prog \<times> 's"

section \<open>Composition\<close>

primrec bindp :: "('s, 'a) prog \<Rightarrow> ('a \<Rightarrow> ('s, 'b) prog) \<Rightarrow> ('s, 'b) prog" where
  "bindp (Done r) f = (case r of Inl x \<Rightarrow> Done (Inl x) | Inr a \<Rightarrow> f a)"
| "bindp (Seg m) f = Seg (\<lambda>s. map_prod (\<lambda>k. bindp k f) id (m s))"

primrec catchp :: "('s, 'a) prog \<Rightarrow> (exn \<Rightarrow> ('s, 'a) prog) \<Rightarrow> ('s, 'a) prog" where
  "catchp (Done r) h = (case r of Inl x \<Rightarrow> h x | Inr a \<Rightarrow> Done (Inr a))"
| "catchp (Seg m) h = Seg (\<lambda>s. map_prod (\<lambda>k. catchp k h) id (m s))"

definition retp :: "'a \<Rightarrow> ('s, 'a) prog" where
  "retp a = Done (Inr a)"

definition raisep :: "exn \<Rightarrow> ('s, 'a) prog" where
  "raisep x = Done (Inl x)"

text \<open>One segment: a computation awaited as a whole.\<close>

definition atomic :: "('s, 'a) py \<Rightarrow> ('s, 'a) prog" where
  "atomic m = Seg (\<lambda>s. case m s of (r, s') \<Rightarrow> (Done r, s'))"

definition attemptp :: "('s, 'a) prog \<Rightarrow> ('s, exn + 'a) prog" where
  "attemptp p = catchp (bindp p (\<lambda>a. retp (Inr a))) (\<lambda>x. retp (Inl x))"

fun for_eachp :: "'x list \<Rightarrow> ('x \<Rightarrow> ('s, 'a) prog) \<Rightarrow> ('s, 'a list) prog" where
  "for_eachp [] f = retp []"
| "for_eachp (x # xs) f = bindp (f x) (\<lambda>a. bindp (for_eachp xs f) (\<lambda>as. retp (a # as)))"

section \<open>Running a program alone\<close>

primrec run :: "('s, 'a) prog \<Rightarrow> ('s, 'a) py" where
  "run (Done r) = (\<lambda>s. (r, s))"
| "run (Seg m) = (\<lambda>s. case map_prod run id (m s) of (g, s') \<Rightarrow> g s')"

lemma prog_induct [case_names Done Seg, induct type: prog]:
  assumes "\<And>r. P (Done r)" and "\<And>m. (\<And>s k s'. m s = (k, s') \<Longrightarrow> P k) \<Longrightarrow> P (Seg m)"
  shows "P p"
proof (induction p rule: prog.induct)
  case (Seg m)
  then show ?case by (intro assms(2)) (metis fst_conv fsts.intros rangeI)
qed (rule assms(1))

lemma run_Seg: "run (Seg m) s = (case m s of (k, s') \<Rightarrow> run k s')"
  by (cases "m s") simp

lemma bindp_Seg: "bindp (Seg m) f = Seg (\<lambda>s. case m s of (k, s') \<Rightarrow> (bindp k f, s'))"
  by (auto simp: fun_eq_iff split: prod.split)

lemma bindp_atomic:
  "bindp (atomic m) f = Seg (\<lambda>s. case m s of (r, s') \<Rightarrow> (case r of Inl x \<Rightarrow> Done (Inl x) | Inr a \<Rightarrow> f a, s'))"
  by (auto simp: atomic_def bindp_Seg fun_eq_iff split: prod.split)

lemma catchp_Seg: "catchp (Seg m) h = Seg (\<lambda>s. case m s of (k, s') \<Rightarrow> (catchp k h, s'))"
  by (auto simp: fun_eq_iff split: prod.split)

declare run.simps(2) [simp del] bindp.simps(2) [simp del] catchp.simps(2) [simp del]

lemma bindp_retp [simp]: "bindp (retp a) f = f a"
  by (simp add: retp_def)

lemma bindp_raisep [simp]: "bindp (raisep x) f = raisep x"
  by (simp add: raisep_def)

lemma catchp_retp [simp]: "catchp (retp a) h = retp a"
  by (simp add: retp_def)

lemma catchp_raisep [simp]: "catchp (raisep x) h = h x"
  by (simp add: raisep_def)

lemma bindp_assoc: "bindp (bindp p f) g = bindp p (\<lambda>x. bindp (f x) g)"
proof (induction p)
  case (Seg m)
  then show ?case by (auto simp: bindp_Seg fun_eq_iff split: prod.split)
qed (simp split: sum.split)

lemma run_retp [simp]: "run (retp a) = ret a"
  by (simp add: retp_def ret_def)

lemma run_raisep [simp]: "run (raisep x) = raise x"
  by (simp add: raisep_def raise_def)

lemma run_atomic [simp]: "run (atomic m) = m"
  by (simp add: atomic_def run_Seg fun_eq_iff split: prod.split)

lemma run_bindp [simp]: "run (bindp p f) = bind (run p) (\<lambda>a. run (f a))"
proof (induction p)
  case (Seg m)
  show ?case
  proof
    fix s
    obtain k s' where "m s = (k, s')" by (cases "m s")
    with Seg show "run (bindp (Seg m) f) s = bind (run (Seg m)) (\<lambda>a. run (f a)) s"
      by (simp add: bindp_Seg run_Seg bind_apply)
  qed
qed (auto simp: fun_eq_iff bind_apply split: sum.split)

lemma run_catchp [simp]: "run (catchp p h) = try_except (run p) (\<lambda>x. run (h x))"
proof (induction p)
  case (Seg m)
  show ?case
  proof
    fix s
    obtain k s' where "m s = (k, s')" by (cases "m s")
    with Seg show "run (catchp (Seg m) h) s = try_except (run (Seg m)) (\<lambda>x. run (h x)) s"
      by (simp add: catchp_Seg run_Seg try_except_apply)
  qed
qed (auto simp: fun_eq_iff try_except_apply split: sum.split)

lemma run_attemptp [simp]: "run (attemptp p) = attempt (run p)"
  by (simp add: attemptp_def fun_eq_iff py_simps split: prod.split sum.split)

lemma run_for_eachp [simp]: "run (for_eachp xs f) = for_each xs (\<lambda>x. run (f x))"
  by (induction xs) simp_all

lemma run_if [simp]: "run (if b then p else q) = (if b then run p else run q)"
  by simp

lemma run_option [simp]: "run (case x of None \<Rightarrow> p | Some y \<Rightarrow> f y) = (case x of None \<Rightarrow> run p | Some y \<Rightarrow> run (f y))"
  by (cases x) simp_all

lemma run_sum [simp]: "run (case x of Inl a \<Rightarrow> f a | Inr b \<Rightarrow> g b) = (case x of Inl a \<Rightarrow> run (f a) | Inr b \<Rightarrow> run (g b))"
  by (cases x) simp_all

lemma run_prod [simp]: "run (case p of (a, b) \<Rightarrow> f a b) = (case p of (a, b) \<Rightarrow> run (f a b))"
  by (cases p) simp

end
