(* ===== verification/Programs.thy ===== *)
theory Programs
  imports Routes Threads
begin

text \<open>
  The \<open>async\<close> functions that change state, cut at their \<open>await\<close>s. Where \<open>Tenants\<close>, \<open>BuildJobs\<close>,
  \<open>Deployments\<close> and \<open>Webhooks\<close> say what one of them does when nothing else happens, the programs here also
  say where other requests and pollers may come in: a row that was read may be gone when it is
  written back. An \<open>UPDATE\<close> that matches no row and a \<open>refresh\<close> of a row that is gone are errors of
  SQLAlchemy. The Kubernetes client is synchronous, so that cluster calls are not interrupted.
\<close>

section \<open>Rows that may be gone\<close>

definition row_gone :: "'w env \<Rightarrow> ('w world, 'a) py" where
  "row_gone e = bind (gets w_db) (\<lambda>d. raise (OtherSQLError (e_sql_message e d)))"

definition refresh :: "'w env \<Rightarrow> (db \<Rightarrow> 'r option) \<Rightarrow> ('w world, 'r) py" where
  "refresh e get = bind (gets (\<lambda>s. get (w_db s))) (\<lambda>row. case row of None \<Rightarrow> row_gone e | Some r \<Rightarrow> ret r)"

definition get_api_key_row :: "db \<Rightarrow> int \<Rightarrow> api_key option" where
  "get_api_key_row d i = find (\<lambda>k. ak_id k = i) (api_keys d)"

definition get_webhook_registration_row :: "db \<Rightarrow> int \<Rightarrow> webhook_registration option" where
  "get_webhook_registration_row d i = find (\<lambda>r. wr_id r = i) (webhook_registrations d)"

text \<open>A commit of the changed columns of a row: an \<open>UPDATE\<close> by its primary key.\<close>

definition commit_row :: "'w env \<Rightarrow> (db \<Rightarrow> 'r option) \<Rightarrow> (db \<Rightarrow> db) \<Rightarrow> ('w world, unit) py" where
  "commit_row e get upd = andthen (refresh e get) (bind (gets w_db) (\<lambda>d. commit e (upd d)))"

section \<open>Tenants and keys\<close>

text \<open>The insert of the flush, then the rest of the function up to its commit.\<close>

definition flush_tenant :: "'w env \<Rightarrow> tenant_create \<Rightarrow> ('w world, tenant) py" where
  "flush_tenant e tenant_data =
     bind (gets w_db) (\<lambda>d.
     bind (next_id e Tenants) (\<lambda>i.
     bind (db_now e) (\<lambda>ts.
     let tenant = new_tenant i (tc_name tenant_data) ts in
     andthen (flush e (d\<lparr>tenants := tenants d @ [tenant]\<rparr>)) (ret tenant))))"

definition commit_tenant :: "'w env \<Rightarrow> tenant \<Rightarrow> ('w world, tenant \<times> string) py" where
  "commit_tenant e flushed =
     (let tenant = flushed\<lparr>t_k8s_namespace := namespace_of (t_id flushed)\<rparr> in
      bind (generate_secure_key e ''mtp'' 32) (\<lambda>raw_api_key.
      bind (lift_result (hash_api_key raw_api_key (API_KEY_SECRET (e_cfg e)))) (\<lambda>key_hash.
      bind (next_id e ApiKeys) (\<lambda>k.
      bind (db_now e) (\<lambda>kts.
      bind (gets w_db) (\<lambda>d.
      let api_key = new_api_key k (t_id tenant) ''primary'' raw_api_key key_hash kts in
      andthen (commit e (d\<lparr>tenants := tenants d @ [tenant], api_keys := api_keys d @ [api_key]\<rparr>))
        (ret (tenant, raw_api_key))))))))"

definition create_tenant_prog :: "'w env \<Rightarrow> tenant_create \<Rightarrow> ('w world, tenant \<times> string) prog" where
  "create_tenant_prog e tenant_data =
     bindp (atomic (flush_tenant e tenant_data)) (\<lambda>flushed.
     bindp (atomic (commit_tenant e flushed)) (\<lambda>(tenant, raw_api_key).
     bindp (atomic (refresh e (\<lambda>d. get_tenant_row d (t_id tenant)))) (\<lambda>tenant.
       retp (tenant, raw_api_key))))"

text \<open>SQLAlchemy writes the attributes that differ from what was loaded.\<close>

definition changed_fields :: "tenant_update \<Rightarrow> tenant \<Rightarrow> tenant_update" where
  "changed_fields u t =
     \<lparr>tu_name = (if tu_name u = Some (Some (t_name t)) then None else tu_name u),
      tu_is_active = (if tu_is_active u = Some (Some (t_is_active t)) then None else tu_is_active u)\<rparr>"

definition commit_tenant_update :: "'w env \<Rightarrow> tenant_update \<Rightarrow> tenant \<Rightarrow> ('w world, unit) py" where
  "commit_tenant_update e u t =
     (let c = changed_fields u t in
      if tu_name c = Some None \<or> tu_is_active c = Some None
      then bind (gets w_db) (\<lambda>d. raise (integrity_failure e d))
      else if tu_name c = None \<and> tu_is_active c = None then bind (gets w_db) (commit e)
      else commit_row e (\<lambda>d. get_tenant_row d (t_id t))
             (\<lambda>d. d\<lparr>tenants := update_where t_id (t_id t) (update_tenant_row c) (tenants d)\<rparr>))"

definition update_tenant_prog :: "'w env \<Rightarrow> int \<Rightarrow> tenant_update \<Rightarrow> ('w world, tenant option) prog" where
  "update_tenant_prog e tenant_id u =
     bindp (atomic (get_tenant_service tenant_id)) (\<lambda>row.
     case row of
       None \<Rightarrow> retp None
     | Some t \<Rightarrow>
         if tu_name u = None \<and> tu_is_active u = None
         then raisep (ValueError ''No fields were provided for update.'')
         else bindp (atomic (commit_tenant_update e u t)) (\<lambda>_.
              bindp (atomic (refresh e (\<lambda>d. get_tenant_row d (t_id t)))) (\<lambda>t. retp (Some t))))"

definition create_api_key_prog :: "'w env \<Rightarrow> int \<Rightarrow> api_key_create \<Rightarrow> ('w world, api_key \<times> string) prog" where
  "create_api_key_prog e tenant_id key_data =
     bindp (atomic (create_api_key_service e tenant_id key_data)) (\<lambda>(api_key, raw_api_key).
     bindp (atomic (refresh e (\<lambda>d. get_api_key_row d (ak_id api_key)))) (\<lambda>api_key.
       retp (api_key, raw_api_key)))"

definition revoke_api_key_prog :: "'w env \<Rightarrow> int \<Rightarrow> int \<Rightarrow> ('w world, api_key option) prog" where
  "revoke_api_key_prog e tenant_id key_id =
     bindp (atomic (get_api_key_service tenant_id key_id)) (\<lambda>found.
     case found of
       None \<Rightarrow> retp None
     | Some api_key \<Rightarrow>
         bindp (atomic (bind (now_naive e) (\<lambda>now.
           commit_row e (\<lambda>d. get_api_key_row d (ak_id api_key))
             (\<lambda>d. d\<lparr>api_keys := update_where ak_id (ak_id api_key) (revoke_row now) (api_keys d)\<rparr>)))) (\<lambda>_.
         bindp (atomic (refresh e (\<lambda>d. get_api_key_row d (ak_id api_key)))) (\<lambda>k. retp (Some k))))"

definition create_webhook_registration_prog ::
  "'w env \<Rightarrow> int \<Rightarrow> webhook_registration_create \<Rightarrow> ('w world, webhook_registration \<times> string) prog" where
  "create_webhook_registration_prog e tenant_id reg_data =
     bindp (atomic (create_webhook_registration_service e tenant_id reg_data)) (\<lambda>(registration, signing_secret).
     bindp (atomic (refresh e (\<lambda>d. get_webhook_registration_row d (wr_id registration)))) (\<lambda>registration.
       retp (registration, signing_secret)))"

section \<open>Builds\<close>

definition insert_build_job :: "'w env \<Rightarrow> int \<Rightarrow> build_job_create \<Rightarrow> ('w world, build_job) py" where
  "insert_build_job e tenant_id build_data =
     bind (gets w_db) (\<lambda>d.
     bind (next_id e BuildJobs) (\<lambda>i.
     bind (db_now e) (\<lambda>ts.
     let b = new_build_job i tenant_id build_data ts in
     andthen (commit e (d\<lparr>build_jobs := build_jobs d @ [b]\<rparr>)) (ret b))))"

definition commit_build_job :: "'w env \<Rightarrow> int \<Rightarrow> (datetime \<Rightarrow> build_job \<Rightarrow> build_job) \<Rightarrow> ('w world, datetime) py" where
  "commit_build_job e i f =
     bind (now_naive e) (\<lambda>now.
     andthen (commit_row e (\<lambda>d. get_build_job_row d i)
       (\<lambda>d. d\<lparr>build_jobs := update_where bj_id i (f now) (build_jobs d)\<rparr>)) (ret now))"

text \<open>The row after its commit, and the namespace to poll when it says building.\<close>

definition refreshed_build :: "'w env \<Rightarrow> int \<Rightarrow> string \<Rightarrow> ('w world, build_job \<times> string option) prog" where
  "refreshed_build e i ns =
     bindp (atomic (refresh e (\<lambda>d. get_build_job_row d i))) (\<lambda>b.
       retp (b, if bj_status b = Building then Some ns else None))"

definition create_build_job_prog ::
  "'w env \<Rightarrow> int \<Rightarrow> build_job_create \<Rightarrow> ('w world, build_job \<times> string option) prog" where
  "create_build_job_prog e tenant_id build_data =
     bindp (atomic (get_tenant_service tenant_id)) (\<lambda>row.
     case row of
       None \<Rightarrow> raisep (ValueError (''tenant '' @ show_int tenant_id @ '' does not exist''))
     | Some tenant \<Rightarrow>
         bindp (atomic (insert_build_job e tenant_id build_data)) (\<lambda>b.
         bindp (atomic (refresh e (\<lambda>d. get_build_job_row d (bj_id b)))) (\<lambda>b.
         bindp (atomic (attempt (start_build e (t_k8s_namespace tenant) tenant_id b))) (\<lambda>started.
         case started of
           Inr _ \<Rightarrow>
             catchp
               (bindp (atomic (commit_build_job e (bj_id b) mark_building)) (\<lambda>_.
                  refreshed_build e (bj_id b) (t_k8s_namespace tenant)))
               (\<lambda>_. atomic (row_gone e))
         | Inl x \<Rightarrow>
             bindp (atomic (commit_build_job e (bj_id b) (mark_start_failed x))) (\<lambda>_.
               refreshed_build e (bj_id b) (t_k8s_namespace tenant))))))"

definition dispatch_prog :: "'w env \<Rightarrow> int \<Rightarrow> string \<Rightarrow> json \<Rightarrow> ('w world, unit) prog" where
  "dispatch_prog e tenant_id event payload =
     bindp (atomic (gets (\<lambda>s. active_registrations (w_db s) tenant_id))) (\<lambda>registrations.
     bindp (for_eachp registrations (\<lambda>r. atomic (deliver e tenant_id event payload r))) (\<lambda>pending.
       if registrations = [] then retp ()
       else atomic (bind (for_each pending (insert_delivery e)) (\<lambda>rows.
              bind (gets w_db) (\<lambda>d. commit e (d\<lparr>webhook_deliveries := webhook_deliveries d @ rows\<rparr>))))))"

definition resolve_build_prog :: "'w env \<Rightarrow> int \<Rightarrow> build_poll \<Rightarrow> ('w world, unit) prog" where
  "resolve_build_prog e build_job_id status =
     bindp (atomic (gets (\<lambda>s. get_build_job_row (w_db s) build_job_id))) (\<lambda>row.
     case row of
       None \<Rightarrow> retp ()
     | Some b \<Rightarrow>
         bindp (atomic (commit_build_job e build_job_id (resolved_build status))) (\<lambda>now.
         let b' = resolved_build status now b in
         dispatch_prog e (bj_tenant_id b') (build_event b') (build_payload b')))"

definition expire_build_prog :: "'w env \<Rightarrow> int \<Rightarrow> ('w world, unit) prog" where
  "expire_build_prog e build_job_id =
     bindp (atomic (gets (\<lambda>s. get_build_job_row (w_db s) build_job_id))) (\<lambda>row.
     case row of
       None \<Rightarrow> retp ()
     | Some b \<Rightarrow>
         if bj_status b = Building
         then bindp (atomic (commit_build_job e build_job_id mark_timed_out)) (\<lambda>_. retp ())
         else retp ())"

text \<open>The sleep of a round is the \<open>await\<close> before its status read.\<close>

function poll_build_prog :: "'w env \<Rightarrow> int \<Rightarrow> string \<Rightarrow> int \<Rightarrow> ('w world, unit) prog" where
  "poll_build_prog e build_job_id ns elapsed =
     (if elapsed < BUILD_POLL_TIMEOUT_SECONDS
      then bindp (atomic (get_build_status e ns (image_name build_job_id))) (\<lambda>status.
             if build_pending status
             then poll_build_prog e build_job_id ns (elapsed + POLL_INTERVAL_SECONDS)
             else resolve_build_prog e build_job_id status)
      else expire_build_prog e build_job_id)"
  by pat_completeness auto
termination
  by (relation "measure (\<lambda>(e, i, ns, elapsed). nat (BUILD_POLL_TIMEOUT_SECONDS - elapsed))")
    (auto simp: POLL_INTERVAL_SECONDS_def)

declare poll_build_prog.simps [simp del]

section \<open>Deployments\<close>

definition insert_deployment :: "'w env \<Rightarrow> int \<Rightarrow> build_job \<Rightarrow> deployment_create \<Rightarrow> ('w world, deployment) py" where
  "insert_deployment e tenant_id b deploy_data =
     bind (gets w_db) (\<lambda>d.
     bind (next_id e Deployments) (\<lambda>i.
     bind (db_now e) (\<lambda>ts.
     let x = new_deployment i tenant_id (bj_id b) (dc_replica_count deploy_data) ts in
     andthen (commit e (d\<lparr>deployments := deployments d @ [x]\<rparr>)) (ret x))))"

text \<open>A new status for the deployment that was read as \<open>x\<close>; nothing is written when it has it already.\<close>

definition commit_deployment :: "'w env \<Rightarrow> deployment \<Rightarrow> deployment_status \<Rightarrow> ('w world, datetime) py" where
  "commit_deployment e x st =
     bind (db_now e) (\<lambda>ts.
     andthen
       (if dp_status x = st then bind (gets w_db) (commit e)
        else commit_row e (\<lambda>d. get_deployment_row d (dp_id x))
          (\<lambda>d. d\<lparr>deployments := update_where dp_id (dp_id x)
             (\<lambda>y. y\<lparr>dp_status := st, dp_updated_at := ts\<rparr>) (deployments d)\<rparr>))
       (ret ts))"

definition refreshed_deployment ::
  "'w env \<Rightarrow> int \<Rightarrow> tenant option \<Rightarrow> ('w world, deployment \<times> string option) prog" where
  "refreshed_deployment e i tenant =
     bindp (atomic (refresh e (\<lambda>d. get_deployment_row d i))) (\<lambda>x.
       retp (x, if dp_status x = Deploying then map_option t_k8s_namespace tenant else None))"

definition create_deployment_prog ::
  "'w env \<Rightarrow> int \<Rightarrow> deployment_create \<Rightarrow> ('w world, deployment \<times> string option) prog" where
  "create_deployment_prog e tenant_id deploy_data =
     bindp (atomic (gets (\<lambda>s. get_build_job_row (w_db s) (dc_build_job_id deploy_data)))) (\<lambda>row.
     case row of
       None \<Rightarrow> raisep (ValueError ''build_job_id does not belong to this tenant'')
     | Some b \<Rightarrow>
         if bj_tenant_id b \<noteq> tenant_id
         then raisep (ValueError ''build_job_id does not belong to this tenant'')
         else if bj_status b \<noteq> Succeeded then raisep (BuildJobNotReadyError (not_ready_message b))
         else
           bindp (atomic (get_tenant_service tenant_id)) (\<lambda>tenant.
           bindp (atomic (insert_deployment e tenant_id b deploy_data)) (\<lambda>x.
           bindp (atomic (refresh e (\<lambda>d. get_deployment_row d (dp_id x)))) (\<lambda>x.
           bindp (atomic (attempt (start_deployment e tenant b x))) (\<lambda>started.
           case started of
             Inr _ \<Rightarrow>
               catchp
                 (bindp (atomic (commit_deployment e x Deploying)) (\<lambda>_. refreshed_deployment e (dp_id x) tenant))
                 (\<lambda>_. atomic (row_gone e))
           | Inl _ \<Rightarrow>
               bindp (atomic (commit_deployment e x DeployFailed)) (\<lambda>_.
                 refreshed_deployment e (dp_id x) tenant))))))"

definition resolve_deployment_prog :: "'w env \<Rightarrow> int \<Rightarrow> rollout \<Rightarrow> ('w world, unit) prog" where
  "resolve_deployment_prog e deployment_id status =
     bindp (atomic (gets (\<lambda>s. get_deployment_row (w_db s) deployment_id))) (\<lambda>row.
     case row of
       None \<Rightarrow> retp ()
     | Some x \<Rightarrow>
         bindp (atomic (commit_deployment e x (resolved_status status))) (\<lambda>ts.
         let x' = set_deployment_status (resolved_status status) ts x in
         dispatch_prog e (dp_tenant_id x') (deployment_event x') (deployment_payload x')))"

definition expire_deployment_prog :: "'w env \<Rightarrow> int \<Rightarrow> ('w world, unit) prog" where
  "expire_deployment_prog e deployment_id =
     bindp (atomic (gets (\<lambda>s. get_deployment_row (w_db s) deployment_id))) (\<lambda>row.
     case row of
       None \<Rightarrow> retp ()
     | Some x \<Rightarrow>
         if dp_status x = Deploying
         then bindp (atomic (commit_deployment e x DeployFailed)) (\<lambda>_. retp ())
         else retp ())"

function poll_deployment_prog :: "'w env \<Rightarrow> int \<Rightarrow> string \<Rightarrow> string \<Rightarrow> int \<Rightarrow> ('w world, unit) prog" where
  "poll_deployment_prog e deployment_id ns deployment_name elapsed =
     (if elapsed < DEPLOY_POLL_TIMEOUT_SECONDS
      then bindp (atomic (get_deployment_status e ns deployment_name)) (\<lambda>status.
             if rollout_pending status
             then poll_deployment_prog e deployment_id ns deployment_name (elapsed + DEPLOY_POLL_INTERVAL_SECONDS)
             else resolve_deployment_prog e deployment_id status)
      else expire_deployment_prog e deployment_id)"
  by pat_completeness auto
termination
  by (relation "measure (\<lambda>(e, i, ns, name, elapsed). nat (DEPLOY_POLL_TIMEOUT_SECONDS - elapsed))")
    (auto simp: DEPLOY_POLL_INTERVAL_SECONDS_def)

declare poll_deployment_prog.simps [simp del]

definition get_tenant_kubeconfig_prog :: "'w env \<Rightarrow> int \<Rightarrow> ('w world, string) prog" where
  "get_tenant_kubeconfig_prog e tenant_id =
     bindp (atomic (get_tenant_service tenant_id)) (\<lambda>row.
     case row of
       None \<Rightarrow> raisep (ValueError (''tenant '' @ show_int tenant_id @ '' does not exist''))
     | Some tenant \<Rightarrow>
         atomic (andthen (ensure_tenant_namespace e (t_k8s_namespace tenant))
                (andthen (ensure_tenant_rbac e (t_k8s_namespace tenant))
                   (mint_tenant_kubeconfig e (t_k8s_namespace tenant) 3600))))"

section \<open>Requests and background tasks\<close>

text \<open>
  The routes that read rows await one query; the deletion of a tenant is one statement and its
  commit. The others run the programs above.
\<close>

definition handler_prog :: "'w env \<Rightarrow> request \<Rightarrow> ('w world, response) prog" where
  "handler_prog e req =
     (case req of
        CreateTenant b \<Rightarrow>
          bindp (catchp (create_tenant_prog e b) (\<lambda>x. raisep (create_tenant_error x))) (\<lambda>r. retp (tenant_created r))
      | UpdateTenant t b \<Rightarrow>
          bindp (atomic (query_arg e t)) (\<lambda>_.
          bindp (catchp (update_tenant_prog e t b) (\<lambda>x. raisep (bad_request x)))
            (\<lambda>row. Done (found ''Tenant not found'' (\<lambda>t. TenantBody (tenant_response_of t)) row)))
      | CreateApiKey t b \<Rightarrow>
          bindp (catchp (create_api_key_prog e t b) (\<lambda>x. raisep (create_api_key_error x))) (\<lambda>r. retp (api_key_created r))
      | RevokeApiKey t i \<Rightarrow>
          bindp (atomic (query_arg e i)) (\<lambda>_.
          bindp (revoke_api_key_prog e t i)
            (\<lambda>row. Done (found ''API key not found'' (\<lambda>k. ApiKeyBody (api_key_response_of k)) row)))
      | CreateBuildJob t b \<Rightarrow>
          bindp (create_build_job_prog e t b) (\<lambda>r. retp (build_submitted r))
      | CreateDeployment t b \<Rightarrow>
          bindp (atomic (query_arg e (dc_build_job_id b))) (\<lambda>_.
          bindp (catchp (create_deployment_prog e t b) (\<lambda>x. raisep (create_deployment_error x)))
            (\<lambda>r. retp (deployment_submitted r)))
      | CreateWebhookRegistration t b \<Rightarrow>
          bindp (create_webhook_registration_prog e t b) (\<lambda>r. retp (webhook_registered r))
      | GetKubeconfig t \<Rightarrow>
          bindp (catchp (get_tenant_kubeconfig_prog e t) (\<lambda>x. raisep (bad_request x)))
            (\<lambda>txt. retp (answer 200 (TextBody txt)))
      | _ \<Rightarrow> atomic (handler e req))"

definition serve_prog :: "'w env \<Rightarrow> headers \<Rightarrow> request \<Rightarrow> ('w world, response) prog" where
  "serve_prog e h req =
     catchp
       (bindp (atomic (check_guard e h (guard_of req))) (\<lambda>_.
          if request_valid req then handler_prog e req
          else raisep (HTTPException 422 ''Request validation failed'')))
       (\<lambda>x. retp (error_response x))"

text \<open>What \<open>background_tasks\<close> runs after the response.\<close>

fun task_prog :: "'w env \<Rightarrow> task \<Rightarrow> ('w world, unit) prog" where
  "task_prog e (PollBuild i ns) = poll_build_prog e i ns 0"
| "task_prog e (PollDeployment i ns name) = poll_deployment_prog e i ns name 0"

end
