(* ===== verification/ProgramRuns.thy ===== *)
theory ProgramRuns
  imports Programs
begin

text \<open>
  A program that is not interrupted does what the function of the sequential model says: the cut at
  the \<open>await\<close>s adds interference, and changes nothing else. So what is proved of the services, the
  handlers and \<open>serve\<close> holds of every request that no other request or poller comes in between.
\<close>

section \<open>Rows just written\<close>

lemma get_row_iff:
  assumes "schema_ok d"
  shows "get_tenant_row d i = Some t \<longleftrightarrow> t \<in> set (tenants d) \<and> t_id t = i"
    and "get_api_key_row d i = Some k \<longleftrightarrow> k \<in> set (api_keys d) \<and> ak_id k = i"
    and "get_build_job_row d i = Some b \<longleftrightarrow> b \<in> set (build_jobs d) \<and> bj_id b = i"
    and "get_deployment_row d i = Some x \<longleftrightarrow> x \<in> set (deployments d) \<and> dp_id x = i"
    and "get_webhook_registration_row d i = Some r \<longleftrightarrow> r \<in> set (webhook_registrations d) \<and> wr_id r = i"
  using schema_okD [OF assms]
  by (simp_all add: get_tenant_row_def get_api_key_row_def get_build_job_row_def get_deployment_row_def
      get_webhook_registration_row_def constraint_defs find_Some_iff_distinct)

lemma refresh_found: "get (w_db s) = Some r \<Longrightarrow> refresh e get s = (Inr r, s)"
  by (simp add: refresh_def py_simps)

lemma refresh_gone: "get (w_db s) = None \<Longrightarrow> refresh e get s = (Inl (OtherSQLError (e_sql_message e (w_db s))), s)"
  by (simp add: refresh_def row_gone_def py_simps)

lemma commit_row_found:
  "get (w_db s) = Some r \<Longrightarrow> commit_row e get upd s = commit e (upd (w_db s)) s"
  by (simp add: commit_row_def refresh_found py_simps)

text \<open>An update of the one row with an identifier.\<close>

lemma update_where_cong:
  "(\<And>r. r \<in> set rs \<Longrightarrow> key r = i \<Longrightarrow> f r = g r) \<Longrightarrow> update_where key i f rs = update_where key i g rs"
  by (simp add: update_where_def)

lemma update_where_same: "(\<And>r. r \<in> set rs \<Longrightarrow> key r = i \<Longrightarrow> f r = r) \<Longrightarrow> update_where key i f rs = rs"
  by (simp add: update_where_def map_idI)

lemma update_where_mem: "r \<in> set rs \<Longrightarrow> key r = i \<Longrightarrow> f r \<in> set (update_where key i f rs)"
  by (auto simp: set_update_where)

text \<open>A \<open>refresh\<close> of the row a computation has just stored changes nothing.\<close>

lemma bind_refresh:
  assumes "\<And>r s'. m s = (Inr r, s') \<Longrightarrow> get r (w_db s') = Some (row r)"
  shows "bind m (\<lambda>r. bind (refresh e (get r)) (f r)) s = bind m (\<lambda>r. f r (row r)) s"
  using assms by (auto simp: bind_apply refresh_found split: prod.split sum.split)

lemma bind_cong_result:
  "(\<And>r s'. m s = (Inr r, s') \<Longrightarrow> f r s' = g r s') \<Longrightarrow> bind m f s = bind m g s"
  by (auto simp: bind_apply split: prod.split sum.split)

section \<open>Tenants and keys\<close>

lemma scalar_one_or_none_mem: "scalar_one_or_none rs = Inr (Some r) \<Longrightarrow> r \<in> set rs"
  by (auto simp: scalar_one_or_none_def split: list.splits)

lemma flush_then_commit_tenant: "bind (flush_tenant e td) (commit_tenant e) s = create_tenant_service e td s"
proof -
  obtain i s1 where 1: "next_id e Tenants s = (Inr i, s1)" by (rule next_id_returns)
  obtain ts s2 where 2: "db_now e s1 = (Inr ts, s2)" by (rule db_now_returns)
  obtain raw s3 where 3: "generate_secure_key e ''mtp'' 32 s2 = (Inr raw, s3)"
    using generate_secure_key_shape by (cases "generate_secure_key e ''mtp'' 32 s2") blast
  obtain k s4 where 4: "next_id e ApiKeys s3 = (Inr k, s4)" by (rule next_id_returns)
  obtain kts s5 where 5: "db_now e s4 = (Inr kts, s5)" by (rule db_now_returns)
  have "w_db s2 = w_db s" "w_db s3 = w_db s" "w_db s5 = w_db s"
    using next_id_apply [OF 1] only_extD(1) [OF only_ext_db_now 2] only_extD(1) [OF only_ext_generate_secure_key 3]
      next_id_apply [OF 4] only_extD(1) [OF only_ext_db_now 5] by simp_all
  then show ?thesis
    by (simp add: flush_tenant_def commit_tenant_def create_tenant_service_def py_simps 1 2 3 4 5
        flush_def Let_def new_tenant_def split: option.split sum.split)
qed

lemma run_create_tenant_prog: "run (create_tenant_prog e td) s = create_tenant_service e td s"
proof -
  have "run (create_tenant_prog e td) s =
      bind (bind (flush_tenant e td) (commit_tenant e)) (\<lambda>r. bind (refresh e (\<lambda>d. get_tenant_row d (t_id (fst r))))
        (\<lambda>t. ret (t, snd r))) s"
    by (simp add: create_tenant_prog_def bind_assoc case_prod_unfold)
  also have "\<dots> = bind (bind (flush_tenant e td) (commit_tenant e)) (\<lambda>r. ret (fst r, snd r)) s"
  proof (rule bind_refresh)
    fix r s'
    assume "bind (flush_tenant e td) (commit_tenant e) s = (Inr r, s')"
    then have "create_tenant_service e td s = (Inr (fst r, snd r), s')" by (simp add: flush_then_commit_tenant)
    from create_tenant_service_ok [OF this] have "fst r \<in> set (tenants (w_db s'))" "schema_ok (w_db s')" by auto
    then show "get_tenant_row (w_db s') (t_id (fst r)) = Some (fst r)" by (simp add: get_row_iff)
  qed
  finally show ?thesis by (simp add: flush_then_commit_tenant)
qed

lemma changed_fields_row: "update_tenant_row (changed_fields u t) t = update_tenant_row u t"
  by (auto simp: update_tenant_row_def changed_fields_def split: option.split)

lemma commit_tenant_update_eq:
  assumes "schema_ok (w_db s)" and "get_tenant_row (w_db s) i = Some t"
  shows "commit_tenant_update e u t s =
    (if tu_name u = Some None \<or> tu_is_active u = Some None then (Inl (integrity_failure e (w_db s)), s)
     else commit e ((w_db s)\<lparr>tenants := update_where t_id i (update_tenant_row u) (tenants (w_db s))\<rparr>) s)"
proof -
  let ?c = "changed_fields u t"
  from assms have t: "t \<in> set (tenants (w_db s))" "t_id t = i" by (auto simp: get_row_iff)
  have only: "r = t" if "r \<in> set (tenants (w_db s))" "t_id r = i" for r
    using assms(2) get_row_iff(1) [OF assms(1), of i r] that by simp
  have nulls: "tu_name ?c = Some None \<longleftrightarrow> tu_name u = Some None" "tu_is_active ?c = Some None \<longleftrightarrow> tu_is_active u = Some None"
    by (auto simp: changed_fields_def)
  have upd: "update_where t_id i (update_tenant_row ?c) (tenants (w_db s)) =
      update_where t_id i (update_tenant_row u) (tenants (w_db s))"
    using only by (intro update_where_cong) (auto simp: changed_fields_row)
  have "update_where t_id i (update_tenant_row u) (tenants (w_db s)) = tenants (w_db s)"
    if "tu_name ?c = None" "tu_is_active ?c = None"
  proof -
    have "update_tenant_row u t = t"
      using that changed_fields_row [of u t] by (simp add: update_tenant_row_def)
    with only show ?thesis by (intro update_where_same) auto
  qed
  with nulls upd assms(2) t show ?thesis
    by (auto simp: commit_tenant_update_def Let_def py_simps commit_row_found)
qed

lemma run_update_tenant_prog:
  assumes "schema_ok (w_db s)"
  shows "run (update_tenant_prog e i u) s = update_tenant_service e i u s"
proof (cases "get_tenant_row (w_db s) i")
  case None
  then show ?thesis by (simp add: update_tenant_prog_def update_tenant_service_def get_tenant_service_def py_simps)
next
  case (Some t)
  with assms have t: "t \<in> set (tenants (w_db s))" "t_id t = i" by (auto simp: get_row_iff)
  let ?d = "(w_db s)\<lparr>tenants := update_where t_id i (update_tenant_row u) (tenants (w_db s))\<rparr>"
  have "get_tenant_row ?d i = Some (update_tenant_row u t)" if "schema_ok ?d"
    using that t by (simp add: get_row_iff update_where_mem)
  then have "refresh e (\<lambda>d. get_tenant_row d i) (s\<lparr>w_db := ?d\<rparr>) = (Inr (update_tenant_row u t), s\<lparr>w_db := ?d\<rparr>)"
    if "check_pending e (w_db s) ?d = None"
    using that by (intro refresh_found) (simp add: check_pending_None)
  with Some t commit_tenant_update_eq [OF assms Some, of e u] show ?thesis
    by (auto simp: update_tenant_prog_def update_tenant_service_def get_tenant_service_def py_simps commit_apply
        split: option.split)
qed

lemma run_create_api_key_prog: "run (create_api_key_prog e tid kd) s = create_api_key_service e tid kd s"
proof -
  have "run (create_api_key_prog e tid kd) s =
      bind (create_api_key_service e tid kd) (\<lambda>r. bind (refresh e (\<lambda>d. get_api_key_row d (ak_id (fst r))))
        (\<lambda>k. ret (k, snd r))) s"
    by (simp add: create_api_key_prog_def case_prod_unfold)
  also have "\<dots> = bind (create_api_key_service e tid kd) (\<lambda>r. ret (fst r, snd r)) s"
  proof (rule bind_refresh)
    fix r s'
    assume "create_api_key_service e tid kd s = (Inr r, s')"
    then have "create_api_key_service e tid kd s = (Inr (fst r, snd r), s')" by simp
    then show "get_api_key_row (w_db s') (ak_id (fst r)) = Some (fst r)"
      by (rule create_api_key_service_ok) (simp add: get_row_iff)
  qed
  finally show ?thesis by simp
qed

lemma run_revoke_api_key_prog:
  assumes "schema_ok (w_db s)"
  shows "run (revoke_api_key_prog e tid i) s = revoke_api_key_service e tid i s"
proof -
  from keys.get_one_returns [OF schema_okD [OF assms], of tid i] obtain row where
    row: "get_api_key_service tid i s = (Inr row, s)" by blast
  show ?thesis
  proof (cases row)
    case None
    with row show ?thesis by (simp add: revoke_api_key_prog_def revoke_api_key_service_def py_simps)
  next
    case (Some k)
    with row have "k \<in> set (api_keys (w_db s))"
      by (auto simp: get_api_key_service_def py_simps dest!: scalar_one_or_none_mem)
    then have k: "k \<in> set (api_keys (w_db s))" "get_api_key_row (w_db s) (ak_id k) = Some k"
      by (simp_all add: get_row_iff [OF assms])
    obtain now s1 where 1: "now_naive e s = (Inr now, s1)" by (rule now_naive_returns)
    let ?d = "(w_db s)\<lparr>api_keys := update_where ak_id (ak_id k) (revoke_row now) (api_keys (w_db s))\<rparr>"
    have "get_api_key_row ?d (ak_id k) = Some (revoke_row now k)" if "check_pending e (w_db s) ?d = None"
      using that k(1) by (simp add: get_row_iff update_where_mem check_pending_None)
    with row Some k 1 only_extD(1) [OF only_ext_now_naive 1] show ?thesis
      by (simp add: revoke_api_key_prog_def revoke_api_key_service_def py_simps commit_row_found commit_apply
          refresh_found split: option.split)
  qed
qed

lemma run_create_webhook_registration_prog:
  "run (create_webhook_registration_prog e tid wd) s = create_webhook_registration_service e tid wd s"
proof -
  have "run (create_webhook_registration_prog e tid wd) s =
      bind (create_webhook_registration_service e tid wd)
        (\<lambda>r. bind (refresh e (\<lambda>d. get_webhook_registration_row d (wr_id (fst r)))) (\<lambda>w. ret (w, snd r))) s"
    by (simp add: create_webhook_registration_prog_def case_prod_unfold)
  also have "\<dots> = bind (create_webhook_registration_service e tid wd) (\<lambda>r. ret (fst r, snd r)) s"
  proof (rule bind_refresh)
    fix r s'
    assume "create_webhook_registration_service e tid wd s = (Inr r, s')"
    then have "create_webhook_registration_service e tid wd s = (Inr (fst r, snd r), s')" by simp
    then show "get_webhook_registration_row (w_db s') (wr_id (fst r)) = Some (fst r)"
      by (rule create_webhook_registration_service_ok) (simp add: get_row_iff)
  qed
  finally show ?thesis by simp
qed

section \<open>Builds\<close>

lemma insert_build_job_ok:
  assumes "insert_build_job e tid bd s = (Inr b, s')"
  obtains i ts where "b = new_build_job i tid bd ts" "w_last_id s BuildJobs < i" "w_last_id s' = (w_last_id s)(BuildJobs := i)"
    "schema_ok (w_db s')" "w_db s' = (w_db s)\<lparr>build_jobs := build_jobs (w_db s) @ [b]\<rparr>"
proof -
  from assms obtain i s1 ts s2 where
    1: "next_id e BuildJobs s = (Inr i, s1)" and 2: "db_now e s1 = (Inr ts, s2)" and b: "b = new_build_job i tid bd ts" and
    3: "commit e ((w_db s)\<lparr>build_jobs := build_jobs (w_db s) @ [b]\<rparr>) s2 = (Inr (), s')"
    unfolding insert_build_job_def by (auto simp: Let_def atom_simps elim!: bind_InrE)
  with next_id_apply [OF 1] only_extD [OF only_ext_db_now 2] show thesis
    by (intro that [of i ts]) (auto simp: commit_ok check_pending_None)
qed

lemma commit_build_job_found:
  assumes "get_build_job_row (w_db s) i = Some b" and "now_naive e s = (Inr now, s1)"
  shows "commit_build_job e i f s = andthen (save_build_job e i (f now)) (ret now) s1"
proof -
  have "commit_row e (\<lambda>d. get_build_job_row d i) (\<lambda>d. d\<lparr>build_jobs := update_where bj_id i (f now) (build_jobs d)\<rparr>) s1 =
      save_build_job e i (f now) s1"
    using assms(1) only_extD(1) [OF only_ext_now_naive assms(2)]
    by (subst commit_row_found [of _ _ b]) (simp_all add: save_build_job_def py_simps)
  with assms(2) show ?thesis by (simp add: commit_build_job_def bind_apply)
qed

lemma commit_then_refresh_build:
  assumes "schema_ok (w_db s)" and "get_build_job_row (w_db s) i = Some b" and "\<And>now b. bj_id (f now b) = bj_id b"
  shows "bind (commit_build_job e i f) (\<lambda>_. run (refreshed_build e i ns)) s =
    bind (now_naive e) (\<lambda>now. andthen (save_build_job e i (f now))
      (ret (f now b, if bj_status (f now b) = Building then Some ns else None))) s"
proof -
  from assms(1,2) have b: "b \<in> set (build_jobs (w_db s))" "bj_id b = i" by (auto simp: get_row_iff)
  obtain now s1 where 1: "now_naive e s = (Inr now, s1)" by (rule now_naive_returns)
  let ?d = "(w_db s)\<lparr>build_jobs := update_where bj_id i (f now) (build_jobs (w_db s))\<rparr>"
  have "get_build_job_row ?d i = Some (f now b)" if "check_pending e (w_db s) ?d = None"
    using that b assms(3) by (simp add: get_row_iff update_where_mem check_pending_None)
  with 1 only_extD(1) [OF only_ext_now_naive 1] commit_build_job_found [OF assms(2) 1, of f] show ?thesis
    by (simp add: py_simps save_build_job_apply Let_def refreshed_build_def refresh_found
        split: option.split)
qed

lemma run_create_build_job_prog: "run (create_build_job_prog e tid bd) s = create_build_job_service e tid bd s"
proof (cases "get_tenant_row (w_db s) tid")
  case None
  then show ?thesis by (simp add: create_build_job_prog_def create_build_job_service_def get_tenant_service_def py_simps)
next
  case (Some t)
  let ?ns = "t_k8s_namespace t"
  let ?start = "\<lambda>b. attempt (start_build e ?ns tid b)"
  let ?last = "\<lambda>b f ns. bind (now_naive e) (\<lambda>now. andthen (save_build_job e (bj_id b) (f now)) (ret (f now b, ns)))"
  let ?gone = "\<lambda>_. bind (gets w_db) (\<lambda>d'. raise (OtherSQLError (e_sql_message e d')))"
  let ?finish = "\<lambda>b f. bind (commit_build_job e (bj_id b) f) (\<lambda>_. run (refreshed_build e (bj_id b) ?ns))"
  have "run (create_build_job_prog e tid bd) s =
      bind (insert_build_job e tid bd) (\<lambda>b. bind (refresh e (\<lambda>d. get_build_job_row d (bj_id b))) (\<lambda>b.
        bind (?start b) (\<lambda>started. case started of Inl x \<Rightarrow> ?finish b (mark_start_failed x)
          | Inr _ \<Rightarrow> try_except (?finish b mark_building) (\<lambda>_. row_gone e)))) s"
    using Some
    by (simp add: create_build_job_prog_def get_tenant_service_def bind_apply [of "gets _"] gets_apply cong: sum.case_cong)
  also have "\<dots> = bind (insert_build_job e tid bd) (\<lambda>b.
        bind (?start b) (\<lambda>started. case started of Inl x \<Rightarrow> ?finish b (mark_start_failed x)
          | Inr _ \<Rightarrow> try_except (?finish b mark_building) (\<lambda>_. row_gone e))) s"
    by (rule bind_refresh) (auto simp: get_row_iff elim!: insert_build_job_ok)
  also have "\<dots> = bind (insert_build_job e tid bd) (\<lambda>b. bind (?start b) (\<lambda>started. case started of
        Inl x \<Rightarrow> ?last b (mark_start_failed x) None | Inr _ \<Rightarrow> try_except (?last b mark_building (Some ?ns)) ?gone)) s"
  proof (intro bind_cong_result)
    fix b s1 started s2
    assume "insert_build_job e tid bd s = (Inr b, s1)" and 2: "?start b s1 = (Inr started, s2)"
    then have "schema_ok (w_db s1)" "get_build_job_row (w_db s1) (bj_id b) = Some b"
      by (auto simp: get_row_iff elim!: insert_build_job_ok)
    moreover have "w_db s2 = w_db s1"
      using 2 only_ext_start_build [of e ?ns tid b] by (auto simp: attempt_apply only_ext_def split: prod.splits)
        (metis snd_conv)
    ultimately have row: "schema_ok (w_db s2)" "get_build_job_row (w_db s2) (bj_id b) = Some b" by simp_all
    show "(case started of Inl x \<Rightarrow> ?finish b (mark_start_failed x)
          | Inr _ \<Rightarrow> try_except (?finish b mark_building) (\<lambda>_. row_gone e)) s2 =
        (case started of Inl x \<Rightarrow> ?last b (mark_start_failed x) None
          | Inr _ \<Rightarrow> try_except (?last b mark_building (Some ?ns)) ?gone) s2"
      using commit_then_refresh_build [OF row, of "mark_start_failed _" e ?ns]
        commit_then_refresh_build [OF row, of mark_building e ?ns]
      by (auto simp: try_except_apply row_gone_def mark_building_def mark_start_failed_def split: sum.split)
  qed
  also have "\<dots> = create_build_job_service e tid bd s"
    using Some
    by (auto simp: create_build_job_service_def insert_build_job_def bind_apply try_except_apply now_naive_def external_read_def
        gets_apply attempt_apply Let_def split: sum.split prod.split)
  finally show ?thesis .
qed

lemma run_dispatch_prog: "run (dispatch_prog e tid ev p) = dispatch_tenant_webhooks e tid ev p"
  by (simp add: dispatch_prog_def dispatch_tenant_webhooks_def cong: if_cong)

lemma run_resolve_build_prog: "run (resolve_build_prog e i r) s = resolve_build e i r s"
proof (cases "get_build_job_row (w_db s) i")
  case None
  then show ?thesis by (simp add: resolve_build_prog_def resolve_build_def py_simps)
next
  case (Some b)
  obtain now s1 where 1: "now_naive e s = (Inr now, s1)" by (rule now_naive_returns)
  from Some commit_build_job_found [OF Some 1, of "resolved_build r"] 1 show ?thesis
    by (simp add: resolve_build_prog_def resolve_build_def py_simps run_dispatch_prog Let_def
        split: prod.split sum.split)
qed

lemma run_expire_build_prog: "run (expire_build_prog e i) s = expire_build e i s"
proof (cases "get_build_job_row (w_db s) i")
  case None
  then show ?thesis by (simp add: expire_build_prog_def expire_build_def py_simps)
next
  case (Some b)
  obtain now s1 where 1: "now_naive e s = (Inr now, s1)" by (rule now_naive_returns)
  from Some commit_build_job_found [OF Some 1, of mark_timed_out] 1 show ?thesis
    by (simp add: expire_build_prog_def expire_build_def py_simps split: prod.split sum.split)
qed

lemma run_poll_build_prog: "run (poll_build_prog e i ns n) s = poll_build_loop e (\<lambda>_ s. s) i ns n s"
proof (induction e i ns n arbitrary: s rule: poll_build_prog.induct)
  case (1 e i ns n)
  note step = poll_build_prog.simps [of e i ns n] poll_build_loop.simps [of e "\<lambda>_ s. s" i ns n]
  show ?case
  proof (cases "n < BUILD_POLL_TIMEOUT_SECONDS")
    case False
    then show ?thesis by (simp add: step run_expire_build_prog)
  next
    case True
    with 1 show ?thesis
      by (auto simp: step sleep_def bind_apply modify_apply run_resolve_build_prog split: prod.split sum.split)
  qed
qed

section \<open>Deployments\<close>

lemma insert_deployment_ok:
  assumes "insert_deployment e tid b dd s = (Inr x, s')"
  obtains i ts where "x = new_deployment i tid (bj_id b) (dc_replica_count dd) ts" "w_last_id s Deployments < i"
    "w_last_id s' = (w_last_id s)(Deployments := i)" "schema_ok (w_db s')"
    "w_db s' = (w_db s)\<lparr>deployments := deployments (w_db s) @ [x]\<rparr>"
proof -
  from assms obtain i s1 ts s2 where
    1: "next_id e Deployments s = (Inr i, s1)" and 2: "db_now e s1 = (Inr ts, s2)" and
    x: "x = new_deployment i tid (bj_id b) (dc_replica_count dd) ts" and
    3: "commit e ((w_db s)\<lparr>deployments := deployments (w_db s) @ [x]\<rparr>) s2 = (Inr (), s')"
    unfolding insert_deployment_def by (auto simp: Let_def atom_simps elim!: bind_InrE)
  with next_id_apply [OF 1] only_extD [OF only_ext_db_now 2] show thesis
    by (intro that [of i ts]) (auto simp: commit_ok check_pending_None)
qed

lemma commit_deployment_found:
  assumes "schema_ok (w_db s)" and "get_deployment_row (w_db s) i = Some x"
  shows "commit_deployment e x st s = save_deployment e i st s"
proof -
  from assms have x: "dp_id x = i" and only: "\<And>y. y \<in> set (deployments (w_db s)) \<Longrightarrow> dp_id y = i \<Longrightarrow> y = x"
    by (auto simp: get_row_iff) (metis assms get_row_iff(4) option.inject)
  obtain ts s1 where 1: "db_now e s = (Inr ts, s1)" by (rule db_now_returns)
  have s1: "w_db s1 = w_db s" using only_extD(1) [OF only_ext_db_now 1] .
  have eq: "update_where dp_id i (set_deployment_status st ts) (deployments (w_db s)) =
      (if dp_status x = st then deployments (w_db s)
       else update_where dp_id i (\<lambda>y. y\<lparr>dp_status := st, dp_updated_at := ts\<rparr>) (deployments (w_db s)))"
    using only by (auto simp: set_deployment_status_def intro!: update_where_same update_where_cong)
  have "commit_row e (\<lambda>d. get_deployment_row d i)
      (\<lambda>d. d\<lparr>deployments := update_where dp_id i (\<lambda>y. y\<lparr>dp_status := st, dp_updated_at := ts\<rparr>) (deployments d)\<rparr>) s1 =
      commit e ((w_db s)\<lparr>deployments := update_where dp_id i (\<lambda>y. y\<lparr>dp_status := st, dp_updated_at := ts\<rparr>) (deployments (w_db s))\<rparr>) s1"
    using assms(2) s1 by (subst commit_row_found [of _ _ x]) simp_all
  with x s1 show ?thesis
    by (simp add: commit_deployment_def save_deployment_def bind_apply gets_apply 1 eq)
qed

lemma commit_then_refresh_deployment:
  assumes "schema_ok (w_db s)" and "get_deployment_row (w_db s) i = Some x"
  shows "bind (commit_deployment e x st) (\<lambda>_. run (refreshed_deployment e i t)) s =
    bind (save_deployment e i st) (\<lambda>ts. ret (set_deployment_status st ts x,
      if st = Deploying then map_option t_k8s_namespace t else None)) s"
proof -
  from assms have x: "x \<in> set (deployments (w_db s))" "dp_id x = i" by (auto simp: get_row_iff)
  obtain ts s1 where 1: "db_now e s = (Inr ts, s1)" by (rule db_now_returns)
  let ?d = "(w_db s)\<lparr>deployments := update_where dp_id i (set_deployment_status st ts) (deployments (w_db s))\<rparr>"
  have "get_deployment_row ?d i = Some (set_deployment_status st ts x)" if "check_pending e (w_db s) ?d = None"
    using that x by (simp add: get_row_iff update_where_mem check_pending_None)
  with 1 only_extD(1) [OF only_ext_db_now 1] commit_deployment_found [OF assms, of e st] show ?thesis
    by (cases "check_pending e (w_db s) ?d"; cases "st = Deploying")
      (simp_all add: save_deployment_def py_simps commit_apply refreshed_deployment_def refresh_found)
qed

lemma run_create_deployment_prog: "run (create_deployment_prog e tid dd) s = create_deployment_service e tid dd s"
proof (cases "\<exists>b. get_build_job_row (w_db s) (dc_build_job_id dd) = Some b \<and> bj_tenant_id b = tid \<and> bj_status b = Succeeded")
  case False
  then show ?thesis
    by (auto simp: create_deployment_prog_def create_deployment_service_def py_simps split: option.split)
next
  case True
  then obtain b where b: "get_build_job_row (w_db s) (dc_build_job_id dd) = Some b" "bj_tenant_id b = tid" "bj_status b = Succeeded"
    by blast
  let ?t = "get_tenant_row (w_db s) tid"
  let ?start = "\<lambda>x. attempt (start_deployment e ?t b x)"
  let ?last = "\<lambda>x st ns. bind (save_deployment e (dp_id x) st) (\<lambda>ts. ret (set_deployment_status st ts x, ns))"
  let ?gone = "\<lambda>_. bind (gets w_db) (\<lambda>d'. raise (OtherSQLError (e_sql_message e d')))"
  let ?finish = "\<lambda>x st. bind (commit_deployment e x st) (\<lambda>_. run (refreshed_deployment e (dp_id x) ?t))"
  have "run (create_deployment_prog e tid dd) s =
      bind (insert_deployment e tid b dd) (\<lambda>x. bind (refresh e (\<lambda>d. get_deployment_row d (dp_id x))) (\<lambda>x.
        bind (?start x) (\<lambda>started. case started of Inl _ \<Rightarrow> ?finish x DeployFailed
          | Inr _ \<Rightarrow> try_except (?finish x Deploying) (\<lambda>_. row_gone e)))) s"
    using b
    by (simp add: create_deployment_prog_def get_tenant_service_def bind_apply [of "gets _"] gets_apply cong: sum.case_cong)
  also have "\<dots> = bind (insert_deployment e tid b dd) (\<lambda>x.
        bind (?start x) (\<lambda>started. case started of Inl _ \<Rightarrow> ?finish x DeployFailed
          | Inr _ \<Rightarrow> try_except (?finish x Deploying) (\<lambda>_. row_gone e))) s"
    by (rule bind_refresh) (auto simp: get_row_iff elim!: insert_deployment_ok)
  also have "\<dots> = bind (insert_deployment e tid b dd) (\<lambda>x. bind (?start x) (\<lambda>started. case started of
        Inl _ \<Rightarrow> ?last x DeployFailed None
      | Inr _ \<Rightarrow> try_except (?last x Deploying (map_option t_k8s_namespace ?t)) ?gone)) s"
  proof (intro bind_cong_result)
    fix x s1 started s2
    assume "insert_deployment e tid b dd s = (Inr x, s1)" and 2: "?start x s1 = (Inr started, s2)"
    then have "schema_ok (w_db s1)" "get_deployment_row (w_db s1) (dp_id x) = Some x"
      by (auto simp: get_row_iff elim!: insert_deployment_ok)
    moreover have "w_db s2 = w_db s1"
      using 2 only_ext_start_deployment [of e ?t b x] by (auto simp: attempt_apply only_ext_def split: prod.splits)
        (metis snd_conv)
    ultimately have row: "schema_ok (w_db s2)" "get_deployment_row (w_db s2) (dp_id x) = Some x" by simp_all
    show "(case started of Inl _ \<Rightarrow> ?finish x DeployFailed
          | Inr _ \<Rightarrow> try_except (?finish x Deploying) (\<lambda>_. row_gone e)) s2 =
        (case started of Inl _ \<Rightarrow> ?last x DeployFailed None
          | Inr _ \<Rightarrow> try_except (?last x Deploying (map_option t_k8s_namespace ?t)) ?gone) s2"
      using commit_then_refresh_deployment [OF row, of e DeployFailed ?t]
        commit_then_refresh_deployment [OF row, of e Deploying ?t]
      by (auto simp: try_except_apply row_gone_def split: sum.split)
  qed
  also have "\<dots> = create_deployment_service e tid dd s"
    using b
    by (auto simp: create_deployment_service_def insert_deployment_def bind_apply try_except_apply
        gets_apply attempt_apply Let_def split: sum.split prod.split)
  finally show ?thesis .
qed

lemma run_resolve_deployment_prog:
  assumes "schema_ok (w_db s)"
  shows "run (resolve_deployment_prog e i r) s = resolve_deployment e i r s"
proof (cases "get_deployment_row (w_db s) i")
  case None
  then show ?thesis by (simp add: resolve_deployment_prog_def resolve_deployment_def py_simps)
next
  case (Some x)
  with commit_deployment_found [OF assms Some, of e] show ?thesis
    by (simp add: resolve_deployment_prog_def resolve_deployment_def py_simps run_dispatch_prog Let_def
        split: prod.split sum.split)
qed

lemma run_expire_deployment_prog:
  assumes "schema_ok (w_db s)"
  shows "run (expire_deployment_prog e i) s = expire_deployment e i s"
proof (cases "get_deployment_row (w_db s) i")
  case None
  then show ?thesis by (simp add: expire_deployment_prog_def expire_deployment_def py_simps)
next
  case (Some x)
  with commit_deployment_found [OF assms Some, of e] show ?thesis
    by (simp add: expire_deployment_prog_def expire_deployment_def py_simps split: prod.split sum.split)
qed

lemma run_poll_deployment_prog:
  assumes "schema_ok (w_db s)"
  shows "run (poll_deployment_prog e i ns name n) s = poll_deployment_loop e (\<lambda>_ s. s) i ns name n s"
  using assms
proof (induction e i ns name n arbitrary: s rule: poll_deployment_prog.induct)
  case (1 e i ns name n)
  note step = poll_deployment_prog.simps [of e i ns name n] poll_deployment_loop.simps [of e "\<lambda>_ s. s" i ns name n]
  show ?case
  proof (cases "n < DEPLOY_POLL_TIMEOUT_SECONDS")
    case False
    with 1 show ?thesis by (simp add: step run_expire_deployment_prog)
  next
    case True
    obtain q s1 where g: "get_deployment_status e ns name s = (q, s1)" by (cases "get_deployment_status e ns name s")
    have "schema_ok (w_db s1)" using only_extD(1) [OF only_ext_get_deployment_status g] "1.prems" by simp
    with 1 True g show ?thesis
      by (cases q) (auto simp: step sleep_def bind_apply modify_apply run_resolve_deployment_prog)
  qed
qed

lemma run_get_tenant_kubeconfig_prog: "run (get_tenant_kubeconfig_prog e tid) = get_tenant_kubeconfig_service e tid"
  by (simp add: get_tenant_kubeconfig_prog_def get_tenant_kubeconfig_service_def get_tenant_service_def cong: option.case_cong)

section \<open>Requests and background tasks\<close>

lemma run_handler_prog:
  assumes "schema_ok (w_db s)"
  shows "run (handler_prog e req) s = handler e req s"
proof -
  have arg: "schema_ok (w_db s1)" if "query_arg e i s = (r, s1)" for i r s1
    using that assms by (auto simp: query_arg_def py_simps split: if_splits)
  note eval = handler_prog_def bind_apply try_except_apply raise_apply ret_apply
    or_404_def lift_result_apply
  show ?thesis
    using assms arg
    by (cases req)
      (auto simp: eval create_tenant_def update_tenant_def create_api_key_def revoke_api_key_def create_build_job_def
        create_deployment_def create_webhook_registration_def get_kubeconfig_def run_create_tenant_prog
        run_update_tenant_prog run_create_api_key_prog run_revoke_api_key_prog run_create_build_job_prog
        run_create_deployment_prog run_create_webhook_registration_prog run_get_tenant_kubeconfig_prog
        split: prod.split sum.split)
qed

lemma run_serve_prog:
  assumes "schema_ok (w_db s)"
  shows "run (serve_prog e h req) s = (case serve e h req s of (r, s') \<Rightarrow> (Inr r, s'))"
proof -
  obtain q s1 where g: "check_guard e h (guard_of req) s = (q, s1)" by (cases "check_guard e h (guard_of req) s")
  have "schema_ok (w_db s1)" using only_extD(1) [OF only_ext_check_guard g] assms by simp
  from run_handler_prog [OF this, of e req] g show ?thesis
    by (auto simp: serve_prog_def serve_def bind_apply try_except_apply raise_apply ret_apply split: prod.split sum.split)
qed

end
