(* ===== verification/Interference.thy ===== *)
theory Interference
  imports ProgramRuns TenantProperties Lifecycle
begin

text \<open>
  Rely and guarantee for the programs. A thread holds a claim, a fact about the rows it works on, and
  may own one build or deployment, whose status nobody else moves. A claim is stable when no
  transition of another actor breaks it. A program is safe when every segment of it makes one
  transition of the abstract life cycle, by an actor it may act as, and leaves it with a stable
  claim from which the rest is safe. Claims are not part of the running system; they exist so that
  each program can be checked by itself, against everything the others may do.
\<close>

section \<open>Steps of the world\<close>

definition world_step :: "actor \<Rightarrow> 'w world \<Rightarrow> 'w world \<Rightarrow> bool" where
  "world_step who s s' \<longleftrightarrow>
     db_step (w_last_id s) (w_last_id s') who (w_db s) (w_db s') \<and> schema_ok (w_db s') \<and>
     w_last_id s \<le> w_last_id s'"

lemma world_step_idle:
  "schema_ok (w_db s) \<Longrightarrow> w_db s' = w_db s \<Longrightarrow> w_last_id s \<le> w_last_id s' \<Longrightarrow> world_step who s s'"
  by (simp add: world_step_def db_step.idle)

definition good :: "'w world \<Rightarrow> bool" where
  "good s \<longleftrightarrow> schema_ok (w_db s) \<and> db_inv (w_last_id s) (w_db s)"

lemma good_step: "good s \<Longrightarrow> world_step who s s' \<Longrightarrow> good s'"
  using db_inv_step [of "w_last_id s" "w_last_id s'" who "w_db s" "w_db s'"]
  by (auto simp: good_def world_step_def schema_okD)

section \<open>Claims\<close>

type_synonym claim = "(table \<Rightarrow> int) \<Rightarrow> db \<Rightarrow> bool"

abbreviation no_claim :: claim where
  "no_claim \<equiv> (\<lambda>used d. True)"

abbreviation holds :: "claim \<Rightarrow> 'w world \<Rightarrow> bool" where
  "holds A s \<equiv> A (w_last_id s) (w_db s)"

definition stable_claim :: "row_ref option \<Rightarrow> claim \<Rightarrow> bool" where
  "stable_claim own A \<longleftrightarrow>
     (\<forall>used used' who d d'. db_inv used d \<and> A used d \<and> used \<le> used' \<and> db_step used used' who d d' \<and>
        (actor_row who = None \<or> actor_row who \<noteq> own) \<longrightarrow> A used' d')"

lemma stableD:
  "stable_claim own A \<Longrightarrow> good s \<Longrightarrow> holds A s \<Longrightarrow> world_step who s s' \<Longrightarrow> actor_row who = None \<or> actor_row who \<noteq> own \<Longrightarrow>
     holds A s'"
  unfolding stable_claim_def good_def world_step_def by blast

text \<open>What is known of the build, deployment, key or webhook with an identifier, while it exists.\<close>

definition build_claim :: "int \<Rightarrow> (build_job \<Rightarrow> bool) \<Rightarrow> claim" where
  "build_claim i P used d \<longleftrightarrow> i \<le> used BuildJobs \<and> (\<forall>b \<in> set (build_jobs d). bj_id b = i \<longrightarrow> P b)"

definition deployment_claim :: "int \<Rightarrow> (deployment \<Rightarrow> bool) \<Rightarrow> claim" where
  "deployment_claim i P used d \<longleftrightarrow> i \<le> used Deployments \<and> (\<forall>x \<in> set (deployments d). dp_id x = i \<longrightarrow> P x)"

definition key_claim :: "int \<Rightarrow> int \<Rightarrow> claim" where
  "key_claim i tid used d \<longleftrightarrow> i \<le> used ApiKeys \<and> (\<forall>k \<in> set (api_keys d). ak_id k = i \<longrightarrow> ak_tenant_id k = tid)"

definition webhooks_claim :: "int set \<Rightarrow> int \<Rightarrow> claim" where
  "webhooks_claim ids tid used d \<longleftrightarrow>
     (\<forall>i \<in> ids. i \<le> used WebhookRegistrations) \<and>
     (\<forall>r \<in> set (webhook_registrations d). wr_id r \<in> ids \<longrightarrow> wr_tenant_id r = tid)"

definition tenant_claim :: "int \<Rightarrow> claim" where
  "tenant_claim i used d \<longleftrightarrow> i \<le> used Tenants"

named_theorems stable_rules \<open>claims that other actors keep\<close>

lemma stable_no_claim [stable_rules]: "stable_claim own no_claim"
  by (simp add: stable_claim_def)

lemma stable_conj [stable_rules]: "stable_claim own A \<Longrightarrow> stable_claim own B \<Longrightarrow> stable_claim own (\<lambda>used d. A used d \<and> B used d)"
  unfolding stable_claim_def by blast

lemma stable_const [stable_rules]: "stable_claim own (\<lambda>used d. c)"
  by (simp add: stable_claim_def)

lemma stable_tenant [stable_rules]: "stable_claim own (tenant_claim i)"
  by (auto simp: stable_claim_def tenant_claim_def le_fun_def intro: order_trans)

lemma stable_build:
  assumes "\<And>b b'. P b \<Longrightarrow> bj_tenant_id b' = bj_tenant_id b \<Longrightarrow> own \<noteq> Some (BuildRow i) \<Longrightarrow>
      build_moves (bj_status b) (bj_status b') \<Longrightarrow> P b'"
  shows "stable_claim own (build_claim i P)"
  unfolding stable_claim_def
proof (intro allI impI, elim conjE)
  fix used used' who d d'
  assume inv: "db_inv used d" and A: "build_claim i P used d" and le: "used \<le> used'"
    and step: "db_step used used' who d d'" and who: "actor_row who = None \<or> actor_row who \<noteq> own"
  from inv have c: "constraints_ok d" by (simp add: db_inv_def)
  from A have i: "i \<le> used BuildJobs" and P: "\<And>b. b \<in> set (build_jobs d) \<Longrightarrow> bj_id b = i \<Longrightarrow> P b"
    by (auto simp: build_claim_def)
  have "P b'" if b': "b' \<in> set (build_jobs d')" "bj_id b' = i" for b'
    using db_step_build_origin [OF step c b'(1)] b'(2) i P who assms by fastforce
  moreover have "i \<le> used' BuildJobs" using i le by (auto simp: le_fun_def intro: order_trans)
  ultimately show "build_claim i P used' d'" by (simp add: build_claim_def)
qed

lemma stable_deployment:
  assumes "\<And>x x'. P x \<Longrightarrow> dp_tenant_id x' = dp_tenant_id x \<Longrightarrow> own \<noteq> Some (DeploymentRow i) \<Longrightarrow>
      deployment_moves (dp_status x) (dp_status x') \<Longrightarrow> P x'"
  shows "stable_claim own (deployment_claim i P)"
  unfolding stable_claim_def
proof (intro allI impI, elim conjE)
  fix used used' who d d'
  assume inv: "db_inv used d" and A: "deployment_claim i P used d" and le: "used \<le> used'"
    and step: "db_step used used' who d d'" and who: "actor_row who = None \<or> actor_row who \<noteq> own"
  from inv have c: "constraints_ok d" by (simp add: db_inv_def)
  from A have i: "i \<le> used Deployments" and P: "\<And>x. x \<in> set (deployments d) \<Longrightarrow> dp_id x = i \<Longrightarrow> P x"
    by (auto simp: deployment_claim_def)
  have "P x'" if x': "x' \<in> set (deployments d')" "dp_id x' = i" for x'
    using db_step_deployment_origin [OF step c x'(1)] x'(2) i P who assms by fastforce
  moreover have "i \<le> used' Deployments" using i le by (auto simp: le_fun_def intro: order_trans)
  ultimately show "deployment_claim i P used' d'" by (simp add: deployment_claim_def)
qed

lemma stable_owned [stable_rules]:
  "stable_claim (Some (BuildRow i)) (build_claim i P)" "stable_claim (Some (DeploymentRow j)) (deployment_claim j P')"
  by (rule stable_build, simp) (rule stable_deployment, simp)

lemma stable_key [stable_rules]: "stable_claim own (key_claim i tid)"
  unfolding stable_claim_def key_claim_def le_fun_def
  by (intro allI impI conjI) (auto intro: order_trans, (metis db_step_key_origin)+)

lemma stable_webhooks [stable_rules]: "stable_claim own (webhooks_claim ids tid)"
  unfolding stable_claim_def webhooks_claim_def le_fun_def
  by (intro allI impI conjI) (auto intro: order_trans, (metis db_step_webhook_origin)+)

section \<open>Frame facts of segments\<close>

text \<open>Identifiers only grow.\<close>

named_theorems ids_rules \<open>computations under which identifiers only grow\<close>

lemma keeps_ids_only_ext [ids_rules]: "only_ext m \<Longrightarrow> keeps (\<lambda>s. used \<le> w_last_id s) m"
  by (simp add: keeps_def only_ext_def)

lemma keeps_ids_next_id [ids_rules]: "keeps (\<lambda>s. used \<le> w_last_id s) (next_id e tb)"
proof (rule keepsI)
  fix s :: "'a world"
  assume le: "used \<le> w_last_id s"
  obtain i s' where n: "next_id e tb s = (Inr i, s')" by (rule next_id_returns)
  from next_id_apply [OF n] have "w_last_id s \<le> w_last_id s'" by (simp add: le_fun_def)
  with le n show "used \<le> w_last_id (snd (next_id e tb s))" by simp
qed

lemma keeps_ids_commit [ids_rules]: "keeps (\<lambda>s. used \<le> w_last_id s) (commit e d)"
  by (simp add: keeps_def commit_def split: option.split)

lemma keeps_ids_flush [ids_rules]: "keeps (\<lambda>s. used \<le> w_last_id s) (flush e d)"
  by (simp add: keeps_def flush_def split: option.split)

text \<open>A computation that raises leaves the database as it was.\<close>

definition exn_keeps_db :: "('w world, 'a) py \<Rightarrow> bool" where
  "exn_keeps_db m \<longleftrightarrow> (\<forall>s x s'. m s = (Inl x, s') \<longrightarrow> w_db s' = w_db s)"

lemma exn_keeps_db_ext: "only_ext m \<Longrightarrow> exn_keeps_db m"
  unfolding exn_keeps_db_def using only_extD by blast

lemma exn_keeps_db_bind:
  assumes "\<And>d. keeps (\<lambda>s. w_db s = d) m" and "\<And>x. exn_keeps_db (f x)"
  shows "exn_keeps_db (bind m f)"
  unfolding exn_keeps_db_def
proof (intro allI impI)
  fix s x s'
  assume run: "bind m f s = (Inl x, s')"
  obtain q s1 where m: "m s = (q, s1)" by (cases "m s")
  have "w_db s1 = w_db s" using keepsD_eq [OF assms(1) m] by simp
  with run m assms(2) show "w_db s' = w_db s"
    by (cases q) (auto simp: bind_apply exn_keeps_db_def)
qed

lemma exn_keeps_db_commit: "exn_keeps_db (andthen (commit e d) (ret x))"
  by (auto simp: exn_keeps_db_def bind_apply commit_apply ret_apply split: option.splits)

lemma keeps_db_flush: "keeps (\<lambda>s. w_db s = d) (flush e d')"
  by (simp add: keeps_def flush_def split: option.split)

lemmas exn_db_rules = exn_keeps_db_commit exn_keeps_db_bind keeps_db_flush keeps_db_next_id keeps_db_only_ext

section \<open>Safe programs\<close>

text \<open>Whether a row's identifier was handed out, and how the row a thread owns may change.\<close>

fun handed_out :: "(table \<Rightarrow> int) \<Rightarrow> row_ref option \<Rightarrow> bool" where
  "handed_out used None \<longleftrightarrow> True"
| "handed_out used (Some (BuildRow i)) \<longleftrightarrow> i \<le> used BuildJobs"
| "handed_out used (Some (DeploymentRow i)) \<longleftrightarrow> i \<le> used Deployments"

definition takes :: "row_ref option \<Rightarrow> row_ref option \<Rightarrow> 'w world \<Rightarrow> 'w world \<Rightarrow> bool" where
  "takes own own' s s' \<longleftrightarrow>
     own' = None \<or> own' = own \<or> \<not> handed_out (w_last_id s) own' \<and> handed_out (w_last_id s') own'"

text \<open>
  \<open>W\<close> are the actors the program may act as, \<open>X\<close> what it may do to the outside world, \<open>Q\<close> what its
  outcome, the row it still owns and its last claim satisfy.
\<close>

primrec safe ::
  "('w world, 'a) prog \<Rightarrow> (actor \<Rightarrow> bool) \<Rightarrow> ('w \<Rightarrow> 'w \<Rightarrow> bool) \<Rightarrow>
   (exn + 'a \<Rightarrow> row_ref option \<Rightarrow> claim \<Rightarrow> bool) \<Rightarrow> row_ref option \<Rightarrow> claim \<Rightarrow> bool" where
  "safe (Done r) = (\<lambda>W X Q own A. Q r own A)"
| "safe (Seg m) = (\<lambda>W X Q own A. \<forall>s. good s \<and> holds A s \<longrightarrow>
     (case map_prod safe id (m s) of (k, s') \<Rightarrow>
        (\<exists>who. W who \<and> world_step who s s' \<and> actor_row who \<in> {None, own}) \<and> X (w_ext s) (w_ext s') \<and>
        (\<exists>own' A'. takes own own' s s' \<and> stable_claim own' A' \<and> holds A' s' \<and> k W X Q own' A')))"

declare safe.simps(2) [simp del]

lemma safe_Seg:
  "safe (Seg m) W X Q own A \<longleftrightarrow>
     (\<forall>s k s'. good s \<and> holds A s \<and> m s = (k, s') \<longrightarrow>
        (\<exists>who. W who \<and> world_step who s s' \<and> actor_row who \<in> {None, own}) \<and> X (w_ext s) (w_ext s') \<and>
        (\<exists>own' A'. takes own own' s s' \<and> stable_claim own' A' \<and> holds A' s' \<and> safe k W X Q own' A'))"
proof -
  have "(case map_prod safe id (m s) of (k, s') \<Rightarrow> P k s') \<longleftrightarrow> (\<forall>k s'. m s = (k, s') \<longrightarrow> P (safe k) s')" for P s
    by (cases "m s") simp
  then show ?thesis by (simp add: safe.simps(2) del: split_paired_All) blast
qed

lemma safe_mono:
  assumes "safe p W X Q own A" and "\<And>r own A. Q r own A \<Longrightarrow> Q' r own A"
  shows "safe p W X Q' own A"
  using assms(1)
proof (induction p arbitrary: own A)
  case (Done r)
  then show ?case using assms(2) by simp
next
  case (Seg m)
  then show ?case unfolding safe_Seg by blast
qed

lemma safe_bindp:
  assumes "safe p W X (\<lambda>r own A. case r of Inl x \<Rightarrow> Q (Inl x) own A | Inr a \<Rightarrow> safe (f a) W X Q own A) own A"
  shows "safe (bindp p f) W X Q own A"
  using assms
proof (induction p arbitrary: own A)
  case (Done r)
  then show ?case by (cases r) simp_all
next
  case (Seg m)
  show ?case
    unfolding bindp_Seg safe_Seg
  proof (intro allI impI, elim conjE)
    fix s k s'
    assume s: "good s" "holds A s" and run: "(case m s of (k, s') \<Rightarrow> (bindp k f, s')) = (k, s')"
    then obtain k0 where m: "m s = (k0, s')" and k: "k = bindp k0 f" by (auto split: prod.splits)
    from Seg.prems s m Seg.IH [OF m] show "(\<exists>who. W who \<and> world_step who s s' \<and> actor_row who \<in> {None, own}) \<and>
        X (w_ext s) (w_ext s') \<and>
        (\<exists>own' A'. takes own own' s s' \<and> stable_claim own' A' \<and> holds A' s' \<and> safe k W X Q own' A')"
      unfolding safe_Seg k by blast
  qed
qed

lemma safe_catchp:
  assumes "safe p W X (\<lambda>r own A. case r of Inl x \<Rightarrow> safe (h x) W X Q own A | Inr a \<Rightarrow> Q (Inr a) own A) own A"
  shows "safe (catchp p h) W X Q own A"
  using assms
proof (induction p arbitrary: own A)
  case (Done r)
  then show ?case by (cases r) simp_all
next
  case (Seg m)
  show ?case
    unfolding catchp_Seg safe_Seg
  proof (intro allI impI, elim conjE)
    fix s k s'
    assume s: "good s" "holds A s" and run: "(case m s of (k, s') \<Rightarrow> (catchp k h, s')) = (k, s')"
    then obtain k0 where m: "m s = (k0, s')" and k: "k = catchp k0 h" by (auto split: prod.splits)
    from Seg.prems s m Seg.IH [OF m] show "(\<exists>who. W who \<and> world_step who s s' \<and> actor_row who \<in> {None, own}) \<and>
        X (w_ext s) (w_ext s') \<and>
        (\<exists>own' A'. takes own own' s s' \<and> stable_claim own' A' \<and> holds A' s' \<and> safe k W X Q own' A')"
      unfolding safe_Seg k by blast
  qed
qed

lemma safe_retp: "safe (retp a) W X Q own A = Q (Inr a) own A"
  by (simp add: retp_def)

lemma safe_raisep: "safe (raisep x) W X Q own A = Q (Inl x) own A"
  by (simp add: raisep_def)

section \<open>Segments\<close>

text \<open>
  The contract of a segment. When it raises, the thread gives its row and its claim up: what is left of
  it then only answers.
\<close>

definition within :: "('w \<Rightarrow> 'w \<Rightarrow> bool) \<Rightarrow> ('w world, 'a) py \<Rightarrow> bool" where
  "within X m \<longleftrightarrow> (\<forall>s. X (w_ext s) (w_ext (snd (m s))))"

definition seg ::
  "(actor \<Rightarrow> bool) \<Rightarrow> ('w \<Rightarrow> 'w \<Rightarrow> bool) \<Rightarrow> row_ref option \<Rightarrow> claim \<Rightarrow> ('w world, 'a) py \<Rightarrow>
   ('a \<Rightarrow> row_ref option) \<Rightarrow> ('a \<Rightarrow> claim) \<Rightarrow> bool" where
  "seg W X own A m own' B \<longleftrightarrow>
     (\<forall>s r s'. good s \<and> holds A s \<and> m s = (r, s') \<longrightarrow>
        (\<exists>who. W who \<and> world_step who s s' \<and> actor_row who \<in> {None, own}) \<and> X (w_ext s) (w_ext s') \<and>
        (\<forall>a. r = Inr a \<longrightarrow> takes own (own' a) s s' \<and> holds (B a) s'))"

lemma safe_atomic:
  fixes m :: "('w world, 'a) py"
  assumes "seg W X own A m own' B" and "\<And>a. stable_claim (own' a) (B a)"
    and "\<And>x. Q (Inl x) None no_claim" and "\<And>a used d. B a used d \<Longrightarrow> Q (Inr a) (own' a) (B a)"
  shows "safe (atomic m) W X Q own A"
  unfolding atomic_def safe_Seg
proof (intro allI impI, elim conjE)
  fix s s' :: "'w world" and k :: "('w world, 'a) prog"
  assume s: "good s" "holds A s" and "(case m s of (r, s') \<Rightarrow> (Done r, s')) = (k, s')"
  then obtain r where m: "m s = (r, s')" and k: "k = Done r" by (auto split: prod.splits)
  note step = assms(1) [unfolded seg_def, rule_format, OF conjI [OF s(1) conjI [OF s(2) m]]]
  have "\<exists>own' A'. takes own own' s s' \<and> stable_claim own' A' \<and> holds A' s' \<and> safe k W X Q own' A'"
  proof (cases r)
    case (Inl x)
    with k assms(3) stable_no_claim [of None] show ?thesis by (auto simp: takes_def)
  next
    case (Inr a)
    with step k assms(2,4) show ?thesis by (intro exI [of _ "own' a"] exI [of _ "B a"]) auto
  qed
  with step show "(\<exists>who. W who \<and> world_step who s s' \<and> actor_row who \<in> {None, own}) \<and> X (w_ext s) (w_ext s') \<and>
      (\<exists>own' A'. takes own own' s s' \<and> stable_claim own' A' \<and> holds A' s' \<and> safe k W X Q own' A')" by blast
qed

lemma safe_then:
  assumes "seg W X own A m own' B" and "\<And>a. stable_claim (own' a) (B a)"
    and "\<And>x. Q (Inl x) None no_claim" and "\<And>a used d. B a used d \<Longrightarrow> safe (f a) W X Q (own' a) (B a)"
  shows "safe (bindp (atomic m) f) W X Q own A"
  by (rule safe_bindp, rule safe_atomic [OF assms(1,2)]) (use assms(3,4) in auto)

text \<open>A segment that leaves the database alone, and one that makes one transition unless it raises.\<close>

lemma seg_read:
  assumes "only_ext m" and "within X m" and "W who" and "actor_row who = None"
    and "\<And>s a s'. good s \<Longrightarrow> holds A s \<Longrightarrow> m s = (Inr a, s') \<Longrightarrow> own' a \<in> {None, own} \<and> holds (B a) s"
  shows "seg W X own A m own' B"
  unfolding seg_def
proof (intro allI impI, elim conjE)
  fix s r s'
  assume s: "good s" "holds A s" and m: "m s = (r, s')"
  note same = only_extD(1,2) [OF assms(1) m]
  have "world_step who s s'" using s(1) same by (simp add: world_step_idle good_def)
  moreover have "X (w_ext s) (w_ext s')" using assms(2) m by (metis within_def snd_conv)
  ultimately show "(\<exists>who. W who \<and> world_step who s s' \<and> actor_row who \<in> {None, own}) \<and> X (w_ext s) (w_ext s') \<and>
      (\<forall>a. r = Inr a \<longrightarrow> takes own (own' a) s s' \<and> holds (B a) s')"
    using assms(3-5) s m same by (auto simp: takes_def)
qed

lemma seg_write:
  assumes "exn_keeps_db m" and "\<And>used. keeps (\<lambda>s. used \<le> w_last_id s) m" and "within X m"
    and "W who" and "actor_row who \<in> {None, own}"
    and "\<And>s a s'. good s \<Longrightarrow> holds A s \<Longrightarrow> m s = (Inr a, s') \<Longrightarrow>
      db_step (w_last_id s) (w_last_id s') who (w_db s) (w_db s') \<and> schema_ok (w_db s') \<and>
      takes own (own' a) s s' \<and> holds (B a) s'"
  shows "seg W X own A m own' B"
  unfolding seg_def
proof (intro allI impI, elim conjE)
  fix s r s'
  assume s: "good s" "holds A s" and m: "m s = (r, s')"
  have le: "w_last_id s \<le> w_last_id s'" using keepsD_eq [OF assms(2) m order_refl] .
  have "world_step who s s'"
  proof (cases r)
    case (Inl x)
    with assms(1) m s le show ?thesis by (intro world_step_idle) (auto simp: exn_keeps_db_def good_def)
  next
    case (Inr a)
    with assms(6) [OF s, of a s'] m le show ?thesis by (simp add: world_step_def)
  qed
  moreover have "X (w_ext s) (w_ext s')" using assms(3) m by (metis within_def snd_conv)
  ultimately show "(\<exists>who. W who \<and> world_step who s s' \<and> actor_row who \<in> {None, own}) \<and> X (w_ext s) (w_ext s') \<and>
      (\<forall>a. r = Inr a \<longrightarrow> takes own (own' a) s s' \<and> holds (B a) s')"
    using assms(4-6) s m by blast
qed

end
