(* ===== verification/Confinement.thy ===== *)
theory Confinement
  imports Interference
begin

text \<open>
  Which part of the outside world a thread reaches: calls into one tenant's namespace, beside clocks,
  randomness, local configuration and, for the pollers, the tenants' own callback addresses.
\<close>

section \<open>Local calls\<close>

text \<open>The calls that do not go to the cluster: clocks, randomness, the database's sequences.\<close>

definition local_calls_keep :: "'w env \<Rightarrow> ('w \<Rightarrow> bool) \<Rightarrow> bool" where
  "local_calls_keep e I \<longleftrightarrow>
     (\<forall>w. I w \<longrightarrow> I (snd (e_now e w)) \<and> I (snd (e_time e w)) \<and> I (snd (e_random_byte e w)) \<and>
        (\<forall>tb. I (snd (e_id_gap e tb w))))"

named_theorems local_rules \<open>computations that make local calls only\<close>

lemma keeps_ext_commit [local_rules]: "keeps_ext I (commit e d)"
  by (simp add: keeps_def commit_apply split: option.split)

lemma keeps_ext_local [local_rules]:
  assumes "local_calls_keep e I"
  shows "keeps_ext I (now_naive e)" "keeps_ext I (db_now e)" "keeps_ext I (next_id e tb)"
    "keeps_ext I (token_urlsafe e n)" "keeps_ext I (generate_secure_key e p n)"
proof -
  show "keeps_ext I (now_naive e)" "keeps_ext I (db_now e)" "keeps_ext I (next_id e tb)"
    using assms
    by (auto simp: keeps_def now_naive_def db_now_def external_read_def next_id_def Let_def local_calls_keep_def
        split: prod.splits) (metis snd_conv)+
  have "keeps_ext I (external_read (e_random_byte e))"
    using assms by (auto simp: keeps_def external_read_def local_calls_keep_def split: prod.splits)
  then have "keeps_ext I (token_bytes e n)" by (induction n) (auto intro!: keeps_rules)
  then show "keeps_ext I (token_urlsafe e n)" "keeps_ext I (generate_secure_key e p n)"
    unfolding generate_secure_key_def token_urlsafe_def by (intro keeps_rules; assumption?)+
qed

lemma keeps_lift_result [local_rules]: "keeps I (lift_result r)"
  by (simp add: keeps_def lift_result_apply)

lemma keeps_ext_query_arg [local_rules]: "keeps_ext I (query_arg e i)"
  unfolding query_arg_def by (intro keeps_rules)

lemma keeps_ext_page_args [local_rules]: "keeps_ext I (page_args e lim off)"
  unfolding page_args_def literal_arg_def by (intro keeps_rules local_rules)

lemma keeps_ext_or_404 [local_rules]: "keeps_ext I (or_404 msg f x)"
  unfolding or_404_def by (intro local_rules)

lemma tenant_namespace:
  "namespaces_derived d \<Longrightarrow> get_tenant_row d i = Some t \<Longrightarrow> t_k8s_namespace t = namespace_of i"
  by (auto simp: namespaces_derived_def dest: get_tenant_rowD)

lemma keeps_ext_reads [local_rules]:
  "keeps_ext I (get_api_key_service t i)" "keeps_ext I (get_all_api_keys_service t)"
  "keeps_ext I (get_build_job_service t i)" "keeps_ext I (get_all_build_jobs_service t lim off)"
  "keeps_ext I (get_deployment_service t i)" "keeps_ext I (get_all_deployments_service t lim off)"
  "keeps_ext I (get_all_webhook_registrations_service t)"
  unfolding get_api_key_service_def get_all_api_keys_service_def get_build_job_service_def
    get_all_build_jobs_service_def get_deployment_service_def get_all_deployments_service_def
    get_all_webhook_registrations_service_def
  by (intro keeps_rules local_rules)+

section \<open>Reach\<close>

text \<open>
  \<open>reach e ns x x'\<close>: what may have become of the outside \<open>x\<close> when only calls into \<open>ns\<close> and local calls
  were made: every fact all of those preserve still holds. A poller also posts to callbacks.
\<close>

definition reach :: "'w env \<Rightarrow> string \<Rightarrow> 'w \<Rightarrow> 'w \<Rightarrow> bool" where
  "reach e ns x x' \<longleftrightarrow> (\<forall>I. confined e ns I \<and> local_calls_keep e I \<and> I x \<longrightarrow> I x')"

definition posts_keep :: "'w env \<Rightarrow> ('w \<Rightarrow> bool) \<Rightarrow> bool" where
  "posts_keep e I \<longleftrightarrow> (\<forall>url body hd. keeps I (e_http_post e url body hd))"

definition reach_posting :: "'w env \<Rightarrow> string \<Rightarrow> 'w \<Rightarrow> 'w \<Rightarrow> bool" where
  "reach_posting e ns x x' \<longleftrightarrow>
     (\<forall>I. confined e ns I \<and> local_calls_keep e I \<and> posts_keep e I \<and> I x \<longrightarrow> I x')"

lemma within_reach:
  "(\<And>I. confined e ns I \<Longrightarrow> local_calls_keep e I \<Longrightarrow> keeps_ext I m) \<Longrightarrow> within (reach e ns) m"
  by (auto simp: within_def reach_def keeps_def)

lemma within_reach_posting:
  "(\<And>I. confined e ns I \<Longrightarrow> local_calls_keep e I \<Longrightarrow> posts_keep e I \<Longrightarrow> keeps_ext I m) \<Longrightarrow> within (reach_posting e ns) m"
  by (auto simp: within_def reach_posting_def keeps_def)

lemma within_any: "within (\<lambda>_ _. True) m"
  by (simp add: within_def)

section \<open>Kinds of thread\<close>

text \<open>
  What the programs of a thread share: an actor they may always act as, which is in charge of no row,
  and with it the rules for a segment that only reads.
\<close>

locale thread_kind =
  fixes W :: "actor \<Rightarrow> bool" and X :: "'w \<Rightarrow> 'w \<Rightarrow> bool" and who :: actor
  assumes may_act: "W who" and in_charge_of_none: "actor_row who = None"
begin

lemma read_seg:
  assumes "only_ext m" and "within X m"
    and "\<And>s a s'. good s \<Longrightarrow> holds A s \<Longrightarrow> m s = (Inr a, s') \<Longrightarrow> own' a \<in> {None, own} \<and> holds (B a) s"
  shows "seg W X own A m own' B"
  by (rule seg_read [where who = who]) (fact assms may_act in_charge_of_none)+

lemma read_then:
  assumes "only_ext m" and "within X m" and "stable_claim own A" and "\<And>x. Q (Inl x) None no_claim"
    and "\<And>s a s'. good s \<Longrightarrow> holds A s \<Longrightarrow> m s = (Inr a, s') \<Longrightarrow> safe (f a) W X Q own A"
  shows "safe (bindp (atomic m) f) W X Q own A"
proof (rule safe_then)
  show "seg W X own A m (\<lambda>_. own) (\<lambda>a used d. A used d \<and> safe (f a) W X Q own A)"
    using assms(5) by (intro read_seg assms(1,2)) auto
  show "stable_claim own (\<lambda>used d. A used d \<and> safe (f a) W X Q own A)" for a
    by (intro stable_rules assms(3))
qed (use assms(4) in auto)

lemma read_end:
  assumes "only_ext m" and "within X m" and "stable_claim own A" and "\<And>x. Q (Inl x) None no_claim"
    and "\<And>s a s'. good s \<Longrightarrow> holds A s \<Longrightarrow> m s = (Inr a, s') \<Longrightarrow> Q (Inr a) own A"
  shows "safe (atomic m) W X Q own A"
proof (rule safe_atomic)
  show "seg W X own A m (\<lambda>_. own) (\<lambda>a used d. A used d \<and> Q (Inr a) own A)"
    using assms(5) by (intro read_seg assms(1,2)) auto
  show "stable_claim own (\<lambda>used d. A used d \<and> Q (Inr a) own A)" for a
    by (intro stable_rules assms(3))
qed (use assms(4) in auto)

lemma read_each:
  assumes "\<And>x. only_ext (f x)" and "\<And>x. within X (f x)" and "stable_claim own A" and "\<And>x. Q (Inl x) None no_claim"
    and "\<And>x s y s'. x \<in> set xs \<Longrightarrow> f x s = (Inr y, s') \<Longrightarrow> R y"
    and "\<And>ys. list_all R ys \<Longrightarrow> safe (k ys) W X Q own A"
  shows "safe (bindp (for_eachp xs (\<lambda>x. atomic (f x))) k) W X Q own A"
  using assms(5,6)
proof (induction xs arbitrary: k)
  case (Cons x xs)
  show ?case
    unfolding for_eachp.simps bindp_assoc bindp_retp
  proof (rule read_then)
    fix s a s'
    assume "f x s = (Inr a, s')"
    with Cons.prems(1) [of x] have "R a" by auto
    then show "safe (bindp (for_eachp xs (\<lambda>x. atomic (f x))) (\<lambda>as. k (a # as))) W X Q own A"
      by (intro Cons.IH Cons.prems) auto
  qed (fact assms)+
qed simp

lemma raise_end:
  assumes "only_ext m" and "within X m" and "\<And>x. Q (Inl x) None no_claim" and "\<And>s a s'. m s \<noteq> (Inr a, s')"
  shows "safe (atomic m) W X Q own A"
proof (rule safe_atomic)
  show "seg W X own A m (\<lambda>_. None) (\<lambda>_ used d. False)"
    using assms(4) by (intro read_seg assms(1,2)) auto
qed (use assms(3) in \<open>auto intro: stable_rules\<close>)

end

definition for_tenant :: "int \<Rightarrow> actor \<Rightarrow> bool" where
  "for_tenant t who \<longleftrightarrow> actor_tenant who = Some t"

interpretation tenant_thread: thread_kind "for_tenant t" "reach e (namespace_of t)" "ByTenant t" for e t
  by unfold_locales (simp_all add: for_tenant_def)

interpretation admin_thread: thread_kind "(=) ByAdmin" "\<lambda>_ _. True" ByAdmin
  by unfold_locales simp_all

interpretation poller_thread: thread_kind "for_tenant t" "reach_posting e ns" "ByWorker t" for e t ns
  by unfold_locales (simp_all add: for_tenant_def)

end
