(* ===== verification/RequestSafety.thy ===== *)
theory RequestSafety
  imports Confinement
begin

text \<open>
  Every request is safe under interference: each segment of its program makes one transition of the
  life cycle as an actor of the tenant in its path (or the administrator), reaches only that tenant's
  namespace, and its answer shows rows of that tenant only and hands over at most one poller, together with the
  row it is to follow.
\<close>

section \<open>Outcomes\<close>

abbreviation returns :: "('a \<Rightarrow> row_ref option \<Rightarrow> claim \<Rightarrow> bool) \<Rightarrow> exn + 'a \<Rightarrow> row_ref option \<Rightarrow> claim \<Rightarrow> bool" where
  "returns P \<equiv> (\<lambda>r own A. case r of Inl x \<Rightarrow> True | Inr a \<Rightarrow> P a own A)"

lemma goodD:
  assumes "good s"
  shows "schema_ok (w_db s)" "constraints_ok (w_db s)" "ids_bounded (w_last_id s) (w_db s)"
    "namespaces_derived (w_db s)"
  using assms by (auto simp: good_def db_inv_def)

lemma tenant_namespace_good:
  "good s \<Longrightarrow> get_tenant_row (w_db s) i = Some t \<Longrightarrow> t_k8s_namespace t = namespace_of i"
  by (rule tenant_namespace [OF goodD(4)])

lemma get_tenant_service_eq: "get_tenant_service i s = (r, s') \<longleftrightarrow> r = Inr (get_tenant_row (w_db s) i) \<and> s' = s"
  by (auto simp: get_tenant_service_def gets_apply)

lemma only_ext_refresh [only_ext_rules]: "only_ext (refresh e get)" "only_ext (row_gone e)"
  unfolding refresh_def row_gone_def by (intro only_ext_rules)+

lemma keeps_ext_refresh [local_rules]: "keeps_ext I (refresh e get)" "keeps_ext I (row_gone e)"
  unfolding refresh_def row_gone_def by (intro keeps_rules)+

lemma refresh_ok: "refresh e get s = (Inr r, s') \<longleftrightarrow> get (w_db s) = Some r \<and> s' = s"
  by (auto simp: refresh_def row_gone_def py_simps split: option.splits)

lemma only_ext_attempt [only_ext_rules]: "only_ext m \<Longrightarrow> only_ext (attempt m)"
proof -
  have "snd (attempt m s) = snd (m s)" for s by (simp add: attempt_apply case_prod_unfold)
  then show "only_ext m \<Longrightarrow> only_ext (attempt m)" by (simp add: only_ext_def)
qed

lemma keeps_ext_get_tenant [local_rules]: "keeps_ext I (get_tenant_service i)"
  unfolding get_tenant_service_def by (intro keeps_rules)

lemma row_gone_raises: "row_gone e s \<noteq> (Inr a, s')"
  by (simp add: row_gone_def py_simps)

section \<open>Keys\<close>

lemma exn_keeps_db_services:
  "exn_keeps_db (create_api_key_service e t kd)" "exn_keeps_db (create_webhook_registration_service e t wd)"
  unfolding create_api_key_service_def create_webhook_registration_service_def Let_def with_rollback_eq
  by (intro exn_db_rules only_ext_rules)+

lemma keeps_ids_services:
  "keeps (\<lambda>s. used \<le> w_last_id s) (create_api_key_service e t kd)"
  "keeps (\<lambda>s. used \<le> w_last_id s) (create_webhook_registration_service e t wd)"
  unfolding create_api_key_service_def create_webhook_registration_service_def Let_def with_rollback_eq
  by (intro keeps_bind ids_rules only_ext_rules)+

lemma within_services:
  "within (reach e ns) (create_api_key_service e t kd)" "within (reach e ns) (create_webhook_registration_service e t wd)"
  unfolding create_api_key_service_def create_webhook_registration_service_def Let_def with_rollback_eq
  by (intro within_reach keeps_rules local_rules; assumption)+

lemma seg_create_api_key:
  "seg (for_tenant t) (reach e (namespace_of t)) own A (create_api_key_service e t kd) (\<lambda>_. None)
     (\<lambda>r. key_claim (ak_id (fst r)) t)"
proof (rule seg_write [where who = "ByTenant t"])
  fix s r s'
  assume g: "good s" and "create_api_key_service e t kd s = (Inr r, s')"
  then have "create_api_key_service e t kd s = (Inr (fst r, snd r), s')" by simp
  then obtain i ts where k: "fst r = new_api_key i t (kc_name kd) (snd r) (key_hash_of e (snd r)) ts"
    and i: "w_last_id s ApiKeys < i" "w_last_id s' ApiKeys = i" and ok: "schema_ok (w_db s')"
    and d: "w_db s' = (w_db s)\<lparr>api_keys := api_keys (w_db s) @ [fst r]\<rparr>"
    by (rule create_api_key_service_ok)
  from k have id: "ak_id (fst r) = i" "ak_tenant_id (fst r) = t" by (simp_all add: new_api_key_def)
  have "db_step (w_last_id s) (w_last_id s') (ByTenant t) (w_db s) (w_db s')"
    unfolding d by (intro db_step.add_key) (simp_all add: fresh_def i id)
  moreover have "holds (key_claim (ak_id (fst r)) t) s'"
    using goodD(3) [OF g] i id by (auto simp: key_claim_def d ids_bounded_def)
  ultimately show "db_step (w_last_id s) (w_last_id s') (ByTenant t) (w_db s) (w_db s') \<and> schema_ok (w_db s') \<and>
      takes own None s s' \<and> holds (key_claim (ak_id (fst r)) t) s'" using ok by (simp add: takes_def)
qed (auto simp: for_tenant_def exn_keeps_db_services keeps_ids_services within_services)

lemma safe_create_api_key:
  "safe (create_api_key_prog e t kd) (for_tenant t) (reach e (namespace_of t))
     (returns (\<lambda>(k, raw) own A. ak_tenant_id k = t)) own A"
  unfolding create_api_key_prog_def
proof (rule safe_then [OF seg_create_api_key], goal_cases)
  case (3 r used d)
  show ?case
    by (cases r)
      (auto simp: safe_retp refresh_ok key_claim_def get_row_iff goodD
        intro!: tenant_thread.read_then only_ext_rules within_reach local_rules stable_rules)
qed (auto intro: stable_rules)

text \<open>A commit of one row's changed columns: what it does when it succeeds, and its frame.\<close>

lemma commit_row_ok:
  "commit_row e get upd s = (Inr u, s') \<longleftrightarrow>
     (\<exists>r. get (w_db s) = Some r) \<and> check_pending e (w_db s) (upd (w_db s)) = None \<and> s' = s\<lparr>w_db := upd (w_db s)\<rparr>"
  by (auto simp: commit_row_def refresh_def row_gone_def py_simps commit_apply split: option.splits)

lemma exn_keeps_db_commit_row: "exn_keeps_db (commit_row e get upd)"
  by (auto simp: exn_keeps_db_def commit_row_def refresh_def row_gone_def py_simps commit_apply split: option.splits)

lemma keeps_ids_commit_row [ids_rules]: "keeps (\<lambda>s. used \<le> w_last_id s) (commit_row e get upd)"
  unfolding commit_row_def by (intro keeps_bind ids_rules only_ext_rules)

lemma keeps_ext_commit_row [local_rules]: "keeps_ext I (commit_row e get upd)"
  unfolding commit_row_def by (intro keeps_rules local_rules)

text \<open>What an update of one row makes of the claim on it.\<close>

lemma update_where_all:
  assumes "\<forall>r \<in> set rs. key r = i \<longrightarrow> P r" and "\<And>r. key (f r) = key r" and "\<And>r. P r \<Longrightarrow> P' (f r)"
  shows "\<forall>r \<in> set (update_where key i f rs). key r = i \<longrightarrow> P' r"
proof (intro ballI impI)
  fix r
  assume "r \<in> set (update_where key i f rs)" and r: "key r = i"
  then obtain r0 where "r0 \<in> set rs" "r = (if key r0 = i then f r0 else r0)" by (auto simp: set_update_where)
  moreover from this r assms(2) have "key r0 = i" by (simp split: if_splits)
  ultimately show "P' r" using assms(1,3) by simp
qed

lemma claim_updated:
  "key_claim i t used d \<Longrightarrow> (\<And>k. ak_id (f k) = ak_id k) \<Longrightarrow> (\<And>k. ak_tenant_id (f k) = ak_tenant_id k) \<Longrightarrow>
     key_claim i t used (d\<lparr>api_keys := update_where ak_id i f (api_keys d)\<rparr>)"
  "build_claim i P used d \<Longrightarrow> (\<And>b. bj_id (g b) = bj_id b) \<Longrightarrow> (\<And>b. P b \<Longrightarrow> P' (g b)) \<Longrightarrow>
     build_claim i P' used (d\<lparr>build_jobs := update_where bj_id i g (build_jobs d)\<rparr>)"
  "deployment_claim i R used d \<Longrightarrow> (\<And>x. dp_id (h x) = dp_id x) \<Longrightarrow> (\<And>x. R x \<Longrightarrow> R' (h x)) \<Longrightarrow>
     deployment_claim i R' used (d\<lparr>deployments := update_where dp_id i h (deployments d)\<rparr>)"
  using update_where_all [of "api_keys d" ak_id i "\<lambda>k. ak_tenant_id k = t" f "\<lambda>k. ak_tenant_id k = t"]
    update_where_all [of "build_jobs d" bj_id i P g P'] update_where_all [of "deployments d" dp_id i R h R']
  by (simp_all add: key_claim_def build_claim_def deployment_claim_def)

text \<open>The shape all of them have: a clock is read, then the row is written.\<close>

definition clocked :: "('w world, 'c) py \<Rightarrow> 'w env \<Rightarrow> (db \<Rightarrow> 'r option) \<Rightarrow> ('c \<Rightarrow> db \<Rightarrow> db) \<Rightarrow> ('w world, 'a) py \<Rightarrow> bool" where
  "clocked clock e get upd m \<longleftrightarrow> only_ext clock \<and>
     (\<exists>h. m = bind clock (\<lambda>now. andthen (commit_row e get (upd now)) (ret (h now))))"

lemma clockedI:
  "only_ext clock \<Longrightarrow> clocked clock e get upd (bind clock (\<lambda>now. andthen (commit_row e get (upd now)) (ret (h now))))"
  "only_ext clock \<Longrightarrow> clocked clock e get upd (bind clock (\<lambda>now. commit_row e get (upd now)))"
proof -
  assume clock: "only_ext clock"
  have eq: "commit_row e get (upd now) = andthen (commit_row e get (upd now)) (ret ())" for now
    using bind_ret_right [of "commit_row e get (upd now)"] by simp
  have "bind clock (\<lambda>now. commit_row e get (upd now)) = bind clock (\<lambda>now. andthen (commit_row e get (upd now)) (ret ()))"
    by (subst eq) (rule refl)
  with clock show "clocked clock e get upd (bind clock (\<lambda>now. commit_row e get (upd now)))"
    by (auto simp: clocked_def)
qed (auto simp: clocked_def)

lemma clocked_ok:
  assumes "clocked clock e get upd m" and "m s = (Inr a, s')"
  obtains now r where "get (w_db s) = Some r" "w_db s' = upd now (w_db s)" "schema_ok (w_db s')" "w_last_id s' = w_last_id s"
proof -
  from assms obtain now s1 u where clock: "only_ext clock" and 1: "clock s = (Inr now, s1)"
    and "commit_row e get (upd now) s1 = (Inr u, s')"
    by (auto simp: clocked_def ret_apply elim!: bind_InrE)
  with only_extD(1,2) [OF clock 1] show thesis by (auto simp: commit_row_ok check_pending_None intro: that)
qed

lemma clocked_frame:
  assumes "clocked clock e get upd m"
  shows "exn_keeps_db m" and "keeps (\<lambda>s. used \<le> w_last_id s) m"
proof -
  from assms obtain h where clock: "only_ext clock"
    and m: "m = bind clock (\<lambda>now. andthen (commit_row e get (upd now)) (ret (h now)))"
    by (auto simp: clocked_def)
  have "exn_keeps_db (andthen (commit_row e get (upd now)) (ret (h now)))" for now
    using exn_keeps_db_commit_row [of e get "upd now"]
    by (auto simp: exn_keeps_db_def bind_apply ret_apply split: prod.splits sum.splits)
  then show "exn_keeps_db m" unfolding m by (rule exn_keeps_db_bind [OF keeps_db_only_ext [OF clock]])
  show "keeps (\<lambda>s. used \<le> w_last_id s) m" unfolding m by (intro keeps_bind ids_rules only_ext_rules clock)
qed

text \<open>A row written by whoever may: one transition, and the claim that the update makes true.\<close>

lemma seg_clocked:
  fixes m :: "('w world, 'a) py"
  assumes "clocked clock e get upd m" and "within X m" and "W who" and "actor_row who \<in> {None, own}"
    and "\<And>(s :: 'w world) now r. good s \<Longrightarrow> holds A s \<Longrightarrow> get (w_db s) = Some r \<Longrightarrow>
      db_step (w_last_id s) (w_last_id s) who (w_db s) (upd now (w_db s)) \<and> B (w_last_id s) (upd now (w_db s))"
  shows "seg W X own A m (\<lambda>_. own) (\<lambda>_. B)"
proof (rule seg_write [where who = who])
  fix s a s'
  assume s: "good s" "holds A s" and run: "m s = (Inr a, s')"
  from assms(1) run obtain now r where r: "get (w_db s) = Some r" and ok: "schema_ok (w_db s')"
    and d': "w_db s' = upd now (w_db s)" "w_last_id s' = w_last_id s"
    by (rule clocked_ok)
  from assms(5) [OF s r, of now] ok show "db_step (w_last_id s) (w_last_id s') who (w_db s) (w_db s') \<and> schema_ok (w_db s') \<and>
      takes own own s s' \<and> holds B s'" by (simp add: d' takes_def)
qed (use assms(2-4) clocked_frame [OF assms(1)] in auto)

lemma seg_revoke:
  "seg (for_tenant t) (reach e (namespace_of t)) own (key_claim i t)
     (bind (now_naive e) (\<lambda>now. commit_row e (\<lambda>d. get_api_key_row d i)
        (\<lambda>d. d\<lparr>api_keys := update_where ak_id i (revoke_row now) (api_keys d)\<rparr>))) (\<lambda>_. own) (\<lambda>_. key_claim i t)"
proof (rule seg_clocked [OF clockedI(2) [OF only_ext_now_naive], where who = "ByTenant t"])
  fix s :: "'w world" and now k
  assume g: "good s" and A: "holds (key_claim i t) s" and k: "get_api_key_row (w_db s) i = Some k"
  then have "k \<in> set (api_keys (w_db s))" "ak_id k = i" "ak_tenant_id k = t"
    by (auto simp: get_row_iff goodD key_claim_def)
  with claim_updated(1) [OF A, of "revoke_row now"]
  show "db_step (w_last_id s) (w_last_id s) (ByTenant t) (w_db s)
      ((w_db s)\<lparr>api_keys := update_where ak_id i (revoke_row now) (api_keys (w_db s))\<rparr>) \<and>
    key_claim i t (w_last_id s) ((w_db s)\<lparr>api_keys := update_where ak_id i (revoke_row now) (api_keys (w_db s))\<rparr>)"
    by (simp add: db_step.revoke_key revoke_row_def)
qed (auto simp: for_tenant_def intro!: within_reach keeps_rules local_rules)

lemma seg_find_key:
  "seg (for_tenant t) (reach e (namespace_of t)) own A (get_api_key_service t i) (\<lambda>_. None)
     (\<lambda>found. case found of None \<Rightarrow> no_claim | Some k \<Rightarrow> key_claim (ak_id k) t)"
proof (rule tenant_thread.read_seg)
  fix s found s'
  assume g: "good s" and run: "get_api_key_service t i s = (Inr found, s')"
  have "holds (key_claim (ak_id k) t) s" if "found = Some k" for k
  proof -
    from that run have k: "k \<in> set (api_keys (w_db s))" "ak_tenant_id k = t"
      by (auto simp: get_api_key_service_def py_simps dest!: scalar_one_or_none_mem)
    moreover have "k' = k" if "k' \<in> set (api_keys (w_db s))" "ak_id k' = ak_id k" for k'
      using distinct_map_the_one [of ak_id, OF _ that(1) k(1)] that(2) goodD(2) [OF g] by (simp add: constraint_defs)
    ultimately show ?thesis using goodD(3) [OF g] by (auto simp: key_claim_def ids_bounded_def)
  qed
  then show "None \<in> {None, own} \<and> holds (case found of None \<Rightarrow> no_claim | Some k \<Rightarrow> key_claim (ak_id k) t) s"
    by (auto split: option.split)
qed (intro within_reach only_ext_rules local_rules)+

lemma safe_revoke_api_key:
  "safe (revoke_api_key_prog e t i) (for_tenant t) (reach e (namespace_of t))
     (returns (\<lambda>found own A. \<forall>k. found = Some k \<longrightarrow> ak_tenant_id k = t)) own A"
  unfolding revoke_api_key_prog_def
proof (rule safe_then [OF seg_find_key], goal_cases)
  case (3 found used d)
  show ?case
  proof (cases found)
    case None
    then show ?thesis by (simp add: safe_retp)
  next
    case (Some k)
    then show ?thesis
      by (auto simp: safe_retp refresh_ok key_claim_def get_row_iff goodD
          intro!: safe_then [OF seg_revoke] tenant_thread.read_then only_ext_rules within_reach local_rules stable_rules)
  qed
qed (auto intro: stable_rules split: option.split)

section \<open>Webhooks\<close>

lemma seg_create_webhook_registration:
  "seg (for_tenant t) (reach e (namespace_of t)) own A (create_webhook_registration_service e t wd) (\<lambda>_. None)
     (\<lambda>r. webhooks_claim {wr_id (fst r)} t)"
proof (rule seg_write [where who = "ByTenant t"])
  fix s r s'
  assume g: "good s" and "create_webhook_registration_service e t wd s = (Inr r, s')"
  then have "create_webhook_registration_service e t wd s = (Inr (fst r, snd r), s')" by simp
  then obtain i ts where w: "fst r = new_webhook_registration i t (wc_callback_url wd) (snd r) ts"
    and i: "w_last_id s WebhookRegistrations < i" "w_last_id s' WebhookRegistrations = i" and ok: "schema_ok (w_db s')"
    and d: "w_db s' = (w_db s)\<lparr>webhook_registrations := webhook_registrations (w_db s) @ [fst r]\<rparr>"
    by (rule create_webhook_registration_service_ok)
  from w have id: "wr_id (fst r) = i" "wr_tenant_id (fst r) = t" by (simp_all add: new_webhook_registration_def)
  have "db_step (w_last_id s) (w_last_id s') (ByTenant t) (w_db s) (w_db s')"
    unfolding d by (intro db_step.add_webhook) (simp_all add: fresh_def i id)
  moreover have "holds (webhooks_claim {wr_id (fst r)} t) s'"
    using goodD(3) [OF g] i id by (auto simp: webhooks_claim_def d ids_bounded_def)
  ultimately show "db_step (w_last_id s) (w_last_id s') (ByTenant t) (w_db s) (w_db s') \<and> schema_ok (w_db s') \<and>
      takes own None s s' \<and> holds (webhooks_claim {wr_id (fst r)} t) s'" using ok by (simp add: takes_def)
qed (auto simp: for_tenant_def exn_keeps_db_services keeps_ids_services within_services)

lemma safe_create_webhook_registration:
  "safe (create_webhook_registration_prog e t wd) (for_tenant t) (reach e (namespace_of t))
     (returns (\<lambda>(r, sec) own A. wr_tenant_id r = t)) own A"
  unfolding create_webhook_registration_prog_def
proof (rule safe_then [OF seg_create_webhook_registration], goal_cases)
  case (3 r used d)
  show ?case
    by (cases r)
      (auto simp: safe_retp refresh_ok webhooks_claim_def get_row_iff goodD
        intro!: tenant_thread.read_then only_ext_rules within_reach local_rules stable_rules)
qed (auto intro: stable_rules)

section \<open>Builds\<close>

text \<open>The row a poller follows, and what it may rely on when it starts.\<close>

fun task_row :: "task \<Rightarrow> row_ref" where
  "task_row (PollBuild i ns) = BuildRow i"
| "task_row (PollDeployment i ns name) = DeploymentRow i"

abbreviation build_at :: "int \<Rightarrow> int \<Rightarrow> build_status \<Rightarrow> claim" where
  "build_at t i st \<equiv> build_claim i (\<lambda>b. bj_tenant_id b = t \<and> bj_status b = st)"

abbreviation deployment_at :: "int \<Rightarrow> int \<Rightarrow> deployment_status \<Rightarrow> claim" where
  "deployment_at t i st \<equiv> deployment_claim i (\<lambda>x. dp_tenant_id x = t \<and> dp_status x = st)"

fun task_claim :: "int \<Rightarrow> task \<Rightarrow> claim" where
  "task_claim t (PollBuild i ns) = (\<lambda>used d. ns = namespace_of t \<and> build_at t i Building used d)"
| "task_claim t (PollDeployment i ns name) =
     (\<lambda>used d. ns = namespace_of t \<and> name = TENANT_APP_NAME \<and> deployment_at t i Deploying used d)"

definition handed :: "int \<Rightarrow> task \<Rightarrow> row_ref option \<Rightarrow> claim \<Rightarrow> bool" where
  "handed t k own A \<longleftrightarrow> own = Some (task_row k) \<and> (\<forall>used d. A used d \<longrightarrow> task_claim t k used d)"

text \<open>The submissions return a row of the tenant and, when there is something to follow, its namespace.\<close>

definition submitted_build :: "int \<Rightarrow> build_job \<times> string option \<Rightarrow> row_ref option \<Rightarrow> claim \<Rightarrow> bool" where
  "submitted_build t = (\<lambda>(b, ns) own A. bj_tenant_id b = t \<and> (\<forall>n. ns = Some n \<longrightarrow> handed t (PollBuild (bj_id b) n) own A))"

definition submitted_deployment :: "int \<Rightarrow> deployment \<times> string option \<Rightarrow> row_ref option \<Rightarrow> claim \<Rightarrow> bool" where
  "submitted_deployment t = (\<lambda>(x, ns) own A. dp_tenant_id x = t \<and>
     (\<forall>n. ns = Some n \<longrightarrow> handed t (PollDeployment (dp_id x) n (dp_k8s_deployment_name x)) own A))"

lemma seg_insert_build_job:
  "seg (for_tenant t) (reach e (namespace_of t)) own A (insert_build_job e t bd) (\<lambda>b. Some (BuildRow (bj_id b)))
     (\<lambda>b. build_at t (bj_id b) Queued)"
proof (rule seg_write [where who = "ByTenant t"])
  fix s b s'
  assume g: "good s" and "insert_build_job e t bd s = (Inr b, s')"
  from this(2) obtain i ts where b: "b = new_build_job i t bd ts" and i: "w_last_id s BuildJobs < i"
    "w_last_id s' = (w_last_id s)(BuildJobs := i)" and ok: "schema_ok (w_db s')"
    and d: "w_db s' = (w_db s)\<lparr>build_jobs := build_jobs (w_db s) @ [b]\<rparr>"
    by (rule insert_build_job_ok)
  have "db_step (w_last_id s) (w_last_id s') (ByTenant t) (w_db s) (w_db s')"
    unfolding d by (intro db_step.add_build) (simp_all add: fresh_def i b)
  moreover have "holds (build_at t (bj_id b) Queued) s'"
    using goodD(3) [OF g] i b by (auto simp: build_claim_def d ids_bounded_def)
  ultimately show "db_step (w_last_id s) (w_last_id s') (ByTenant t) (w_db s) (w_db s') \<and> schema_ok (w_db s') \<and>
      takes own (Some (BuildRow (bj_id b))) s s' \<and> holds (build_at t (bj_id b) Queued) s'"
    using ok i b by (simp add: takes_def)
next
  show "exn_keeps_db (insert_build_job e t bd)"
    unfolding insert_build_job_def Let_def by (intro exn_db_rules only_ext_rules)
  show "keeps (\<lambda>s. used \<le> w_last_id s) (insert_build_job e t bd)" for used
    unfolding insert_build_job_def Let_def by (intro keeps_bind ids_rules only_ext_rules)
  show "within (reach e (namespace_of t)) (insert_build_job e t bd)"
    unfolding insert_build_job_def Let_def by (intro within_reach keeps_rules local_rules; assumption)
qed (simp_all add: for_tenant_def)

lemma clocked_commit_build_job:
  "clocked (now_naive e) e (\<lambda>d. get_build_job_row d i) (\<lambda>now d. d\<lparr>build_jobs := update_where bj_id i (f now) (build_jobs d)\<rparr>)
     (commit_build_job e i f)"
  unfolding commit_build_job_def by (rule clockedI [OF only_ext_now_naive])

lemma keeps_ext_commit_build_job [local_rules]: "local_calls_keep e I \<Longrightarrow> keeps_ext I (commit_build_job e i f)"
  unfolding commit_build_job_def by (intro keeps_rules local_rules; assumption)

text \<open>Whoever owns a build moves it.\<close>

lemma seg_commit_build_job:
  assumes "within X (commit_build_job e i f)"
    and "\<And>used d b now. b \<in> set (build_jobs d) \<Longrightarrow> bj_id b = i \<Longrightarrow> bj_tenant_id b = t \<Longrightarrow> bj_status b = st \<Longrightarrow>
      db_step used used (ByBuild t i) d (d\<lparr>build_jobs := update_where bj_id i (f now) (build_jobs d)\<rparr>)"
    and "\<And>now b. bj_id (f now b) = bj_id b" and "\<And>now b. bj_tenant_id (f now b) = bj_tenant_id b"
    and "\<And>now b. bj_status b = st \<Longrightarrow> bj_status (f now b) = st'"
  shows "seg (for_tenant t) X (Some (BuildRow i)) (build_at t i st) (commit_build_job e i f)
    (\<lambda>_. Some (BuildRow i)) (\<lambda>_. build_at t i st')"
proof (rule seg_clocked [OF clocked_commit_build_job assms(1), where who = "ByBuild t i"])
  fix s :: "'a world" and now b
  assume g: "good s" and A: "holds (build_at t i st) s" and b: "get_build_job_row (w_db s) i = Some b"
  then have "b \<in> set (build_jobs (w_db s))" "bj_id b = i" "bj_tenant_id b = t" "bj_status b = st"
    by (auto simp: get_row_iff goodD build_claim_def)
  with assms(2-5) claim_updated(2) [OF A, of "f now" "\<lambda>b. bj_tenant_id b = t \<and> bj_status b = st'"]
  show "db_step (w_last_id s) (w_last_id s) (ByBuild t i) (w_db s)
      ((w_db s)\<lparr>build_jobs := update_where bj_id i (f now) (build_jobs (w_db s))\<rparr>) \<and>
    build_at t i st' (w_last_id s) ((w_db s)\<lparr>build_jobs := update_where bj_id i (f now) (build_jobs (w_db s))\<rparr>)"
    by simp
qed (simp_all add: for_tenant_def)

lemma safe_refreshed_build:
  "safe (refreshed_build e i (namespace_of t)) (for_tenant t) (reach e (namespace_of t)) (returns (submitted_build t))
     (Some (BuildRow i)) (build_at t i st)"
  unfolding refreshed_build_def
  by (rule tenant_thread.read_then)
    (auto simp: safe_retp refresh_ok get_row_iff goodD build_claim_def submitted_build_def handed_def
      intro!: only_ext_rules within_reach local_rules stable_rules)

lemma safe_create_build_job:
  "safe (create_build_job_prog e t bd) (for_tenant t) (reach e (namespace_of t)) (returns (submitted_build t)) own no_claim"
  unfolding create_build_job_prog_def
proof (rule tenant_thread.read_then, goal_cases)
  case (5 s row s')
  show ?case
  proof (cases row)
    case None
    then show ?thesis by (simp add: safe_raisep)
  next
    case (Some tn)
    with 5 have ns: "t_k8s_namespace tn = namespace_of t" by (auto simp: get_tenant_service_eq tenant_namespace_good)
    have building: "seg (for_tenant t) (reach e (namespace_of t)) (Some (BuildRow i)) (build_at t i Queued)
        (commit_build_job e i mark_building) (\<lambda>_. Some (BuildRow i)) (\<lambda>_. build_at t i Building)" for i
      by (rule seg_commit_build_job) (auto intro!: within_reach local_rules intro: db_step.start_build)
    have failed: "seg (for_tenant t) (reach e (namespace_of t)) (Some (BuildRow i)) (build_at t i Queued)
        (commit_build_job e i (mark_start_failed x)) (\<lambda>_. Some (BuildRow i)) (\<lambda>_. build_at t i BuildFailed)" for i x
      by (rule seg_commit_build_job) (auto intro!: within_reach local_rules intro: db_step.start_build)
    show ?thesis
      unfolding Some option.case
    proof (rule safe_then [OF seg_insert_build_job], goal_cases)
      case (3 b used d)
      show ?case
      proof (rule tenant_thread.read_then, goal_cases)
        case (5 s b' s')
        then have b': "bj_id b' = bj_id b" by (auto simp: refresh_ok get_row_iff goodD)
        show ?case
          unfolding ns b'
        proof (rule tenant_thread.read_then, goal_cases)
          case (5 s started s')
          show ?case
            by (cases started)
              (auto intro!: safe_then [OF building] safe_then [OF failed] safe_refreshed_build safe_catchp stable_rules
                safe_mono [OF safe_refreshed_build] tenant_thread.raise_end row_gone_raises only_ext_rules within_reach local_rules
                split: sum.splits)
        qed (auto simp: start_build_def intro!: only_ext_rules within_reach keeps_rules local_rules stable_rules
            confined_ensure_tenant_namespace confined_create_kpack_image)
      qed (auto intro!: only_ext_rules within_reach local_rules stable_rules)
    qed (auto intro: stable_rules)
  qed
qed (auto intro!: only_ext_rules within_reach local_rules stable_rules)

section \<open>Deployments\<close>

lemma seg_find_build:
  "seg (for_tenant t) (reach e (namespace_of t)) own A (gets (\<lambda>s. get_build_job_row (w_db s) i)) (\<lambda>_. None)
     (\<lambda>row. case row of None \<Rightarrow> no_claim | Some b \<Rightarrow> \<lambda>used d. bj_id b = i \<and> build_claim i (\<lambda>b'. bj_status b = Succeeded \<longrightarrow>
        bj_tenant_id b' = bj_tenant_id b \<and> bj_status b' = Succeeded) used d)"
proof (rule tenant_thread.read_seg)
  fix s :: "'a world" and row s'
  assume g: "good s" and "gets (\<lambda>s. get_build_job_row (w_db s) i) s = (Inr row, s')"
  then have row: "row = get_build_job_row (w_db s) i" by (auto simp: gets_apply)
  have "bj_id b = i \<and> holds (build_claim i (\<lambda>b'. bj_status b = Succeeded \<longrightarrow>
      bj_tenant_id b' = bj_tenant_id b \<and> bj_status b' = Succeeded)) s" if "row = Some b" for b
  proof -
    from that row g have b: "b \<in> set (build_jobs (w_db s))" "bj_id b = i" by (auto simp: get_row_iff goodD)
    have "b' = b" if "b' \<in> set (build_jobs (w_db s))" "bj_id b' = i" for b'
      using same_build [of "w_db s" b' b] that b goodD(2) [OF g] by (simp add: constraints_ok_def)
    moreover have "i \<le> w_last_id s BuildJobs" using goodD(3) [OF g] b by (auto simp: ids_bounded_def)
    ultimately show ?thesis using b(2) unfolding build_claim_def by blast
  qed
  then show "None \<in> {None, own} \<and> holds (case row of None \<Rightarrow> no_claim | Some b \<Rightarrow> \<lambda>used d. bj_id b = i \<and> build_claim i
      (\<lambda>b'. bj_status b = Succeeded \<longrightarrow> bj_tenant_id b' = bj_tenant_id b \<and> bj_status b' = Succeeded) used d) s"
    by (auto split: option.split)
qed (auto intro!: only_ext_rules within_reach keeps_rules)

lemma stable_succeeded [stable_rules]: "stable_claim own (build_at t i Succeeded)"
  by (rule stable_build) simp

lemma seg_insert_deployment:
  assumes "bj_id b = i"
  shows "seg (for_tenant t) (reach e (namespace_of t)) own (build_at t i Succeeded) (insert_deployment e t b dd)
    (\<lambda>x. Some (DeploymentRow (dp_id x))) (\<lambda>x. deployment_at t (dp_id x) Pending)"
proof (rule seg_write [where who = "ByTenant t"])
  fix s x s'
  assume g: "good s" and A: "holds (build_at t i Succeeded) s" and "insert_deployment e t b dd s = (Inr x, s')"
  from this(3) obtain j ts where x: "x = new_deployment j t (bj_id b) (dc_replica_count dd) ts" and j: "w_last_id s Deployments < j"
    "w_last_id s' = (w_last_id s)(Deployments := j)" and ok: "schema_ok (w_db s')"
    and d: "w_db s' = (w_db s)\<lparr>deployments := deployments (w_db s) @ [x]\<rparr>"
    by (rule insert_deployment_ok)
  have "dp_build_job_id x \<in> bj_id ` set (build_jobs (w_db s))" using schema_okD [OF ok] by (auto simp: constraint_defs d)
  then obtain b0 where b0: "b0 \<in> set (build_jobs (w_db s))" "bj_id b0 = dp_build_job_id x" by force
  with A x assms have "bj_tenant_id b0 = t" "bj_status b0 = Succeeded" by (simp_all add: build_claim_def)
  with b0 x j have "db_step (w_last_id s) (w_last_id s') (ByTenant t) (w_db s) (w_db s')"
    unfolding d by (intro db_step.add_deployment [where b = b0]) (simp_all add: fresh_def new_deployment_def)
  moreover have "holds (deployment_at t (dp_id x) Pending) s'"
    using goodD(3) [OF g] j x by (auto simp: deployment_claim_def d ids_bounded_def new_deployment_def)
  ultimately show "db_step (w_last_id s) (w_last_id s') (ByTenant t) (w_db s) (w_db s') \<and> schema_ok (w_db s') \<and>
      takes own (Some (DeploymentRow (dp_id x))) s s' \<and> holds (deployment_at t (dp_id x) Pending) s'"
    using ok j x by (simp add: takes_def)
next
  show "exn_keeps_db (insert_deployment e t b dd)"
    unfolding insert_deployment_def Let_def by (intro exn_db_rules only_ext_rules)
  show "keeps (\<lambda>s. used \<le> w_last_id s) (insert_deployment e t b dd)" for used
    unfolding insert_deployment_def Let_def by (intro keeps_bind ids_rules only_ext_rules)
  show "within (reach e (namespace_of t)) (insert_deployment e t b dd)"
    unfolding insert_deployment_def Let_def by (intro within_reach keeps_rules local_rules; assumption)
qed (simp_all add: for_tenant_def)

lemma keeps_ext_commit_deployment [local_rules]: "local_calls_keep e I \<Longrightarrow> keeps_ext I (commit_deployment e x st)"
  unfolding commit_deployment_def by (intro keeps_rules local_rules; assumption)

text \<open>Whoever owns a deployment moves it.\<close>

lemma seg_commit_deployment:
  assumes "within X (commit_deployment e x st')" and "dp_id x = i" and "dp_status x = st" and "deployment_moves st st'"
  shows "seg (for_tenant t) X (Some (DeploymentRow i)) (deployment_at t i st) (commit_deployment e x st')
    (\<lambda>_. Some (DeploymentRow i)) (\<lambda>_. deployment_at t i st')"
proof -
  let ?upd = "\<lambda>ts d. d\<lparr>deployments := update_where dp_id i (\<lambda>y. y\<lparr>dp_status := st', dp_updated_at := ts\<rparr>) (deployments d)\<rparr>"
  from assms(4) have ne: "st \<noteq> st'" by (auto elim: deployment_moves.cases)
  then have eq: "commit_deployment e x st' =
      bind (db_now e) (\<lambda>ts. andthen (commit_row e (\<lambda>d. get_deployment_row d i) (?upd ts)) (ret ts))"
    using assms(2,3) by (simp add: commit_deployment_def)
  have clocked: "clocked (db_now e) e (\<lambda>d. get_deployment_row d i) ?upd (commit_deployment e x st')"
    unfolding eq by (rule clockedI(1) [OF only_ext_db_now])
  show ?thesis
  proof (rule seg_clocked [OF clocked assms(1), where who = "ByDeployment t i"])
    fix s :: "'a world" and ts y
    assume g: "good s" and A: "holds (deployment_at t i st) s" and "get_deployment_row (w_db s) i = Some y"
    then have y: "y \<in> set (deployments (w_db s))" "dp_id y = i" "dp_tenant_id y = t" "dp_status y = st"
      by (auto simp: get_row_iff goodD deployment_claim_def)
    have "update_where dp_id i (\<lambda>y. y\<lparr>dp_status := st', dp_updated_at := ts\<rparr>) (deployments (w_db s)) =
        update_where dp_id i (set_deployment_status st' ts) (deployments (w_db s))"
      using A ne by (intro update_where_cong) (auto simp: deployment_claim_def set_deployment_status_def)
    with y assms(4) have "db_step (w_last_id s) (w_last_id s) (ByDeployment t i) (w_db s) (?upd ts (w_db s))"
      by (simp add: db_step.move_deployment)
    with claim_updated(3) [OF A, of "\<lambda>y. y\<lparr>dp_status := st', dp_updated_at := ts\<rparr>" "\<lambda>x. dp_tenant_id x = t \<and> dp_status x = st'"]
    show "db_step (w_last_id s) (w_last_id s) (ByDeployment t i) (w_db s) (?upd ts (w_db s)) \<and>
        deployment_at t i st' (w_last_id s) (?upd ts (w_db s))" by simp
  qed (simp_all add: for_tenant_def)
qed

lemma safe_refreshed_deployment:
  assumes "st = Deploying \<Longrightarrow> map_option t_k8s_namespace tn = Some (namespace_of t)"
  shows "safe (refreshed_deployment e i tn) (for_tenant t) (reach e (namespace_of t)) (returns (submitted_deployment t))
     (Some (DeploymentRow i)) (deployment_at t i st)"
  unfolding refreshed_deployment_def
proof (rule tenant_thread.read_then, goal_cases)
  case (5 s x s')
  then have x: "x \<in> set (deployments (w_db s))" "dp_id x = i" "dp_tenant_id x = t" "dp_status x = st"
    by (auto simp: refresh_ok get_row_iff goodD deployment_claim_def)
  with 5(1) have "dp_k8s_deployment_name x = TENANT_APP_NAME"
    by (auto simp: good_def db_inv_def deployments_own_builds_def)
  with x assms show ?case by (auto simp: safe_retp submitted_deployment_def handed_def)
qed (auto intro!: only_ext_rules within_reach local_rules stable_rules)

lemma start_deployment_needs_tenant: "start_deployment e tn b x s = (Inr u, s') \<Longrightarrow> tn \<noteq> None"
  by (cases tn) (auto simp: start_deployment_def raise_apply)

lemma safe_create_deployment:
  "safe (create_deployment_prog e t dd) (for_tenant t) (reach e (namespace_of t)) (returns (submitted_deployment t)) own no_claim"
  unfolding create_deployment_prog_def
proof (rule safe_then [OF seg_find_build], goal_cases)
  case (3 row used d)
  show ?case
  proof (cases "\<exists>b. row = Some b \<and> bj_tenant_id b = t \<and> bj_status b = Succeeded")
    case False
    then show ?thesis by (auto simp: safe_raisep split: option.split)
  next
    case True
    then obtain b where b: "row = Some b" "bj_tenant_id b = t" "bj_status b = Succeeded" "bj_id b = dc_build_job_id dd"
      using 3 by auto
    let ?W = "for_tenant t" and ?X = "reach e (namespace_of t)" and ?Q = "returns (submitted_deployment t)"
    let ?A = "build_at t (dc_build_job_id dd) Succeeded"
    have "safe (bindp (atomic (get_tenant_service t)) (\<lambda>tenant.
           bindp (atomic (insert_deployment e t b dd)) (\<lambda>x.
           bindp (atomic (refresh e (\<lambda>d. get_deployment_row d (dp_id x)))) (\<lambda>x.
           bindp (atomic (attempt (start_deployment e tenant b x))) (\<lambda>started.
           case started of
             Inr _ \<Rightarrow> catchp
                 (bindp (atomic (commit_deployment e x Deploying)) (\<lambda>_. refreshed_deployment e (dp_id x) tenant))
                 (\<lambda>_. atomic (row_gone e))
           | Inl _ \<Rightarrow> bindp (atomic (commit_deployment e x DeployFailed)) (\<lambda>_.
                 refreshed_deployment e (dp_id x) tenant)))))) ?W ?X ?Q None ?A"
    proof (rule tenant_thread.read_then, goal_cases)
      case (5 s tn s')
      then have tn: "t_k8s_namespace r = namespace_of t" if "tn = Some r" for r
        using that by (auto simp: get_tenant_service_eq tenant_namespace_good)
      show ?case
      proof (rule safe_then [OF seg_insert_deployment [OF b(4)]], goal_cases)
        case (3 x used d)
        show ?case
        proof (rule tenant_thread.read_then, goal_cases)
          case (5 s x' s')
          then have x': "dp_id x' = dp_id x" "dp_status x' = Pending"
            by (auto simp: refresh_ok get_row_iff goodD deployment_claim_def)
          have moved: "seg ?W ?X (Some (DeploymentRow (dp_id x))) (deployment_at t (dp_id x) Pending) (commit_deployment e x' st)
              (\<lambda>_. Some (DeploymentRow (dp_id x))) (\<lambda>_. deployment_at t (dp_id x) st)" if "deployment_moves Pending st" for st
            using x' that by (intro seg_commit_deployment within_reach local_rules)
          show ?case
            unfolding x'(1)
          proof (rule tenant_thread.read_then, goal_cases)
            case (5 s started s')
            show ?case
            proof (cases started)
              case (Inl y)
              then show ?thesis
                by (auto intro!: safe_then [OF moved] safe_refreshed_deployment stable_rules)
            next
              case (Inr u)
              with 5 have "map_option t_k8s_namespace tn = Some (namespace_of t)"
                using start_deployment_needs_tenant tn by (fastforce simp: attempt_apply split: prod.splits)
              with Inr show ?thesis
                by (auto intro!: safe_then [OF moved] safe_catchp safe_mono [OF safe_refreshed_deployment] stable_rules
                    tenant_thread.raise_end row_gone_raises only_ext_rules within_reach local_rules split: sum.splits)
            qed
          qed (auto simp: start_deployment_def tn intro!: only_ext_rules within_reach keeps_rules local_rules stable_rules
              confined_create_tenant_deployment)
        qed (auto intro!: only_ext_rules within_reach local_rules stable_rules)
      qed (auto intro: stable_rules)
    qed (auto intro!: only_ext_rules within_reach local_rules stable_rules)
    with b show ?thesis by simp
  qed
qed (auto intro!: stable_rules stable_build split: option.split)

section \<open>The kubeconfig\<close>

lemma safe_get_tenant_kubeconfig:
  "safe (get_tenant_kubeconfig_prog e t) (for_tenant t) (reach e (namespace_of t)) (returns (\<lambda>txt own A. True)) own no_claim"
  unfolding get_tenant_kubeconfig_prog_def
proof (rule tenant_thread.read_then, goal_cases)
  case (5 s row s')
  show ?case
  proof (cases row)
    case None
    then show ?thesis by (simp add: safe_raisep)
  next
    case (Some tn)
    with 5 have "t_k8s_namespace tn = namespace_of t" by (auto simp: get_tenant_service_eq tenant_namespace_good)
    with Some show ?thesis
      by (auto intro!: tenant_thread.read_end only_ext_rules within_reach keeps_rules stable_rules
          confined_ensure_tenant_namespace confined_ensure_tenant_rbac confined_mint_tenant_kubeconfig)
  qed
qed (auto intro!: only_ext_rules within_reach local_rules stable_rules)

end
