(* ===== verification/RequestAnswers.thy ===== *)
theory RequestAnswers
  imports RequestSafety
begin

text \<open>
  The administrator's programs, the routes that only read, and all of them together: the program of
  any request is safe, and ends in a response.
\<close>

section \<open>The administrator's requests\<close>

abbreviation anywhere :: "'w \<Rightarrow> 'w \<Rightarrow> bool" where
  "anywhere \<equiv> (\<lambda>_ _. True)"

lemma seg_flush_tenant:
  "seg ((=) ByAdmin) anywhere own A (flush_tenant e td) (\<lambda>_. None) (\<lambda>t. tenant_claim (t_id t))"
proof (rule seg_write [where who = ByAdmin])
  fix s t s'
  assume g: "good s" and "flush_tenant e td s = (Inr t, s')"
  then obtain i s1 ts s2 where 1: "next_id e Tenants s = (Inr i, s1)" and 2: "db_now e s1 = (Inr ts, s2)"
    and t: "t = new_tenant i (tc_name td) ts" and s': "s' = s2"
    by (auto simp: flush_tenant_def Let_def atom_simps flush_ok elim!: bind_InrE)
  from next_id_apply [OF 1] only_extD(1,2) [OF only_ext_db_now 2] s' g t
  show "db_step (w_last_id s) (w_last_id s') ByAdmin (w_db s) (w_db s') \<and> schema_ok (w_db s') \<and>
      takes own None s s' \<and> holds (tenant_claim (t_id t)) s'"
    by (simp add: db_step.idle goodD takes_def tenant_claim_def new_tenant_def)
next
  show "exn_keeps_db (flush_tenant e td)"
    unfolding flush_tenant_def Let_def by (intro exn_db_rules exn_keeps_db_ext only_ext_rules)
  show "keeps (\<lambda>s. used \<le> w_last_id s) (flush_tenant e td)" for used
    unfolding flush_tenant_def Let_def by (intro keeps_bind ids_rules only_ext_rules)
qed (simp_all add: within_any)

lemma seg_commit_tenant:
  "seg ((=) ByAdmin) anywhere own (tenant_claim (t_id t)) (commit_tenant e t) (\<lambda>_. None) (\<lambda>_. no_claim)"
proof (rule seg_write [where who = ByAdmin])
  fix s r s'
  assume A: "holds (tenant_claim (t_id t)) s" and "commit_tenant e t s = (Inr r, s')"
  then obtain raw s1 h k s2 kts s3 where
    1: "generate_secure_key e ''mtp'' 32 s = (Inr raw, s1)" and 2: "next_id e ApiKeys s1 = (Inr k, s2)"
    and 3: "db_now e s2 = (Inr kts, s3)"
    and 4: "commit e ((w_db s3)\<lparr>tenants := tenants (w_db s3) @ [t\<lparr>t_k8s_namespace := namespace_of (t_id t)\<rparr>],
       api_keys := api_keys (w_db s3) @ [new_api_key k (t_id t) ''primary'' raw h kts]\<rparr>) s3 = (Inr (), s')"
    by (auto simp: commit_tenant_def Let_def atom_simps elim!: bind_InrE)
  note same = only_extD(1,2) [OF only_ext_generate_secure_key 1] next_id_apply [OF 2] only_extD(1,2) [OF only_ext_db_now 3]
  from 4 same have d: "w_db s' = (w_db s)\<lparr>tenants := tenants (w_db s) @ [t\<lparr>t_k8s_namespace := namespace_of (t_id t)\<rparr>],
       api_keys := api_keys (w_db s) @ [new_api_key k (t_id t) ''primary'' raw h kts]\<rparr>" and ok: "schema_ok (w_db s')"
    and ids: "w_last_id s' = (w_last_id s)(ApiKeys := k)" "w_last_id s ApiKeys < k"
    by (auto simp: commit_ok check_pending_None)
  have "db_step (w_last_id s) (w_last_id s') ByAdmin (w_db s) (w_db s')"
    unfolding d by (rule db_step.add_tenant) (use A ids in \<open>simp_all add: tenant_claim_def fresh_def new_api_key_def\<close>)
  with ok show "db_step (w_last_id s) (w_last_id s') ByAdmin (w_db s) (w_db s') \<and> schema_ok (w_db s') \<and>
      takes own None s s' \<and> no_claim (w_last_id s') (w_db s')" by (simp add: takes_def)
next
  show "exn_keeps_db (commit_tenant e t)"
    unfolding commit_tenant_def Let_def by (intro exn_db_rules only_ext_rules)
  show "keeps (\<lambda>s. used \<le> w_last_id s) (commit_tenant e t)" for used
    unfolding commit_tenant_def Let_def by (intro keeps_bind ids_rules only_ext_rules)
qed (simp_all add: within_any)

lemma safe_create_tenant:
  "safe (create_tenant_prog e td) ((=) ByAdmin) anywhere (returns (\<lambda>r own A. True)) own no_claim"
  unfolding create_tenant_prog_def
  by (rule safe_then [OF seg_flush_tenant])
    (auto simp: safe_retp case_prod_unfold intro!: safe_then [OF seg_commit_tenant] admin_thread.read_then only_ext_rules
      within_any stable_rules)

lemma seg_commit_tenant_update:
  "seg ((=) ByAdmin) anywhere own A (commit_tenant_update e u t) (\<lambda>_. None) (\<lambda>_. no_claim)"
proof (rule seg_write [where who = ByAdmin])
  fix s r s'
  assume g: "good s" and run: "commit_tenant_update e u t s = (Inr r, s')"
  let ?upd = "\<lambda>d. d\<lparr>tenants := update_where t_id (t_id t) (update_tenant_row (changed_fields u t)) (tenants d)\<rparr>"
  from run g have "w_last_id s' = w_last_id s \<and> schema_ok (w_db s') \<and> (w_db s' = w_db s \<or> w_db s' = ?upd (w_db s))"
    by (auto simp: commit_tenant_update_def Let_def py_simps commit_ok commit_row_ok check_pending_None split: if_splits)
  then show "db_step (w_last_id s) (w_last_id s') ByAdmin (w_db s) (w_db s') \<and> schema_ok (w_db s') \<and>
      takes own None s s' \<and> no_claim (w_last_id s') (w_db s')"
    by (auto simp: takes_def db_step.idle db_step.edit_tenant)
next
  have "exn_keeps_db (bind (gets w_db) (commit e))"
    by (auto simp: exn_keeps_db_def py_simps commit_exn)
  then show "exn_keeps_db (commit_tenant_update e u t)"
    by (auto simp: commit_tenant_update_def Let_def intro: exn_keeps_db_ext exn_keeps_db_commit_row only_ext_rules)
  show "keeps (\<lambda>s. used \<le> w_last_id s) (commit_tenant_update e u t)" for used
    unfolding commit_tenant_update_def Let_def by (intro keeps_if keeps_bind ids_rules only_ext_rules)
qed (simp_all add: within_any)

lemma safe_update_tenant:
  "safe (update_tenant_prog e i u) ((=) ByAdmin) anywhere (returns (\<lambda>r own A. True)) own no_claim"
  unfolding update_tenant_prog_def
  by (auto simp: safe_retp safe_raisep intro!: safe_then [OF seg_commit_tenant_update] admin_thread.read_then only_ext_rules
      within_any stable_rules split: option.split)

lemma safe_delete_tenant:
  "safe (atomic (delete_tenant e i)) ((=) ByAdmin) anywhere (returns (\<lambda>r own A. rs_tasks r = [])) own no_claim"
proof (rule safe_atomic)
  show "seg ((=) ByAdmin) anywhere own no_claim (delete_tenant e i) (\<lambda>_. None) (\<lambda>r used d. rs_tasks r = [])"
    unfolding seg_def
  proof (intro allI impI, elim conjE)
    fix s r s'
    assume g: "good s" and run: "delete_tenant e i s = (r, s')"
    then have "world_step ByAdmin s s' \<and> (\<forall>a. r = Inr a \<longrightarrow> rs_tasks a = [])"
      by (auto simp: delete_tenant_def query_arg_def py_simps delete_tenant_service_cases answer_def world_step_def
          goodD db_step.idle db_step.delete_tenant check_pending_None split: if_splits option.splits)
    then show "(\<exists>who. ByAdmin = who \<and> world_step who s s' \<and> actor_row who \<in> {None, own}) \<and> anywhere (w_ext s) (w_ext s') \<and>
        (\<forall>a. r = Inr a \<longrightarrow> takes own None s s' \<and> rs_tasks a = [])" by (simp add: takes_def)
  qed
qed (auto intro: stable_rules)

section \<open>What a response shows\<close>

text \<open>The tenants whose rows a body shows.\<close>

fun body_tenants :: "body \<Rightarrow> int set" where
  "body_tenants (TenantBody t) = {tr_id t}"
| "body_tenants (TenantsBody ts) = tr_id ` set ts"
| "body_tenants (TenantCreatedBody t raw) = {tr_id t}"
| "body_tenants (ApiKeyBody k) = {kr_tenant_id k}"
| "body_tenants (ApiKeysBody ks) = kr_tenant_id ` set ks"
| "body_tenants (ApiKeyCreatedBody k raw) = {kr_tenant_id k}"
| "body_tenants (BuildJobBody b) = {bj_tenant_id b}"
| "body_tenants (BuildJobsBody bs) = bj_tenant_id ` set bs"
| "body_tenants (DeploymentBody x) = {dp_tenant_id x}"
| "body_tenants (DeploymentsBody xs) = dp_tenant_id ` set xs"
| "body_tenants (WebhookRegistrationsBody rs) = rr_tenant_id ` set rs"
| "body_tenants (WebhookRegistrationCreatedBody r sec) = {rr_tenant_id r}"
| "body_tenants _ = {}"

definition shows_only :: "int \<Rightarrow> response \<Rightarrow> bool" where
  "shows_only t r \<longleftrightarrow> body_tenants (rs_body r) \<subseteq> {t}"

lemma error_response_shows [simp]: "body_tenants (rs_body (error_response x)) = {}"
  by (cases x) (simp_all add: error_response_def answer_def)

text \<open>
  What every answer to a tenant satisfies: it shows rows of that tenant only, and starts at most one
  poller, to which it hands the row over.
\<close>

definition answers :: "int \<Rightarrow> response \<Rightarrow> row_ref option \<Rightarrow> claim \<Rightarrow> bool" where
  "answers t r own A \<longleftrightarrow>
     shows_only t r \<and> (rs_tasks r = [] \<or> (\<exists>k. rs_tasks r = [k] \<and> handed t k own A))"

text \<open>The routes that read: what their one query returns.\<close>

definition gives :: "('a \<Rightarrow> bool) \<Rightarrow> ('s, 'a) py \<Rightarrow> bool" where
  "gives P m \<longleftrightarrow> (\<forall>s a s'. m s = (Inr a, s') \<longrightarrow> P a)"

named_theorems gives_rules \<open>what the result of a computation satisfies\<close>

lemma gives_ret [gives_rules]: "P x \<Longrightarrow> gives P (ret x)"
  by (simp add: gives_def ret_def)

lemma gives_raise [gives_rules]: "gives P (raise x)"
  by (simp add: gives_def raise_def)

lemma gives_bind:
  assumes "gives Q m" and "\<And>x. Q x \<Longrightarrow> gives P (f x)"
  shows "gives P (bind m f)"
  using assms by (fastforce simp: gives_def elim!: bind_InrE)

lemma gives_then [gives_rules]: "(\<And>x. gives P (f x)) \<Longrightarrow> gives P (bind m f)"
  by (rule gives_bind [where Q = "\<lambda>_. True"]) (simp_all add: gives_def)

lemma gives_or_404:
  assumes "\<And>r. x = Some r \<Longrightarrow> body_tenants (f r) \<subseteq> {t}"
  shows "gives (\<lambda>r. body_tenants (rs_body r) \<subseteq> {t} \<and> rs_tasks r = []) (or_404 msg f x)"
  using assms by (cases x) (simp_all add: or_404_def found_def gives_def lift_result_apply answer_def)

lemma gives_reads:
  "gives (\<lambda>x. \<forall>k. x = Some k \<longrightarrow> ak_tenant_id k = t) (get_api_key_service t i)"
  "gives (\<lambda>x. \<forall>b. x = Some b \<longrightarrow> bj_tenant_id b = t) (get_build_job_service t i)"
  "gives (\<lambda>x. \<forall>x'. x = Some x' \<longrightarrow> dp_tenant_id x' = t) (get_deployment_service t i)"
  by (auto simp: gives_def get_api_key_service_def get_build_job_service_def get_deployment_service_def
      py_simps dest!: scalar_one_or_none_mem)

lemma set_paginate: "set (paginate lim off xs) \<subseteq> set xs"
  by (auto simp: paginate_def dest: in_set_takeD in_set_dropD split: option.splits)

lemma gives_lists:
  "gives (\<lambda>ks. \<forall>k \<in> set ks. ak_tenant_id k = t) (get_all_api_keys_service t)"
  "gives (\<lambda>bs. \<forall>b \<in> set bs. bj_tenant_id b = t) (get_all_build_jobs_service t lim off)"
  "gives (\<lambda>xs. \<forall>x \<in> set xs. dp_tenant_id x = t) (get_all_deployments_service t lim off)"
  "gives (\<lambda>rs. \<forall>r \<in> set rs. wr_tenant_id r = t) (get_all_webhook_registrations_service t)"
  using set_paginate
  by (fastforce simp: gives_def get_all_api_keys_service_def get_all_build_jobs_service_def
      get_all_deployments_service_def get_all_webhook_registrations_service_def py_simps)+

text \<open>The reading routes of a tenant: their one segment leaves the database, and shows the tenant's rows.\<close>

fun reads_own :: "int \<Rightarrow> request \<Rightarrow> bool" where
  "reads_own t (GetApiKey i _) \<longleftrightarrow> i = t"
| "reads_own t (GetAllApiKeys i) \<longleftrightarrow> i = t"
| "reads_own t (GetBuildJob i _) \<longleftrightarrow> i = t"
| "reads_own t (GetAllBuildJobs i _ _) \<longleftrightarrow> i = t"
| "reads_own t (GetDeployment i _) \<longleftrightarrow> i = t"
| "reads_own t (GetAllDeployments i _ _) \<longleftrightarrow> i = t"
| "reads_own t (GetAllWebhookRegistrations i) \<longleftrightarrow> i = t"
| "reads_own t _ \<longleftrightarrow> False"

lemmas reading_defs = get_api_key_def get_all_api_keys_def get_build_job_def get_all_build_jobs_def get_deployment_def
  get_all_deployments_def get_all_webhook_registrations_def

lemma gives_reading:
  assumes "reads_own t req"
  shows "gives (\<lambda>r. shows_only t r \<and> rs_tasks r = []) (handler e req)"
proof -
  note shown = shows_only_def answer_def api_key_response_of_def webhook_registration_response_of_def
  from assms show ?thesis
    by (cases req)
      (auto simp: reading_defs shown
        intro!: gives_then [of _ _ "query_arg e _"] gives_then [of _ _ "page_args e _ _"]
          gives_bind [OF gives_reads(1)] gives_bind [OF gives_reads(2)] gives_bind [OF gives_reads(3)]
          gives_bind [OF gives_lists(1)] gives_bind [OF gives_lists(2)] gives_bind [OF gives_lists(3)]
          gives_bind [OF gives_lists(4)] gives_or_404 gives_ret)
qed

lemma safe_reading:
  assumes "reads_own t req"
  shows "safe (atomic (handler e req)) (for_tenant t) (reach e (namespace_of t)) (returns (answers t)) own no_claim"
proof (rule tenant_thread.read_end)
  show "only_ext (handler e req)"
    using assms by (cases req) (auto simp: reading_defs intro!: only_ext_rules)
  have "keeps_ext I (handler e req)" for I
    using assms by (cases req) (auto simp: reading_defs intro!: keeps_bind keeps_ret local_rules)
  then show "within (reach e (namespace_of t)) (handler e req)" by (rule within_reach)
qed (use gives_reading [OF assms] in \<open>auto simp: answers_def gives_def intro: stable_rules\<close>)

section \<open>Every request\<close>

lemma submitted_build_answers: "submitted_build t r own A \<Longrightarrow> answers t (build_submitted r) own A"
  by (auto simp: submitted_build_def answers_def shows_only_def build_submitted_def split: prod.splits option.splits)

lemma submitted_deployment_answers: "submitted_deployment t r own A \<Longrightarrow> answers t (deployment_submitted r) own A"
  by (auto simp: submitted_deployment_def answers_def shows_only_def deployment_submitted_def split: prod.splits option.splits)

lemma safe_handler_tenant:
  assumes "guard_of req = TenantScope t"
  shows "safe (handler_prog e req) (for_tenant t) (reach e (namespace_of t)) (returns (answers t)) None no_claim"
proof -
  note own = answers_def shows_only_def answer_def api_key_response_of_def webhook_registration_response_of_def
    api_key_created_def webhook_registered_def
  show ?thesis
  proof (cases "reads_own t req")
    case True
    then have "handler_prog e req = atomic (handler e req)" by (cases req) (simp_all add: handler_prog_def)
    with safe_reading [OF True] show ?thesis by simp
  next
    case False
    have arg: "only_ext (query_arg e i)" "within (reach e (namespace_of t)) (query_arg e i)" for i
      by (intro only_ext_rules within_reach local_rules)+
    from assms False show ?thesis
    proof (cases req)
      case (CreateApiKey i b)
      with assms show ?thesis
        by (auto simp: handler_prog_def safe_retp safe_raisep own
            intro!: safe_bindp safe_catchp safe_mono [OF safe_create_api_key] split: sum.splits)
    next
      case (RevokeApiKey i k)
      have "safe (bindp (revoke_api_key_prog e t k)
          (\<lambda>row. Done (found ''API key not found'' (\<lambda>k. ApiKeyBody (api_key_response_of k)) row)))
          (for_tenant t) (reach e (namespace_of t)) (returns (answers t)) None no_claim"
        by (rule safe_bindp, rule safe_mono [OF safe_revoke_api_key])
          (auto simp: found_def own split: sum.splits option.splits)
      with RevokeApiKey assms show ?thesis
        by (auto simp: handler_prog_def intro!: tenant_thread.read_then arg stable_rules)
    next
      case (CreateBuildJob i b)
      with assms show ?thesis
        by (auto simp: handler_prog_def safe_retp
            intro!: safe_bindp safe_mono [OF safe_create_build_job] submitted_build_answers split: sum.splits)
    next
      case (CreateDeployment i b)
      have "safe (bindp (catchp (create_deployment_prog e t b) (\<lambda>x. raisep (create_deployment_error x)))
          (\<lambda>r. retp (deployment_submitted r))) (for_tenant t) (reach e (namespace_of t)) (returns (answers t)) None no_claim"
        by (auto simp: safe_retp safe_raisep intro!: safe_bindp safe_catchp safe_mono [OF safe_create_deployment]
            submitted_deployment_answers split: sum.splits)
      with CreateDeployment assms show ?thesis
        by (auto simp: handler_prog_def intro!: tenant_thread.read_then arg stable_rules)
    next
      case (CreateWebhookRegistration i b)
      with assms show ?thesis
        by (auto simp: handler_prog_def safe_retp own
            intro!: safe_bindp safe_mono [OF safe_create_webhook_registration] split: sum.splits)
    next
      case (GetKubeconfig i)
      with assms show ?thesis
        by (auto simp: handler_prog_def safe_retp safe_raisep own
            intro!: safe_bindp safe_catchp safe_mono [OF safe_get_tenant_kubeconfig] split: sum.splits)
    qed auto
  qed
qed

lemma safe_handler_admin:
  assumes "\<And>t. guard_of req \<noteq> TenantScope t"
  shows "safe (handler_prog e req) ((=) ByAdmin) anywhere (returns (\<lambda>r own A. rs_tasks r = [])) None no_claim"
proof -
  have read: "safe (atomic m) ((=) ByAdmin) anywhere (returns (\<lambda>r own A. rs_tasks r = [])) None no_claim"
    if "only_ext m" "gives (\<lambda>r. rs_tasks r = []) m" for m :: "('a world, response) py"
    using that by (intro admin_thread.read_end within_any) (auto simp: gives_def intro: stable_rules)
  have found: "rs_tasks r = []" if "found msg f x = Inr r" for msg f r and x :: "tenant option"
    using that by (cases x) (auto simp: found_def answer_def)
  have row: "gives (\<lambda>r. rs_tasks r = []) (or_404 msg f x)" for msg f and x :: "tenant option"
    using found by (auto simp: or_404_def gives_def lift_result_apply)
  show ?thesis
  proof (cases req)
    case (CreateTenant b)
    then show ?thesis
      by (auto simp: handler_prog_def safe_retp safe_raisep tenant_created_def answer_def
          intro!: safe_bindp safe_catchp safe_mono [OF safe_create_tenant] split: sum.splits prod.splits)
  next
    case (DeleteTenant i)
    then show ?thesis by (simp add: handler_prog_def safe_delete_tenant)
  next
    case (UpdateTenant i u)
    have "safe (bindp (catchp (update_tenant_prog e i u) (\<lambda>x. raisep (bad_request x)))
        (\<lambda>row. Done (found ''Tenant not found'' (\<lambda>t. TenantBody (tenant_response_of t)) row)))
        ((=) ByAdmin) anywhere (returns (\<lambda>r own A. rs_tasks r = [])) None no_claim"
      by (auto simp: safe_raisep dest: found intro!: safe_bindp safe_catchp safe_mono [OF safe_update_tenant] split: sum.splits)
    with UpdateTenant show ?thesis
      by (auto simp: handler_prog_def intro!: admin_thread.read_then only_ext_rules within_any stable_rules)
  qed (use assms in \<open>auto simp: handler_prog_def get_root_def get_health_def get_tenant_def get_all_tenants_def answer_def
      intro!: read only_ext_rules gives_then gives_ret row\<close>)
qed

text \<open>What a request may act as, what it may reach, and how it ends.\<close>

definition may_act_as :: "request \<Rightarrow> actor \<Rightarrow> bool" where
  "may_act_as req = (case guard_of req of TenantScope t \<Rightarrow> for_tenant t | _ \<Rightarrow> (=) ByAdmin)"

definition may_reach :: "'w env \<Rightarrow> request \<Rightarrow> 'w \<Rightarrow> 'w \<Rightarrow> bool" where
  "may_reach e req = (case guard_of req of TenantScope t \<Rightarrow> reach e (namespace_of t) | _ \<Rightarrow> anywhere)"

definition answered :: "request \<Rightarrow> exn + response \<Rightarrow> row_ref option \<Rightarrow> claim \<Rightarrow> bool" where
  "answered req = (\<lambda>r own A. case r of Inl x \<Rightarrow> False | Inr rs \<Rightarrow>
     (case guard_of req of TenantScope t \<Rightarrow> answers t rs own A | _ \<Rightarrow> rs_tasks rs = []))"

lemma error_response_tasks [simp]: "rs_tasks (error_response x) = []"
  by (cases x) (simp_all add: error_response_def answer_def)

lemma keeps_ext_check_guard: "keeps_ext I (check_guard e h (TenantScope t))"
  using verify_tenant_state [of e t]
  by (auto simp: check_guard_def keeps_def py_simps split: option.split)

lemma safe_catch_answer:
  assumes "safe p W X (\<lambda>r own A. case r of Inl x \<Rightarrow> Q (Inr (f x)) own A | Inr a \<Rightarrow> Q (Inr a) own A) own A"
  shows "safe (catchp p (\<lambda>x. retp (f x))) W X Q own A"
  by (rule safe_catchp) (unfold safe_retp, rule assms)

lemma safe_serve: "safe (serve_prog e h req) (may_act_as req) (may_reach e req) (answered req) None no_claim"
proof -
  let ?Q = "\<lambda>r own A. case r of Inl x \<Rightarrow> answered req (Inr (error_response x)) own A | Inr a \<Rightarrow> answered req (Inr a) own A"
  have error: "?Q (Inl x) own A" for x own A
    by (auto simp: answered_def answers_def shows_only_def split: route_guard.split)
  show ?thesis
    unfolding serve_prog_def
  proof (rule safe_catch_answer, cases "\<exists>t. guard_of req = TenantScope t")
    case True
    then obtain t where t: "guard_of req = TenantScope t" ..
    have "?Q r own A" if "returns (answers t) r own A" for r own A
      using that error t by (cases r) (auto simp: answered_def)
    then have "safe (if request_valid req then handler_prog e req else raisep (HTTPException 422 ''Request validation failed''))
        (for_tenant t) (reach e (namespace_of t)) ?Q None no_claim"
      using safe_mono [OF safe_handler_tenant [OF t, of e], where Q' = ?Q] error by (simp add: safe_raisep)
    then show "safe (bindp (atomic (check_guard e h (guard_of req))) (\<lambda>_. if request_valid req then handler_prog e req
        else raisep (HTTPException 422 ''Request validation failed''))) (may_act_as req) (may_reach e req) ?Q None no_claim"
      unfolding may_act_as_def may_reach_def t route_guard.case
      by (intro tenant_thread.read_then only_ext_check_guard within_reach keeps_ext_check_guard stable_rules error)
  next
    case False
    have "?Q r own A" if "returns (\<lambda>r own A. rs_tasks r = []) r own A" for r own A
      using that error False by (cases r) (auto simp: answered_def split: route_guard.split)
    then have "safe (if request_valid req then handler_prog e req else raisep (HTTPException 422 ''Request validation failed''))
        ((=) ByAdmin) anywhere ?Q None no_claim"
      using safe_mono [OF safe_handler_admin [of req e], where Q' = ?Q] error False by (simp add: safe_raisep)
    moreover have "may_act_as req = (=) ByAdmin" "may_reach e req = anywhere"
      using False by (auto simp: may_act_as_def may_reach_def split: route_guard.split)
    ultimately show "safe (bindp (atomic (check_guard e h (guard_of req))) (\<lambda>_. if request_valid req then handler_prog e req
        else raisep (HTTPException 422 ''Request validation failed''))) (may_act_as req) (may_reach e req) ?Q None no_claim"
      by (simp only:) (intro admin_thread.read_then only_ext_check_guard within_any stable_rules error)
  qed
qed

end
