(* ===== verification/PollerSafety.thy ===== *)
theory PollerSafety
  imports RequestSafety
begin

text \<open>
  The pollers are safe under interference: a poller moves the row that was handed over to it and no
  other, asks in the namespace of that row's tenant, and records deliveries to that tenant's own
  registrations, whatever requests, deletions of tenants and other pollers come in between.
\<close>

section \<open>Webhooks\<close>

lemma keeps_ext_deliver:
  assumes "local_calls_keep e I" and "posts_keep e I"
  shows "keeps_ext I (deliver e t ev p r)"
proof -
  have "keeps_ext I (external_read (e_time e))"
    using assms(1) by (auto simp: keeps_def external_read_def local_calls_keep_def split: prod.splits)
  moreover have "keeps_ext I (external (e_http_post e url b hd))" for url b hd
    using assms(2) by (simp add: posts_keep_def keeps_ext_external)
  ultimately show ?thesis unfolding deliver_def Let_def by (auto intro!: keeps_rules)
qed

text \<open>The registrations read at the start still belong to the tenant when the deliveries are recorded, if they exist.\<close>

lemma seg_active_registrations:
  "seg (for_tenant t) (reach_posting e ns) own A (gets (\<lambda>s. active_registrations (w_db s) t)) (\<lambda>_. None)
     (\<lambda>rs. webhooks_claim (wr_id ` set rs) t)"
proof (rule poller_thread.read_seg)
  fix s rs s'
  assume g: "good s" and "gets (\<lambda>s. active_registrations (w_db s) t) s = (Inr rs, s')"
  then have rs: "rs = active_registrations (w_db s) t" by (auto simp: gets_apply)
  have "wr_tenant_id r = t" if r: "r \<in> set (webhook_registrations (w_db s))" "wr_id r \<in> wr_id ` set rs" for r
  proof -
    from r(2) rs obtain r' where r': "r' \<in> set (webhook_registrations (w_db s))" "wr_tenant_id r' = t" "wr_id r = wr_id r'"
      by (auto simp: active_registrations_def)
    with distinct_map_the_one [of wr_id, OF _ r(1) r'(1)] goodD(2) [OF g] show ?thesis by (simp add: constraint_defs)
  qed
  then show "None \<in> {None, own} \<and> holds (webhooks_claim (wr_id ` set rs) t) s"
    using goodD(3) [OF g] rs by (auto simp: webhooks_claim_def ids_bounded_def active_registrations_def)
qed (auto intro!: only_ext_rules within_reach_posting keeps_rules)

abbreviation record_deliveries :: "'w env \<Rightarrow> webhook_delivery list \<Rightarrow> ('w world, unit) py" where
  "record_deliveries e pending \<equiv>
     bind (for_each pending (insert_delivery e)) (\<lambda>rows.
       bind (gets w_db) (\<lambda>d. commit e (d\<lparr>webhook_deliveries := webhook_deliveries d @ rows\<rparr>)))"

lemma record_deliveries_ok:
  assumes "record_deliveries e pending s = (Inr u, s')"
  obtains rows where "w_db s' = (w_db s)\<lparr>webhook_deliveries := webhook_deliveries (w_db s) @ rows\<rparr>" "schema_ok (w_db s')"
    "list_all2 (\<lambda>w w'. \<exists>i ts. w' = w\<lparr>wd_id := i, wd_created_at := ts\<rparr>) pending rows"
proof -
  from assms obtain rows s1 where i: "for_each pending (insert_delivery e) s = (Inr rows, s1)"
    and c: "commit e ((w_db s1)\<lparr>webhook_deliveries := webhook_deliveries (w_db s1) @ rows\<rparr>) s1 = (Inr u, s')"
    by (auto simp: atom_simps elim!: bind_InrE)
  have "keeps (\<lambda>x. w_db x = w_db s) (for_each pending (insert_delivery e))"
    by (intro keeps_for_each keeps_db_insert_delivery)
  from keepsD_eq [OF this i] have "w_db s1 = w_db s" by simp
  moreover have "list_all2 (\<lambda>w w'. \<exists>i ts. w' = w\<lparr>wd_id := i, wd_created_at := ts\<rparr>) pending rows"
    by (rule for_each_list_all2 [OF _ i]) (rule insert_delivery_row)
  ultimately show thesis using c by (intro that) (auto simp: commit_ok check_pending_None)
qed

lemma seg_record_deliveries:
  assumes "list_all (\<lambda>w. wd_tenant_id w = t \<and> wd_webhook_registration_id w \<in> ids) pending"
  shows "seg (for_tenant t) (reach_posting e ns) own (webhooks_claim ids t) (record_deliveries e pending) (\<lambda>_. None) (\<lambda>_. no_claim)"
proof (rule seg_write [where who = "ByWorker t"])
  fix s u s'
  assume A: "holds (webhooks_claim ids t) s" and "record_deliveries e pending s = (Inr u, s')"
  from this(2) obtain rows where d: "w_db s' = (w_db s)\<lparr>webhook_deliveries := webhook_deliveries (w_db s) @ rows\<rparr>"
    and ok: "schema_ok (w_db s')"
    and rows: "list_all2 (\<lambda>w w'. \<exists>i ts. w' = w\<lparr>wd_id := i, wd_created_at := ts\<rparr>) pending rows"
    by (rule record_deliveries_ok)
  have "own_delivery (w_db s) t w'" if w': "w' \<in> set rows" for w'
  proof -
    from rows have "list_all2 (\<lambda>w w'. wd_tenant_id w' = wd_tenant_id w \<and>
        wd_webhook_registration_id w' = wd_webhook_registration_id w) pending rows"
      by (rule list_all2_mono) auto
    moreover from w' obtain n where "n < length rows" "w' = rows ! n" by (auto simp: in_set_conv_nth)
    ultimately have "pending ! n \<in> set pending" "wd_tenant_id w' = wd_tenant_id (pending ! n)"
      "wd_webhook_registration_id w' = wd_webhook_registration_id (pending ! n)"
      by (simp_all add: list_all2_conv_all_nth)
    with assms have w: "wd_tenant_id w' = t" "wd_webhook_registration_id w' \<in> ids" by (auto simp: list_all_iff)
    have "wd_webhook_registration_id w' \<in> wr_id ` set (webhook_registrations (w_db s))"
      using schema_okD [OF ok] w' by (auto simp: constraint_defs d)
    then obtain r where "r \<in> set (webhook_registrations (w_db s))" "wr_id r = wd_webhook_registration_id w'" by force
    with A w show ?thesis by (auto simp: own_delivery_def webhooks_claim_def)
  qed
  then have "db_step (w_last_id s) (w_last_id s') (ByWorker t) (w_db s) (w_db s')"
    unfolding d by (intro db_step.add_deliveries) (simp add: list_all_iff)
  with ok show "db_step (w_last_id s) (w_last_id s') (ByWorker t) (w_db s) (w_db s') \<and> schema_ok (w_db s') \<and>
      takes own None s s' \<and> no_claim (w_last_id s') (w_db s')" by (simp add: takes_def)
next
  have "exn_keeps_db (bind (gets w_db) (\<lambda>d. commit e (d\<lparr>webhook_deliveries := webhook_deliveries d @ rows\<rparr>)))" for rows
    by (auto simp: exn_keeps_db_def py_simps commit_exn)
  then show "exn_keeps_db (record_deliveries e pending)"
    by (rule exn_keeps_db_bind [OF keeps_for_each [OF keeps_db_insert_delivery]])
  show "keeps (\<lambda>s. used \<le> w_last_id s) (record_deliveries e pending)" for used
    unfolding insert_delivery_def by (intro keeps_bind keeps_for_each ids_rules only_ext_rules)
  show "within (reach_posting e ns) (record_deliveries e pending)"
    unfolding insert_delivery_def by (intro within_reach_posting keeps_rules local_rules; assumption)
qed (simp_all add: for_tenant_def)

lemma safe_dispatch:
  "safe (dispatch_prog e t ev p) (for_tenant t) (reach_posting e ns) (returns (\<lambda>_ own A. True)) own A"
  unfolding dispatch_prog_def
proof (rule safe_then [OF seg_active_registrations], goal_cases)
  case (3 rs used d)
  let ?R = "\<lambda>w. wd_tenant_id w = t \<and> wd_webhook_registration_id w \<in> wr_id ` set rs"
  show ?case
  proof (rule poller_thread.read_each [where R = ?R])
    show "?R w" if "r \<in> set rs" "deliver e t ev p r s = (Inr w, s')" for r s w s'
      using deliver_row [OF that(2)] that(1) by (auto simp: delivery_for_def)
    show "safe (if rs = [] then retp () else atomic (record_deliveries e pending)) (for_tenant t) (reach_posting e ns)
        (returns (\<lambda>_ own A. True)) None (webhooks_claim (wr_id ` set rs) t)" if "list_all ?R pending" for pending
      using that by (auto simp: safe_retp intro!: safe_atomic [OF seg_record_deliveries] stable_rules)
  qed (auto intro!: only_ext_rules within_reach_posting keeps_ext_deliver stable_rules)
qed (auto intro: stable_rules)

section \<open>The build poller\<close>

abbreviation ends :: "exn + unit \<Rightarrow> row_ref option \<Rightarrow> claim \<Rightarrow> bool" where
  "ends \<equiv> (\<lambda>r own A. True)"

lemma safe_ends: "safe p W X (returns (\<lambda>_ own A. True)) own A \<Longrightarrow> safe p W X ends own A"
  by (erule safe_mono) simp

lemma resolved_build_moves: "\<not> build_pending r \<Longrightarrow> bj_status (resolved_build r now b) = (case r of BuildReady _ \<Rightarrow> Succeeded | _ \<Rightarrow> BuildFailed)"
  by (cases r) simp_all

lemma within_posting:
  "within (reach_posting e ns) (gets f)" "within (reach_posting e ns) (commit_build_job e i g)"
  "within (reach_posting e ns) (commit_deployment e x st)"
  "within (reach_posting e ns) (get_build_status e ns n)" "within (reach_posting e ns) (get_deployment_status e ns n)"
  by (auto intro!: within_reach_posting keeps_gets local_rules confined_get_build_status confined_get_deployment_status)

lemma safe_resolve_build:
  assumes "\<not> build_pending r"
  shows "safe (resolve_build_prog e i r) (for_tenant t) (reach_posting e ns) ends (Some (BuildRow i)) (build_at t i Building)"
  unfolding resolve_build_prog_def
proof (rule poller_thread.read_then, goal_cases)
  case (5 s row s')
  show ?case
  proof (cases row)
    case None
    then show ?thesis by (simp add: safe_retp)
  next
    case (Some b)
    with 5 have b: "bj_tenant_id b = t" by (auto simp: gets_apply get_row_iff goodD build_claim_def)
    have moved: "seg (for_tenant t) (reach_posting e ns) (Some (BuildRow i)) (build_at t i Building)
        (commit_build_job e i (resolved_build r)) (\<lambda>_. Some (BuildRow i))
        (\<lambda>_. build_at t i (case r of BuildReady _ \<Rightarrow> Succeeded | _ \<Rightarrow> BuildFailed))"
      using assms
      by (intro seg_commit_build_job within_posting) (auto simp: resolved_build_moves intro: db_step.settle_build)
    show ?thesis
      unfolding Some option.case Let_def resolved_build_tenant b
      by (rule safe_then [OF moved]) (auto intro!: safe_ends [OF safe_dispatch] stable_rules)
  qed
qed (auto intro!: only_ext_rules within_posting stable_rules)

lemma safe_expire_build:
  "safe (expire_build_prog e i) (for_tenant t) (reach_posting e ns) ends (Some (BuildRow i)) (build_at t i Building)"
proof -
  have moved: "seg (for_tenant t) (reach_posting e ns) (Some (BuildRow i)) (build_at t i Building)
      (commit_build_job e i mark_timed_out) (\<lambda>_. Some (BuildRow i)) (\<lambda>_. build_at t i BuildFailed)"
    by (intro seg_commit_build_job within_posting) (auto simp: mark_timed_out_def intro: db_step.expire_build)
  have "safe (bindp (atomic (commit_build_job e i mark_timed_out)) (\<lambda>_. retp ()))
      (for_tenant t) (reach_posting e ns) ends (Some (BuildRow i)) (build_at t i Building)"
    by (rule safe_then [OF moved]) (auto simp: safe_retp intro: stable_rules)
  then show ?thesis
    unfolding expire_build_prog_def
    by (auto simp: safe_retp intro!: poller_thread.read_then only_ext_rules within_posting stable_rules split: option.split)
qed

lemma safe_poll_build:
  "safe (poll_build_prog e i ns n) (for_tenant t) (reach_posting e ns) ends (Some (BuildRow i)) (build_at t i Building)"
proof (induction e i ns n rule: poll_build_prog.induct)
  case (1 e i ns n)
  show ?case
  proof (cases "n < BUILD_POLL_TIMEOUT_SECONDS")
    case False
    then show ?thesis by (subst poll_build_prog.simps) (simp add: safe_expire_build)
  next
    case True
    show ?thesis
      unfolding poll_build_prog.simps [of e i ns n] if_P [OF True]
    proof (rule poller_thread.read_then, goal_cases)
      case (5 s status s')
      then show ?case using 1 [OF True, of status] by (auto intro: safe_resolve_build)
    qed (auto intro!: only_ext_rules within_posting stable_rules)
  qed
qed

section \<open>The deployment poller\<close>

lemma seg_settle_deployment:
  assumes "st \<in> {Running, DeployFailed}" and "dp_id x = i" and "dp_status x = Deploying"
  shows "seg (for_tenant t) (reach_posting e ns) (Some (DeploymentRow i)) (deployment_at t i Deploying)
    (commit_deployment e x st) (\<lambda>_. Some (DeploymentRow i)) (\<lambda>_. deployment_at t i st)"
  using assms by (intro seg_commit_deployment within_posting) auto

lemma followed_deployment:
  assumes "good s" and "holds (deployment_at t i st) s" and "gets (\<lambda>s. get_deployment_row (w_db s) i) s = (Inr (Some x), s')"
  shows "dp_id x = i \<and> dp_tenant_id x = t \<and> dp_status x = st"
  using assms by (auto simp: gets_apply get_row_iff goodD deployment_claim_def)

lemma safe_resolve_deployment:
  "safe (resolve_deployment_prog e i r) (for_tenant t) (reach_posting e ns) ends (Some (DeploymentRow i)) (deployment_at t i Deploying)"
  unfolding resolve_deployment_prog_def
proof (rule poller_thread.read_then, goal_cases)
  case (5 s row s')
  show ?case
  proof (cases row)
    case None
    then show ?thesis by (simp add: safe_retp)
  next
    case (Some x)
    with 5 followed_deployment have x: "dp_id x = i" "dp_tenant_id x = t" "dp_status x = Deploying" by blast+
    with Some show ?thesis
      by (auto simp: Let_def resolved_status_def
          intro!: safe_then [OF seg_settle_deployment] safe_ends [OF safe_dispatch] stable_rules)
  qed
qed (auto intro!: only_ext_rules within_posting stable_rules)

lemma safe_expire_deployment:
  "safe (expire_deployment_prog e i) (for_tenant t) (reach_posting e ns) ends (Some (DeploymentRow i)) (deployment_at t i Deploying)"
  unfolding expire_deployment_prog_def
proof (rule poller_thread.read_then, goal_cases)
  case (5 s row s')
  show ?case
  proof (cases row)
    case None
    then show ?thesis by (simp add: safe_retp)
  next
    case (Some x)
    with 5 followed_deployment have x: "dp_id x = i" "dp_tenant_id x = t" "dp_status x = Deploying" by blast+
    with Some show ?thesis
      by (auto simp: safe_retp intro!: safe_then [OF seg_settle_deployment] stable_rules)
  qed
qed (auto intro!: only_ext_rules within_posting stable_rules)

lemma safe_poll_deployment:
  "safe (poll_deployment_prog e i ns name n) (for_tenant t) (reach_posting e ns) ends (Some (DeploymentRow i)) (deployment_at t i Deploying)"
proof (induction e i ns name n rule: poll_deployment_prog.induct)
  case (1 e i ns name n)
  show ?case
  proof (cases "n < DEPLOY_POLL_TIMEOUT_SECONDS")
    case False
    then show ?thesis by (subst poll_deployment_prog.simps) (simp add: safe_expire_deployment)
  next
    case True
    show ?thesis
      unfolding poll_deployment_prog.simps [of e i ns name n] if_P [OF True]
    proof (rule poller_thread.read_then, goal_cases)
      case (5 s status s')
      then show ?case using 1 [OF True, of status] by (auto intro: safe_resolve_deployment)
    qed (auto intro!: only_ext_rules within_posting stable_rules)
  qed
qed

section \<open>Every poller\<close>

fun task_namespace :: "task \<Rightarrow> string" where
  "task_namespace (PollBuild i ns) = ns"
| "task_namespace (PollDeployment i ns name) = ns"

lemma safe_weaken:
  assumes "safe p W X Q own A" and "\<And>used d. B used d \<Longrightarrow> A used d"
  shows "safe p W X Q own B \<or> (\<exists>r. p = Done r)"
  using assms by (cases p) (auto simp: safe_Seg)

text \<open>A poller begins with a segment, whatever it follows.\<close>

lemma task_prog_Seg: "\<exists>m. task_prog e k = Seg m"
proof (cases k)
  case (PollBuild i ns)
  then show ?thesis
    by (auto simp: poll_build_prog.simps [of e i ns 0] BUILD_POLL_TIMEOUT_SECONDS_def atomic_def bindp_Seg)
next
  case (PollDeployment i ns name)
  then show ?thesis
    by (auto simp: poll_deployment_prog.simps [of e i ns name 0] DEPLOY_POLL_TIMEOUT_SECONDS_def atomic_def bindp_Seg)
qed

lemma safe_task:
  assumes "handed t k own A"
  shows "safe (task_prog e k) (for_tenant t) (reach_posting e (task_namespace k)) ends own A"
proof -
  obtain m where m: "task_prog e k = Seg m" using task_prog_Seg ..
  have row: "own = Some (task_row k)" and A: "\<And>used d. A used d \<Longrightarrow> task_claim t k used d"
    using assms by (auto simp: handed_def)
  show ?thesis
  proof (cases k)
    case (PollBuild i ns)
    with row safe_weaken [OF safe_poll_build [of e i ns 0 t], of A] A m show ?thesis by fastforce
  next
    case (PollDeployment i ns name)
    with row safe_weaken [OF safe_poll_deployment [of e i ns name 0 t], of A] A m show ?thesis by fastforce
  qed
qed

end
