(* ===== verification/System.thy ===== *)
theory System
  imports RequestAnswers PollerSafety
begin

text \<open>
  The running control plane. A state is the world and the threads under way, requests and background
  pollers; they take turns at their \<open>await\<close>s in any order. One step lets a request arrive, lets one
  thread run to its next \<open>await\<close>, sends a finished response and starts its background tasks, drops a
  finished poller, restarts the process, or lets anything happen outside.
\<close>

section \<open>Steps\<close>

datatype 'w thread =
    ReqThread headers request "('w world, response) prog"
  | PollThread task "('w world, unit) prog"

type_synonym 'w system = "'w world \<times> 'w thread list"

datatype event =
    Arrived headers request | RanRequest headers request | Responded headers request response
  | RanPoller task | PollerEnded task | Restarted | Outside

inductive sys_step :: "'w env \<Rightarrow> 'w system \<Rightarrow> event \<Rightarrow> 'w system \<Rightarrow> bool" for e where
  arrive: "sys_step e (s, ts) (Arrived h req) (s, ts @ [ReqThread h req (serve_prog e h req)])"
| run_request:
    "m s = (k, s') \<Longrightarrow>
     sys_step e (s, as @ ReqThread h req (Seg m) # bs) (RanRequest h req) (s', as @ ReqThread h req k # bs)"
| respond:
    "sys_step e (s, as @ ReqThread h req (Done (Inr r)) # bs) (Responded h req r)
       (s, as @ bs @ map (\<lambda>k. PollThread k (task_prog e k)) (rs_tasks r))"
| run_poller:
    "m s = (k, s') \<Longrightarrow>
     sys_step e (s, as @ PollThread t (Seg m) # bs) (RanPoller t) (s', as @ PollThread t k # bs)"
| poller_ends: "sys_step e (s, as @ PollThread t (Done r) # bs) (PollerEnded t) (s, as @ bs)"
| restart: "sys_step e (s, ts) Restarted (s\<lparr>w_configured := False\<rparr>, [])"
| outside: "sys_step e (s, ts) Outside (s\<lparr>w_ext := x\<rparr>, ts)"

definition initial :: "'w system \<Rightarrow> bool" where
  "initial S \<longleftrightarrow>
     w_db (fst S) = empty_db \<and> w_last_id (fst S) = (\<lambda>_. 0) \<and> \<not> w_configured (fst S) \<and> snd S = []"

inductive reachable :: "'w env \<Rightarrow> 'w system \<Rightarrow> bool" for e where
  init: "initial S \<Longrightarrow> reachable e S"
| step: "reachable e S \<Longrightarrow> sys_step e S ev S' \<Longrightarrow> reachable e S'"

inductive steps :: "'w env \<Rightarrow> 'w system \<Rightarrow> 'w system \<Rightarrow> bool" for e where
  none: "steps e S S"
| more: "steps e S S' \<Longrightarrow> sys_step e S' ev S'' \<Longrightarrow> steps e S S''"

inductive_cases sys_stepE: "sys_step e S ev S'"

lemma reachable_steps: "steps e S S' \<Longrightarrow> reachable e S \<Longrightarrow> reachable e S'"
  by (induction rule: steps.induct) (auto intro: reachable.step)

section \<open>The invariant of the system\<close>

text \<open>What a poller's row satisfies as long as it exists, before and after the poller has settled it.\<close>

fun follows :: "int \<Rightarrow> task \<Rightarrow> claim" where
  "follows t (PollBuild i ns) =
     (\<lambda>used d. ns = namespace_of t \<and> build_claim i (\<lambda>b. bj_tenant_id b = t \<and> bj_status b \<noteq> Queued) used d)"
| "follows t (PollDeployment i ns name) =
     (\<lambda>used d. ns = namespace_of t \<and> name = TENANT_APP_NAME \<and>
        deployment_claim i (\<lambda>x. dp_tenant_id x = t \<and> dp_status x \<noteq> Pending) used d)"

lemma stable_follows: "stable_claim own (follows t k)"
  by (cases k) (auto intro!: stable_rules stable_build stable_deployment)

lemma task_claim_follows: "task_claim t k used d \<Longrightarrow> follows t k used d"
  by (cases k) (auto simp: build_claim_def deployment_claim_def)

text \<open>
  A thread is in order when, with some claim that holds and a row out of those reserved for it, the
  rest of its program is safe.
\<close>

fun thread_safe :: "'w env \<Rightarrow> 'w world \<Rightarrow> 'w thread \<Rightarrow> row_ref set \<Rightarrow> row_ref option \<Rightarrow> claim \<Rightarrow> bool" where
  "thread_safe e s (ReqThread h req p) R own A \<longleftrightarrow> safe p (may_act_as req) (may_reach e req) (answered req) own A"
| "thread_safe e s (PollThread k p) R own A \<longleftrightarrow> task_row k \<in> R \<and>
     (\<exists>t. holds (follows t k) s \<and> safe p (for_tenant t) (reach_posting e (task_namespace k)) ends own A)"

definition thread_ok :: "'w env \<Rightarrow> 'w world \<Rightarrow> 'w thread \<Rightarrow> row_ref set \<Rightarrow> bool" where
  "thread_ok e s th R \<longleftrightarrow>
     (\<forall>r \<in> R. handed_out (w_last_id s) (Some r)) \<and>
     (\<exists>own A. set_option own \<subseteq> R \<and> stable_claim own A \<and> holds A s \<and> thread_safe e s th R own A)"

text \<open>No two threads have a row reserved.\<close>

fun apart :: "row_ref set list \<Rightarrow> bool" where
  "apart [] \<longleftrightarrow> True"
| "apart (R # Rs) \<longleftrightarrow> (\<forall>S \<in> set Rs. R \<inter> S = {}) \<and> apart Rs"

lemma apart_append [simp]:
  "apart (Rs @ Ss) \<longleftrightarrow> apart Rs \<and> apart Ss \<and> (\<forall>R \<in> set Rs. \<forall>S \<in> set Ss. R \<inter> S = {})"
  by (induction Rs) auto

lemma apart_taken:
  assumes "apart (X # As @ R # Bs)"
  shows "apart (X # As @ Bs)" "apart (X # As @ Bs @ [R])" "\<And>Q. Q \<in> set (X # As @ Bs) \<Longrightarrow> R \<inter> Q = {}"
  using assms by (auto simp: Int_commute)

lemma apart_grows:
  assumes "apart (X # As @ R # Bs)" and "\<And>Q. Q \<in> set (X # As @ Bs) \<Longrightarrow> (R' - R) \<inter> Q = {}"
  shows "apart (X # As @ R' # Bs)"
proof -
  have "R' \<inter> Q = {}" if "Q \<in> set (X # As @ Bs)" for Q
    using apart_taken(3) [OF assms(1) that] assms(2) [OF that] by blast
  with apart_taken(1) [OF assms(1)] show ?thesis by (auto simp: Int_commute)
qed

text \<open>
  The system is in order when the database is good and every thread is, with rows of its own reserved
  for it. The rows of \<open>X\<close> were handed out, and are reserved for none of the threads.
\<close>

definition sys_inv :: "'w env \<Rightarrow> row_ref set \<Rightarrow> 'w system \<Rightarrow> bool" where
  "sys_inv e X S \<longleftrightarrow> good (fst S) \<and> (\<forall>r \<in> X. handed_out (w_last_id (fst S)) (Some r)) \<and>
     (\<exists>Rs. list_all2 (thread_ok e (fst S)) (snd S) Rs \<and> apart (X # Rs))"

lemma sys_inv_split:
  assumes "sys_inv e X (s, as @ th # bs)"
  obtains As R Bs where "good s" "list_all2 (thread_ok e s) as As" "thread_ok e s th R" "list_all2 (thread_ok e s) bs Bs"
    "apart (X # As @ R # Bs)" "\<forall>r \<in> X. handed_out (w_last_id s) (Some r)"
proof -
  from assms obtain Rs where "good s" and "list_all2 (thread_ok e s) (as @ th # bs) Rs" and "apart (X # Rs)"
    and "\<forall>r \<in> X. handed_out (w_last_id s) (Some r)"
    by (auto simp: sys_inv_def)
  then show thesis by (auto simp: list_all2_append1 list_all2_Cons1 intro!: that)
qed

lemma handed_out_mono: "used \<le> used' \<Longrightarrow> handed_out used r \<Longrightarrow> handed_out used' r"
  by (cases "(used, r)" rule: handed_out.cases) (auto simp: le_fun_def intro: order_trans)

text \<open>A thread stays in order under the steps of the others.\<close>

lemma thread_ok_stable:
  assumes "thread_ok e s th R" and "good s" and "world_step who s s'" and "set_option (actor_row who) \<inter> R = {}"
  shows "thread_ok e s' th R"
proof -
  from assms(1) obtain own A where R: "\<forall>r \<in> R. handed_out (w_last_id s) (Some r)" and own: "set_option own \<subseteq> R"
    and A: "stable_claim own A" "holds A s" and safe: "thread_safe e s th R own A"
    by (auto simp: thread_ok_def)
  from own assms(4) have who: "actor_row who = None \<or> actor_row who \<noteq> own" by (cases "actor_row who") auto
  have "w_last_id s \<le> w_last_id s'" using assms(3) by (simp add: world_step_def)
  with R have "\<forall>r \<in> R. handed_out (w_last_id s') (Some r)" using handed_out_mono by blast
  moreover have "holds A s'" by (rule stableD [OF A(1) assms(2) A(2) assms(3) who])
  moreover have "thread_safe e s' th R own A"
    using safe stableD [OF stable_follows [of own], OF assms(2) _ assms(3) who] by (cases th) auto
  ultimately show ?thesis using own A(1) by (auto simp: thread_ok_def)
qed

lemma threads_ok_stable:
  assumes "list_all2 (thread_ok e s) ts Rs" and "good s" and "world_step who s s'"
    and "\<And>R. R \<in> set Rs \<Longrightarrow> set_option (actor_row who) \<inter> R = {}"
  shows "list_all2 (thread_ok e s') ts Rs"
  using assms(1)
  by (rule list.rel_mono_strong) (rule thread_ok_stable [OF _ assms(2,3) assms(4)])

text \<open>
  One segment of a thread: one step of an actor it may act as, within its reach; the rows reserved for
  it are what they were, or one more that was new.
\<close>

fun thread_acts :: "'w env \<Rightarrow> 'w thread \<Rightarrow> actor \<Rightarrow> 'w world \<Rightarrow> 'w world \<Rightarrow> bool" where
  "thread_acts e (ReqThread h req p) who s s' \<longleftrightarrow> may_act_as req who \<and> may_reach e req (w_ext s) (w_ext s')"
| "thread_acts e (PollThread k p) who s s' \<longleftrightarrow>
     (\<exists>t. task_namespace k = namespace_of t \<and> for_tenant t who) \<and> reach_posting e (task_namespace k) (w_ext s) (w_ext s')"

lemma follows_namespace: "follows t k used d \<Longrightarrow> task_namespace k = namespace_of t"
  by (cases k) auto

lemma safe_runs:
  assumes "safe (Seg m) W X Q own A" and "good s" and "holds A s" and "m s = (k, s')"
    and "set_option own \<subseteq> R" and R: "\<forall>r \<in> R. handed_out (w_last_id s) (Some r)"
  obtains who own' A' where "W who" "X (w_ext s) (w_ext s')" "world_step who s s'" "set_option (actor_row who) \<subseteq> R"
    "stable_claim own' A'" "holds A' s'" "safe k W X Q own' A'"
    "\<forall>r \<in> R \<union> set_option own'. handed_out (w_last_id s') (Some r)"
    "\<forall>r \<in> set_option own' - R. \<not> handed_out (w_last_id s) (Some r)"
proof -
  from assms(1-4) obtain who own' A' where who: "W who" "world_step who s s'" "actor_row who \<in> {None, own}"
    and X: "X (w_ext s) (w_ext s')" and t: "takes own own' s s'" and A': "stable_claim own' A'" "holds A' s'" "safe k W X Q own' A'"
    unfolding safe_Seg by blast
  from who(2) have "w_last_id s \<le> w_last_id s'" by (simp add: world_step_def)
  with R have "\<forall>r \<in> R. handed_out (w_last_id s') (Some r)" using handed_out_mono by blast
  with t assms(5) have "\<forall>r \<in> R \<union> set_option own'. handed_out (w_last_id s') (Some r)"
    "\<forall>r \<in> set_option own' - R. \<not> handed_out (w_last_id s) (Some r)"
    by (auto simp: takes_def)
  with who X A' assms(5) show thesis by (intro that) auto
qed

fun thread_at :: "'w thread \<Rightarrow> ('w world \<Rightarrow> 'w thread \<times> 'w world) option" where
  "thread_at (ReqThread h req (Seg m)) = Some (\<lambda>s. case m s of (k, s') \<Rightarrow> (ReqThread h req k, s'))"
| "thread_at (PollThread t (Seg m)) = Some (\<lambda>s. case m s of (k, s') \<Rightarrow> (PollThread t k, s'))"
| "thread_at _ = None"

lemma thread_runs:
  assumes "thread_ok e s th R" and "good s" and "thread_at th = Some f" and "f s = (th', s')"
  shows "\<exists>who R'. world_step who s s' \<and> set_option (actor_row who) \<subseteq> R \<and> thread_acts e th who s s' \<and>
    thread_ok e s' th' R' \<and> (\<forall>r \<in> R' - R. \<not> handed_out (w_last_id s) (Some r))"
proof -
  from assms(1) obtain own A where R: "\<forall>r \<in> R. handed_out (w_last_id s) (Some r)" and own: "set_option own \<subseteq> R"
    and A: "holds A s" and safe: "thread_safe e s th R own A"
    by (auto simp: thread_ok_def)
  show ?thesis
  proof (cases th)
    case (ReqThread h req p)
    with assms(3,4) obtain m k where p: "p = Seg m" and m: "m s = (k, s')" and th': "th' = ReqThread h req k"
      by (cases p) (auto split: prod.splits)
    with safe ReqThread have "safe (Seg m) (may_act_as req) (may_reach e req) (answered req) own A" by simp
    from this assms(2) A m own R obtain who own' A' where
      who: "may_act_as req who" "may_reach e req (w_ext s) (w_ext s')" "world_step who s s'" "set_option (actor_row who) \<subseteq> R" and
      A': "stable_claim own' A'" "holds A' s'" "safe k (may_act_as req) (may_reach e req) (answered req) own' A'"
        "\<forall>r \<in> R \<union> set_option own'. handed_out (w_last_id s') (Some r)"
        "\<forall>r \<in> set_option own' - R. \<not> handed_out (w_last_id s) (Some r)"
      by (rule safe_runs)
    then have "thread_ok e s' th' (R \<union> set_option own')"
      unfolding thread_ok_def th' by (intro conjI exI [of _ own'] exI [of _ A']) auto
    with who A'(5) ReqThread show ?thesis
      by (intro exI [of _ who] exI [of _ "R \<union> set_option own'"]) auto
  next
    case (PollThread t p)
    with assms(3,4) obtain m k where p: "p = Seg m" and m: "m s = (k, s')" and th': "th' = PollThread t k"
      by (cases p) (auto split: prod.splits)
    with safe PollThread obtain tid where t: "task_row t \<in> R" "holds (follows tid t) s"
      and "safe (Seg m) (for_tenant tid) (reach_posting e (task_namespace t)) ends own A" by auto
    from this(3) assms(2) A m own R obtain who own' A' where
      who: "for_tenant tid who" "reach_posting e (task_namespace t) (w_ext s) (w_ext s')" "world_step who s s'"
        "set_option (actor_row who) \<subseteq> R" and
      A': "stable_claim own' A'" "holds A' s'" "safe k (for_tenant tid) (reach_posting e (task_namespace t)) ends own' A'"
        "\<forall>r \<in> R \<union> set_option own'. handed_out (w_last_id s') (Some r)"
        "\<forall>r \<in> set_option own' - R. \<not> handed_out (w_last_id s) (Some r)"
      by (rule safe_runs)
    have "holds (follows tid t) s'"
      by (rule stableD [OF stable_follows [of None] assms(2) t(2) who(3)]) blast
    with t A' have "thread_ok e s' th' (R \<union> set_option own')"
      unfolding thread_ok_def th' by (intro conjI exI [of _ own'] exI [of _ A']) auto
    with who A'(5) PollThread follows_namespace [OF t(2)] show ?thesis
      by (intro exI [of _ who] exI [of _ "R \<union> set_option own'"]) auto
  qed
qed

section \<open>Every reachable state\<close>

lemma sys_inv_initial: "initial S \<Longrightarrow> sys_inv e {} S"
  using db_inv_empty schema_ok_empty by (simp add: initial_def sys_inv_def good_def)

lemma sys_inv_run:
  assumes "sys_inv e X (s, as @ th # bs)" and "thread_at th = Some f" and "f s = (th', s')"
  shows "sys_inv e X (s', as @ th' # bs) \<and>
    (\<exists>who. world_step who s s' \<and> thread_acts e th who s s' \<and> set_option (actor_row who) \<inter> X = {})"
proof -
  from assms(1) obtain As R Bs where g: "good s"
    and ok: "list_all2 (thread_ok e s) as As" "thread_ok e s th R" "list_all2 (thread_ok e s) bs Bs"
    and apart: "apart (X # As @ R # Bs)" and X: "\<forall>r \<in> X. handed_out (w_last_id s) (Some r)"
    by (rule sys_inv_split)
  from thread_runs [OF ok(2) g assms(2,3)] obtain who R' where who: "world_step who s s'" "set_option (actor_row who) \<subseteq> R"
    "thread_acts e th who s s'" and R': "thread_ok e s' th' R'" "\<forall>r \<in> R' - R. \<not> handed_out (w_last_id s) (Some r)" by blast
  have "\<forall>Q \<in> set (X # As @ Bs). \<forall>r \<in> Q. handed_out (w_last_id s) (Some r)"
    using ok(1,3) X by (auto simp: list_all2_conv_all_nth in_set_conv_nth thread_ok_def)
  with R'(2) have new: "apart (X # As @ R' # Bs)" by (intro apart_grows [OF apart]) blast
  have others: "set_option (actor_row who) \<inter> Q = {}" if "Q \<in> set (X # As @ Bs)" for Q
    using apart_taken(3) [OF apart that] who(2) by blast
  then have "list_all2 (thread_ok e s') as As" "list_all2 (thread_ok e s') bs Bs"
    by (auto intro!: threads_ok_stable [OF _ g who(1)] ok)
  moreover have "\<forall>r \<in> X. handed_out (w_last_id s') (Some r)"
    using X who(1) handed_out_mono by (auto simp: world_step_def)
  ultimately have "list_all2 (thread_ok e s') (as @ th' # bs) (As @ R' # Bs)" "\<forall>r \<in> X. handed_out (w_last_id s') (Some r)"
    using R'(1) by (auto intro: list_all2_appendI)
  with new good_step [OF g who(1)] have "sys_inv e X (s', as @ th' # bs)"
    unfolding sys_inv_def by (intro conjI exI [of _ "As @ R' # Bs"]) simp_all
  with who others [of X] show ?thesis by auto
qed

lemma thread_ok_cong:
  assumes "w_db s' = w_db s" and "w_last_id s' = w_last_id s"
  shows "thread_ok e s' = thread_ok e s"
proof -
  have "thread_safe e s' th R own A = thread_safe e s th R own A" for th R own A
    using assms by (cases th) simp_all
  with assms show ?thesis by (intro ext) (simp add: thread_ok_def)
qed

lemma thread_ok_arrives: "thread_ok e s (ReqThread h req (serve_prog e h req)) {}"
  unfolding thread_ok_def using safe_serve [of e h req] stable_no_claim [of None]
  by (auto intro!: exI [of _ None] exI [of _ no_claim])

lemma thread_ok_responds:
  assumes "thread_ok e s (ReqThread h req (Done (Inr r))) R"
  shows "rs_tasks r = [] \<or> (\<exists>k. rs_tasks r = [k] \<and> thread_ok e s (PollThread k (task_prog e k)) R)"
proof -
  from assms obtain own A where own: "set_option own \<subseteq> R" and R: "\<forall>r \<in> R. handed_out (w_last_id s) (Some r)"
    and A: "stable_claim own A" "holds A s" and r: "answered req (Inr r) own A"
    by (auto simp: thread_ok_def)
  have "thread_ok e s (PollThread k (task_prog e k)) R" if k: "handed t k own A" for k t
  proof -
    from k own have "task_row k \<in> R" by (simp add: handed_def)
    moreover have "holds (follows t k) s" using k A(2) by (simp add: handed_def task_claim_follows)
    ultimately show ?thesis using own R A safe_task [OF k, of e] by (auto simp: thread_ok_def)
  qed
  with r show ?thesis by (auto simp: answered_def answers_def split: route_guard.splits)
qed

lemma sys_inv_respond:
  assumes "sys_inv e X (s, as @ ReqThread h req (Done (Inr r)) # bs)"
  shows "sys_inv e X (s, as @ bs @ map (\<lambda>k. PollThread k (task_prog e k)) (rs_tasks r))"
proof -
  from assms obtain As R Bs where g: "good s"
    and ok: "list_all2 (thread_ok e s) as As" "thread_ok e s (ReqThread h req (Done (Inr r))) R"
    "list_all2 (thread_ok e s) bs Bs" and apart: "apart (X # As @ R # Bs)" and X: "\<forall>r \<in> X. handed_out (w_last_id s) (Some r)"
    by (rule sys_inv_split)
  from thread_ok_responds [OF ok(2)] show ?thesis
  proof (elim disjE exE conjE)
    assume "rs_tasks r = []"
    with g ok apart_taken(1) [OF apart] X show ?thesis
      unfolding sys_inv_def by (intro conjI exI [of _ "As @ Bs"]) (simp_all add: list_all2_appendI)
  next
    fix k
    assume "rs_tasks r = [k]" "thread_ok e s (PollThread k (task_prog e k)) R"
    with g ok apart_taken(2) [OF apart] X show ?thesis
      unfolding sys_inv_def by (intro conjI exI [of _ "As @ Bs @ [R]"]) (simp_all add: list_all2_appendI)
  qed
qed

text \<open>Every step is a step of some actor, and of one the thread that runs may act as.\<close>

fun event_acts :: "'w env \<Rightarrow> event \<Rightarrow> actor \<Rightarrow> 'w world \<Rightarrow> 'w world \<Rightarrow> bool" where
  "event_acts e (RanRequest h req) who s s' \<longleftrightarrow> may_act_as req who \<and> may_reach e req (w_ext s) (w_ext s')"
| "event_acts e (RanPoller k) who s s' \<longleftrightarrow>
     (\<exists>t. task_namespace k = namespace_of t \<and> for_tenant t who) \<and> reach_posting e (task_namespace k) (w_ext s) (w_ext s')"
| "event_acts e _ who s s' \<longleftrightarrow> True"

lemma sys_step_ok:
  assumes "sys_step e S ev S'" and "sys_inv e X S"
  shows "sys_inv e X S' \<and> (\<exists>who. world_step who (fst S) (fst S') \<and> event_acts e ev who (fst S) (fst S') \<and>
    set_option (actor_row who) \<inter> X = {})"
proof -
  have idle: "world_step ByAdmin s s'" if "good s" "w_db s' = w_db s" "w_last_id s' = w_last_id s" for s s' :: "'a world"
    using that by (simp add: world_step_idle good_def)
  have g: "good (fst S)" and X: "\<forall>r \<in> X. handed_out (w_last_id (fst S)) (Some r)" using assms(2) by (simp_all add: sys_inv_def)
  have idle_ok: ?thesis if "sys_inv e X S'" "world_step ByAdmin (fst S) (fst S')" "event_acts e ev ByAdmin (fst S) (fst S')"
    using that by (auto intro!: exI [of _ ByAdmin])
  from assms(1) show ?thesis
  proof (cases rule: sys_step.cases)
    case (arrive s ts h req)
    with assms(2) obtain Rs where "list_all2 (thread_ok e s) ts Rs" "apart (X # Rs)" by (auto simp: sys_inv_def)
    with arrive g X have "sys_inv e X S'"
      by (auto simp: sys_inv_def intro!: exI [of _ "Rs @ [{}]"] list_all2_appendI thread_ok_arrives)
    with arrive g idle idle_ok show ?thesis by simp
  next
    case (run_request m s k s' as h req bs)
    with sys_inv_run [of e X s as "ReqThread h req (Seg m)" bs _ "ReqThread h req k" s'] assms(2) show ?thesis by auto
  next
    case (respond s as h req r bs)
    with sys_inv_respond assms(2) have "sys_inv e X S'" by fastforce
    with respond g idle idle_ok show ?thesis by simp
  next
    case (run_poller m s k s' as t bs)
    with sys_inv_run [of e X s as "PollThread t (Seg m)" bs _ "PollThread t k" s'] assms(2) show ?thesis by auto
  next
    case (poller_ends s as t r bs)
    with assms(2) have "sys_inv e X (s, as @ PollThread t (Done r) # bs)" by simp
    then obtain As R Bs where "list_all2 (thread_ok e s) as As" "list_all2 (thread_ok e s) bs Bs" "apart (X # As @ R # Bs)"
      by (rule sys_inv_split)
    with poller_ends g X apart_taken(1) [OF this(3)] have "sys_inv e X S'"
      unfolding sys_inv_def by (intro conjI exI [of _ "As @ Bs"]) (simp_all add: list_all2_appendI)
    with poller_ends g idle idle_ok show ?thesis by simp
  next
    case (restart s ts)
    with g have "world_step ByAdmin s (s\<lparr>w_configured := False\<rparr>)" "good (s\<lparr>w_configured := False\<rparr>)"
      by (auto intro: idle simp: good_def)
    with restart X idle_ok show ?thesis by (simp add: sys_inv_def)
  next
    case (outside s ts x)
    with assms(2) have "sys_inv e X S'"
      using thread_ok_cong [of "s\<lparr>w_ext := x\<rparr>" s e] by (simp add: sys_inv_def good_def)
    with outside g idle idle_ok show ?thesis by simp
  qed
qed

lemma reachable_sys_inv: "reachable e S \<Longrightarrow> sys_inv e {} S"
  by (induction rule: reachable.induct) (auto intro: sys_inv_initial dest: sys_step_ok)

lemma reachable_good: "reachable e (s, ts) \<Longrightarrow> good s"
  using reachable_sys_inv by (fastforce simp: sys_inv_def)

section \<open>Rows reserved for a poller, and rows reserved for nobody\<close>

fun poller_rows :: "'w thread list \<Rightarrow> row_ref list" where
  "poller_rows [] = []"
| "poller_rows (ReqThread h req p # ts) = poller_rows ts"
| "poller_rows (PollThread k p # ts) = task_row k # poller_rows ts"

lemma poller_rows_distinct:
  assumes "list_all2 (thread_ok e s) ts Rs" and "apart Rs"
  shows "distinct (poller_rows ts) \<and> set (poller_rows ts) \<subseteq> \<Union> (set Rs)"
  using assms
proof (induction rule: list_all2_induct)
  case (Cons th ts R Rs)
  then have IH: "distinct (poller_rows ts)" "set (poller_rows ts) \<subseteq> \<Union> (set Rs)" and R: "R \<inter> \<Union> (set Rs) = {}" by auto
  show ?case
  proof (cases th)
    case (PollThread k p)
    with Cons.hyps have "task_row k \<in> R" by (auto simp: thread_ok_def)
    with PollThread IH R show ?thesis by auto
  qed (use IH in auto)
qed simp

lemma quiet_event:
  assumes "sys_step e S ev S'" and "\<And>h req. ev \<noteq> RanRequest h req" and "\<And>k. ev \<noteq> RanPoller k"
  shows "w_db (fst S') = w_db (fst S)"
  using assms by (cases rule: sys_step.cases) auto

text \<open>No thread but its poller moves the row a poller follows.\<close>

lemma poller_row_kept:
  assumes "sys_inv e {} (s, ts)" and "sys_step e (s, ts) ev (s', ts')" and "PollThread k p \<in> set ts" and "ev \<noteq> RanPoller k"
  shows "\<exists>who. world_step who s s' \<and> actor_row who \<noteq> Some (task_row k)"
proof -
  have other: ?thesis if "ts = as @ th # bs" "PollThread k p \<in> set (as @ bs)" "thread_at th = Some f" "f s = (th', s')" for as th bs f th'
  proof -
    from assms(1) that(1) obtain As R Bs where g: "good s"
      and ok: "list_all2 (thread_ok e s) as As" "thread_ok e s th R" "list_all2 (thread_ok e s) bs Bs"
      and apart: "apart ({} # As @ R # Bs)"
      by (auto elim: sys_inv_split)
    have "list_all2 (thread_ok e s) (as @ bs) (As @ Bs)" using ok by (simp add: list_all2_appendI)
    with that(2) obtain Q where "Q \<in> set (As @ Bs)" "thread_ok e s (PollThread k p) Q"
      by (metis in_set_conv_nth list_all2_conv_all_nth)
    with apart_taken(3) [OF apart, of Q] have "task_row k \<notin> R" by (auto simp: thread_ok_def)
    moreover from thread_runs [OF ok(2) g that(3,4)] obtain who where "world_step who s s'" "set_option (actor_row who) \<subseteq> R"
      by blast
    ultimately show ?thesis by (intro exI [of _ who]) auto
  qed
  from sys_step_ok [OF assms(2,1)] obtain who where who: "world_step who s s'" by auto
  from assms(2) show ?thesis
  proof (cases rule: sys_step.cases)
    case (run_request m q as h req bs)
    with assms(3) other [of as "ReqThread h req (Seg m)" bs _ "ReqThread h req q"] show ?thesis by auto
  next
    case (run_poller m q as t bs)
    with assms(3,4) other [of as "PollThread t (Seg m)" bs _ "PollThread t q"] show ?thesis by auto
  qed (use who assms(1) in \<open>auto simp: sys_inv_def good_def intro!: exI [of _ ByAdmin] world_step_idle\<close>)
qed

text \<open>What is claimed of a row nobody has reserved stays true, whatever runs.\<close>

lemma steps_keep:
  assumes "steps e S S'" and "sys_inv e X S" and "stable_claim (Some r) A" and "r \<in> X" and "holds A (fst S)"
  shows "sys_inv e X S' \<and> holds A (fst S')"
  using assms
proof (induction rule: steps.induct)
  case (more S S' ev S'')
  then have S': "sys_inv e X S'" "holds A (fst S')" by simp_all
  from sys_step_ok [OF more.hyps(2) S'(1)] obtain who where
    who: "sys_inv e X S''" "world_step who (fst S') (fst S'')" "set_option (actor_row who) \<inter> X = {}" by blast
  have "actor_row who = None \<or> actor_row who \<noteq> Some r" using who(3) more.prems(3) by auto
  moreover have "good (fst S')" using S'(1) by (simp add: sys_inv_def)
  ultimately show ?case using stableD [OF more.prems(2) _ S'(2) who(2)] who(1) by blast
qed simp

lemma restarted_sys_inv:
  assumes "sys_inv e X S" and "sys_step e S Restarted S'"
  shows "sys_inv e {r. handed_out (w_last_id (fst S)) (Some r)} S'"
  using assms(2) by (cases rule: sys_step.cases) (use assms(1) in \<open>auto simp: sys_inv_def good_def\<close>)

section \<open>A thread that is left alone\<close>

text \<open>The other threads may wait: then a thread runs to its end, as its program says.\<close>

lemma steps_trans: "steps e S' S'' \<Longrightarrow> steps e S S' \<Longrightarrow> steps e S S''"
  by (induction rule: steps.induct) (auto intro: steps.more)

lemma steps_step: "sys_step e S ev S' \<Longrightarrow> steps e S S'"
  by (rule steps.more [OF steps.none])

lemma request_runs:
  "run p s = (r, s') \<Longrightarrow> steps e (s, as @ ReqThread h req p # bs) (s', as @ ReqThread h req (Done r) # bs)"
proof (induction p arbitrary: s)
  case (Done q)
  then show ?case by (simp add: steps.none)
next
  case (Seg m)
  obtain k s1 where m: "m s = (k, s1)" by (cases "m s")
  with Seg.prems have "run k s1 = (r, s')" by (simp add: run_Seg)
  from Seg.IH [OF m this] steps_step [OF sys_step.run_request [where m = m and s = s, OF m]] show ?case
    by (rule steps_trans)
qed

lemma poller_runs:
  "run p s = (r, s') \<Longrightarrow> steps e (s, as @ PollThread t p # bs) (s', as @ PollThread t (Done r) # bs)"
proof (induction p arbitrary: s)
  case (Done q)
  then show ?case by (simp add: steps.none)
next
  case (Seg m)
  obtain k s1 where m: "m s = (k, s1)" by (cases "m s")
  with Seg.prems have "run k s1 = (r, s')" by (simp add: run_Seg)
  from Seg.IH [OF m this] steps_step [OF sys_step.run_poller [where m = m and s = s, OF m]] show ?case
    by (rule steps_trans)
qed

lemma poller_segment:
  "m s = (Inr a, s') \<Longrightarrow>
     sys_step e (s, as @ PollThread t (bindp (atomic m) f) # bs) (RanPoller t) (s', as @ PollThread t (f a) # bs)"
  unfolding bindp_atomic by (rule sys_step.run_poller) simp

lemma request_answered_alone:
  assumes "reachable e (s, ts)" and "serve e h req s = (r, s')"
  shows "reachable e (s', ts @ [ReqThread h req (Done (Inr r))])"
proof -
  have "schema_ok (w_db s)" using reachable_good [OF assms(1)] by (simp add: good_def)
  from run_serve_prog [OF this, of e h req] assms(2) have "run (serve_prog e h req) s = (Inr r, s')" by simp
  from request_runs [OF this] have "steps e (s, ts @ [ReqThread h req (serve_prog e h req)]) (s', ts @ [ReqThread h req (Done (Inr r))])" .
  with reachable.step [OF assms(1) sys_step.arrive] show ?thesis using reachable_steps by blast
qed

lemma request_served_alone:
  assumes "reachable e (s, ts)" and "serve e h req s = (r, s')"
  shows "reachable e (s', ts @ map (\<lambda>k. PollThread k (task_prog e k)) (rs_tasks r))"
  using reachable.step [OF request_answered_alone [OF assms] sys_step.respond] by simp

text \<open>The first segment of a request checks its credentials.\<close>

lemma serve_prog_Seg:
  "serve_prog e h req = Seg (\<lambda>s. case check_guard e h (guard_of req) s of (r, s') \<Rightarrow>
     (case r of Inl x \<Rightarrow> Done (Inr (error_response x))
      | Inr _ \<Rightarrow> catchp (if request_valid req then handler_prog e req else raisep (HTTPException 422 ''Request validation failed''))
          (\<lambda>x. retp (error_response x)), s'))"
  by (auto simp: serve_prog_def bindp_atomic catchp_Seg fun_eq_iff retp_def split: prod.split sum.split)

end
