(* ===== verification/Liveness.thy ===== *)
theory Liveness
  imports System DeployProperties
begin

text \<open>
  That the control plane does what is asked of it: when the database accepts and the cluster
  answers, a submitted build is started and followed to its end. The last section runs the
  reference environment from the empty database through the creation of a tenant, the submission
  of a build with the tenant's key and the round that settles it.
\<close>

section \<open>When the schema accepts a build row\<close>

lemma schema_ok_add_build:
  assumes "schema_ok d" and "build_job_columns_ok b" and "bj_id b \<notin> bj_id ` set (build_jobs d)"
    and "bj_tenant_id b \<in> t_id ` set (tenants d)"
  shows "schema_ok (d\<lparr>build_jobs := build_jobs d @ [b]\<rparr>)"
  using assms by (auto simp: schema_ok_def columns_ok_def constraint_defs)

lemma schema_ok_edit_build:
  assumes "schema_ok d" and "\<And>b. bj_id (f b) = bj_id b" and "\<And>b. bj_tenant_id (f b) = bj_tenant_id b"
    and "\<And>b. b \<in> set (build_jobs d) \<Longrightarrow> bj_id b = i \<Longrightarrow> build_job_columns_ok (f b)"
  shows "schema_ok (d\<lparr>build_jobs := update_where bj_id i f (build_jobs d)\<rparr>)"
proof -
  have "map bj_id (update_where bj_id i f (build_jobs d)) = map bj_id (build_jobs d)"
    "map bj_tenant_id (update_where bj_id i f (build_jobs d)) = map bj_tenant_id (build_jobs d)"
    using assms(2,3) by (simp_all add: map_update_where)
  then have ids: "map bj_id (update_where bj_id i f (build_jobs d)) = map bj_id (build_jobs d)"
    "bj_id ` set (update_where bj_id i f (build_jobs d)) = bj_id ` set (build_jobs d)"
    "bj_tenant_id ` set (update_where bj_id i f (build_jobs d)) = bj_tenant_id ` set (build_jobs d)"
    by (simp_all flip: set_map)
  have "list_all build_job_columns_ok (update_where bj_id i f (build_jobs d))"
    using assms(1,4) by (auto simp: schema_ok_def columns_ok_def list_all_iff set_update_where)
  with assms(1) ids show ?thesis by (simp add: schema_ok_def columns_ok_def constraint_defs)
qed

lemma build_row_columns: "schema_ok d \<Longrightarrow> b \<in> set (build_jobs d) \<Longrightarrow> build_job_columns_ok b"
  by (simp add: schema_ok_def columns_ok_def list_all_iff)

lemma mark_building_columns: "build_job_columns_ok b \<Longrightarrow> build_job_columns_ok (mark_building now b)"
  by (simp add: build_job_columns_ok_def mark_building_def)

lemma new_build_job_columns:
  assumes "build_job_create_valid bd" and "int32 i" and "int32 tid"
  shows "build_job_columns_ok (new_build_job i tid bd ts)"
  using assms by (simp add: build_job_columns_ok_def new_build_job_def build_job_create_valid_def fits_def)

section \<open>A build is started\<close>

lemma build_submission_runs:
  assumes commits: "\<And>d d'. e_commit_fails e d d' = None"
    and ok: "schema_ok (w_db s)" and ids: "ids_bounded (w_last_id s) (w_db s)"
    and t: "get_tenant_row (w_db s) tid = Some t" and bd: "build_job_create_valid bd"
    and id: "next_id e BuildJobs s = (Inr i, s1)" and range: "int32 i"
    and now: "db_now e s1 = (Inr ts, s2)"
    and started: "start_build e (t_k8s_namespace t) tid (new_build_job i tid bd ts)
        (s2\<lparr>w_db := (w_db s)\<lparr>build_jobs := build_jobs (w_db s) @ [new_build_job i tid bd ts]\<rparr>\<rparr>) = (Inr (), s3)"
  obtains now' s4 where
    "create_build_job_service e tid bd s =
       (Inr (mark_building now' (new_build_job i tid bd ts), Some (t_k8s_namespace t)),
        s4\<lparr>w_db := (w_db s)\<lparr>build_jobs := build_jobs (w_db s) @ [mark_building now' (new_build_job i tid bd ts)]\<rparr>\<rparr>)"
    "now_naive e s3 = (Inr now', s4)"
proof -
  let ?b = "new_build_job i tid bd ts"
  let ?new = "(w_db s)\<lparr>build_jobs := build_jobs (w_db s) @ [?b]\<rparr>"
  from get_tenant_rowD [OF t] have tn: "t \<in> set (tenants (w_db s))" "t_id t = tid" by auto
  have "int32 tid" using ok tn by (auto simp: schema_ok_def column_defs list_all_iff)
  moreover have "bj_id ?b \<notin> bj_id ` set (build_jobs (w_db s))"
    using ids next_id_apply [OF id] by (fastforce simp: ids_bounded_def)
  moreover have "bj_tenant_id ?b \<in> t_id ` set (tenants (w_db s))" using tn by force
  ultimately have new: "schema_ok ?new"
    by (intro schema_ok_add_build ok new_build_job_columns bd range) simp_all
  obtain now' s4 where n: "now_naive e s3 = (Inr now', s4)" by (rule now_naive_returns)
  have "schema_ok (?new\<lparr>build_jobs := update_where bj_id i (mark_building now') (build_jobs ?new)\<rparr>)"
    by (rule schema_ok_edit_build [OF new])
      (simp_all add: mark_building_columns build_row_columns [OF new])
  then have upd: "schema_ok ((w_db s)\<lparr>build_jobs := build_jobs (w_db s) @ [mark_building now' ?b]\<rparr>)"
    using update_new_build_job [OF new, of "mark_building now'"] by simp
  have d2: "w_db s2 = w_db s"
    using next_id_apply [OF id] only_extD(1) [OF only_ext_db_now now] by simp
  have d4: "w_db s4 = ?new"
    using only_extD(1) [OF only_ext_start_build started] only_extD(1) [OF only_ext_now_naive n] by simp
  have "check_pending e (w_db s) ?new = None" using new commits by (simp add: check_pending_None)
  moreover have "check_pending e ?new ((w_db s)\<lparr>build_jobs := build_jobs (w_db s) @ [mark_building now' ?b]\<rparr>) = None"
    using upd commits by (simp add: check_pending_None)
  ultimately have "create_build_job_service e tid bd s =
     (Inr (mark_building now' ?b, Some (t_k8s_namespace t)),
      s4\<lparr>w_db := (w_db s)\<lparr>build_jobs := build_jobs (w_db s) @ [mark_building now' ?b]\<rparr>\<rparr>)"
    using update_new_build_job [OF new, of "mark_building now'"]
    by (simp add: create_build_job_service_def py_simps t id now started n commit_apply d2 d4
        save_build_job_apply Let_def)
  with n that show thesis by blast
qed

text \<open>
  C21: A build that can be started is: when the tenant exists, the body is within its bounds, the
  database accepts commits, its next identifier is in range and the cluster calls go through, the
  submission returns the stored row with status building and the namespace to poll.
\<close>

theorem build_submission_starts:
  assumes "\<And>d d'. e_commit_fails e d d' = None"
    and "schema_ok (w_db s)" and "ids_bounded (w_last_id s) (w_db s)"
    and "get_tenant_row (w_db s) tid = Some t" and "build_job_create_valid bd"
    and "next_id e BuildJobs s = (Inr i, s1)" and "int32 i" and "db_now e s1 = (Inr ts, s2)"
    and "start_build e (t_k8s_namespace t) tid (new_build_job i tid bd ts)
        (s2\<lparr>w_db := (w_db s)\<lparr>build_jobs := build_jobs (w_db s) @ [new_build_job i tid bd ts]\<rparr>\<rparr>) = (Inr (), s3)"
  shows "\<exists>b s'. create_build_job_service e tid bd s = (Inr (b, Some (t_k8s_namespace t)), s') \<and>
    bj_id b = i \<and> bj_tenant_id b = tid \<and> bj_status b = Building \<and> bj_git_url b = bc_git_url bd \<and>
    w_db s' = (w_db s)\<lparr>build_jobs := build_jobs (w_db s) @ [b]\<rparr>"
proof -
  from build_submission_runs [OF assms] obtain now' s4 where
    "create_build_job_service e tid bd s =
       (Inr (mark_building now' (new_build_job i tid bd ts), Some (t_k8s_namespace t)),
        s4\<lparr>w_db := (w_db s)\<lparr>build_jobs := build_jobs (w_db s) @ [mark_building now' (new_build_job i tid bd ts)]\<rparr>\<rparr>)" .
  then show ?thesis by (simp add: mark_building_def new_build_job_def)
qed

section \<open>A run of the reference environment\<close>

definition admin_headers :: headers where
  "admin_headers = \<lparr>x_admin_secret = Some ''a'', x_api_key = None\<rparr>"

definition key_headers :: "string \<Rightarrow> headers" where
  "key_headers raw = \<lparr>x_admin_secret = None, x_api_key = Some raw\<rparr>"

definition sample_body :: build_job_create where
  "sample_body = build_job_create_of ''https://x/r'' None None"

lemma admin_passes: "check_guard mem_env admin_headers Admin s = (Inr (), s)"
  by (simp add: check_guard_def admin_headers_def verify_admin_def py_simps compare_digest_str_def
      mem_env_def mem_cfg_def is_ascii_def)

text \<open>The tenant's key is accepted and nothing is deployed or registered yet.\<close>

definition sample_platform :: "string \<Rightarrow> mem world \<Rightarrow> bool" where
  "sample_platform raw s \<longleftrightarrow> verify_tenant mem_env 1 raw s = (Inr (), s) \<and> w_last_id s Deployments = 0 \<and>
     deployments (w_db s) = [] \<and> webhook_registrations (w_db s) = []"

lemma verify_tenant_cong:
  "tenants (w_db s') = tenants (w_db s) \<Longrightarrow> api_keys (w_db s') = api_keys (w_db s) \<Longrightarrow>
     verify_tenant e tid raw s' = (fst (verify_tenant e tid raw s), s')"
  by (simp add: verify_tenant_def key_tenant_rows_def py_simps split: sum.split option.split)

lemma sample_platform_kept:
  "sample_platform raw s \<Longrightarrow> w_db s' = (w_db s)\<lparr>build_jobs := bs\<rparr> \<Longrightarrow> w_last_id s' Deployments = w_last_id s Deployments \<Longrightarrow>
     sample_platform raw s'"
  by (simp add: sample_platform_def verify_tenant_cong [of s' s])

lemma sample_initial: "initial (mem_world empty_db, [])"
  by (simp add: initial_def mem_world_def)

lemma sample_create_served:
  "\<exists>r s' t raw. serve mem_env admin_headers (CreateTenant \<lparr>tc_name = ''acme''\<rparr>) (mem_world empty_db) = (r, s') \<and>
     rs_tasks r = [] \<and> create_tenant_service mem_env \<lparr>tc_name = ''acme''\<rparr> (mem_world empty_db) = (Inr (t, raw), s') \<and>
     t_id t = 1"
proof -
  from sample_tenant_created obtain t raw s' where
    run: "create_tenant_service mem_env \<lparr>tc_name = ''acme''\<rparr> (mem_world empty_db) = (Inr (t, raw), s')"
    "t_id t = 1" by blast
  moreover have "request_valid (CreateTenant \<lparr>tc_name = ''acme''\<rparr>)" by (simp add: tenant_create_valid_def)
  ultimately show ?thesis
    by (simp add: serve_def py_simps admin_passes create_tenant_def tenant_created_def answer_def)
qed

lemma sample_namespace: "namespace_of 1 = ''tenant-1''"
  by code_simp

lemma sample_tenant_ready:
  obtains s raw t where "reachable mem_env (s, [])" "w_ext s = mem_init"
    "get_tenant_row (w_db s) 1 = Some t" "t_k8s_namespace t = ''tenant-1''"
    "sample_platform raw s" "w_last_id s BuildJobs = 0" "build_jobs (w_db s) = []"
proof -
  from sample_create_served obtain r s' t raw where
    run: "serve mem_env admin_headers (CreateTenant \<lparr>tc_name = ''acme''\<rparr>) (mem_world empty_db) = (r, s')"
    and r: "rs_tasks r = []"
    and made: "create_tenant_service mem_env \<lparr>tc_name = ''acme''\<rparr> (mem_world empty_db) = (Inr (t, raw), s')"
    and id: "t_id t = 1" by blast
  let ?s = "s'\<lparr>w_ext := mem_init\<rparr>"
  from request_served_alone [OF reachable.init [OF sample_initial] run] r have "reachable mem_env (s', [])" by simp
  then have reach: "reachable mem_env (?s, [])" by (rule reachable.step) (rule sys_step.outside)
  from create_tenant_service_ok [OF made] obtain ts k kts where
    t: "t = (new_tenant (t_id t) ''acme'' ts)\<lparr>t_k8s_namespace := namespace_of (t_id t)\<rparr>" and
    d: "w_db s' = empty_db\<lparr>tenants := tenants empty_db @ [t],
       api_keys := api_keys empty_db @ [new_api_key k (t_id t) ''primary'' raw (key_hash_of mem_env raw) kts]\<rparr>" and
    l: "w_last_id s' = (\<lambda>_. 0)(Tenants := t_id t, ApiKeys := k)"
    by (auto simp: mem_world_def)
  have "get_tenant_row (w_db ?s) 1 = Some t" by (simp add: d get_tenant_row_def empty_db_def id)
  moreover have "t_k8s_namespace t = ''tenant-1''"
    by (subst t) (simp add: id sample_namespace)
  moreover have "verify_tenant mem_env 1 raw ?s = (Inr (), ?s)"
    using new_tenant_key_verifies [OF made, of 1] id by (simp add: verify_tenant_cong [of ?s s'])
  ultimately show thesis
    using reach l by (intro that [of ?s t raw]) (simp_all add: d empty_db_def sample_platform_def)
qed

lemma sample_start_build:
  assumes "w_ext s = mem_init\<lparr>m_clock := 1001\<rparr>"
  shows "fst (start_build mem_env ''tenant-1'' 1 (new_build_job 1 1 sample_body 1000) s) = Inr ()"
proof -
  have "fst (start_build mem_env ''tenant-1'' 1 (new_build_job 1 1 sample_body 1000)
      \<lparr>w_db = d, w_last_id = l, w_configured = True, w_ext = mem_init\<lparr>m_clock := 1001\<rparr>\<rparr>) = Inr ()" for d l
    by code_simp
  moreover have "fst (start_build mem_env ''tenant-1'' 1 (new_build_job 1 1 sample_body 1000)
      \<lparr>w_db = d, w_last_id = l, w_configured = False, w_ext = mem_init\<lparr>m_clock := 1001\<rparr>\<rparr>) = Inr ()" for d l
    by code_simp
  ultimately show ?thesis using assms by (cases s; cases "w_configured s") simp_all
qed

lemma sample_reachable: "\<exists>s t. reachable mem_env (s, []) \<and> t \<in> set (tenants (w_db s))"
  by (rule sample_tenant_ready) (use get_tenant_rowD in blast)

lemma sample_next_id:
  "w_last_id s BuildJobs = 0 \<Longrightarrow>
     next_id mem_env BuildJobs s = (Inr 1, s\<lparr>w_last_id := (w_last_id s)(BuildJobs := 1)\<rparr>)"
  by (simp add: next_id_def mem_env_def Let_def)

lemma sample_db_now:
  "w_ext s = mem_init \<Longrightarrow> db_now mem_env s = (Inr 1000, s\<lparr>w_ext := mem_init\<lparr>m_clock := 1001\<rparr>\<rparr>)"
  by (simp add: db_now_def external_read_def mem_env_def tick_def mem_init_def)

lemma sample_submission:
  assumes "w_ext s = mem_init" and "w_last_id s BuildJobs = 0"
  obtains s1 s2 s3 where "next_id mem_env BuildJobs s = (Inr 1, s1)" "db_now mem_env s1 = (Inr 1000, s2)"
    "start_build mem_env ''tenant-1'' 1 (new_build_job 1 1 sample_body 1000) (s2\<lparr>w_db := d\<rparr>) = (Inr (), s3)"
proof -
  let ?s1 = "s\<lparr>w_last_id := (w_last_id s)(BuildJobs := 1)\<rparr>"
  let ?s2 = "?s1\<lparr>w_ext := mem_init\<lparr>m_clock := 1001\<rparr>\<rparr>"
  have "fst (start_build mem_env ''tenant-1'' 1 (new_build_job 1 1 sample_body 1000) (?s2\<lparr>w_db := d\<rparr>)) = Inr ()"
    by (rule sample_start_build) simp
  then obtain s3 where
    "start_build mem_env ''tenant-1'' 1 (new_build_job 1 1 sample_body 1000) (?s2\<lparr>w_db := d\<rparr>) = (Inr (), s3)"
    by (metis prod.collapse)
  moreover have "db_now mem_env ?s1 = (Inr 1000, ?s2)" using sample_db_now [of ?s1] assms(1) by simp
  ultimately show thesis using sample_next_id [OF assms(2)] that by blast
qed

lemma sample_body_valid: "build_job_create_valid sample_body"
  by (simp add: sample_body_def build_job_create_valid_def build_job_create_of_def orelse_def fits_def)

lemma mem_env_commits: "e_commit_fails mem_env d d' = None"
  by (simp add: mem_env_def)

theorem build_submission_starts_witness:
  "\<exists>s b s'. reachable mem_env (s, []) \<and>
     create_build_job_service mem_env 1 sample_body s = (Inr (b, Some ''tenant-1''), s') \<and>
     bj_id b = 1 \<and> bj_status b = Building"
proof -
  obtain s raw t where s: "reachable mem_env (s, [])" "w_ext s = mem_init"
    "get_tenant_row (w_db s) 1 = Some t" "t_k8s_namespace t = ''tenant-1''" "w_last_id s BuildJobs = 0"
    by (rule sample_tenant_ready)
  from reachable_good [OF s(1)] have ok: "schema_ok (w_db s)" "ids_bounded (w_last_id s) (w_db s)"
    by (simp_all add: goodD)
  obtain s1 s2 s3 where run: "next_id mem_env BuildJobs s = (Inr 1, s1)" "db_now mem_env s1 = (Inr 1000, s2)"
    "start_build mem_env ''tenant-1'' 1 (new_build_job 1 1 sample_body 1000)
       (s2\<lparr>w_db := (w_db s)\<lparr>build_jobs := build_jobs (w_db s) @ [new_build_job 1 1 sample_body 1000]\<rparr>\<rparr>) = (Inr (), s3)"
    by (rule sample_submission [OF s(2,5)])
  have "int32 1" by (simp add: int32_def)
  from build_submission_starts [OF mem_env_commits ok s(3) sample_body_valid run(1) this run(2), unfolded s(4), OF run(3)] s(1)
  show ?thesis by blast
qed

text \<open>The submission through the application, with the tenant's key, then the round that settles it.\<close>

definition sample_poller :: "mem thread" where
  "sample_poller = PollThread (PollBuild 1 ''tenant-1'') (poll_build_prog mem_env 1 ''tenant-1'' 0)"

lemma sample_build_submitted:
  obtains s raw r s' b where "reachable mem_env (s, [])" "serve mem_env (key_headers raw) (CreateBuildJob 1 sample_body) s = (r, s')"
    "rs_body r = BuildJobBody b" "rs_tasks r = [PollBuild 1 ''tenant-1'']" "build_jobs (w_db s') = [b]"
    "bj_id b = 1" "bj_tenant_id b = 1" "bj_status b = Building" "sample_platform raw s'"
proof -
  obtain s raw t where s: "reachable mem_env (s, [])" "w_ext s = mem_init"
    "get_tenant_row (w_db s) 1 = Some t" "t_k8s_namespace t = ''tenant-1''"
    "sample_platform raw s" "w_last_id s BuildJobs = 0" "build_jobs (w_db s) = []"
    by (rule sample_tenant_ready)
  from reachable_good [OF s(1)] have ok: "schema_ok (w_db s)" "ids_bounded (w_last_id s) (w_db s)"
    by (simp_all add: goodD)
  obtain s1 s2 s3 where run: "next_id mem_env BuildJobs s = (Inr 1, s1)" "db_now mem_env s1 = (Inr 1000, s2)"
    "start_build mem_env ''tenant-1'' 1 (new_build_job 1 1 sample_body 1000)
       (s2\<lparr>w_db := (w_db s)\<lparr>build_jobs := build_jobs (w_db s) @ [new_build_job 1 1 sample_body 1000]\<rparr>\<rparr>) = (Inr (), s3)"
    by (rule sample_submission [OF s(2,6)])
  have "int32 1" by (simp add: int32_def)
  from build_submission_runs [OF mem_env_commits ok s(3) sample_body_valid run(1) this run(2), unfolded s(4), OF run(3)]
  obtain now' s4 where made: "create_build_job_service mem_env 1 sample_body s =
       (Inr (mark_building now' (new_build_job 1 1 sample_body 1000), Some ''tenant-1''),
        s4\<lparr>w_db := (w_db s)\<lparr>build_jobs := build_jobs (w_db s) @ [mark_building now' (new_build_job 1 1 sample_body 1000)]\<rparr>\<rparr>)"
    and now': "now_naive mem_env s3 = (Inr now', s4)"
    by blast
  let ?b = "mark_building now' (new_build_job 1 1 sample_body 1000)"
  let ?s = "s4\<lparr>w_db := (w_db s)\<lparr>build_jobs := build_jobs (w_db s) @ [?b]\<rparr>\<rparr>"
  have id: "bj_id ?b = 1" "bj_tenant_id ?b = 1" by (simp_all add: new_build_job_def)
  have "\<exists>r. serve mem_env (key_headers raw) (CreateBuildJob 1 sample_body) s = (r, ?s) \<and>
      rs_body r = BuildJobBody ?b \<and> rs_tasks r = [PollBuild 1 ''tenant-1'']"
    using s(5) made id
    by (simp add: serve_def py_simps check_guard_def key_headers_def sample_body_valid create_build_job_def build_submitted_def
        sample_platform_def)
  moreover have "sample_platform raw ?s"
  proof (rule sample_platform_kept [OF s(5)])
    show "w_last_id ?s Deployments = w_last_id s Deployments"
      using next_id_apply [OF run(1)] only_extD(2) [OF only_ext_db_now run(2)] only_extD(2) [OF only_ext_start_build run(3)]
        only_extD(2) [OF only_ext_now_naive now'] by simp
  qed simp
  ultimately show thesis using s(1,7) id that by force
qed

lemma sample_build_served:
  obtains s b raw where "reachable mem_env (s, [sample_poller])" "w_ext s = mem_init" "build_jobs (w_db s) = [b]"
    "bj_id b = 1" "bj_status b = Building" "bj_tenant_id b = 1" "sample_platform raw s"
proof -
  obtain s raw r s' b where s: "reachable mem_env (s, [])"
    "serve mem_env (key_headers raw) (CreateBuildJob 1 sample_body) s = (r, s')" "rs_tasks r = [PollBuild 1 ''tenant-1'']"
    and b: "build_jobs (w_db s') = [b]" "bj_id b = 1" "bj_tenant_id b = 1" "bj_status b = Building" "sample_platform raw s'"
    by (rule sample_build_submitted)
  from request_served_alone [OF s(1,2)] s(3) have "reachable mem_env (s', [sample_poller])" by (simp add: sample_poller_def)
  then have reach: "reachable mem_env (s'\<lparr>w_ext := mem_init\<rparr>, [sample_poller])"
    by (rule reachable.step) (rule sys_step.outside)
  have "sample_platform raw (s'\<lparr>w_ext := mem_init\<rparr>)"
    by (rule sample_platform_kept [OF b(5), where bs = "build_jobs (w_db s')"]) simp_all
  with reach show thesis by (intro that [of _ b]) (simp_all add: b)
qed

text \<open>
  The poller's segments from there: it asks, it reads the row, and the third one writes the row.
\<close>

lemma sample_build_settles:
  assumes "reachable mem_env (s, [sample_poller])" and "w_ext s = mem_init" and "build_jobs (w_db s) = [b]" and "bj_id b = 1"
    and "bj_status b = Building"
  obtains p p' s' b' where "reachable mem_env (s, [PollThread (PollBuild 1 ''tenant-1'') p])"
    "sys_step mem_env (s, [PollThread (PollBuild 1 ''tenant-1'') p]) (RanPoller (PollBuild 1 ''tenant-1''))
       (s', [PollThread (PollBuild 1 ''tenant-1'') p'])"
    "build_jobs (w_db s') = [b']" "bj_id b' = 1" "bj_status b' = Succeeded" "bj_tenant_id b' = bj_tenant_id b"
    "\<forall>raw. sample_platform raw s \<longrightarrow> sample_platform raw s'"
proof -
  let ?t = "PollBuild 1 ''tenant-1''" and ?r = "BuildReady (Some ''registry@sha256:1'')"
  let ?b = "resolved_build ?r 1000 b"
  let ?commit = "commit_build_job mem_env 1 (resolved_build ?r)"
  let ?send = "\<lambda>now. dispatch_prog mem_env (bj_tenant_id (resolved_build ?r now b)) (build_event (resolved_build ?r now b))
      (build_payload (resolved_build ?r now b))"
  let ?next = "\<lambda>status. if build_pending status then poll_build_prog mem_env 1 ''tenant-1'' (0 + POLL_INTERVAL_SECONDS)
      else resolve_build_prog mem_env 1 status"
  let ?found = "\<lambda>row. case row of None \<Rightarrow> retp () | Some b \<Rightarrow> bindp (atomic ?commit) (\<lambda>now.
      let b' = resolved_build ?r now b in dispatch_prog mem_env (bj_tenant_id b') (build_event b') (build_payload b'))"
  have ok: "schema_ok (w_db s)" using reachable_good [OF assms(1)] by (simp add: goodD)
  have "get_build_status mem_env ''tenant-1'' (image_name 1) s = (Inr ?r, s)"
    using assms(2) by (cases s) (simp add: mem_poll_defs)
  then have "sys_step mem_env (s, [sample_poller]) (RanPoller ?t) (s, [PollThread ?t (resolve_build_prog mem_env 1 ?r)])"
    using poller_segment [of "get_build_status mem_env ''tenant-1'' (image_name 1)" s ?r s mem_env "[]" ?t ?next "[]"]
    by (simp add: sample_poller_def poll_build_prog.simps [of mem_env 1 "''tenant-1''" 0] BUILD_POLL_TIMEOUT_SECONDS_def)
  from reachable.step [OF assms(1) this] have 1: "reachable mem_env (s, [PollThread ?t (resolve_build_prog mem_env 1 ?r)])" .
  have row: "get_build_job_row (w_db s) 1 = Some b" using assms(3,4) by (simp add: get_build_job_row_def)
  then have "sys_step mem_env (s, [PollThread ?t (resolve_build_prog mem_env 1 ?r)]) (RanPoller ?t)
      (s, [PollThread ?t (bindp (atomic ?commit) ?send)])"
    using poller_segment [of "gets (\<lambda>s. get_build_job_row (w_db s) 1)" s "Some b" s mem_env "[]" ?t ?found "[]"]
    by (simp add: resolve_build_prog_def gets_apply Let_def cong: option.case_cong)
  from reachable.step [OF 1 this] have 2: "reachable mem_env (s, [PollThread ?t (bindp (atomic ?commit) ?send)])" .
  have "schema_ok ((w_db s)\<lparr>build_jobs := update_where bj_id 1 (resolved_build ?r 1000) (build_jobs (w_db s))\<rparr>)"
    by (rule schema_ok_edit_build [OF ok])
      (auto dest!: build_row_columns [OF ok] simp: build_job_columns_ok_def fits_def)
  then have "check_pending mem_env (w_db s) ((w_db s)\<lparr>build_jobs := [?b]\<rparr>) = None"
    using assms(3,4) by (simp add: check_pending_None mem_env_commits update_where_def)
  moreover have now: "now_naive mem_env s = (Inr 1000, s\<lparr>w_ext := mem_init\<lparr>m_clock := 1001\<rparr>\<rparr>)"
    using assms(2) by (simp add: now_naive_def external_read_def mem_env_def tick_def mem_init_def)
  ultimately have "?commit s = (Inr 1000, s\<lparr>w_ext := mem_init\<lparr>m_clock := 1001\<rparr>, w_db := (w_db s)\<lparr>build_jobs := [?b]\<rparr>\<rparr>)"
    using commit_build_job_found [OF row now, of "resolved_build ?r"] assms(3,4)
    by (simp add: save_build_job_apply Let_def update_where_def bind_apply ret_apply)
  from poller_segment [where m = ?commit and s = s, OF this, where e = mem_env and as = "[]" and bs = "[]" and t = ?t and f = ?send]
  have 3: "sys_step mem_env (s, [PollThread ?t (bindp (atomic ?commit) ?send)]) (RanPoller ?t)
      (s\<lparr>w_ext := mem_init\<lparr>m_clock := 1001\<rparr>, w_db := (w_db s)\<lparr>build_jobs := [?b]\<rparr>\<rparr>, [PollThread ?t (?send 1000)])"
    by (simp only: append_Nil)
  have "sample_platform raw (s\<lparr>w_ext := mem_init\<lparr>m_clock := 1001\<rparr>, w_db := (w_db s)\<lparr>build_jobs := [?b]\<rparr>\<rparr>)"
    if "sample_platform raw s" for raw
    by (rule sample_platform_kept [OF that, where bs = "[?b]"]) simp_all
  then have "\<forall>raw. sample_platform raw s \<longrightarrow>
      sample_platform raw (s\<lparr>w_ext := mem_init\<lparr>m_clock := 1001\<rparr>, w_db := (w_db s)\<lparr>build_jobs := [?b]\<rparr>\<rparr>)" by blast
  from 2 3 _ _ _ _ this show thesis by (rule that [where b' = ?b]) (simp_all add: assms(4))
qed

text \<open>Then a deployment of that build: its row is stored, whatever the cluster says.\<close>

lemma schema_ok_add_deployment:
  assumes "schema_ok d" and "deployment_columns_ok x" and "dp_id x \<notin> dp_id ` set (deployments d)"
    and "dp_tenant_id x \<in> t_id ` set (tenants d)" and "dp_build_job_id x \<in> bj_id ` set (build_jobs d)"
  shows "schema_ok (d\<lparr>deployments := deployments d @ [x]\<rparr>)"
  using assms by (auto simp: schema_ok_def columns_ok_def constraint_defs)

lemma deployment_submission_stored:
  assumes commits: "\<And>d d'. e_commit_fails e d d' = None"
    and ok: "schema_ok (w_db s)" and ids: "ids_bounded (w_last_id s) (w_db s)"
    and b: "get_build_job_row (w_db s) (dc_build_job_id dd) = Some b" "bj_tenant_id b = tid" "bj_status b = Succeeded"
    and dd: "deployment_create_valid dd" and id: "next_id e Deployments s = (Inr i, s1)" and range: "int32 i"
  shows "\<exists>x s'. snd (create_deployment_service e tid dd s) = s' \<and> w_db s' = (w_db s)\<lparr>deployments := deployments (w_db s) @ [x]\<rparr> \<and>
    dp_id x = i \<and> dp_tenant_id x = tid"
proof -
  obtain ts s2 where now: "db_now e s1 = (Inr ts, s2)" by (rule db_now_returns)
  let ?x = "new_deployment i tid (bj_id b) (dc_replica_count dd) ts"
  let ?new = "(w_db s)\<lparr>deployments := deployments (w_db s) @ [?x]\<rparr>"
  from b(1) have mem: "b \<in> set (build_jobs (w_db s))" by (auto dest: get_build_job_rowD)
  then have t: "tid \<in> t_id ` set (tenants (w_db s))" "int32 (bj_id b)" "int32 (bj_tenant_id b)"
    using ok b(2) by (auto simp: schema_ok_def columns_ok_def constraint_defs build_job_columns_ok_def list_all_iff)
  have new: "schema_ok ?new"
  proof (rule schema_ok_add_deployment [OF ok])
    show "dp_id ?x \<notin> dp_id ` set (deployments (w_db s))"
      using ids next_id_apply [OF id] by (fastforce simp: ids_bounded_def)
    show "deployment_columns_ok ?x"
      using range dd t b(2) by (simp add: deployment_columns_ok_def new_deployment_def TENANT_APP_NAME_def
          deployment_create_valid_def int32_def)
  qed (use t mem in auto)
  then have "check_pending e (w_db s) ?new = None" using commits by (simp add: check_pending_None)
  moreover have "w_db s2 = w_db s" using next_id_apply [OF id] only_extD(1) [OF only_ext_db_now now] by simp
  moreover obtain r s4 where r: "start_deployment e (get_tenant_row (w_db s) tid) b ?x (s2\<lparr>w_db := ?new\<rparr>) = (r, s4)"
    by (cases "start_deployment e (get_tenant_row (w_db s) tid) b ?x (s2\<lparr>w_db := ?new\<rparr>)")
  moreover obtain q s5 where q: "save_deployment e i (if is_ok r then Deploying else DeployFailed) s4 = (q, s5)"
    by (cases "save_deployment e i (if is_ok r then Deploying else DeployFailed) s4")
  ultimately have "snd (create_deployment_service e tid dd s) = s5"
    using b id now by (cases r; cases q) (simp_all add: create_deployment_service_def py_simps commit_apply Let_def)
  moreover have "w_db s4 = ?new" using only_extD(1) [OF only_ext_start_deployment r] by simp
  ultimately show ?thesis
    using save_deployment_outcome [where e = e and i = i and s = s4 and st = "if is_ok r then Deploying else DeployFailed"]
      update_new_deployment [OF new]
    by (cases q) (auto simp: q)
qed

lemma sample_deployment_stored:
  obtains S x where "reachable mem_env S" "deployments (w_db (fst S)) = [x]" "dp_id x = 1" "dp_tenant_id x = 1"
proof -
  let ?dd = "\<lparr>dc_build_job_id = 1, dc_replica_count = 1\<rparr>"
  obtain s0 b0 raw where s0: "reachable mem_env (s0, [sample_poller])" "w_ext s0 = mem_init" "build_jobs (w_db s0) = [b0]"
    "bj_id b0 = 1" "bj_status b0 = Building" "bj_tenant_id b0 = 1" "sample_platform raw s0"
    by (rule sample_build_served)
  obtain p p' s b where s: "reachable mem_env (s0, [PollThread (PollBuild 1 ''tenant-1'') p])"
    "sys_step mem_env (s0, [PollThread (PollBuild 1 ''tenant-1'') p]) (RanPoller (PollBuild 1 ''tenant-1''))
       (s, [PollThread (PollBuild 1 ''tenant-1'') p'])"
    "build_jobs (w_db s) = [b]" "bj_id b = 1" "bj_status b = Succeeded" "bj_tenant_id b = bj_tenant_id b0"
    "\<forall>raw. sample_platform raw s0 \<longrightarrow> sample_platform raw s"
    by (rule sample_build_settles [OF s0(1-5)])
  from s(7) s0(7) have key: "verify_tenant mem_env 1 raw s = (Inr (), s)" and none: "deployments (w_db s) = []"
    and last: "w_last_id s Deployments = 0" by (auto simp: sample_platform_def)
  note reach = reachable.step [OF s(1,2)]
  from reachable_good [OF reach] have ok: "schema_ok (w_db s)" "ids_bounded (w_last_id s) (w_db s)" by (simp_all add: goodD)
  have row: "get_build_job_row (w_db s) (dc_build_job_id ?dd) = Some b" using s(3,4) by (simp add: get_build_job_row_def)
  have id: "next_id mem_env Deployments s = (Inr 1, s\<lparr>w_last_id := (w_last_id s)(Deployments := 1)\<rparr>)"
    using last by (simp add: next_id_def mem_env_def Let_def)
  have bounds: "deployment_create_valid ?dd" "int32 1" by (simp_all add: deployment_create_valid_def int32_def)
  from deployment_submission_stored [OF mem_env_commits ok row _ s(5) bounds(1) id bounds(2), of 1] s(6) s0(6) none
  obtain x where x: "deployments (w_db (snd (create_deployment_service mem_env 1 ?dd s))) = [x]" "dp_id x = 1" "dp_tenant_id x = 1"
    by auto
  have "\<exists>r. serve mem_env (key_headers raw) (CreateDeployment 1 ?dd) s = (r, snd (create_deployment_service mem_env 1 ?dd s))"
    using key bounds
    by (simp add: serve_def py_simps check_guard_def key_headers_def create_deployment_def query_arg_def
        split: prod.split sum.split)
  then obtain r where "serve mem_env (key_headers raw) (CreateDeployment 1 ?dd) s = (r, snd (create_deployment_service mem_env 1 ?dd s))" ..
  from request_answered_alone [OF reach this] show thesis by (rule that [where x = x]) (simp_all add: x)
qed

end
