(* ===== verification/Isolation.thy ===== *)
theory Isolation
  imports Liveness
begin

text \<open>
  The isolation of tenants in the running control plane, at every step and under every interleaving:
  what work for one tenant can change, what a response can show, which part of the cluster it
  reaches, and that a request without the right credentials does nothing at all.
\<close>

section \<open>Credentials\<close>

text \<open>
  What a request has to present, in terms of the stored rows: the administrator's secret, or a key
  that hashes to a live key of the tenant in its path, which is active.
\<close>

fun authorised :: "'w env \<Rightarrow> headers \<Rightarrow> db \<Rightarrow> route_guard \<Rightarrow> bool" where
  "authorised e h d Open \<longleftrightarrow> True"
| "authorised e h d Admin \<longleftrightarrow> x_admin_secret h \<noteq> None \<and> x_admin_secret h = ADMIN_SECRET_KEY (e_cfg e)"
| "authorised e h d (TenantScope i) \<longleftrightarrow>
     (\<exists>raw. x_api_key h = Some raw \<and>
        (\<exists>k \<in> set (api_keys d). \<exists>t \<in> set (tenants d).
           ak_key_hash k = key_hash_of e raw \<and> ak_revoked_at k = None \<and> ak_tenant_id k = i \<and>
           t_id t = i \<and> t_is_active t))"

lemma verify_admin_eq:
  assumes "ADMIN_SECRET_KEY (e_cfg e) = Some a" and "is_ascii a"
  shows "verify_admin e v s =
    (if \<not> is_ascii v then Inl (OtherException ''TypeError: comparing strings with non-ASCII characters is not supported'')
     else if v = a then Inr () else Inl (HTTPException 401 ''Invalid admin secret''), s)"
  using assms by (simp add: verify_admin_def compare_digest_str_def py_simps)

lemma verify_tenant_refuses:
  assumes "constraints_ok (w_db s)" and "API_KEY_SECRET (e_cfg e) \<noteq> None"
    and "fst (verify_tenant e i raw s) \<noteq> Inr ()"
  obtains st m where "verify_tenant e i raw s = (Inl (HTTPException st m), s)" "st \<in> {401, 403}"
proof (cases "live_key (w_db s) (key_hash_of e raw)")
  case None
  then show thesis using that verify_tenant_eq [OF assms(1,2), of i raw] by simp
next
  case (Some k)
  from Some have "k \<in> set (api_keys (w_db s))" by (auto simp: live_key_def dest: find_SomeD)
  with assms(1) have "ak_tenant_id k \<in> t_id ` set (tenants (w_db s))" by (auto simp: constraint_defs)
  then have "ak_tenant_id k = i \<Longrightarrow> get_tenant_row (w_db s) i \<noteq> None"
    by (auto simp: get_tenant_row_def find_None_iff)
  with Some assms(3) that verify_tenant_eq [OF assms(1,2), of i raw] show thesis
    by (auto split: if_splits option.splits)
qed

lemma check_guard_refuses:
  assumes "constraints_ok (w_db s)" and "API_KEY_SECRET (e_cfg e) \<noteq> None"
    and "ADMIN_SECRET_KEY (e_cfg e) = Some a" and "is_ascii a" and "\<not> authorised e h (w_db s) g"
  obtains st m where "check_guard e h g s = (Inl (HTTPException st m), s)" "st \<in> {401, 403, 422}"
  | v m where "g = Admin" "x_admin_secret h = Some v" "\<not> is_ascii v"
      "check_guard e h g s = (Inl (OtherException m), s)"
proof (cases g)
  case Open
  with assms(5) show thesis by simp
next
  case Admin
  show thesis
  proof (cases "x_admin_secret h")
    case None
    with Admin that show thesis by (simp add: check_guard_def py_simps)
  next
    case (Some v)
    with Admin assms(3,5) have "v \<noteq> a" by simp
    with Admin Some that show thesis
      by (cases "is_ascii v") (simp_all add: check_guard_def verify_admin_eq [OF assms(3,4)])
  qed
next
  case (TenantScope i)
  show thesis
  proof (cases "x_api_key h")
    case None
    with TenantScope that show thesis by (simp add: check_guard_def py_simps)
  next
    case (Some raw)
    with assms(5) TenantScope have "fst (verify_tenant e i raw s) \<noteq> Inr ()"
      using verify_tenant_accepts [OF assms(1,2)] by simp
    from verify_tenant_refuses [OF assms(1,2) this] Some TenantScope that show thesis
      by (auto simp: check_guard_def)
  qed
qed

text \<open>
  C3: A request without the credentials its route asks for has no effect: whenever its program starts
  from a reachable state, its one segment answers 401, 403 or 422 (500 when the administrator's
  header is not ASCII), leaves the whole state as it was, outside world included, and starts no
  background task.
\<close>

theorem unauthorised_request_no_effect:
  assumes "reachable e (s, ts)" and "API_KEY_SECRET (e_cfg e) \<noteq> None"
    and "ADMIN_SECRET_KEY (e_cfg e) = Some a" and "is_ascii a"
    and "\<not> authorised e h (w_db s) (guard_of req)"
  shows "\<exists>m r. serve_prog e h req = Seg m \<and> m s = (Done (Inr r), s) \<and> rs_tasks r = [] \<and>
    (if guard_of req = Admin \<and> (\<exists>v. x_admin_secret h = Some v \<and> \<not> is_ascii v) then rs_status r = 500
     else rs_status r \<in> {401, 403, 422})"
proof -
  have "constraints_ok (w_db s)" using reachable_good [OF assms(1)] by (simp add: goodD)
  from this assms(2-5) show ?thesis
  proof (cases rule: check_guard_refuses)
    case (1 st m)
    have "\<not> (guard_of req = Admin \<and> (\<exists>v. x_admin_secret h = Some v \<and> \<not> is_ascii v))"
      using 1(1) by (auto simp: check_guard_def verify_admin_eq [OF assms(3,4)] split: if_splits)
    with 1 show ?thesis by (auto simp: serve_prog_Seg error_response_def answer_def)
  next
    case (2 v m)
    then show ?thesis by (auto simp: serve_prog_Seg error_response_def answer_def)
  qed
qed

theorem unauthorised_request_no_effect_witness:
  "\<exists>m r. serve_prog mem_env admin_headers (GetAllBuildJobs 1 None 0) = Seg m \<and>
     m (mem_world empty_db) = (Done (Inr r), mem_world empty_db) \<and> rs_tasks r = [] \<and> rs_status r \<in> {401, 403, 422}"
proof -
  have "API_KEY_SECRET (e_cfg mem_env) \<noteq> None" by simp
  moreover have "ADMIN_SECRET_KEY (e_cfg mem_env) = Some ''a''" "is_ascii ''a''"
    by (simp_all add: mem_env_def mem_cfg_def is_ascii_def)
  moreover have "\<not> authorised mem_env admin_headers (w_db (mem_world empty_db)) (guard_of (GetAllBuildJobs 1 None 0))"
    by (simp add: admin_headers_def)
  ultimately show ?thesis
    using unauthorised_request_no_effect [OF reachable.init [OF sample_initial]] by fastforce
qed

section \<open>Work for a tenant\<close>

text \<open>The steps that do work for one tenant: segments of its requests and of its pollers.\<close>

fun works_for :: "event \<Rightarrow> int \<Rightarrow> bool" where
  "works_for (RanRequest h req) t \<longleftrightarrow> guard_of req = TenantScope t"
| "works_for (RanPoller k) t \<longleftrightarrow> task_namespace k = namespace_of t"
| "works_for _ t \<longleftrightarrow> False"

lemma works_for_acts:
  assumes "reachable e (s, ts)" and "sys_step e (s, ts) ev (s', ts')" and "works_for ev t"
  obtains who where "world_step who s s'" "actor_tenant who = Some t"
    "\<And>I. confined e (namespace_of t) I \<Longrightarrow> local_calls_keep e I \<Longrightarrow> (\<And>k. ev = RanPoller k \<Longrightarrow> posts_keep e I) \<Longrightarrow>
       I (w_ext s) \<Longrightarrow> I (w_ext s')"
proof -
  from sys_step_ok [OF assms(2) reachable_sys_inv [OF assms(1)]] obtain who where
    who: "world_step who s s'" "event_acts e ev who s s'" by auto
  with assms(3) show thesis
    by (cases ev) (auto intro!: that [of who] simp: may_act_as_def may_reach_def for_tenant_def namespace_of_def
        reach_def reach_posting_def)
qed

text \<open>
  C4: Work for one tenant, a segment of any of its requests, accepted or not, or of a poller in its
  namespace, leaves everything another tenant owns exactly as it was: its row, keys, builds,
  deployments, webhooks and the record of its deliveries.
\<close>

theorem tenant_request_isolated:
  assumes "reachable e (s, ts)" and "sys_step e (s, ts) ev (s', ts')" and "works_for ev t" and "j \<noteq> t"
  shows "tenant_data (w_db s') j = tenant_data (w_db s) j \<and>
    filter (\<lambda>w. wd_tenant_id w = j) (webhook_deliveries (w_db s')) =
    filter (\<lambda>w. wd_tenant_id w = j) (webhook_deliveries (w_db s))"
proof -
  obtain who where "world_step who s s'" "actor_tenant who = Some t" by (rule works_for_acts [OF assms(1-3)])
  moreover have "constraints_ok (w_db s)" using reachable_good [OF assms(1)] by (simp add: goodD)
  ultimately show ?thesis using db_step_isolated assms(4) by (auto simp: world_step_def)
qed

theorem tenant_request_isolated_witness:
  "\<exists>S s' ts' b'. reachable mem_env S \<and> sys_step mem_env S (RanPoller (PollBuild 1 ''tenant-1'')) (s', ts') \<and>
     build_jobs (w_db s') = [b'] \<and> bj_status b' = Succeeded \<and> build_jobs (w_db (fst S)) \<noteq> [b'] \<and>
     tenant_data (w_db s') 2 = tenant_data (w_db (fst S)) 2"
proof -
  obtain s b where s: "reachable mem_env (s, [sample_poller])" "w_ext s = mem_init"
    "build_jobs (w_db s) = [b]" "bj_id b = 1" "bj_status b = Building"
    by (rule sample_build_served)
  obtain p p' s' b' where run: "reachable mem_env (s, [PollThread (PollBuild 1 ''tenant-1'') p])"
    "sys_step mem_env (s, [PollThread (PollBuild 1 ''tenant-1'') p]) (RanPoller (PollBuild 1 ''tenant-1''))
       (s', [PollThread (PollBuild 1 ''tenant-1'') p'])"
    "build_jobs (w_db s') = [b']" "bj_id b' = 1" "bj_status b' = Succeeded"
    by (rule sample_build_settles [OF s])
  from tenant_request_isolated [OF run(1,2), of 1 2] run s(3,5) show ?thesis by (force simp: sample_namespace)
qed

section \<open>What a response shows\<close>

text \<open>
  C6: Whatever a tenant's request is answered, with whatever credentials and whatever ran beside it,
  the rows in the response are rows of the tenant in its path: no response to one tenant shows a
  key, build, deployment or webhook of another.
\<close>

theorem response_shows_own_rows:
  assumes "reachable e S" and "sys_step e S (Responded h req r) S'" and "guard_of req = TenantScope t"
  shows "body_tenants (rs_body r) \<subseteq> {t}"
  using assms(2)
proof (cases rule: sys_step.cases)
  case (respond s as bs)
  with reachable_sys_inv [OF assms(1)] have "sys_inv e {} (s, as @ ReqThread h req (Done (Inr r)) # bs)" by simp
  then obtain R where "thread_ok e s (ReqThread h req (Done (Inr r))) R" by (rule sys_inv_split)
  with assms(3) show ?thesis by (auto simp: thread_ok_def answered_def answers_def shows_only_def)
qed

theorem response_shows_own_rows_witness:
  "\<exists>S h r S' b. reachable mem_env S \<and> sys_step mem_env S (Responded h (CreateBuildJob 1 sample_body) r) S' \<and>
     rs_body r = BuildJobBody b \<and> bj_tenant_id b = 1"
proof -
  obtain s raw r s' b where s: "reachable mem_env (s, [])"
    "serve mem_env (key_headers raw) (CreateBuildJob 1 sample_body) s = (r, s')" and b: "rs_body r = BuildJobBody b"
    by (rule sample_build_submitted)
  let ?th = "ReqThread (key_headers raw) (CreateBuildJob 1 sample_body) (Done (Inr r))"
  from request_answered_alone [OF s] have reach: "reachable mem_env (s', [] @ ?th # [])" by simp
  have "bj_tenant_id b = 1" using response_shows_own_rows [OF reach sys_step.respond, of 1] b by simp
  with reach b show ?thesis by (blast intro: sys_step.respond)
qed

section \<open>Which part of the cluster a tenant's work reaches\<close>

text \<open>
  C5: Work for a tenant reaches the cluster in the tenant's own namespace only: any fact about the
  outside world that calls into that namespace preserve (and clocks, randomness, the DNS lookup, the
  reading of local configuration and, for a poller, the posts to callbacks) is preserved by every
  segment of a request or poller for that tenant, from any reachable state. In particular none of it
  touches a cluster object of another tenant.
\<close>

theorem tenant_request_confined:
  assumes "reachable e (s, ts)" and "sys_step e (s, ts) ev (s', ts')" and "works_for ev t"
    and "confined e (namespace_of t) I" and "local_calls_keep e I"
    and "\<And>k. ev = RanPoller k \<Longrightarrow> posts_keep e I" and "I (w_ext s)"
  shows "I (w_ext s')"
  by (rule works_for_acts [OF assms(1-3)]) (use assms(4-7) in blast)

theorem tenant_request_confined_witness:
  "\<exists>s s' ts'. reachable mem_env (s, [sample_poller]) \<and>
     sys_step mem_env (s, [sample_poller]) (RanPoller (PollBuild 1 ''tenant-1'')) (s', ts') \<and> mem_only (namespace_of 1) (w_ext s')"
proof -
  obtain s b where s: "reachable mem_env (s, [sample_poller])" "w_ext s = mem_init" by (rule sample_build_served)
  obtain m where m: "poll_build_prog mem_env 1 ''tenant-1'' 0 = Seg m"
    using task_prog_Seg [of mem_env "PollBuild 1 ''tenant-1''"] by auto
  obtain k s' where k: "m s = (k, s')" by (cases "m s")
  from sys_step.run_poller [where m = m and s = s, OF k, of mem_env "[]" _ "[]"] m
  have step: "sys_step mem_env (s, [sample_poller]) (RanPoller (PollBuild 1 ''tenant-1'')) (s', [PollThread (PollBuild 1 ''tenant-1'') k])"
    by (simp add: sample_poller_def)
  have "local_calls_keep mem_env (mem_only (namespace_of 1))" "posts_keep mem_env (mem_only (namespace_of 1))"
    by (simp_all add: local_calls_keep_def posts_keep_def keeps_def mem_env_def mem_only_def tick_def mem_byte_def)
  moreover have "mem_only (namespace_of 1) (w_ext s)" by (simp add: s(2) mem_only_def mem_init_def)
  ultimately have "mem_only (namespace_of 1) (w_ext s')"
    using tenant_request_confined [OF s(1) step _ confined_mem_env, of 1] by (simp add: sample_namespace)
  with s(1) step show ?thesis by blast
qed

end
