(* ===== verification/SystemProperties.thy ===== *)
theory SystemProperties
  imports Isolation
begin

text \<open>
  The properties of the running control plane, under every interleaving of its threads: what holds in
  every reachable state, what one step may change, and what becomes of the work a restart interrupts.
\<close>

section \<open>Every reachable state\<close>

text \<open>
  C1: In every state the control plane reaches, from an empty database and under any interleaving of
  requests, pollers, restarts and outside events, the declared schema holds; every tenant's namespace
  is the one derived from its identifier; every deployment comes from a succeeded build of its own
  tenant; and every delivery was sent to a registration of its own tenant.
\<close>

theorem reachable_invariant:
  assumes "reachable e (s, ts)"
  shows "schema_ok (w_db s) \<and> namespaces_derived (w_db s) \<and> deployments_own_builds (w_db s) \<and>
         deliveries_own (w_db s)"
  using reachable_good [OF assms] by (simp add: good_def db_inv_def)

theorem reachable_invariant_witness:
  "\<exists>s t. reachable mem_env (s, []) \<and> t \<in> set (tenants (w_db s)) \<and> schema_ok (w_db s) \<and>
     t_k8s_namespace t = namespace_of (t_id t)"
  using sample_reachable reachable_invariant unfolding namespaces_derived_def by blast

text \<open>
  C20: In every reachable state no two pollers follow the same build or deployment; the row a poller
  follows, while it exists, has left its first status; and the poller asks in the namespace of the
  tenant the row belongs to, for the tenant's one Kubernetes deployment.
\<close>

theorem pollers_follow_their_rows:
  assumes "reachable e (s, ts)"
  shows "distinct (poller_rows ts) \<and>
    (\<forall>i ns p b. PollThread (PollBuild i ns) p \<in> set ts \<and> b \<in> set (build_jobs (w_db s)) \<and> bj_id b = i \<longrightarrow>
       bj_status b \<noteq> Queued \<and> ns = namespace_of (bj_tenant_id b)) \<and>
    (\<forall>i ns name p x. PollThread (PollDeployment i ns name) p \<in> set ts \<and> x \<in> set (deployments (w_db s)) \<and> dp_id x = i \<longrightarrow>
       dp_status x \<noteq> Pending \<and> ns = namespace_of (dp_tenant_id x) \<and> name = TENANT_APP_NAME)"
proof -
  from reachable_sys_inv [OF assms] obtain Rs where Rs: "list_all2 (thread_ok e s) ts Rs" "apart Rs"
    by (auto simp: sys_inv_def)
  have follows: "\<exists>t. holds (follows t k) s" if th: "PollThread k p \<in> set ts" for k p
  proof -
    from th Rs(1) obtain R where "thread_ok e s (PollThread k p) R" by (metis in_set_conv_nth list_all2_conv_all_nth)
    then show ?thesis by (auto simp: thread_ok_def)
  qed
  have "bj_status b \<noteq> Queued \<and> ns = namespace_of (bj_tenant_id b)"
    if "PollThread (PollBuild i ns) p \<in> set ts" "b \<in> set (build_jobs (w_db s))" "bj_id b = i" for i ns p b
    using follows [OF that(1)] that(2,3) by (auto simp: build_claim_def)
  moreover have "dp_status x \<noteq> Pending \<and> ns = namespace_of (dp_tenant_id x) \<and> name = TENANT_APP_NAME"
    if "PollThread (PollDeployment i ns name) p \<in> set ts" "x \<in> set (deployments (w_db s))" "dp_id x = i" for i ns name p x
    using follows [OF that(1)] that(2,3) by (auto simp: deployment_claim_def)
  ultimately show ?thesis using poller_rows_distinct [OF Rs] by blast
qed

theorem pollers_follow_their_rows_witness:
  "\<exists>s b. reachable mem_env (s, [sample_poller]) \<and> b \<in> set (build_jobs (w_db s)) \<and> bj_id b = 1 \<and>
     bj_status b \<noteq> Queued \<and> ''tenant-1'' = namespace_of (bj_tenant_id b)"
proof -
  obtain s b where s: "reachable mem_env (s, [sample_poller])" "build_jobs (w_db s) = [b]" "bj_id b = 1"
    by (rule sample_build_served)
  from pollers_follow_their_rows [OF s(1)] s show ?thesis
    by (intro exI [of _ s] exI [of _ b]) (simp add: sample_poller_def)
qed

section \<open>Every step\<close>

text \<open>
  C2: The control plane implements the abstract life cycle: every step from a reachable state makes
  at most one transition of the abstract specification on the database and identifiers never go back.
  A segment of a request acts for the tenant in its path, or as the administrator; a segment of a
  poller acts for the tenant whose namespace it polls.
\<close>

theorem system_refines_lifecycle:
  assumes "reachable e S" and "sys_step e S ev S'"
  shows "\<exists>who. db_step (w_last_id (fst S)) (w_last_id (fst S')) who (w_db (fst S)) (w_db (fst S')) \<and>
     w_last_id (fst S) \<le> w_last_id (fst S') \<and>
     (\<forall>h req. ev = RanRequest h req \<longrightarrow>
        (case guard_of req of TenantScope t \<Rightarrow> actor_tenant who = Some t | _ \<Rightarrow> who = ByAdmin)) \<and>
     (\<forall>k. ev = RanPoller k \<longrightarrow> (\<exists>t. task_namespace k = namespace_of t \<and> actor_tenant who = Some t))"
proof -
  from sys_step_ok [OF assms(2) reachable_sys_inv [OF assms(1)]] obtain who where
    "world_step who (fst S) (fst S')" "event_acts e ev who (fst S) (fst S')" by blast
  then show ?thesis
    by (intro exI [of _ who]) (auto simp: world_step_def may_act_as_def for_tenant_def split: route_guard.split)
qed

theorem system_refines_lifecycle_witness:
  "\<exists>S s' ts' b' t. sys_step mem_env S (RanPoller (PollBuild 1 ''tenant-1'')) (s', ts') \<and>
     build_jobs (w_db s') = [b'] \<and> bj_status b' = Succeeded \<and> build_jobs (w_db (fst S)) \<noteq> [b'] \<and>
     (\<exists>who. actor_tenant who = Some t \<and> db_step (w_last_id (fst S)) (w_last_id s') who (w_db (fst S)) (w_db s'))"
proof -
  obtain s b where s: "reachable mem_env (s, [sample_poller])" "w_ext s = mem_init"
    "build_jobs (w_db s) = [b]" "bj_id b = 1" "bj_status b = Building"
    by (rule sample_build_served)
  obtain p p' s' b' where run: "reachable mem_env (s, [PollThread (PollBuild 1 ''tenant-1'') p])"
    "sys_step mem_env (s, [PollThread (PollBuild 1 ''tenant-1'') p]) (RanPoller (PollBuild 1 ''tenant-1''))
       (s', [PollThread (PollBuild 1 ''tenant-1'') p'])"
    "build_jobs (w_db s') = [b']" "bj_id b' = 1" "bj_status b' = Succeeded"
    by (rule sample_build_settles [OF s])
  from system_refines_lifecycle [OF run(1,2)] run(2,3,5) s(3,5) show ?thesis by force
qed

text \<open>A row changed by a step was moved by whoever is in charge of it, in work for its tenant.\<close>

lemma step_moves:
  assumes "reachable e (s, ts)" and "sys_step e (s, ts) ev (s', ts')"
    and moved: "\<And>who. db_step (w_last_id s) (w_last_id s') who (w_db s) (w_db s') \<Longrightarrow>
      actor_tenant who = Some t \<and> actor_row who = Some r \<and> P"
    and quiet: "w_db s' \<noteq> w_db s"
  shows "P \<and> works_for ev t \<and> (\<forall>k p. PollThread k p \<in> set ts \<and> task_row k = r \<longrightarrow> ev = RanPoller k)"
proof -
  note inv = reachable_sys_inv [OF assms(1)]
  from sys_step_ok [OF assms(2) inv] obtain who where who: "world_step who s s'" "event_acts e ev who s s'" by auto
  from who(1) moved [of who] have w: "actor_tenant who = Some t" "actor_row who = Some r" P by (simp_all add: world_step_def)
  have "works_for ev t"
  proof (cases ev)
    case (RanRequest h req)
    with who(2) w(1) show ?thesis by (auto simp: may_act_as_def for_tenant_def split: route_guard.splits)
  next
    case (RanPoller k)
    with who(2) w(1) show ?thesis by (auto simp: for_tenant_def)
  qed (use quiet_event [OF assms(2)] quiet in auto)
  moreover have "ev = RanPoller k" if "PollThread k p \<in> set ts" "task_row k = r" for k p
    using poller_row_kept [OF inv assms(2) that(1)] that(2) moved by (auto simp: world_step_def)
  ultimately show ?thesis using w(3) by blast
qed

text \<open>
  C12: The life of a build: from a reachable state, no step changes a build row except one that
  starts a queued build (or fails it at once), or takes a build under way to its end. Only work for
  the build's own tenant does that, and while a poller follows the build only that poller. A finished
  build never changes again.
\<close>

theorem build_status_lifecycle:
  assumes "reachable e (s, ts)" and "sys_step e (s, ts) ev (s', ts')"
    and "b \<in> set (build_jobs (w_db s))" and "b' \<in> set (build_jobs (w_db s'))" and "bj_id b' = bj_id b"
  shows "b' = b \<or>
    build_moves (bj_status b) (bj_status b') \<and> works_for ev (bj_tenant_id b) \<and>
    (\<forall>k p. PollThread k p \<in> set ts \<and> task_row k = BuildRow (bj_id b) \<longrightarrow> ev = RanPoller k)"
proof (cases "b' = b")
  case False
  have inv: "db_inv (w_last_id s) (w_db s)" using reachable_good [OF assms(1)] by (simp add: good_def)
  then have "build_jobs_ok (w_db s)" by (simp add: db_inv_def constraints_ok_def)
  with False assms(3-5) have "w_db s' \<noteq> w_db s" using same_build by metis
  from step_moves [OF assms(1,2) _ this] db_step_build_status [OF _ inv assms(3-5) False] show ?thesis by fastforce
qed simp

theorem build_status_lifecycle_witness:
  "\<exists>s ts s' ts' b b'. reachable mem_env (s, ts) \<and> sys_step mem_env (s, ts) (RanPoller (PollBuild 1 ''tenant-1'')) (s', ts') \<and>
     b \<in> set (build_jobs (w_db s)) \<and> b' \<in> set (build_jobs (w_db s')) \<and> bj_status b = Building \<and> bj_status b' = Succeeded \<and>
     build_moves (bj_status b) (bj_status b') \<and> works_for (RanPoller (PollBuild 1 ''tenant-1'')) (bj_tenant_id b)"
proof -
  obtain s b where s: "reachable mem_env (s, [sample_poller])" "w_ext s = mem_init"
    "build_jobs (w_db s) = [b]" "bj_id b = 1" "bj_status b = Building"
    by (rule sample_build_served)
  obtain p p' s' b' where run: "reachable mem_env (s, [PollThread (PollBuild 1 ''tenant-1'') p])"
    "sys_step mem_env (s, [PollThread (PollBuild 1 ''tenant-1'') p]) (RanPoller (PollBuild 1 ''tenant-1''))
       (s', [PollThread (PollBuild 1 ''tenant-1'') p'])"
    "build_jobs (w_db s') = [b']" "bj_id b' = 1" "bj_status b' = Succeeded"
    by (rule sample_build_settles [OF s])
  have mem: "b \<in> set (build_jobs (w_db s))" "b' \<in> set (build_jobs (w_db s'))" "bj_id b' = bj_id b" using s run by simp_all
  from build_status_lifecycle [OF run(1,2) mem] run(1,2,5) s(5) mem show ?thesis by fastforce
qed

text \<open>
  C13: The life of a deployment: from a reachable state, no step changes a deployment row except one
  that starts a pending rollout (or fails it at once), or takes one under way to running or failed.
  Only work for the deployment's own tenant does that, and while a poller follows it only that poller.
\<close>

theorem deployment_status_lifecycle:
  assumes "reachable e (s, ts)" and "sys_step e (s, ts) ev (s', ts')"
    and "x \<in> set (deployments (w_db s))" and "x' \<in> set (deployments (w_db s'))" and "dp_id x' = dp_id x"
  shows "x' = x \<or>
    deployment_moves (dp_status x) (dp_status x') \<and> works_for ev (dp_tenant_id x) \<and>
    (\<forall>k p. PollThread k p \<in> set ts \<and> task_row k = DeploymentRow (dp_id x) \<longrightarrow> ev = RanPoller k)"
proof (cases "x' = x")
  case False
  have inv: "db_inv (w_last_id s) (w_db s)" using reachable_good [OF assms(1)] by (simp add: good_def)
  then have "distinct (map dp_id (deployments (w_db s)))" by (simp add: db_inv_def constraint_defs)
  with False assms(3-5) have "w_db s' \<noteq> w_db s" using distinct_map_the_one by metis
  from step_moves [OF assms(1,2) _ this] db_step_deployment_status [OF _ inv assms(3-5) False] show ?thesis by fastforce
qed simp

theorem deployment_status_lifecycle_witness:
  "\<exists>S S' x x'. reachable mem_env S \<and> sys_step mem_env S Restarted S' \<and> x \<in> set (deployments (w_db (fst S))) \<and>
     x' \<in> set (deployments (w_db (fst S'))) \<and> x' = x"
proof -
  obtain S x where S: "reachable mem_env S" "deployments (w_db (fst S)) = [x]" by (rule sample_deployment_stored)
  obtain s ts where s: "S = (s, ts)" by (cases S)
  have "x' = x" if "x' \<in> set (deployments (w_db (s\<lparr>w_configured := False\<rparr>)))" "dp_id x' = dp_id x" for x'
    using deployment_status_lifecycle [OF S(1) [unfolded s] sys_step.restart _ that(1), of x] that(2) S(2) s by auto
  with S s sys_step.restart [of mem_env s ts] show ?thesis by fastforce
qed

section \<open>Requests left alone\<close>

text \<open>
  What ties the properties of the sequential services to the running system: from a reachable state,
  the segments of a request nothing interferes with give the response and the state that \<open>serve\<close>
  gives in one go, and its background tasks are started.
\<close>

lemma uninterrupted_request_served:
  assumes "reachable e (s, ts)" and "serve e h req s = (r, s')"
  shows "run (serve_prog e h req) s = (Inr r, s') \<and>
    steps e (s, ts @ [ReqThread h req (serve_prog e h req)]) (s', ts @ map (\<lambda>k. PollThread k (task_prog e k)) (rs_tasks r))"
proof -
  have "schema_ok (w_db s)" using reachable_good [OF assms(1)] by (simp add: good_def)
  from run_serve_prog [OF this, of e h req] assms(2) have run: "run (serve_prog e h req) s = (Inr r, s')" by simp
  have "steps e (s', ts @ [ReqThread h req (Done (Inr r))]) (s', ts @ map (\<lambda>k. PollThread k (task_prog e k)) (rs_tasks r))"
    using steps_step [OF sys_step.respond [of e s' ts h req r "[]"]] by simp
  with run steps_trans [OF this request_runs [OF run, of e ts h req "[]"]] show ?thesis by simp
qed

section \<open>Restarts\<close>

text \<open>
  C14: Work a restart interrupts is never finished: builds and deployments that exist when the
  process restarts, those under way included, keep their rows unchanged for as long as they exist,
  whatever is run afterwards. Their pollers lived in the process and nothing starts them again.
\<close>

theorem interrupted_work_never_finished:
  assumes "reachable e S" and "sys_step e S Restarted S0" and "steps e S0 S'"
  shows "(\<forall>b \<in> set (build_jobs (w_db (fst S))). \<forall>b' \<in> set (build_jobs (w_db (fst S'))). bj_id b' = bj_id b \<longrightarrow> b' = b) \<and>
    (\<forall>x \<in> set (deployments (w_db (fst S))). \<forall>x' \<in> set (deployments (w_db (fst S'))). dp_id x' = dp_id x \<longrightarrow> x' = x)"
proof -
  have inv: "db_inv (w_last_id (fst S)) (w_db (fst S))"
    using reachable_sys_inv [OF assms(1)] by (simp add: sys_inv_def good_def)
  have same: "w_db (fst S0) = w_db (fst S)" "w_last_id (fst S0) = w_last_id (fst S)"
    using assms(2) by (cases rule: sys_step.cases; simp)+
  note keep = steps_keep [OF assms(3) restarted_sys_inv [OF reachable_sys_inv [OF assms(1)] assms(2)]]
  have "b' = b" if "b \<in> set (build_jobs (w_db (fst S)))" "b' \<in> set (build_jobs (w_db (fst S')))" "bj_id b' = bj_id b" for b b'
  proof -
    have "stable_claim (Some (BuildRow (bj_id b))) (build_claim (bj_id b) (\<lambda>b'. b' = b))" by (rule stable_build) simp
    moreover have "build_claim (bj_id b) (\<lambda>b'. b' = b) (w_last_id (fst S)) (w_db (fst S))"
      using inv that(1) same_build by (auto simp: build_claim_def db_inv_def ids_bounded_def constraints_ok_def)
    ultimately show ?thesis
      using keep [of "BuildRow (bj_id b)" "build_claim (bj_id b) (\<lambda>b'. b' = b)"] same that(2,3) by (auto simp: build_claim_def)
  qed
  moreover have "x' = x" if "x \<in> set (deployments (w_db (fst S)))" "x' \<in> set (deployments (w_db (fst S')))" "dp_id x' = dp_id x" for x x'
  proof -
    have "stable_claim (Some (DeploymentRow (dp_id x))) (deployment_claim (dp_id x) (\<lambda>x'. x' = x))"
      by (rule stable_deployment) simp
    moreover have "deployment_claim (dp_id x) (\<lambda>x'. x' = x) (w_last_id (fst S)) (w_db (fst S))"
      using inv that(1) distinct_map_the_one [of dp_id "deployments (w_db (fst S))"]
      by (auto simp: deployment_claim_def db_inv_def ids_bounded_def constraint_defs)
    ultimately show ?thesis
      using keep [of "DeploymentRow (dp_id x)" "deployment_claim (dp_id x) (\<lambda>x'. x' = x)"] same that(2,3)
      by (auto simp: deployment_claim_def)
  qed
  ultimately show ?thesis by blast
qed

theorem interrupted_work_never_finished_witness:
  "\<exists>S S0 S' b. reachable mem_env S \<and> b \<in> set (build_jobs (w_db (fst S))) \<and> bj_status b = Building \<and>
     sys_step mem_env S Restarted S0 \<and> steps mem_env S0 S' \<and> snd S' \<noteq> [] \<and>
     (\<forall>b' \<in> set (build_jobs (w_db (fst S'))). bj_id b' = bj_id b \<longrightarrow> b' = b)"
proof -
  obtain s b where s: "reachable mem_env (s, [sample_poller])" "build_jobs (w_db s) = [b]" "bj_status b = Building"
    by (rule sample_build_served)
  let ?S0 = "(s\<lparr>w_configured := False\<rparr>, [])" and ?th = "ReqThread admin_headers GetAllTenants (serve_prog mem_env admin_headers GetAllTenants)"
  have restart: "sys_step mem_env (s, [sample_poller]) Restarted ?S0" by (rule sys_step.restart)
  have later: "steps mem_env ?S0 (s\<lparr>w_configured := False\<rparr>, [?th])"
    using steps_step [OF sys_step.arrive [of mem_env _ "[]"]] by simp
  from interrupted_work_never_finished [OF s(1) restart later] s(1,3) restart later show ?thesis
    by (intro exI [of _ "(s, [sample_poller])"] exI [of _ ?S0] exI [of _ "(s\<lparr>w_configured := False\<rparr>, [?th])"] exI [of _ b])
      (simp add: s(2))
qed

end
