(* ===== verification/ResponseTypes.thy ===== *)
theory ResponseTypes
  imports Liveness
begin

text \<open>
  The status code and response model each route declares in its decorator, and that every response
  the running application sends has them, or is an error document.
\<close>

section \<open>What the routes declare\<close>

datatype response_model =
    JsonObject | PlainText | NoContent
  | TenantResponse | TenantResponses | TenantCreatedResponse
  | APIKeyResponse | APIKeyResponses | APIKeyCreatedResponse
  | BuildJobResponse | BuildJobResponses
  | DeploymentResponse | DeploymentResponses
  | WebhookRegistrationResponses | WebhookRegistrationCreatedResponse

fun main_routes :: "request \<Rightarrow> (int \<times> response_model) option" where
  "main_routes GetRoot = Some (200, JsonObject)"
| "main_routes GetHealth = Some (200, JsonObject)"
| "main_routes _ = None"

fun tenants_routes :: "request \<Rightarrow> (int \<times> response_model) option" where
  "tenants_routes (CreateTenant _) = Some (201, TenantCreatedResponse)"
| "tenants_routes (GetTenant _) = Some (200, TenantResponse)"
| "tenants_routes GetAllTenants = Some (200, TenantResponses)"
| "tenants_routes (DeleteTenant _) = Some (204, NoContent)"
| "tenants_routes (UpdateTenant _ _) = Some (200, TenantResponse)"
| "tenants_routes _ = None"

fun api_keys_routes :: "request \<Rightarrow> (int \<times> response_model) option" where
  "api_keys_routes (CreateApiKey _ _) = Some (201, APIKeyCreatedResponse)"
| "api_keys_routes (GetApiKey _ _) = Some (200, APIKeyResponse)"
| "api_keys_routes (GetAllApiKeys _) = Some (200, APIKeyResponses)"
| "api_keys_routes (RevokeApiKey _ _) = Some (200, APIKeyResponse)"
| "api_keys_routes _ = None"

fun build_jobs_routes :: "request \<Rightarrow> (int \<times> response_model) option" where
  "build_jobs_routes (CreateBuildJob _ _) = Some (201, BuildJobResponse)"
| "build_jobs_routes (GetBuildJob _ _) = Some (200, BuildJobResponse)"
| "build_jobs_routes (GetAllBuildJobs _ _ _) = Some (200, BuildJobResponses)"
| "build_jobs_routes _ = None"

fun deployments_routes :: "request \<Rightarrow> (int \<times> response_model) option" where
  "deployments_routes (CreateDeployment _ _) = Some (201, DeploymentResponse)"
| "deployments_routes (GetDeployment _ _) = Some (200, DeploymentResponse)"
| "deployments_routes (GetAllDeployments _ _ _) = Some (200, DeploymentResponses)"
| "deployments_routes _ = None"

fun webhook_registrations_routes :: "request \<Rightarrow> (int \<times> response_model) option" where
  "webhook_registrations_routes (CreateWebhookRegistration _ _) = Some (201, WebhookRegistrationCreatedResponse)"
| "webhook_registrations_routes (GetAllWebhookRegistrations _) = Some (200, WebhookRegistrationResponses)"
| "webhook_registrations_routes _ = None"

fun kubeconfig_routes :: "request \<Rightarrow> (int \<times> response_model) option" where
  "kubeconfig_routes (GetKubeconfig _) = Some (200, PlainText)"
| "kubeconfig_routes _ = None"

text \<open>The routers the application includes.\<close>

definition app_routes :: "(request \<Rightarrow> (int \<times> response_model) option) list" where
  "app_routes = [main_routes, tenants_routes, api_keys_routes, build_jobs_routes, deployments_routes,
     webhook_registrations_routes, kubeconfig_routes]"

definition declared_response :: "request \<Rightarrow> (int \<times> response_model) option" where
  "declared_response req = (case List.map_filter (\<lambda>router. router req) app_routes of [] \<Rightarrow> None | d # _ \<Rightarrow> Some d)"

fun body_model :: "body \<Rightarrow> response_model option" where
  "body_model NoBody = Some NoContent"
| "body_model (Detail _) = None"
| "body_model (JsonBody _) = Some JsonObject"
| "body_model (TextBody _) = Some PlainText"
| "body_model (TenantBody _) = Some TenantResponse"
| "body_model (TenantsBody _) = Some TenantResponses"
| "body_model (TenantCreatedBody _ _) = Some TenantCreatedResponse"
| "body_model (ApiKeyBody _) = Some APIKeyResponse"
| "body_model (ApiKeysBody _) = Some APIKeyResponses"
| "body_model (ApiKeyCreatedBody _ _) = Some APIKeyCreatedResponse"
| "body_model (BuildJobBody _) = Some BuildJobResponse"
| "body_model (BuildJobsBody _) = Some BuildJobResponses"
| "body_model (DeploymentBody _) = Some DeploymentResponse"
| "body_model (DeploymentsBody _) = Some DeploymentResponses"
| "body_model (WebhookRegistrationsBody _) = Some WebhookRegistrationResponses"
| "body_model (WebhookRegistrationCreatedBody _ _) = Some WebhookRegistrationCreatedResponse"

text \<open>Exactly one router knows each request.\<close>

lemma one_route: "\<exists>d. List.map_filter (\<lambda>router. router req) app_routes = [d] \<and> declared_response req = Some d"
  by (cases req) (simp_all add: declared_response_def app_routes_def map_filter_simps)

definition as_declared :: "request \<Rightarrow> response \<Rightarrow> bool" where
  "as_declared req r \<longleftrightarrow> (case declared_response req of None \<Rightarrow> False | Some (st, m) \<Rightarrow> rs_status r = st \<and> body_model (rs_body r) = Some m)"

section \<open>What the programs end with\<close>

inductive leaves :: "(exn + 'a \<Rightarrow> bool) \<Rightarrow> ('s, 'a) prog \<Rightarrow> bool" for Q where
  Done: "Q r \<Longrightarrow> leaves Q (Done r)"
| Seg: "(\<And>s. leaves Q (fst (m s))) \<Longrightarrow> leaves Q (Seg m)"

inductive_simps leaves_Done [simp]: "leaves Q (Done r)"
inductive_simps leaves_Seg: "leaves Q (Seg m)"

lemma leaves_mono: "leaves P p \<Longrightarrow> (\<And>r. P r \<Longrightarrow> Q r) \<Longrightarrow> leaves Q p"
  by (induction rule: leaves.induct) (auto intro: leaves.intros)

lemma leaves_retp [simp]: "leaves Q (retp a) \<longleftrightarrow> Q (Inr a)"
  by (simp add: retp_def)

lemma leaves_raisep [simp]: "leaves Q (raisep x) \<longleftrightarrow> Q (Inl x)"
  by (simp add: raisep_def)

lemma leaves_atomic: "gives P m \<Longrightarrow> (\<And>x. Q (Inl x)) \<Longrightarrow> (\<And>a. P a \<Longrightarrow> Q (Inr a)) \<Longrightarrow> leaves Q (atomic m)"
  by (auto simp: atomic_def leaves_Seg gives_def split: prod.split) (metis sum.exhaust)

lemma leaves_bindp: "(\<And>x. Q (Inl x)) \<Longrightarrow> (\<And>a. leaves Q (f a)) \<Longrightarrow> leaves Q (bindp p f)"
proof (induction p)
  case (Seg m)
  then show ?case by (auto simp: bindp_Seg leaves_Seg split: prod.split)
qed (auto split: sum.split)

lemma leaves_catchp: "leaves (\<lambda>r. case r of Inl x \<Rightarrow> leaves Q (h x) | Inr a \<Rightarrow> Q (Inr a)) p \<Longrightarrow> leaves Q (catchp p h)"
proof (induction p)
  case (Seg m)
  then show ?case by (auto simp: catchp_Seg leaves_Seg split: prod.split) (metis fst_conv)
qed (auto split: sum.splits)

section \<open>Every response\<close>

definition typed :: "request \<Rightarrow> exn + response \<Rightarrow> bool" where
  "typed req r \<longleftrightarrow> (case r of Inl x \<Rightarrow> True | Inr a \<Rightarrow> as_declared req a)"

lemma typed_simps [simp]: "typed req (Inl x)" "typed req (Inr a) \<longleftrightarrow> as_declared req a"
  by (simp_all add: typed_def)

lemma typed_found: "(\<And>r. as_declared req (answer 200 (f r))) \<Longrightarrow> typed req (found msg f x)"
  by (cases x) (simp_all add: typed_def found_def)

lemma gives_found: "(\<And>r. as_declared req (answer 200 (f r))) \<Longrightarrow> gives (as_declared req) (or_404 msg f x)"
  by (cases x) (auto simp: or_404_def found_def gives_def lift_result_apply)

lemma leaves_reads: "gives (as_declared req) m \<Longrightarrow> leaves (typed req) (atomic m)"
  by (rule leaves_atomic) (simp_all add: typed_def)

lemma gives_if: "gives P m \<Longrightarrow> gives P m' \<Longrightarrow> gives P (if b then m else m')"
  by simp

lemmas answer_defs = answer_def tenant_created_def api_key_created_def build_submitted_def deployment_submitted_def
  webhook_registered_def

lemma leaves_handler: "leaves (typed req) (handler_prog e req)"
  by (cases req)
    (auto simp: handler_prog_def get_root_def get_health_def get_tenant_def get_all_tenants_def delete_tenant_def reading_defs
      as_declared_def answer_defs declared_response_def app_routes_def map_filter_simps
      intro!: leaves_bindp typed_found leaves_reads gives_then gives_if gives_ret gives_raise gives_found
      split: prod.split)

definition response_ok :: "request \<Rightarrow> response \<Rightarrow> bool" where
  "response_ok req r \<longleftrightarrow> as_declared req r \<or> (\<exists>x. r = error_response x)"

lemma leaves_serve: "leaves (\<lambda>r. \<exists>a. r = Inr a \<and> response_ok req a) (serve_prog e h req)"
proof -
  have "leaves (typed req) (bindp (atomic (check_guard e h (guard_of req))) (\<lambda>_. if request_valid req then handler_prog e req
      else raisep (HTTPException 422 ''Request validation failed'')))"
    by (intro leaves_bindp) (auto simp: typed_def leaves_handler)
  then show ?thesis
    unfolding serve_prog_def
    by (intro leaves_catchp, elim leaves_mono) (auto simp: response_ok_def typed_def split: sum.splits)
qed

fun typed_thread :: "'w thread \<Rightarrow> bool" where
  "typed_thread (ReqThread h req p) \<longleftrightarrow> leaves (\<lambda>r. \<exists>a. r = Inr a \<and> response_ok req a) p"
| "typed_thread (PollThread k p) \<longleftrightarrow> True"

lemma reachable_typed: "reachable e S \<Longrightarrow> th \<in> set (snd S) \<Longrightarrow> typed_thread th"
proof (induction arbitrary: th rule: reachable.induct)
  case (init S)
  then show ?case by (simp add: initial_def)
next
  case (step S ev S')
  from step.hyps(2) show ?case
  proof (cases rule: sys_step.cases)
    case (run_request m s k s' as h req bs)
    then have "typed_thread (ReqThread h req (Seg m))" using step.IH [of "ReqThread h req (Seg m)"] by simp
    then have "leaves (\<lambda>r. \<exists>a. r = Inr a \<and> response_ok req a) (fst (m s))" by (simp add: leaves_Seg)
    with run_request(4) have "typed_thread (ReqThread h req k)" by simp
    with run_request step.IH step.prems show ?thesis by auto
  qed (use step.IH step.prems leaves_serve in auto)
qed

text \<open>
  C28: Every response has the type its route declares: a response the application sends, whatever ran
  beside the request, carries the status code and a body of the response model of the route's
  decorator, or it is an error document, which is what an exception is answered with.
\<close>

theorem responses_have_declared_type:
  assumes "reachable e S" and "sys_step e S (Responded h req r) S'"
  shows "(\<exists>st m. declared_response req = Some (st, m) \<and> rs_status r = st \<and> body_model (rs_body r) = Some m) \<or>
    (\<exists>x. r = error_response x)"
  using assms(2)
proof (cases rule: sys_step.cases)
  case (respond s as bs)
  with reachable_typed [OF assms(1), of "ReqThread h req (Done (Inr r))"] show ?thesis
    by (auto simp: response_ok_def as_declared_def split: option.splits)
qed

theorem responses_have_declared_type_witness:
  "\<exists>S h r S'. reachable mem_env S \<and> sys_step mem_env S (Responded h (CreateBuildJob 1 sample_body) r) S' \<and>
     rs_status r = 201 \<and> body_model (rs_body r) = Some BuildJobResponse"
proof -
  obtain s raw r s' b where s: "reachable mem_env (s, [])"
    "serve mem_env (key_headers raw) (CreateBuildJob 1 sample_body) s = (r, s')" and b: "rs_body r = BuildJobBody b"
    by (rule sample_build_submitted)
  let ?th = "ReqThread (key_headers raw) (CreateBuildJob 1 sample_body) (Done (Inr r))"
  from request_answered_alone [OF s] have reach: "reachable mem_env (s', [] @ ?th # [])" by simp
  have "r \<noteq> error_response x" for x using b by (cases x) (auto simp: error_response_def answer_def)
  with responses_have_declared_type [OF reach sys_step.respond]
  have "rs_status r = 201 \<and> body_model (rs_body r) = Some BuildJobResponse"
    by (auto simp: declared_response_def app_routes_def map_filter_simps)
  with reach show ?thesis by (blast intro: sys_step.respond)
qed

end
