(* ===== verification/SqlSchema.thy ===== *)
theory SqlSchema
  imports Models
begin

text \<open>
  Relational schemas as data: tables, columns, constraints and indexes, the DDL statements that
  change them, and what it means for the contents of a database to conform to a schema. The
  engine that executes statements is a parameter; what the migrations rely on it for is the
  documented effect of each statement, \<open>ddl_effect\<close>.
\<close>

section \<open>Tables\<close>

datatype sql_type = Integer | Varchar "nat option" | DateTime | Boolean | JsonText

record column =
  co_name :: string
  co_type :: sql_type
  co_nullable :: bool
  co_default_now :: bool

datatype on_delete = Cascade | Restrict

datatype table_constraint =
    PrimaryKey "string list"
  | UniqueKey "string option" "string list"
  | References string string string on_delete

record sql_table =
  tb_columns :: "column list"
  tb_constraints :: "table_constraint list"

record sql_index =
  ix_name :: string
  ix_table :: string
  ix_columns :: "string list"
  ix_unique :: bool

record sql_schema =
  sc_tables :: "(string \<times> sql_table) list"
  sc_indexes :: "sql_index list"

definition empty_schema :: sql_schema where
  "empty_schema = \<lparr>sc_tables = [], sc_indexes = []\<rparr>"

section \<open>Statements\<close>

datatype ddl =
    CreateTable string "column list" "table_constraint list"
  | DropTable string
  | CreateIndex string string "string list" bool
  | DropIndex string string
  | AddColumn string column
  | DropColumn string string

definition has_column :: "sql_table \<Rightarrow> string \<Rightarrow> bool" where
  "has_column d c \<longleftrightarrow> c \<in> co_name ` set (tb_columns d)"

text \<open>What a constraint needs of the table it stands in and of the table it refers to.\<close>

fun constraint_sound :: "sql_schema \<Rightarrow> sql_table \<Rightarrow> table_constraint \<Rightarrow> bool" where
  "constraint_sound s d (PrimaryKey cs) = list_all (has_column d) cs"
| "constraint_sound s d (UniqueKey n cs) = list_all (has_column d) cs"
| "constraint_sound s d (References c t c' od) =
     (has_column d c \<and>
      (case map_of (sc_tables s) t of None \<Rightarrow> False | Some d' \<Rightarrow> PrimaryKey [c'] \<in> set (tb_constraints d')))"

fun uses_column :: "string \<Rightarrow> table_constraint \<Rightarrow> bool" where
  "uses_column c (PrimaryKey cs) = (c \<in> set cs)"
| "uses_column c (UniqueKey n cs) = (c \<in> set cs)"
| "uses_column c (References c' t c'' od) = (c = c')"

fun refers_to :: "string \<Rightarrow> table_constraint \<Rightarrow> bool" where
  "refers_to t (References c t' c' od) = (t = t')"
| "refers_to t _ = False"

definition edit_table :: "string \<Rightarrow> (sql_table \<Rightarrow> sql_table) \<Rightarrow> sql_schema \<Rightarrow> sql_schema" where
  "edit_table t f s = s\<lparr>sc_tables := map (\<lambda>(n, d). (n, if n = t then f d else d)) (sc_tables s)\<rparr>"

text \<open>
  The documented effect of a statement where it succeeds: a table is created with its columns and
  constraints if there is none of that name and its references can be made; a table goes with
  its indexes if no other table refers to it; index names are unique in the schema; a column is
  appended, and one that no constraint or index uses can be dropped.
\<close>

fun ddl_effect :: "ddl \<Rightarrow> sql_schema \<Rightarrow> sql_schema option" where
  "ddl_effect (CreateTable t cs ks) s =
     (let d = \<lparr>tb_columns = cs, tb_constraints = ks\<rparr>
      in if map_of (sc_tables s) t = None \<and> distinct (map co_name cs) \<and> list_all (constraint_sound s d) ks
         then Some (s\<lparr>sc_tables := sc_tables s @ [(t, d)]\<rparr>) else None)"
| "ddl_effect (DropTable t) s =
     (if map_of (sc_tables s) t \<noteq> None \<and>
         list_all (\<lambda>(n, d). n = t \<or> \<not> list_ex (refers_to t) (tb_constraints d)) (sc_tables s)
      then Some (s\<lparr>sc_tables := filter (\<lambda>(n, d). n \<noteq> t) (sc_tables s),
                   sc_indexes := filter (\<lambda>i. ix_table i \<noteq> t) (sc_indexes s)\<rparr>)
      else None)"
| "ddl_effect (CreateIndex n t cs u) s =
     (case map_of (sc_tables s) t of
        None \<Rightarrow> None
      | Some d \<Rightarrow>
          if n \<notin> ix_name ` set (sc_indexes s) \<and> list_all (has_column d) cs
          then Some (s\<lparr>sc_indexes := sc_indexes s @ [\<lparr>ix_name = n, ix_table = t, ix_columns = cs, ix_unique = u\<rparr>]\<rparr>)
          else None)"
| "ddl_effect (DropIndex n t) s =
     (if list_ex (\<lambda>i. ix_name i = n \<and> ix_table i = t) (sc_indexes s)
      then Some (s\<lparr>sc_indexes := filter (\<lambda>i. ix_name i \<noteq> n) (sc_indexes s)\<rparr>) else None)"
| "ddl_effect (AddColumn t c) s =
     (case map_of (sc_tables s) t of
        None \<Rightarrow> None
      | Some d \<Rightarrow>
          if \<not> has_column d (co_name c) \<and> co_nullable c
          then Some (edit_table t (\<lambda>d. d\<lparr>tb_columns := tb_columns d @ [c]\<rparr>) s) else None)"
| "ddl_effect (DropColumn t c) s =
     (case map_of (sc_tables s) t of
        None \<Rightarrow> None
      | Some d \<Rightarrow>
          if has_column d c \<and> \<not> list_ex (uses_column c) (tb_constraints d) \<and>
             \<not> list_ex (\<lambda>i. ix_table i = t \<and> c \<in> set (ix_columns i)) (sc_indexes s)
          then Some (edit_table t (\<lambda>d. d\<lparr>tb_columns := filter (\<lambda>k. co_name k \<noteq> c) (tb_columns d)\<rparr>) s)
          else None)"

fun run_ddl :: "(ddl \<Rightarrow> sql_schema \<Rightarrow> sql_schema option) \<Rightarrow> ddl list \<Rightarrow> sql_schema \<Rightarrow> sql_schema option" where
  "run_ddl exec [] s = Some s"
| "run_ddl exec (q # qs) s = (case exec q s of None \<Rightarrow> None | Some s' \<Rightarrow> run_ddl exec qs s')"

text \<open>
  An engine that does what is documented: wherever the documentation says a statement succeeds,
  it does, with that effect.
\<close>

locale ddl_engine =
  fixes exec :: "ddl \<Rightarrow> sql_schema \<Rightarrow> sql_schema option"
  assumes documented: "ddl_effect q s = Some s' \<Longrightarrow> exec q s = Some s'"
begin

lemma run_documented: "run_ddl ddl_effect qs s = Some s' \<Longrightarrow> run_ddl exec qs s = Some s'"
  by (induction qs arbitrary: s) (auto simp: documented split: option.splits)

end

interpretation effect: ddl_engine ddl_effect
  by unfold_locales

text \<open>Two schemas that differ in the order of columns, constraints, tables and indexes only.\<close>

definition same_table :: "sql_table \<Rightarrow> sql_table \<Rightarrow> bool" where
  "same_table d d' \<longleftrightarrow>
     set (tb_columns d) = set (tb_columns d') \<and> set (tb_constraints d) = set (tb_constraints d')"

definition same_schema :: "sql_schema \<Rightarrow> sql_schema \<Rightarrow> bool" where
  "same_schema s s' \<longleftrightarrow>
     list_all (\<lambda>(t, d). list_ex (\<lambda>(t', d'). t = t' \<and> same_table d d') (sc_tables s')) (sc_tables s) \<and>
     list_all (\<lambda>(t, d). list_ex (\<lambda>(t', d'). t = t' \<and> same_table d d') (sc_tables s)) (sc_tables s') \<and>
     set (sc_indexes s) = set (sc_indexes s')"

section \<open>Contents\<close>

datatype sql_value = NullV | IntV int | StrV string | TimeV int | BoolV bool | JsonV json

type_synonym sql_row = "(string \<times> sql_value) list"

fun value_ok :: "sql_type \<Rightarrow> sql_value \<Rightarrow> bool" where
  "value_ok Integer (IntV i) = int32 i"
| "value_ok (Varchar n) (StrV s) = (case n of None \<Rightarrow> True | Some m \<Rightarrow> length s \<le> m)"
| "value_ok DateTime (TimeV _) = True"
| "value_ok Boolean (BoolV _) = True"
| "value_ok JsonText (JsonV _) = True"
| "value_ok _ _ = False"

definition column_takes :: "column \<Rightarrow> sql_value \<Rightarrow> bool" where
  "column_takes c v = (if v = NullV then co_nullable c else value_ok (co_type c) v)"

definition cell_ok :: "sql_row \<Rightarrow> column \<Rightarrow> bool" where
  "cell_ok r c = (case map_of r (co_name c) of None \<Rightarrow> False | Some v \<Rightarrow> column_takes c v)"

definition key_of :: "string list \<Rightarrow> sql_row \<Rightarrow> sql_value option list" where
  "key_of cs r = map (map_of r) cs"

text \<open>No two rows agree on the columns, rows with a null in them aside.\<close>

definition unique_in :: "sql_row list \<Rightarrow> string list \<Rightarrow> bool" where
  "unique_in rs cs \<longleftrightarrow> distinct (filter (\<lambda>k. Some NullV \<notin> set k) (map (key_of cs) rs))"

fun constraint_holds :: "(string \<Rightarrow> sql_row list) \<Rightarrow> string \<Rightarrow> table_constraint \<Rightarrow> bool" where
  "constraint_holds rows t (PrimaryKey cs) = unique_in (rows t) cs"
| "constraint_holds rows t (UniqueKey n cs) = unique_in (rows t) cs"
| "constraint_holds rows t (References c t' c' od) =
     (\<forall>r \<in> set (rows t). map_of r c = Some NullV \<or> (\<exists>r' \<in> set (rows t'). map_of r' c' = map_of r c))"

definition conforms :: "sql_schema \<Rightarrow> (string \<Rightarrow> sql_row list) \<Rightarrow> bool" where
  "conforms s rows \<longleftrightarrow>
     list_all (\<lambda>(t, d). list_all (\<lambda>r. list_all (cell_ok r) (tb_columns d)) (rows t) \<and>
       list_all (constraint_holds rows t) (tb_constraints d)) (sc_tables s) \<and>
     list_all (\<lambda>i. ix_unique i \<longrightarrow> unique_in (rows (ix_table i)) (ix_columns i)) (sc_indexes s)"

lemma same_schema_sym: "same_schema s s' \<Longrightarrow> same_schema s' s"
  by (fastforce simp: same_schema_def same_table_def list_all_iff list_ex_iff)

lemma conforms_mono: "same_schema s s' \<Longrightarrow> conforms s' rows \<Longrightarrow> conforms s rows"
  unfolding conforms_def same_schema_def same_table_def list_all_iff list_ex_iff
  by (fastforce simp: case_prod_beta)

lemma conforms_same: "same_schema s s' \<Longrightarrow> conforms s rows \<longleftrightarrow> conforms s' rows"
  using conforms_mono same_schema_sym by blast

section \<open>Checks on one table\<close>

lemma unique_in_map:
  assumes "\<And>x. key_of cs (row x) = g (f x)" and "inj g" and "\<And>y. Some NullV \<notin> set (g y)"
  shows "unique_in (map row xs) cs \<longleftrightarrow> distinct (map f xs)"
proof -
  have keys: "map (key_of cs) (map row xs) = map g (map f xs)" using assms(1) by simp
  have all: "filter (\<lambda>k. Some NullV \<notin> set k) (map g ys) = map g ys" for ys
    using assms(3) by (induction ys) simp_all
  have "unique_in (map row xs) cs \<longleftrightarrow> distinct (map g (map f xs))"
    unfolding unique_in_def keys all ..
  also have "\<dots> \<longleftrightarrow> distinct (map f xs)"
    using assms(2) by (simp only: distinct_map inj_on_subset [OF _ subset_UNIV] simp_thms)
  finally show ?thesis .
qed

lemma references_map:
  assumes "\<And>x. map_of (row x) c = Some (IntV (f x))" and "\<And>y. map_of (row' y) c' = Some (IntV (g y))"
  shows "(\<forall>r \<in> set (map row xs). map_of r c = Some NullV \<or> (\<exists>r' \<in> set (map row' ys). map_of r' c' = map_of r c))
     \<longleftrightarrow> f ` set xs \<subseteq> g ` set ys"
  using assms by (simp add: image_subset_iff image_iff) (metis (full_types))

end
