(* ===== verification/Migrations.thy ===== *)
theory Migrations
  imports SqlSchema
begin

text \<open>
  \<open>alembic/versions/\<close>: the three revisions, as the DDL statements their \<open>upgrade\<close> and \<open>downgrade\<close>
  functions issue and the revision each one revises.
\<close>

section \<open>The revisions\<close>

record revision =
  rv_revision :: string
  rv_down_revision :: "string option"
  rv_upgrade :: "ddl list"
  rv_downgrade :: "ddl list"

definition sa_Column :: "string \<Rightarrow> sql_type \<Rightarrow> bool \<Rightarrow> column" where
  "sa_Column n ty nullable = \<lparr>co_name = n, co_type = ty, co_nullable = nullable, co_default_now = False\<rparr>"

definition sa_created :: "string \<Rightarrow> column" where
  "sa_created n = \<lparr>co_name = n, co_type = DateTime, co_nullable = False, co_default_now = True\<rparr>"

definition upgrade_2010d588dd5e :: "ddl list" where
  "upgrade_2010d588dd5e =
    [CreateTable ''tenants''
       [sa_Column ''id'' Integer False,
        sa_Column ''name'' (Varchar (Some 255)) False,
        sa_Column ''k8s_namespace'' (Varchar (Some 63)) False,
        sa_created ''created_at'',
        sa_Column ''is_active'' Boolean False]
       [PrimaryKey [''id''], UniqueKey None [''k8s_namespace'']],
     CreateTable ''api_keys''
       [sa_Column ''id'' Integer False,
        sa_Column ''tenant_id'' Integer False,
        sa_Column ''name'' (Varchar (Some 50)) False,
        sa_Column ''key_prefix'' (Varchar (Some 16)) False,
        sa_Column ''key_hash'' (Varchar (Some 64)) False,
        sa_created ''created_at'',
        sa_Column ''revoked_at'' DateTime True]
       [References ''tenant_id'' ''tenants'' ''id'' Cascade, PrimaryKey [''id''],
        UniqueKey (Some ''uq_tenant_key_name'') [''tenant_id'', ''name'']],
     CreateIndex ''ix_api_keys_key_hash'' ''api_keys'' [''key_hash''] True,
     CreateIndex ''ix_api_keys_tenant_id'' ''api_keys'' [''tenant_id''] False,
     CreateTable ''build_jobs''
       [sa_Column ''id'' Integer False,
        sa_Column ''tenant_id'' Integer False,
        sa_Column ''git_url'' (Varchar (Some 2048)) False,
        sa_Column ''git_revision'' (Varchar (Some 255)) False,
        sa_Column ''status'' (Varchar (Some 20)) False,
        sa_Column ''image_tag'' (Varchar (Some 512)) True,
        sa_Column ''error_message'' (Varchar None) True,
        sa_created ''created_at'',
        sa_Column ''started_at'' DateTime True,
        sa_Column ''ended_at'' DateTime True]
       [References ''tenant_id'' ''tenants'' ''id'' Cascade, PrimaryKey [''id'']],
     CreateIndex ''ix_build_jobs_tenant_id'' ''build_jobs'' [''tenant_id''] False,
     CreateTable ''webhook_registrations''
       [sa_Column ''id'' Integer False,
        sa_Column ''tenant_id'' Integer False,
        sa_Column ''callback_url'' (Varchar (Some 2048)) False,
        sa_Column ''signing_secret'' (Varchar (Some 255)) False,
        sa_created ''created_at'',
        sa_Column ''is_active'' Boolean False]
       [References ''tenant_id'' ''tenants'' ''id'' Cascade, PrimaryKey [''id'']],
     CreateIndex ''ix_webhook_registrations_tenant_id'' ''webhook_registrations'' [''tenant_id''] False,
     CreateTable ''deployments''
       [sa_Column ''id'' Integer False,
        sa_Column ''tenant_id'' Integer False,
        sa_Column ''build_job_id'' Integer False,
        sa_Column ''k8s_deployment_name'' (Varchar (Some 253)) False,
        sa_Column ''status'' (Varchar (Some 20)) False,
        sa_Column ''replica_count'' Integer False,
        sa_created ''created_at'',
        sa_created ''updated_at'']
       [References ''build_job_id'' ''build_jobs'' ''id'' Restrict,
        References ''tenant_id'' ''tenants'' ''id'' Cascade, PrimaryKey [''id'']],
     CreateIndex ''ix_deployments_build_job_id'' ''deployments'' [''build_job_id''] False,
     CreateIndex ''ix_deployments_tenant_id'' ''deployments'' [''tenant_id''] False]"

definition downgrade_2010d588dd5e :: "ddl list" where
  "downgrade_2010d588dd5e =
    [DropIndex ''ix_deployments_tenant_id'' ''deployments'',
     DropIndex ''ix_deployments_build_job_id'' ''deployments'',
     DropTable ''deployments'',
     DropIndex ''ix_webhook_registrations_tenant_id'' ''webhook_registrations'',
     DropTable ''webhook_registrations'',
     DropIndex ''ix_build_jobs_tenant_id'' ''build_jobs'',
     DropTable ''build_jobs'',
     DropIndex ''ix_api_keys_tenant_id'' ''api_keys'',
     DropIndex ''ix_api_keys_key_hash'' ''api_keys'',
     DropTable ''api_keys'',
     DropTable ''tenants'']"

definition upgrade_28b60868b4a0 :: "ddl list" where
  "upgrade_28b60868b4a0 = [AddColumn ''build_jobs'' (sa_Column ''git_sub_path'' (Varchar (Some 1024)) True)]"

definition downgrade_28b60868b4a0 :: "ddl list" where
  "downgrade_28b60868b4a0 = [DropColumn ''build_jobs'' ''git_sub_path'']"

definition upgrade_43258ce16fea :: "ddl list" where
  "upgrade_43258ce16fea =
    [CreateTable ''webhook_deliveries''
       [sa_Column ''id'' Integer False,
        sa_Column ''webhook_registration_id'' Integer False,
        sa_Column ''tenant_id'' Integer False,
        sa_Column ''event'' (Varchar (Some 50)) False,
        sa_Column ''payload'' JsonText False,
        sa_Column ''signature'' (Varchar (Some 64)) False,
        sa_Column ''timestamp'' Integer False,
        sa_Column ''status'' (Varchar (Some 20)) False,
        sa_Column ''http_status_code'' Integer True,
        sa_Column ''error_message'' (Varchar None) True,
        sa_created ''created_at'']
       [References ''tenant_id'' ''tenants'' ''id'' Cascade,
        References ''webhook_registration_id'' ''webhook_registrations'' ''id'' Cascade,
        PrimaryKey [''id'']],
     CreateIndex ''ix_webhook_deliveries_tenant_id'' ''webhook_deliveries'' [''tenant_id''] False,
     CreateIndex ''ix_webhook_deliveries_webhook_registration_id'' ''webhook_deliveries'' [''webhook_registration_id''] False]"

definition downgrade_43258ce16fea :: "ddl list" where
  "downgrade_43258ce16fea =
    [DropIndex ''ix_webhook_deliveries_webhook_registration_id'' ''webhook_deliveries'',
     DropIndex ''ix_webhook_deliveries_tenant_id'' ''webhook_deliveries'',
     DropTable ''webhook_deliveries'']"

definition revision_2010d588dd5e :: revision where
  "revision_2010d588dd5e =
     \<lparr>rv_revision = ''2010d588dd5e'', rv_down_revision = None,
      rv_upgrade = upgrade_2010d588dd5e, rv_downgrade = downgrade_2010d588dd5e\<rparr>"

definition revision_28b60868b4a0 :: revision where
  "revision_28b60868b4a0 =
     \<lparr>rv_revision = ''28b60868b4a0'', rv_down_revision = Some ''2010d588dd5e'',
      rv_upgrade = upgrade_28b60868b4a0, rv_downgrade = downgrade_28b60868b4a0\<rparr>"

definition revision_43258ce16fea :: revision where
  "revision_43258ce16fea =
     \<lparr>rv_revision = ''43258ce16fea'', rv_down_revision = Some ''28b60868b4a0'',
      rv_upgrade = upgrade_43258ce16fea, rv_downgrade = downgrade_43258ce16fea\<rparr>"

definition versions :: "revision list" where
  "versions = [revision_2010d588dd5e, revision_28b60868b4a0, revision_43258ce16fea]"

text \<open>A list of revisions in which each one revises its predecessor.\<close>

fun linear_history :: "string option \<Rightarrow> revision list \<Rightarrow> bool" where
  "linear_history prev [] = True"
| "linear_history prev (r # rs) = (rv_down_revision r = prev \<and> linear_history (Some (rv_revision r)) rs)"

definition upgrade_all :: "ddl list" where
  "upgrade_all = concat (map rv_upgrade versions)"

definition downgrade_all :: "ddl list" where
  "downgrade_all = concat (map rv_downgrade (rev versions))"

end
