(* ===== verification/OrmTables.thy ===== *)
theory OrmTables
  imports SqlSchema
begin

text \<open>
  The tables the classes of \<open>control_plane/app/models/\<close> declare, attribute by attribute, and what
  SQLAlchemy documents such declarations to mean: a mapped integer is an \<open>INTEGER\<close>, an optional
  annotation is a nullable column, \<open>unique\<close> is a unique constraint or, with \<open>index\<close>, a unique index
  named after table and column. The last section shows that the row checks of the model say
  exactly what these declarations say.
\<close>

section \<open>Declarations\<close>

record mapped_column =
  mc_column :: column
  mc_primary_key :: bool
  mc_unique :: bool
  mc_index :: bool
  mc_foreign_key :: "(string \<times> string \<times> on_delete) option"

record orm_class =
  oc_tablename :: string
  oc_columns :: "mapped_column list"
  oc_table_args :: "table_constraint list"

definition mapped :: "string \<Rightarrow> sql_type \<Rightarrow> bool \<Rightarrow> mapped_column" where
  "mapped n ty optional =
     \<lparr>mc_column = \<lparr>co_name = n, co_type = ty, co_nullable = optional, co_default_now = False\<rparr>,
      mc_primary_key = False, mc_unique = False, mc_index = False, mc_foreign_key = None\<rparr>"

definition mapped_id :: mapped_column where
  "mapped_id = (mapped ''id'' Integer False)\<lparr>mc_primary_key := True\<rparr>"

definition mapped_now :: "string \<Rightarrow> mapped_column" where
  "mapped_now n = (mapped n DateTime False)
     \<lparr>mc_column := \<lparr>co_name = n, co_type = DateTime, co_nullable = False, co_default_now = True\<rparr>\<rparr>"

definition mapped_fk :: "string \<Rightarrow> string \<Rightarrow> on_delete \<Rightarrow> mapped_column" where
  "mapped_fk n t od = (mapped n Integer False)\<lparr>mc_index := True, mc_foreign_key := Some (t, ''id'', od)\<rparr>"

definition Tenant_class :: orm_class where
  "Tenant_class =
     \<lparr>oc_tablename = ''tenants'',
      oc_columns =
        [mapped_id,
         mapped ''name'' (Varchar (Some 255)) False,
         (mapped ''k8s_namespace'' (Varchar (Some 63)) False)\<lparr>mc_unique := True\<rparr>,
         mapped_now ''created_at'',
         mapped ''is_active'' Boolean False],
      oc_table_args = []\<rparr>"

definition APIKey_class :: orm_class where
  "APIKey_class =
     \<lparr>oc_tablename = ''api_keys'',
      oc_columns =
        [mapped_id,
         mapped_fk ''tenant_id'' ''tenants'' Cascade,
         mapped ''name'' (Varchar (Some 50)) False,
         mapped ''key_prefix'' (Varchar (Some 16)) False,
         (mapped ''key_hash'' (Varchar (Some 64)) False)\<lparr>mc_unique := True, mc_index := True\<rparr>,
         mapped_now ''created_at'',
         mapped ''revoked_at'' DateTime True],
      oc_table_args = [UniqueKey (Some ''uq_tenant_key_name'') [''tenant_id'', ''name'']]\<rparr>"

definition BuildJob_class :: orm_class where
  "BuildJob_class =
     \<lparr>oc_tablename = ''build_jobs'',
      oc_columns =
        [mapped_id,
         mapped_fk ''tenant_id'' ''tenants'' Cascade,
         mapped ''git_url'' (Varchar (Some 2048)) False,
         mapped ''git_revision'' (Varchar (Some 255)) False,
         mapped ''git_sub_path'' (Varchar (Some 1024)) True,
         mapped ''status'' (Varchar (Some 20)) False,
         mapped ''image_tag'' (Varchar (Some 512)) True,
         mapped ''error_message'' (Varchar None) True,
         mapped_now ''created_at'',
         mapped ''started_at'' DateTime True,
         mapped ''ended_at'' DateTime True],
      oc_table_args = []\<rparr>"

definition Deployment_class :: orm_class where
  "Deployment_class =
     \<lparr>oc_tablename = ''deployments'',
      oc_columns =
        [mapped_id,
         mapped_fk ''tenant_id'' ''tenants'' Cascade,
         mapped_fk ''build_job_id'' ''build_jobs'' Restrict,
         mapped ''k8s_deployment_name'' (Varchar (Some 253)) False,
         mapped ''status'' (Varchar (Some 20)) False,
         mapped ''replica_count'' Integer False,
         mapped_now ''created_at'',
         mapped_now ''updated_at''],
      oc_table_args = []\<rparr>"

definition WebhookRegistration_class :: orm_class where
  "WebhookRegistration_class =
     \<lparr>oc_tablename = ''webhook_registrations'',
      oc_columns =
        [mapped_id,
         mapped_fk ''tenant_id'' ''tenants'' Cascade,
         mapped ''callback_url'' (Varchar (Some 2048)) False,
         mapped ''signing_secret'' (Varchar (Some 255)) False,
         mapped_now ''created_at'',
         mapped ''is_active'' Boolean False],
      oc_table_args = []\<rparr>"

definition WebhookDelivery_class :: orm_class where
  "WebhookDelivery_class =
     \<lparr>oc_tablename = ''webhook_deliveries'',
      oc_columns =
        [mapped_id,
         mapped_fk ''webhook_registration_id'' ''webhook_registrations'' Cascade,
         mapped_fk ''tenant_id'' ''tenants'' Cascade,
         mapped ''event'' (Varchar (Some 50)) False,
         mapped ''payload'' JsonText False,
         mapped ''signature'' (Varchar (Some 64)) False,
         mapped ''timestamp'' Integer False,
         mapped ''status'' (Varchar (Some 20)) False,
         mapped ''http_status_code'' Integer True,
         mapped ''error_message'' (Varchar None) True,
         mapped_now ''created_at''],
      oc_table_args = []\<rparr>"

definition orm_classes :: "orm_class list" where
  "orm_classes =
     [Tenant_class, APIKey_class, BuildJob_class, Deployment_class, WebhookRegistration_class,
      WebhookDelivery_class]"

section \<open>What the declarations mean\<close>

definition column_constraints :: "mapped_column \<Rightarrow> table_constraint list" where
  "column_constraints c =
     (let n = co_name (mc_column c)
      in (case mc_foreign_key c of None \<Rightarrow> [] | Some (t, k, od) \<Rightarrow> [References n t k od]) @
         (if mc_unique c \<and> \<not> mc_index c then [UniqueKey None [n]] else []))"

definition declared_table :: "orm_class \<Rightarrow> sql_table" where
  "declared_table k =
     \<lparr>tb_columns = map mc_column (oc_columns k),
      tb_constraints =
        PrimaryKey (map (\<lambda>c. co_name (mc_column c)) (filter mc_primary_key (oc_columns k))) #
        concat (map column_constraints (oc_columns k)) @ oc_table_args k\<rparr>"

definition declared_indexes :: "orm_class \<Rightarrow> sql_index list" where
  "declared_indexes k =
     map (\<lambda>c. \<lparr>ix_name = ''ix_'' @ oc_tablename k @ ''_'' @ co_name (mc_column c), ix_table = oc_tablename k,
              ix_columns = [co_name (mc_column c)], ix_unique = mc_unique c\<rparr>)
       (filter mc_index (oc_columns k))"

text \<open>\<open>Base.metadata\<close>.\<close>

definition metadata :: sql_schema where
  "metadata =
     \<lparr>sc_tables = map (\<lambda>k. (oc_tablename k, declared_table k)) orm_classes,
      sc_indexes = concat (map declared_indexes orm_classes)\<rparr>"

section \<open>The rows of the model as rows of the tables\<close>

fun or_null :: "('a \<Rightarrow> sql_value) \<Rightarrow> 'a option \<Rightarrow> sql_value" where
  "or_null f None = NullV"
| "or_null f (Some x) = f x"

definition tenant_row :: "tenant \<Rightarrow> sql_row" where
  "tenant_row t =
     [(''id'', IntV (t_id t)), (''name'', StrV (t_name t)), (''k8s_namespace'', StrV (t_k8s_namespace t)),
      (''created_at'', TimeV (t_created_at t)), (''is_active'', BoolV (t_is_active t))]"

definition api_key_row :: "api_key \<Rightarrow> sql_row" where
  "api_key_row k =
     [(''id'', IntV (ak_id k)), (''tenant_id'', IntV (ak_tenant_id k)), (''name'', StrV (ak_name k)),
      (''key_prefix'', StrV (ak_key_prefix k)), (''key_hash'', StrV (ak_key_hash k)),
      (''created_at'', TimeV (ak_created_at k)), (''revoked_at'', or_null TimeV (ak_revoked_at k))]"

definition build_job_row :: "build_job \<Rightarrow> sql_row" where
  "build_job_row b =
     [(''id'', IntV (bj_id b)), (''tenant_id'', IntV (bj_tenant_id b)), (''git_url'', StrV (bj_git_url b)),
      (''git_revision'', StrV (bj_git_revision b)), (''git_sub_path'', or_null StrV (bj_git_sub_path b)),
      (''status'', StrV (show_build_status (bj_status b))), (''image_tag'', or_null StrV (bj_image_tag b)),
      (''error_message'', or_null StrV (bj_error_message b)), (''created_at'', TimeV (bj_created_at b)),
      (''started_at'', or_null TimeV (bj_started_at b)), (''ended_at'', or_null TimeV (bj_ended_at b))]"

definition deployment_row :: "deployment \<Rightarrow> sql_row" where
  "deployment_row x =
     [(''id'', IntV (dp_id x)), (''tenant_id'', IntV (dp_tenant_id x)), (''build_job_id'', IntV (dp_build_job_id x)),
      (''k8s_deployment_name'', StrV (dp_k8s_deployment_name x)),
      (''status'', StrV (show_deployment_status (dp_status x))), (''replica_count'', IntV (dp_replica_count x)),
      (''created_at'', TimeV (dp_created_at x)), (''updated_at'', TimeV (dp_updated_at x))]"

definition webhook_registration_row :: "webhook_registration \<Rightarrow> sql_row" where
  "webhook_registration_row r =
     [(''id'', IntV (wr_id r)), (''tenant_id'', IntV (wr_tenant_id r)), (''callback_url'', StrV (wr_callback_url r)),
      (''signing_secret'', StrV (wr_signing_secret r)), (''created_at'', TimeV (wr_created_at r)),
      (''is_active'', BoolV (wr_is_active r))]"

fun show_delivery_status :: "delivery_status \<Rightarrow> string" where
  "show_delivery_status DeliverySuccess = ''success''"
| "show_delivery_status DeliveryFailed = ''failed''"

definition webhook_delivery_row :: "webhook_delivery \<Rightarrow> sql_row" where
  "webhook_delivery_row w =
     [(''id'', IntV (wd_id w)), (''webhook_registration_id'', IntV (wd_webhook_registration_id w)),
      (''tenant_id'', IntV (wd_tenant_id w)), (''event'', StrV (wd_event w)), (''payload'', JsonV (wd_payload w)),
      (''signature'', StrV (wd_signature w)), (''timestamp'', IntV (wd_timestamp w)),
      (''status'', StrV (show_delivery_status (wd_status w))),
      (''http_status_code'', or_null IntV (wd_http_status_code w)),
      (''error_message'', or_null StrV (wd_error_message w)), (''created_at'', TimeV (wd_created_at w))]"

definition contents :: "db \<Rightarrow> string \<Rightarrow> sql_row list" where
  "contents d t =
     (if t = ''tenants'' then map tenant_row (tenants d)
      else if t = ''api_keys'' then map api_key_row (api_keys d)
      else if t = ''build_jobs'' then map build_job_row (build_jobs d)
      else if t = ''deployments'' then map deployment_row (deployments d)
      else if t = ''webhook_registrations'' then map webhook_registration_row (webhook_registrations d)
      else if t = ''webhook_deliveries'' then map webhook_delivery_row (webhook_deliveries d)
      else [])"

lemma contents_simps:
  "contents d ''tenants'' = map tenant_row (tenants d)"
  "contents d ''api_keys'' = map api_key_row (api_keys d)"
  "contents d ''build_jobs'' = map build_job_row (build_jobs d)"
  "contents d ''deployments'' = map deployment_row (deployments d)"
  "contents d ''webhook_registrations'' = map webhook_registration_row (webhook_registrations d)"
  "contents d ''webhook_deliveries'' = map webhook_delivery_row (webhook_deliveries d)"
  by (simp_all add: contents_def)

lemmas mapped_defs = mapped_def mapped_id_def mapped_now_def mapped_fk_def

lemmas row_defs = tenant_row_def api_key_row_def build_job_row_def deployment_row_def
  webhook_registration_row_def webhook_delivery_row_def

section \<open>Columns\<close>

lemma cell_next: "cell_ok ((n, v) # r) c = (if co_name c = n then column_takes c v else cell_ok r c)"
  by (simp add: cell_ok_def)

lemma column_takes_simps:
  "column_takes c (IntV i) = value_ok (co_type c) (IntV i)"
  "column_takes c (StrV s) = value_ok (co_type c) (StrV s)"
  "column_takes c (TimeV i) = value_ok (co_type c) (TimeV i)"
  "column_takes c (BoolV b) = value_ok (co_type c) (BoolV b)"
  "column_takes c (JsonV j) = value_ok (co_type c) (JsonV j)"
  "column_takes c (or_null IntV x) = (case x of None \<Rightarrow> co_nullable c | Some i \<Rightarrow> value_ok (co_type c) (IntV i))"
  "column_takes c (or_null StrV y) = (case y of None \<Rightarrow> co_nullable c | Some s \<Rightarrow> value_ok (co_type c) (StrV s))"
  "column_takes c (or_null TimeV x) = (case x of None \<Rightarrow> co_nullable c | Some i \<Rightarrow> value_ok (co_type c) (TimeV i))"
  by (simp_all add: column_takes_def split: option.split)

lemma option_True: "(case x of None \<Rightarrow> True | Some _ \<Rightarrow> True) = True"
  by (simp split: option.split)

lemmas cells_defs = declared_table_def mapped_defs row_defs cell_next column_takes_simps option_True

lemma tenant_cells:
  "list_all (cell_ok (tenant_row t)) (tb_columns (declared_table Tenant_class)) \<longleftrightarrow> tenant_columns_ok t"
  by (simp add: cells_defs Tenant_class_def tenant_columns_ok_def)

lemma api_key_cells:
  "list_all (cell_ok (api_key_row k)) (tb_columns (declared_table APIKey_class)) \<longleftrightarrow> api_key_columns_ok k"
  by (simp add: cells_defs APIKey_class_def api_key_columns_ok_def cong: option.case_cong)

lemma build_job_cells:
  "list_all (cell_ok (build_job_row b)) (tb_columns (declared_table BuildJob_class)) \<longleftrightarrow> build_job_columns_ok b"
  by (simp add: cells_defs BuildJob_class_def build_job_columns_ok_def fits_def cong: option.case_cong)

lemma deployment_cells:
  "list_all (cell_ok (deployment_row x)) (tb_columns (declared_table Deployment_class)) \<longleftrightarrow> deployment_columns_ok x"
  by (simp add: cells_defs Deployment_class_def deployment_columns_ok_def)

lemma webhook_registration_cells:
  "list_all (cell_ok (webhook_registration_row r)) (tb_columns (declared_table WebhookRegistration_class)) \<longleftrightarrow>
     webhook_registration_columns_ok r"
  by (simp add: cells_defs WebhookRegistration_class_def webhook_registration_columns_ok_def)

lemma webhook_delivery_cells:
  "list_all (cell_ok (webhook_delivery_row w)) (tb_columns (declared_table WebhookDelivery_class)) \<longleftrightarrow>
     webhook_delivery_columns_ok w"
  by (cases "wd_status w")
    (simp_all add: cells_defs WebhookDelivery_class_def webhook_delivery_columns_ok_def cong: option.case_cong)

lemmas table_cells = tenant_cells api_key_cells build_job_cells deployment_cells
  webhook_registration_cells webhook_delivery_cells

section \<open>Keys and references\<close>

lemma unique_ids:
  "unique_in (map tenant_row ts) [''id''] \<longleftrightarrow> distinct (map t_id ts)"
  "unique_in (map api_key_row ks) [''id''] \<longleftrightarrow> distinct (map ak_id ks)"
  "unique_in (map build_job_row bs) [''id''] \<longleftrightarrow> distinct (map bj_id bs)"
  "unique_in (map deployment_row xs) [''id''] \<longleftrightarrow> distinct (map dp_id xs)"
  "unique_in (map webhook_registration_row rs) [''id''] \<longleftrightarrow> distinct (map wr_id rs)"
  "unique_in (map webhook_delivery_row ws) [''id''] \<longleftrightarrow> distinct (map wd_id ws)"
  by (rule unique_in_map [where g = "\<lambda>i. [Some (IntV i)]"]; simp add: key_of_def row_defs inj_def)+

lemma unique_namespaces:
  "unique_in (map tenant_row ts) [''k8s_namespace''] \<longleftrightarrow> distinct (map t_k8s_namespace ts)"
  by (rule unique_in_map [where g = "\<lambda>n. [Some (StrV n)]"]; simp add: key_of_def row_defs inj_def)

lemma unique_key_hashes:
  "unique_in (map api_key_row ks) [''key_hash''] \<longleftrightarrow> distinct (map ak_key_hash ks)"
  by (rule unique_in_map [where g = "\<lambda>n. [Some (StrV n)]"]; simp add: key_of_def row_defs inj_def)

lemma unique_key_names:
  "unique_in (map api_key_row ks) [''tenant_id'', ''name''] \<longleftrightarrow> distinct (map (\<lambda>k. (ak_tenant_id k, ak_name k)) ks)"
  by (rule unique_in_map [where g = "\<lambda>(i, n). [Some (IntV i), Some (StrV n)]"])
    (auto simp: key_of_def row_defs inj_def)

lemmas reference_rule = references_map [where c' = "''id''"]

lemma references_tenants:
  "constraint_holds (contents d) ''api_keys'' (References ''tenant_id'' ''tenants'' ''id'' od) \<longleftrightarrow>
     ak_tenant_id ` set (api_keys d) \<subseteq> t_id ` set (tenants d)"
  "constraint_holds (contents d) ''build_jobs'' (References ''tenant_id'' ''tenants'' ''id'' od) \<longleftrightarrow>
     bj_tenant_id ` set (build_jobs d) \<subseteq> t_id ` set (tenants d)"
  "constraint_holds (contents d) ''deployments'' (References ''tenant_id'' ''tenants'' ''id'' od) \<longleftrightarrow>
     dp_tenant_id ` set (deployments d) \<subseteq> t_id ` set (tenants d)"
  "constraint_holds (contents d) ''webhook_registrations'' (References ''tenant_id'' ''tenants'' ''id'' od) \<longleftrightarrow>
     wr_tenant_id ` set (webhook_registrations d) \<subseteq> t_id ` set (tenants d)"
  "constraint_holds (contents d) ''webhook_deliveries'' (References ''tenant_id'' ''tenants'' ''id'' od) \<longleftrightarrow>
     wd_tenant_id ` set (webhook_deliveries d) \<subseteq> t_id ` set (tenants d)"
  unfolding constraint_holds.simps contents_simps by (rule reference_rule; simp add: row_defs)+

lemma references_others:
  "constraint_holds (contents d) ''deployments'' (References ''build_job_id'' ''build_jobs'' ''id'' od) \<longleftrightarrow>
     dp_build_job_id ` set (deployments d) \<subseteq> bj_id ` set (build_jobs d)"
  "constraint_holds (contents d) ''webhook_deliveries'' (References ''webhook_registration_id'' ''webhook_registrations'' ''id'' od) \<longleftrightarrow>
     wd_webhook_registration_id ` set (webhook_deliveries d) \<subseteq> wr_id ` set (webhook_registrations d)"
  unfolding constraint_holds.simps contents_simps by (rule reference_rule; simp add: row_defs)+

lemmas unique_keys = unique_ids unique_namespaces unique_key_hashes unique_key_names

lemma declared_constraints:
  "list_all (constraint_holds (contents d) ''tenants'') (tb_constraints (declared_table Tenant_class)) \<longleftrightarrow> tenants_ok d"
  "list_all (constraint_holds (contents d) ''api_keys'') (tb_constraints (declared_table APIKey_class)) \<and>
     unique_in (contents d ''api_keys'') [''key_hash''] \<longleftrightarrow> api_keys_ok d"
  "list_all (constraint_holds (contents d) ''build_jobs'') (tb_constraints (declared_table BuildJob_class)) \<longleftrightarrow> build_jobs_ok d"
  "list_all (constraint_holds (contents d) ''deployments'') (tb_constraints (declared_table Deployment_class)) \<longleftrightarrow> deployments_ok d"
  "list_all (constraint_holds (contents d) ''webhook_registrations'') (tb_constraints (declared_table WebhookRegistration_class)) \<longleftrightarrow>
     webhook_registrations_ok d"
  "list_all (constraint_holds (contents d) ''webhook_deliveries'') (tb_constraints (declared_table WebhookDelivery_class)) \<longleftrightarrow>
     webhook_deliveries_ok d"
  by (auto simp: declared_table_def column_constraints_def mapped_defs Tenant_class_def APIKey_class_def
      BuildJob_class_def Deployment_class_def WebhookRegistration_class_def WebhookDelivery_class_def
      references_tenants references_others contents_simps unique_keys constraint_defs
      simp del: constraint_holds.simps(3))

lemma declared_unique_indexes:
  "list_all (\<lambda>i. ix_unique i \<longrightarrow> unique_in (rows (ix_table i)) (ix_columns i)) (sc_indexes metadata) \<longleftrightarrow>
     unique_in (rows ''api_keys'') [''key_hash'']"
  by (simp add: metadata_def orm_classes_def declared_indexes_def mapped_defs Tenant_class_def APIKey_class_def
      BuildJob_class_def Deployment_class_def WebhookRegistration_class_def WebhookDelivery_class_def)

lemma conforms_metadata: "conforms metadata (contents d) \<longleftrightarrow> schema_ok d"
proof -
  have names: "sc_tables metadata =
     [(''tenants'', declared_table Tenant_class), (''api_keys'', declared_table APIKey_class),
      (''build_jobs'', declared_table BuildJob_class), (''deployments'', declared_table Deployment_class),
      (''webhook_registrations'', declared_table WebhookRegistration_class),
      (''webhook_deliveries'', declared_table WebhookDelivery_class)]"
    by (simp add: metadata_def orm_classes_def Tenant_class_def APIKey_class_def BuildJob_class_def
        Deployment_class_def WebhookRegistration_class_def WebhookDelivery_class_def)
  have cells: "list_all (\<lambda>r. list_all (cell_ok r) cs) (map row xs) \<longleftrightarrow> list_all (\<lambda>x. list_all (cell_ok (row x)) cs) xs"
    for cs xs and row :: "'x \<Rightarrow> sql_row"
    by (simp add: list_all_iff)
  show ?thesis
    unfolding conforms_def names declared_unique_indexes schema_ok_def columns_ok_def constraints_ok_def
      declared_constraints [of d, symmetric]
    by (simp add: contents_simps cells table_cells) blast
qed

end
