(* ===== verification/SchemaProperties.thy ===== *)
theory SchemaProperties
  imports Migrations OrmTables
begin

text \<open>
  That migrations, ORM classes and the model's row checks describe one database: the revisions
  build the tables the classes declare, undo each other exactly, and the resulting constraints
  are the ones every commit of the model is checked against.
\<close>

lemma upgrade_all_effect:
  obtains s where "run_ddl ddl_effect upgrade_all empty_schema = Some s" "same_schema s metadata"
proof -
  have "case run_ddl ddl_effect upgrade_all empty_schema of None \<Rightarrow> False | Some s \<Rightarrow> same_schema s metadata"
    by code_simp
  with that show thesis by (auto split: option.splits)
qed

text \<open>
  C26: Migrating an empty database to the head revision succeeds on any engine that executes DDL
  as documented, and gives exactly the tables, columns, constraints and indexes the model classes
  declare; a database conforms to the result exactly when it passes the checks that every commit
  of the model makes. The revisions form one line of history.
\<close>

theorem migrations_build_models:
  assumes "\<And>q s s'. ddl_effect q s = Some s' \<Longrightarrow> exec q s = Some s'"
  shows "linear_history None versions \<and>
    (\<exists>s. run_ddl exec upgrade_all empty_schema = Some s \<and> same_schema s metadata \<and>
       (\<forall>d. conforms s (contents d) \<longleftrightarrow> schema_ok d))"
proof
  show "linear_history None versions" by code_simp
  obtain s where s: "run_ddl ddl_effect upgrade_all empty_schema = Some s" "same_schema s metadata"
    by (rule upgrade_all_effect)
  have "run_ddl exec upgrade_all empty_schema = Some s"
    by (rule ddl_engine.run_documented [OF ddl_engine.intro [OF assms] s(1)])
  moreover have "conforms s (contents d) \<longleftrightarrow> schema_ok d" for d
    using conforms_same [OF s(2)] conforms_metadata by simp
  ultimately show "\<exists>s. run_ddl exec upgrade_all empty_schema = Some s \<and> same_schema s metadata \<and>
       (\<forall>d. conforms s (contents d) \<longleftrightarrow> schema_ok d)" using s(2) by blast
qed

theorem migrations_build_models_witness:
  "\<exists>s. run_ddl ddl_effect upgrade_all empty_schema = Some s \<and> same_schema s metadata \<and>
     conforms s (contents empty_db)"
  using migrations_build_models [of ddl_effect] by auto

text \<open>
  C27: Downgrading undoes upgrading, revision by revision: from the state before a revision, its
  upgrade followed by its downgrade leads back to that same state, down to the order of columns,
  and the whole downgrade leads from the head back to the empty schema.
\<close>

theorem downgrade_undoes_upgrade:
  assumes "\<And>q s s'. ddl_effect q s = Some s' \<Longrightarrow> exec q s = Some s'"
  shows "run_ddl exec (upgrade_all @ downgrade_all) empty_schema = Some empty_schema \<and>
    (\<forall>k < 3. \<exists>s. run_ddl exec (concat (map rv_upgrade (take k versions))) empty_schema = Some s \<and>
       run_ddl exec (rv_upgrade (versions ! k) @ rv_downgrade (versions ! k)) s = Some s)"
proof -
  have "ddl_engine exec" by (rule ddl_engine.intro) (rule assms)
  note run = ddl_engine.run_documented [OF this]
  have "run_ddl ddl_effect (upgrade_all @ downgrade_all) empty_schema = Some empty_schema" by code_simp
  moreover have "list_all (\<lambda>k. case run_ddl ddl_effect (concat (map rv_upgrade (take k versions))) empty_schema of
      None \<Rightarrow> False
    | Some s \<Rightarrow> run_ddl ddl_effect (rv_upgrade (versions ! k) @ rv_downgrade (versions ! k)) s = Some s) [0, 1, 2]"
    by code_simp
  then have "\<exists>s. run_ddl ddl_effect (concat (map rv_upgrade (take k versions))) empty_schema = Some s \<and>
       run_ddl ddl_effect (rv_upgrade (versions ! k) @ rv_downgrade (versions ! k)) s = Some s" if "k < 3" for k
    using that by (auto simp: numeral_3_eq_3 less_Suc_eq numeral_2_eq_2 split: option.splits)
  ultimately show ?thesis using run by blast
qed

theorem downgrade_undoes_upgrade_witness:
  "run_ddl ddl_effect (upgrade_all @ downgrade_all) empty_schema = Some empty_schema"
  using downgrade_undoes_upgrade [of ddl_effect] by simp

end
