(* ===== verification/MigrationRun.thy ===== *)
theory MigrationRun
  imports SchemaProperties World
begin

text \<open>
  \<open>alembic/env.py\<close>: how a migration is run. The URL of the database goes through the options of
  \<open>alembic.ini\<close>, which the standard library's \<open>ConfigParser\<close> interpolates; then the revisions are
  written out as a script, or executed in one transaction on a connection. Alembic, the engine and
  the logging set-up are parameters, with the database's documented transactional DDL.
\<close>

section \<open>Options of the configuration file\<close>

text \<open>
  \<open>set\<close> refuses a value with a percent sign that is neither doubled nor part of a \<open>%(name)s\<close>
  reference; \<open>get\<close> replaces them, to a depth of ten.
\<close>

fun strip_escaped :: "string \<Rightarrow> string" where
  "strip_escaped [] = []"
| "strip_escaped [c] = [c]"
| "strip_escaped (c # c' # r) =
     (if c = CHR ''%'' \<and> c' = CHR ''%'' then strip_escaped r else c # strip_escaped (c' # r))"

text \<open>A reference at the head of a text: its name and what follows it.\<close>

definition reference :: "string \<Rightarrow> (string \<times> string) option" where
  "reference raw =
     (if take 2 raw = ''%('' \<and> takeWhile (\<lambda>c. c \<noteq> CHR '')'') (drop 2 raw) \<noteq> [] \<and>
         take 2 (dropWhile (\<lambda>c. c \<noteq> CHR '')'') (drop 2 raw)) = '')s''
      then Some (takeWhile (\<lambda>c. c \<noteq> CHR '')'') (drop 2 raw), drop 2 (dropWhile (\<lambda>c. c \<noteq> CHR '')'') (drop 2 raw)))
      else None)"

lemma reference_shorter: "reference raw = Some (name, r) \<Longrightarrow> length r < length raw"
proof -
  assume a: "reference raw = Some (name, r)"
  then have "r = drop 2 (dropWhile (\<lambda>c. c \<noteq> CHR '')'') (drop 2 raw))" and "take 2 raw = ''%(''"
    by (simp_all add: reference_def split: if_splits)
  moreover from this(2) have "2 \<le> length raw" by (cases raw; cases "tl raw") auto
  moreover have "length (dropWhile (\<lambda>c. c \<noteq> CHR '')'') (drop 2 raw)) \<le> length (drop 2 raw)" by (rule length_dropWhile_le)
  ultimately show "length r < length raw" by simp
qed

function strip_references :: "string \<Rightarrow> string" where
  "strip_references raw =
     (case raw of
        [] \<Rightarrow> []
      | c # cs \<Rightarrow> (case reference raw of Some (name, r) \<Rightarrow> strip_references r | None \<Rightarrow> c # strip_references cs))"
  by pat_completeness auto
termination
  by (relation "measure length") (auto dest: reference_shorter)

declare strip_references.simps [simp del]

definition set_option_value :: "string \<Rightarrow> string option \<Rightarrow> (string \<times> string) list \<Rightarrow> exn + (string \<times> string) list" where
  "set_option_value key v options =
     (case v of
        None \<Rightarrow> Inl (OtherException ''TypeError: option values must be strings'')
      | Some raw \<Rightarrow>
          if CHR ''%'' \<in> set (strip_references (strip_escaped raw))
          then Inl (ValueError (''invalid interpolation syntax in '' @ raw))
          else Inr ((key, raw) # filter (\<lambda>(k, _). k \<noteq> key) options))"

function interpolate :: "nat \<Rightarrow> (string \<times> string) list \<Rightarrow> string \<Rightarrow> exn + string" where
  "interpolate depth options raw =
     (case raw of
        [] \<Rightarrow> Inr []
      | c # cs \<Rightarrow>
          if c \<noteq> CHR ''%'' then map_sum id ((#) c) (interpolate depth options cs)
          else if take 1 cs = ''%'' then map_sum id ((#) (CHR ''%'')) (interpolate depth options (drop 1 cs))
          else (case reference raw of
                  None \<Rightarrow> Inl (OtherException ''InterpolationSyntaxError'')
                | Some (name, r) \<Rightarrow>
                    (case map_of options (lower name) of
                       None \<Rightarrow> Inl (OtherException ''InterpolationMissingOptionError'')
                     | Some v \<Rightarrow>
                         (case (if CHR ''%'' \<notin> set v then Inr v
                                else if depth = 0 then Inl (OtherException ''InterpolationDepthError'')
                                else interpolate (depth - 1) options v) of
                            Inl x \<Rightarrow> Inl x
                          | Inr v' \<Rightarrow> map_sum id ((@) v') (interpolate depth options r)))))"
  by pat_completeness auto
termination
  by (relation "measures [\<lambda>(depth, options, raw). depth, \<lambda>(depth, options, raw). length raw]")
    (auto dest: reference_shorter)

declare interpolate.simps [simp del]

definition get_option_value :: "string \<Rightarrow> (string \<times> string) list \<Rightarrow> exn + string option" where
  "get_option_value key options =
     (case map_of options key of None \<Rightarrow> Inr None | Some v \<Rightarrow> map_sum id Some (interpolate 10 options v))"

text \<open>A value without percent signs is stored and read back as it is.\<close>

lemma strip_plain:
  assumes "CHR ''%'' \<notin> set raw"
  shows "strip_escaped raw = raw" "strip_references raw = raw"
proof -
  from assms show "strip_escaped raw = raw" by (induction raw rule: strip_escaped.induct) auto
  have none: "reference cs = None" if "CHR ''%'' \<notin> set cs" for cs
    using that by (cases cs) (auto simp: reference_def)
  from assms show "strip_references raw = raw"
    by (induction raw) (auto simp: strip_references.simps [of "_ # _"] strip_references.simps [of "[]"] none)
qed

lemma interpolate_plain: "CHR ''%'' \<notin> set raw \<Longrightarrow> interpolate depth options raw = Inr raw"
  by (induction raw) (auto simp: interpolate.simps [of _ _ "_ # _"] interpolate.simps [of _ _ "[]"])

section \<open>Running the revisions\<close>

text \<open>
  What surrounds a run: the command's mode and the statements of the revisions it asks for, the
  \<open>[alembic]\<close> options of the file, whether logging can be set up and a database be reached, and how
  the database executes one statement.
\<close>

record migration_host =
  mh_offline :: bool
  mh_revisions :: "ddl list"
  mh_config_file_name :: "string option"
  mh_options :: "(string \<times> string) list"
  mh_fileConfig :: "string \<Rightarrow> exn option"
  mh_connect :: "string \<Rightarrow> exn option"
  mh_exec :: "ddl \<Rightarrow> sql_schema \<Rightarrow> sql_schema option"

text \<open>The databases by URL, and the scripts written so far with the URL each was written for.\<close>

record migration_state =
  databases :: "string \<Rightarrow> sql_schema"
  scripts :: "(string option \<times> ddl list) list"

text \<open>\<open>context.begin_transaction()\<close>: what raises is rolled back.\<close>

definition transaction :: "('s, 'a) py \<Rightarrow> ('s, 'a) py" where
  "transaction m = (\<lambda>s. case m s of (Inl x, s') \<Rightarrow> (Inl x, s) | (Inr a, s') \<Rightarrow> (Inr a, s'))"

definition execute :: "migration_host \<Rightarrow> string \<Rightarrow> ddl \<Rightarrow> (migration_state, unit) py" where
  "execute host url q = (\<lambda>s.
     case mh_exec host q (databases s url) of
       None \<Rightarrow> (Inl (OtherSQLError ''statement refused''), s)
     | Some d \<Rightarrow> (Inr (), s\<lparr>databases := (databases s)(url := d)\<rparr>))"

definition run_migrations_offline :: "migration_host \<Rightarrow> (string \<times> string) list \<Rightarrow> (migration_state, unit) py" where
  "run_migrations_offline host options =
     bind (lift_result (get_option_value ''sqlalchemy.url'' options)) (\<lambda>url.
     transaction (\<lambda>s. (Inr (), s\<lparr>scripts := scripts s @ [(url, mh_revisions host)]\<rparr>)))"

fun get_section :: "(string \<times> string) list \<Rightarrow> (string \<times> string) list \<Rightarrow> exn + (string \<times> string) list" where
  "get_section options [] = Inr []"
| "get_section options ((k, v) # rest) =
     (case interpolate 10 options v of
        Inl x \<Rightarrow> Inl x
      | Inr v' \<Rightarrow> map_sum id ((#) (k, v')) (get_section options rest))"

definition run_migrations_online :: "migration_host \<Rightarrow> (string \<times> string) list \<Rightarrow> (migration_state, unit) py" where
  "run_migrations_online host options =
     bind (lift_result (get_section options options)) (\<lambda>section.
     case map_of section ''sqlalchemy.url'' of
       None \<Rightarrow> raise (OtherException ''KeyError: url'')
     | Some url \<Rightarrow>
         (case mh_connect host url of
            Some x \<Rightarrow> raise x
          | None \<Rightarrow> andthen (transaction (for_each (mh_revisions host) (execute host url))) (ret ())))"

definition run_env :: "migration_host \<Rightarrow> config \<Rightarrow> (migration_state, unit) py" where
  "run_env host cfg =
     bind (lift_result (set_option_value ''sqlalchemy.url'' (DATABASE_URL_SYNC cfg) (mh_options host))) (\<lambda>options.
     andthen (case mh_config_file_name host of
                None \<Rightarrow> ret ()
              | Some file \<Rightarrow> (case mh_fileConfig host file of None \<Rightarrow> ret () | Some x \<Rightarrow> raise x))
       (if mh_offline host then run_migrations_offline host options else run_migrations_online host options))"

section \<open>What a run leaves\<close>

lemma executed:
  "case run_ddl (mh_exec host) qs (databases s url) of
     Some d \<Rightarrow> for_each qs (execute host url) s =
       (Inr (replicate (length qs) ()), s\<lparr>databases := (databases s)(url := d)\<rparr>)
   | None \<Rightarrow> \<exists>s'. for_each qs (execute host url) s = (Inl (OtherSQLError ''statement refused''), s')"
proof (induction qs arbitrary: s)
  case (Cons q qs)
  show ?case
  proof (cases "mh_exec host q (databases s url)")
    case None
    then have "execute host url q s = (Inl (OtherSQLError ''statement refused''), s)" by (simp add: execute_def)
    with None show ?thesis by (simp add: py_simps)
  next
    case (Some d)
    let ?s = "s\<lparr>databases := (databases s)(url := d)\<rparr>"
    have "execute host url q s = (Inr (), ?s)" using Some by (simp add: execute_def)
    with Some Cons.IH [of ?s] show ?thesis by (auto simp: py_simps fun_upd_def cong: if_cong split: option.splits)
  qed
qed (simp add: py_simps)

lemma transaction_executed:
  "transaction (for_each qs (execute host url)) s =
     (case run_ddl (mh_exec host) qs (databases s url) of
        Some d \<Rightarrow> (Inr (replicate (length qs) ()), s\<lparr>databases := (databases s)(url := d)\<rparr>)
      | None \<Rightarrow> (Inl (OtherSQLError ''statement refused''), s))"
  using executed [where host = host and qs = qs and s = s and url = url] by (auto simp: transaction_def split: option.splits)

lemma get_section_plain: "\<forall>(k, v) \<in> set rest. CHR ''%'' \<notin> set v \<Longrightarrow> get_section options rest = Inr rest"
  by (induction rest) (auto simp: interpolate_plain)

text \<open>
  C29: A migration run with a plain URL (no percent sign in it or in the file's options) that can set
  up its logging and reach the database is all or nothing: either every statement of the revisions
  is executed on the database of that very URL and on no other, or the run raises and nothing has
  changed. Offline it only writes the statements out, for that URL.
\<close>

theorem migration_run_outcome:
  assumes "DATABASE_URL_SYNC cfg = Some url" and "CHR ''%'' \<notin> set url"
    and "\<And>k v. (k, v) \<in> set (mh_options host) \<Longrightarrow> CHR ''%'' \<notin> set v"
    and "\<And>file. mh_config_file_name host = Some file \<Longrightarrow> mh_fileConfig host file = None" and "mh_connect host url = None"
  shows "run_env host cfg s =
    (if mh_offline host then (Inr (), s\<lparr>scripts := scripts s @ [(Some url, mh_revisions host)]\<rparr>)
     else case run_ddl (mh_exec host) (mh_revisions host) (databases s url) of
            Some d \<Rightarrow> (Inr (), s\<lparr>databases := (databases s)(url := d)\<rparr>)
          | None \<Rightarrow> (Inl (OtherSQLError ''statement refused''), s))"
proof -
  let ?options = "(''sqlalchemy.url'', url) # filter (\<lambda>(k, _). k \<noteq> ''sqlalchemy.url'') (mh_options host)"
  have set: "set_option_value ''sqlalchemy.url'' (Some url) (mh_options host) = Inr ?options"
    using assms(2) by (simp add: set_option_value_def strip_plain)
  have logging: "(case mh_config_file_name host of None \<Rightarrow> ret () | Some file \<Rightarrow>
      (case mh_fileConfig host file of None \<Rightarrow> ret () | Some x \<Rightarrow> raise x)) = (ret () :: (migration_state, unit) py)"
    using assms(4) by (cases "mh_config_file_name host") simp_all
  have "get_option_value ''sqlalchemy.url'' ?options = Inr (Some url)"
    using assms(2) by (simp add: get_option_value_def interpolate_plain)
  moreover have "get_section ?options ?options = Inr ?options"
    by (rule get_section_plain) (use assms(2,3) in auto)
  ultimately show ?thesis
    using transaction_executed [where host = host and qs = "mh_revisions host" and s = s and url = url] assms(5)
    by (auto simp del: get_section.simps simp: run_env_def assms(1) set logging run_migrations_offline_def run_migrations_online_def
        transaction_def [of "\<lambda>s. (Inr (), _ s)"] py_simps split: option.splits)
qed

text \<open>The options of \<open>alembic.ini\<close>, a database that executes DDL as documented, a run to the head revision.\<close>

definition alembic_ini :: "(string \<times> string) list" where
  "alembic_ini = [(''script_location'', ''alembic''), (''prepend_sys_path'', ''.''), (''version_path_separator'', ''os'')]"

definition sample_host :: migration_host where
  "sample_host = \<lparr>mh_offline = False, mh_revisions = upgrade_all, mh_config_file_name = Some ''alembic.ini'',
     mh_options = alembic_ini, mh_fileConfig = (\<lambda>_. None), mh_connect = (\<lambda>_. None), mh_exec = ddl_effect\<rparr>"

definition sample_url_config :: "string \<Rightarrow> config" where
  "sample_url_config url =
     \<lparr>DATABASE_URL = None, DATABASE_URL_SYNC = Some url, ENV = ''dev'', API_KEY_SECRET = None, ADMIN_SECRET_KEY = None,
      KUBECONFIG_PATH = None, IN_CLUSTER = False, IMAGE_REGISTRY = None, REGISTRY_SERVER = None, REGISTRY_USERNAME = None,
      REGISTRY_PASSWORD = None, PLATFORM_CLUSTER_BUILDER_NAME = [], WEBHOOK_REPLAY_WINDOW_SECONDS = 300\<rparr>"

theorem migration_run_outcome_witness:
  "\<exists>s'. run_env sample_host (sample_url_config ''postgresql://db/app'') \<lparr>databases = (\<lambda>_. empty_schema), scripts = []\<rparr> = (Inr (), s') \<and>
     same_schema (databases s' ''postgresql://db/app'') metadata \<and> databases s' ''postgresql://db/other'' = empty_schema"
proof -
  obtain d where d: "run_ddl ddl_effect upgrade_all empty_schema = Some d" "same_schema d metadata" by (rule upgrade_all_effect)
  have "run_env sample_host (sample_url_config ''postgresql://db/app'') \<lparr>databases = (\<lambda>_. empty_schema), scripts = []\<rparr> =
      (Inr (), \<lparr>databases = (\<lambda>_. empty_schema)(''postgresql://db/app'' := d), scripts = []\<rparr>)"
    by (subst migration_run_outcome) (auto simp: sample_host_def sample_url_config_def alembic_ini_def d(1))
  with d(2) show ?thesis by simp
qed

text \<open>
  A percent sign in the URL that the options do not know, as in a percent-encoded password, stops
  every migration before anything is done.
\<close>

lemma stray_percent_refused:
  assumes "DATABASE_URL_SYNC cfg = Some url" and "CHR ''%'' \<in> set (strip_references (strip_escaped url))"
  shows "run_env host cfg s = (Inl (ValueError (''invalid interpolation syntax in '' @ url)), s)"
  using assms by (simp add: run_env_def set_option_value_def py_simps)

lemma encoded_password_refused:
  "fst (run_env host (sample_url_config ''postgresql://u:p%40ss@db/app'') s) \<noteq> Inr ()"
proof -
  have "CHR ''%'' \<in> set (strip_references (strip_escaped ''postgresql://u:p%40ss@db/app''))" by code_simp
  from stray_percent_refused [OF _ this, of "sample_url_config ''postgresql://u:p%40ss@db/app''"] show ?thesis
    by (simp add: sample_url_config_def)
qed

end
