(* ===== verification/Observability.thy ===== *)
theory Observability
  imports Prelude
begin

text \<open>
  \<open>shared/observability.py\<close>: the set-up of structured logging, once per process. What structlog does
  with a configuration is its own; the state kept here is the module's flag and the configuration
  structlog has been given last.
\<close>

datatype log_processor = merge_contextvars | add_log_level | TimeStamper string | JSONRenderer

datatype logger_factory = PrintLoggerFactory

record structlog_configuration =
  sl_processors :: "log_processor list"
  sl_min_level :: int
  sl_logger_factory :: logger_factory
  sl_cache_logger_on_first_use :: bool

record logging_state =
  logging_configured :: bool
  structlog_configured :: "structlog_configuration option"

definition logging_INFO :: int where
  "logging_INFO = 20"

definition setup_logging :: "logging_state \<Rightarrow> logging_state" where
  "setup_logging s =
     (if logging_configured s then s
      else s\<lparr>structlog_configured := Some
               \<lparr>sl_processors = [merge_contextvars, add_log_level, TimeStamper ''iso'', JSONRenderer],
                sl_min_level = logging_INFO, sl_logger_factory = PrintLoggerFactory,
                sl_cache_logger_on_first_use = True\<rparr>,
             logging_configured := True\<rparr>)"

text \<open>A second call does nothing, whatever was configured in between.\<close>

lemma setup_logging_once: "setup_logging (setup_logging s\<lparr>structlog_configured := c\<rparr>) = setup_logging s\<lparr>structlog_configured := c\<rparr>"
  by (simp add: setup_logging_def)

lemma setup_logging_renders_last:
  "\<not> logging_configured s \<Longrightarrow> structlog_configured (setup_logging s) = Some c \<Longrightarrow> last (sl_processors c) = JSONRenderer"
  by (auto simp: setup_logging_def)

end
