(* ===== verification/Spec2Isabelle.thy ===== *)
theory Spec2Isabelle
  imports K8sProperties TenantProperties Receiver SystemProperties ResponseTypes MigrationRun Observability
begin

text \<open>
  A verification development for the control plane of a multi-tenant platform: a FastAPI service
  over a Postgres database and a Kubernetes cluster, in which every tenant has a namespace of its
  own, submits git repositories to be built into images by kpack, deploys what has been built, and
  is told of the outcome by signed webhooks.

  \<^bold>\<open>The program and its theories.\<close> Paths are relative to \<open>src/\<close>; function and class names are kept.

  \<^item> \<open>shared/config.py\<close>, \<open>shared/k8s_client.py\<close>, \<open>shared/utils.py\<close>: \<open>Config\<close>, \<open>World\<close>; the hashing they
    rest on (SHA-256, HMAC) is computed in \<open>Sha256\<close>, Python's text functions in \<open>PyText\<close>, JSON
    output in \<open>Json\<close>.
  \<^item> \<open>control_plane/app/models/\<close>: rows as records, the database as six tables, column sizes, keys,
    references and delete rules in \<open>Models\<close>; the classes' declarations as data in \<open>OrmTables\<close>.
  \<^item> \<open>alembic/versions/\<close>: the revisions as DDL statements in \<open>Migrations\<close>, over \<open>SqlSchema\<close>;
    \<open>alembic/env.py\<close>: \<open>MigrationRun\<close>.
  \<^item> \<open>control_plane/app/schemas/\<close>: \<open>Schemas\<close>.
  \<^item> \<open>control_plane/app/k8s_resources.py\<close>: the objects in \<open>K8sObjects\<close>, manifests and operations in
    \<open>K8sResources\<close>, their contracts in \<open>K8sContracts\<close>.
  \<^item> \<open>control_plane/app/services/\<close>: \<open>Tenants\<close> (tenants, keys), \<open>Webhooks\<close> (registrations, and the
    dispatcher of \<open>shared/webhook_dispatcher.py\<close>), \<open>BuildJobs\<close>, \<open>Deployments\<close> (with the kubeconfig
    service); the shape the two background pollers share is the locale \<open>polling\<close> of \<open>Polling\<close>, the
    reads scoped to a tenant the locale \<open>tenant_scoped\<close> of \<open>Queries\<close>.
  \<^item> \<open>control_plane/app/dependencies.py\<close>: \<open>Auth\<close>.
  \<^item> \<open>control_plane/app/routes/\<close>, \<open>main.py\<close>: \<open>Routes\<close>, down to what FastAPI makes of a request
    (\<open>serve\<close>); what the decorators declare is in \<open>ResponseTypes\<close>.
  \<^item> The same functions as coroutines, cut at their \<open>await\<close>s: \<open>Programs\<close>, over the programs of \<open>Threads\<close>;
    \<open>System\<close> runs them beside each other.
  \<^item> \<open>scripts/webhook_test_receiver.py\<close>: \<open>Receiver\<close>; \<open>shared/observability.py\<close>: \<open>Observability\<close>.

  \<^bold>\<open>How code is rendered.\<close> A function of the source is a computation \<open>('s, 'a) py\<close>, a function from a
  state to an exception or a result and a state (\<open>Prelude\<close>); every \<open>raise\<close>, \<open>except\<close> and early return is
  a branch. The state \<open>'w world\<close> holds the committed database, the last identifier of each sequence,
  the client's configured flag and the outside world \<open>'w\<close>. What is not under \<open>src/\<close> is a field of the
  environment \<open>'w env\<close>: the Kubernetes API, kpack, HTTP, clocks, randomness, the failures of the
  database beyond its declared constraints, whether it checks the \<open>RESTRICT\<close> rule before a cascade
  has removed the referring rows, gaps in its sequences. Theorems hold for every
  environment; the few that rely on documented behaviour of the cluster name it (\<open>api_server\<close>, the
  assumption of the locale \<open>cluster\<close>, and \<open>confined\<close>) and are exhibited on the in-memory environment
  of \<open>RefEnv\<close>.

  A \<open>commit\<close> stores the pending rows if they satisfy the schema and the engine accepts, and raises
  otherwise. A commit that fails after an earlier one of the same function leaves the session
  unusable, which the services' handlers run into. Reads do not fail, except that an integer outside
  the range of an \<open>INTEGER\<close> parameter (for limit and offset, of a \<open>BIGINT\<close>) is refused by the driver;
  the model places that refusal in the route, before the query. Sessions keep what they loaded
  (\<open>expire_on_commit=False\<close>), so a row that was read may have changed, or be gone, when it is written.

  \<^bold>\<open>Interleaving.\<close> Every service is stated twice. The sequential reading (\<open>py\<close>) says what it does when
  nothing else happens; it carries the properties of the single operations. The program (\<open>prog\<close>) is a
  sequence of segments from one \<open>await\<close> to the next, each run without interruption, as asyncio does.
  \<open>ProgramRuns\<close> shows that a program left alone does what the sequential reading says. In \<open>System\<close> any
  number of requests and pollers take turns at their segments, requests arrive, responses are sent
  and start their background tasks, the process restarts (and loses its threads), and the outside
  changes at will. \<open>Interference\<close> gives each program a claim about its rows, stable under the
  transitions of all others, and a row it may own; \<open>Confinement\<close> adds what part of the outside it may
  reach (the locale \<open>thread_kind\<close>); \<open>RequestSafety\<close>, \<open>RequestAnswers\<close> and \<open>PollerSafety\<close> check the
  programs one by one, and \<open>System\<close> puts them together.

  \<^bold>\<open>Bounds.\<close> The pollers are loops that count seconds up to their time-out in steps of five: 180 rounds
  for a build, 36 for a rollout. They are defined by well-founded recursion on the seconds left, so
  no fuel is needed; all other loops run over lists. Programs are a datatype, hence end after finitely
  many segments of their own. Option interpolation has the depth bound of the standard library, ten.

  \<^bold>\<open>What is shown.\<close>

  \<^item> The whole system (\<open>Lifecycle\<close>, \<open>System\<close>, \<open>Liveness\<close>, \<open>SystemProperties\<close>, \<open>ResponseTypes\<close>): an abstract
    specification of the transitions the database may make and for whom; every segment of every
    request and poller implements it, under every interleaving; the invariants of all reachable
    states; the lives of builds and deployments and who may move them; that responses are of the
    declared type, and that a build which can be started is; what a restart leaves unfinished.
  \<^item> Isolation (\<open>Isolation\<close>, \<open>TenantProperties\<close>, \<open>K8sProperties\<close>): who is let in, and that nobody else has
    any effect; work for a tenant changes and shows its own rows only, and reaches the cluster in
    its own namespace only; what policy, pod security and role of a tenant allow.
  \<^item> The operations (\<open>BuildJobs\<close>, \<open>BuildProperties\<close>, \<open>DeployProperties\<close>, \<open>TenantProperties\<close>): all ends of
    each, errors included, with the rows they store, the cluster calls these follow from and the
    answers the outside gave; termination and outcome of the pollers; keys work when they are issued
    and stop when revoked; deletion removes what the tenant owns and nothing else, and is possible.
  \<^item> The cluster set-up (\<open>K8sProperties\<close>): complete, idempotent, indifferent to conflicts; replica
    bound and quota agree (\<open>Schemas\<close>).
  \<^item> Webhooks (\<open>Webhooks\<close>, \<open>Receiver\<close>): the signature covers timestamp and body, and what is sent is
    what is accepted, within the replay window and not outside it.
  \<^item> The schema (\<open>SchemaProperties\<close>): migrations, model classes and the checks made at every commit
    describe the same database, and downgrades undo upgrades; a run of \<open>env.py\<close> is all or nothing
    (\<open>MigrationRun\<close>).

  \<^bold>\<open>Not modelled.\<close> \<open>shared/db.py\<close> constructs engine and session factory and has no logic of its own. Log
  calls have no effect on the state. A request whose client goes away is run to its end; transactions
  of different sessions overlap only between segments, so that waiting for row locks and the
  failures of other isolation levels are among the failures of a commit the environment decides.
  There is one process: several on one database are outside the model. The Go proxy under \<open>proxy/\<close>
  and the JavaScript one under \<open>k8s/\<close> are separate programs; manifests, scripts and tests are not
  code of the control plane. Parsing of HTTP and JSON requests is FastAPI's: a request is what it
  has parsed.
\<close>

end
